(* ===== verification/Cfu_Prelude.thy ===== *)
theory Cfu_Prelude
  imports Main "HOL-Library.Word"
begin

text \<open>
  Shared ground of the development: type names, the vocabulary of clocked circuits (a circuit is
  a next-state function and an output function of state and input, run over a list of cycles),
  and two interfaces that several components use: an invariant kept by every cycle, and a
  simulation of one circuit by another, each with its consequence for whole runs proved once.
\<close>

unbundle bit_operations_syntax

type_synonym u32 = "32 word"
type_synonym u7 = "7 word"
type_synonym u3 = "3 word"

named_theorems comb_defs
  \<open>the combinational equations of a circuit: its outputs as functions of state and input\<close>

named_theorems sync_defs
  \<open>the clocked equations of a circuit: its registers after the clock edge\<close>

lemma list_all_replicate [simp]: "list_all P (replicate n x) \<longleftrightarrow> n = 0 \<or> P x"
  by (auto simp: list_all_iff)

section \<open>Exceptions as values\<close>

text \<open>The exceptions that the Python sources raise, with their messages; a call returns a sum.\<close>

datatype py_error =
    AssertionError string
  | ValueError string
  | OSError string
  | KeyError string
  | AttributeError string
  | IndexError string
  | SystemExit string
  | TypeError string
  | NotImplementedError string
  | OverflowError string

type_synonym 'a result = "py_error + 'a"

definition bindE :: "'a result \<Rightarrow> ('a \<Rightarrow> 'b result) \<Rightarrow> 'b result" where
  "bindE m f = (case m of Inl e \<Rightarrow> Inl e | Inr x \<Rightarrow> f x)"

definition assertE :: "bool \<Rightarrow> string \<Rightarrow> unit result" where
  "assertE b msg = (if b then Inr () else Inl (AssertionError msg))"

lemma bindE_simps [simp]:
  "bindE (Inl e) f = Inl e"
  "bindE (Inr x) f = f x"
  by (simp_all add: bindE_def)

lemma bindE_Inr_iff: "bindE m f = Inr y \<longleftrightarrow> (\<exists>x. m = Inr x \<and> f x = Inr y)"
  by (cases m) simp_all

lemma assertE_Inr_iff [simp]: "assertE b msg = Inr u \<longleftrightarrow> b"
  by (simp add: assertE_def)

lemma assertE_simps [simp]:
  "b \<Longrightarrow> assertE b msg = Inr ()"
  "\<not> b \<Longrightarrow> assertE b msg = Inl (AssertionError msg)"
  by (simp_all add: assertE_def)

fun mapE :: "('a \<Rightarrow> 'b result) \<Rightarrow> 'a list \<Rightarrow> 'b list result" where
  "mapE f [] = Inr []"
| "mapE f (x # xs) = bindE (f x) (\<lambda>y. bindE (mapE f xs) (\<lambda>ys. Inr (y # ys)))"

lemma mapE_Inr_iff: "mapE f xs = Inr ys \<longleftrightarrow> list_all2 (\<lambda>x y. f x = Inr y) xs ys"
proof (induction xs arbitrary: ys)
  case (Cons x xs)
  then show ?case by (cases ys) (auto simp: bindE_Inr_iff)
qed auto

section \<open>Clocked circuits run over a list of cycles\<close>

fun run_state :: "('s \<Rightarrow> 'i \<Rightarrow> 's) \<Rightarrow> 's \<Rightarrow> 'i list \<Rightarrow> 's" where
  "run_state nxt s [] = s"
| "run_state nxt s (i # is) = run_state nxt (nxt s i) is"

fun run_outs :: "('s \<Rightarrow> 'i \<Rightarrow> 's) \<Rightarrow> ('s \<Rightarrow> 'i \<Rightarrow> 'o) \<Rightarrow> 's \<Rightarrow> 'i list \<Rightarrow> 'o list" where
  "run_outs nxt out s [] = []"
| "run_outs nxt out s (i # is) = out s i # run_outs nxt out (nxt s i) is"

lemma run_state_append [simp]:
  "run_state nxt s (is @ js) = run_state nxt (run_state nxt s is) js"
  by (induction "is" arbitrary: s) auto

lemma run_outs_append [simp]:
  "run_outs nxt out s (is @ js) = run_outs nxt out s is @ run_outs nxt out (run_state nxt s is) js"
  by (induction "is" arbitrary: s) auto

lemma length_run_outs [simp]: "length (run_outs nxt out s is) = length is"
  by (induction "is" arbitrary: s) auto

lemma nth_run_outs:
  "j < length is \<Longrightarrow> run_outs nxt out s is ! j = out (run_state nxt s (take j is)) (is ! j)"
proof (induction "is" arbitrary: s j)
  case (Cons i "is")
  then show ?case by (cases j) auto
qed simp

definition io_trace :: "('s \<Rightarrow> 'i \<Rightarrow> 's) \<Rightarrow> ('s \<Rightarrow> 'i \<Rightarrow> 'o) \<Rightarrow> 's \<Rightarrow> 'i list \<Rightarrow> ('i \<times> 'o) list" where
  "io_trace nxt out s is = zip is (run_outs nxt out s is)"

lemma io_trace_simps [simp]:
  "io_trace nxt out s [] = []"
  "io_trace nxt out s (i # is) = (i, out s i) # io_trace nxt out (nxt s i) is"
  by (simp_all add: io_trace_def)

text \<open>An invariant of a circuit: it holds after reset and every cycle with a legal input keeps it.\<close>

locale clocked_invariant =
  fixes nxt :: "'s \<Rightarrow> 'i \<Rightarrow> 's"
    and init :: 's
    and legal :: "'i \<Rightarrow> bool"
    and inv :: "'s \<Rightarrow> bool"
  assumes inv_init: "inv init"
    and inv_next: "inv s \<Longrightarrow> legal i \<Longrightarrow> inv (nxt s i)"
begin

lemma inv_run_from: "inv s \<Longrightarrow> list_all legal is \<Longrightarrow> inv (run_state nxt s is)"
  by (induction "is" arbitrary: s) (auto intro: inv_next)

lemma inv_run: "list_all legal is \<Longrightarrow> inv (run_state nxt init is)"
  by (rule inv_run_from [OF inv_init])

end

text \<open>
  A functional refinement: the concrete circuit and the specification start in related states,
  and a cycle from related states gives the same observation and related states again.
\<close>

locale circuit_refinement =
  fixes nxt :: "'s \<Rightarrow> 'i \<Rightarrow> 's"
    and out :: "'s \<Rightarrow> 'i \<Rightarrow> 'o"
    and init :: 's
    and snxt :: "'a \<Rightarrow> 'i \<Rightarrow> 'a"
    and sout :: "'a \<Rightarrow> 'i \<Rightarrow> 'o"
    and sinit :: 'a
    and legal :: "'i \<Rightarrow> bool"
    and rel :: "'s \<Rightarrow> 'a \<Rightarrow> bool"
  assumes rel_init: "rel init sinit"
    and rel_out: "rel s a \<Longrightarrow> legal i \<Longrightarrow> out s i = sout a i"
    and rel_next: "rel s a \<Longrightarrow> legal i \<Longrightarrow> rel (nxt s i) (snxt a i)"
begin

lemma rel_run_from:
  "rel s a \<Longrightarrow> list_all legal is \<Longrightarrow> rel (run_state nxt s is) (run_state snxt a is)"
  by (induction "is" arbitrary: s a) (auto intro: rel_next)

lemma outs_eq_from:
  "rel s a \<Longrightarrow> list_all legal is \<Longrightarrow> run_outs nxt out s is = run_outs snxt sout a is"
  by (induction "is" arbitrary: s a) (auto intro: rel_next rel_out)

lemma outs_eq: "list_all legal is \<Longrightarrow> run_outs nxt out init is = run_outs snxt sout sinit is"
  by (rule outs_eq_from [OF rel_init])

end

end
