(* ===== verification/Cfu_Instruction.thy ===== *)
theory Cfu_Instruction
  imports Cfu_Prelude
begin

text \<open>
  The instructions of a CFU (\<^verbatim>\<open>python/amaranth_cfu/cfu.py\<close>, class \<open>InstructionBase\<close>) and the
  instructions its tests use as examples (\<^verbatim>\<open>python/amaranth_cfu/test_cfu.py\<close>). An instruction is a
  clocked circuit with the signals of \<open>InstructionBase\<close>: inputs \<open>start\<close>, \<open>in0\<close>, \<open>in1\<close>, \<open>funct7\<close>,
  outputs \<open>done\<close> and \<open>output\<close>. The contract a CFU needs of an instruction is the locale
  \<open>instruction_contract\<close>; every example instruction is an interpretation of it.
\<close>

section \<open>The interface of an instruction\<close>

record inst_in =
  start :: bool
  in0 :: u32
  in1 :: u32
  funct7 :: u7

text \<open>The inputs as the signed signals \<open>in0s\<close> and \<open>in1s\<close> that \<open>elaborate\<close> drives.\<close>

definition in0s :: "inst_in \<Rightarrow> int" where
  "in0s i = sint (in0 i)"

definition in1s :: "inst_in \<Rightarrow> int" where
  "in1s i = sint (in1 i)"

text \<open>
  One instruction: the reset value of its registers, the combinational outputs \<open>output\<close> and
  \<open>done\<close>, and its registers after a clock edge.
\<close>

record 's instruction =
  inst_init :: 's
  inst_output :: "'s \<Rightarrow> inst_in \<Rightarrow> u32"
  inst_done :: "'s \<Rightarrow> inst_in \<Rightarrow> bool"
  inst_next :: "'s \<Rightarrow> inst_in \<Rightarrow> 's"

text \<open>
  A caller that keeps \<open>start\<close> low and waits for \<open>done\<close>, one input per cycle: the value it
  reads, or \<open>None\<close> when the inputs run out first.
\<close>

fun wait_done :: "'s instruction \<Rightarrow> 's \<Rightarrow> inst_in list \<Rightarrow> u32 option" where
  "wait_done I s [] = None"
| "wait_done I s (i # is) =
     (if inst_done I s i then Some (inst_output I s i) else wait_done I (inst_next I s i) is)"

text \<open>
  What a CFU relies on. \<open>idle\<close> holds while no operation is in the instruction; \<open>pending n v\<close>
  holds while an operation is under way that will answer \<open>v\<close> after at most \<open>n\<close> more cycles.
  The operands are promised only in the cycle of \<open>start\<close>, so nothing is assumed of the inputs
  of the later cycles but \<open>start = 0\<close>.
\<close>

locale instruction_contract =
  fixes I :: "'s instruction"
    and ref :: "u7 \<Rightarrow> u32 \<Rightarrow> u32 \<Rightarrow> u32"
    and lat :: nat
    and idle :: "'s \<Rightarrow> bool"
    and pending :: "nat \<Rightarrow> u32 \<Rightarrow> 's \<Rightarrow> bool"
  assumes init_idle: "idle (inst_init I)"
    and idle_hold: "idle s \<Longrightarrow> \<not> start i \<Longrightarrow> idle (inst_next I s i)"
    and start_done: "idle s \<Longrightarrow> start i \<Longrightarrow> inst_done I s i \<Longrightarrow>
      inst_output I s i = ref (funct7 i) (in0 i) (in1 i) \<and> idle (inst_next I s i)"
    and start_wait: "idle s \<Longrightarrow> start i \<Longrightarrow> \<not> inst_done I s i \<Longrightarrow>
      \<exists>n<lat. pending n (ref (funct7 i) (in0 i) (in1 i)) (inst_next I s i)"
    and pending_done: "pending n v s \<Longrightarrow> \<not> start i \<Longrightarrow> inst_done I s i \<Longrightarrow>
      inst_output I s i = v \<and> idle (inst_next I s i)"
    and pending_wait: "pending n v s \<Longrightarrow> \<not> start i \<Longrightarrow> \<not> inst_done I s i \<Longrightarrow>
      \<exists>m<n. pending m v (inst_next I s i)"
begin

lemma pending_answers:
  "pending n v s \<Longrightarrow> n < length is \<Longrightarrow> list_all (\<lambda>i. \<not> start i) is \<Longrightarrow>
   wait_done I s is = Some v"
proof (induction n arbitrary: s "is" rule: less_induct)
  case (less n)
  then obtain i js where is_eq: "is = i # js" by (cases "is") auto
  show ?case
  proof (cases "inst_done I s i")
    case True
    with less.prems is_eq show ?thesis by (auto dest: pending_done)
  next
    case False
    with less.prems is_eq obtain m where "m < n" "pending m v (inst_next I s i)"
      by (auto dest: pending_wait)
    with less is_eq False show ?thesis by auto
  qed
qed

text \<open>An operation started on an idle instruction answers its reference value within \<open>lat\<close> more cycles.\<close>

lemma start_answers:
  assumes "idle s" "start i" "list_all (\<lambda>j. \<not> start j) is" "lat \<le> length is"
  shows "wait_done I s (i # is) = Some (ref (funct7 i) (in0 i) (in1 i))"
proof (cases "inst_done I s i")
  case True
  with assms show ?thesis by (auto dest: start_done)
next
  case False
  with assms obtain n where "n < lat"
    and "pending n (ref (funct7 i) (in0 i) (in1 i)) (inst_next I s i)"
    by (auto dest: start_wait)
  with assms False show ?thesis by (auto intro: pending_answers)
qed

end

text \<open>
  The instructions of one CFU have different registers. \<open>lift_inst\<close> puts an instruction's
  registers into the common state type of a CFU, and the contract goes with it.
\<close>

definition lift_inst :: "('a \<Rightarrow> 's) \<Rightarrow> ('s \<Rightarrow> 'a) \<Rightarrow> 'a instruction \<Rightarrow> 's instruction" where
  "lift_inst emb prj I = \<lparr>
     inst_init = emb (inst_init I),
     inst_output = (\<lambda>s i. inst_output I (prj s) i),
     inst_done = (\<lambda>s i. inst_done I (prj s) i),
     inst_next = (\<lambda>s i. emb (inst_next I (prj s) i))\<rparr>"

lemma lift_inst_contract:
  assumes "instruction_contract I ref lat idle pending" and prj: "\<And>a. prj (emb a) = a"
  shows "instruction_contract (lift_inst emb prj I) ref lat
    (\<lambda>s. idle (prj s)) (\<lambda>n v s. pending n v (prj s))"
proof -
  note c = instruction_contract.init_idle [OF assms(1)] instruction_contract.idle_hold [OF assms(1)]
    instruction_contract.start_done [OF assms(1)] instruction_contract.start_wait [OF assms(1)]
    instruction_contract.pending_done [OF assms(1)] instruction_contract.pending_wait [OF assms(1)]
  show ?thesis
    by unfold_locales (auto simp: lift_inst_def prj c)
qed

text \<open>A shorter bound is also a longer one.\<close>

lemma instruction_contract_mono:
  assumes "instruction_contract I ref lat idle pending" "lat \<le> lat'"
  shows "instruction_contract I ref lat' idle pending"
proof -
  note c = instruction_contract.init_idle [OF assms(1)] instruction_contract.idle_hold [OF assms(1)]
    instruction_contract.start_done [OF assms(1)] instruction_contract.start_wait [OF assms(1)]
    instruction_contract.pending_done [OF assms(1)] instruction_contract.pending_wait [OF assms(1)]
  show ?thesis
    by unfold_locales (use c assms(2) in \<open>auto, meson less_le_trans\<close>)
qed

section \<open>The fallback instruction\<close>

text \<open>\<open>_FallbackInstruction\<close>: no registers; it answers \<open>in0\<close> at once.\<close>

definition FallbackInstruction :: "unit instruction" where
  "FallbackInstruction = \<lparr>
     inst_init = (),
     inst_output = (\<lambda>_ i. in0 i),
     inst_done = (\<lambda>_ _. True),
     inst_next = (\<lambda>_ _. ())\<rparr>"

text \<open>A combinational instruction meets the contract with bound 0, in every state.\<close>

lemma comb_instruction_contract:
  assumes "\<And>s i. inst_done I s i" "\<And>s i. inst_output I s i = ref (funct7 i) (in0 i) (in1 i)"
  shows "instruction_contract I ref 0 (\<lambda>_. True) (\<lambda>_ _ _. False)"
  by unfold_locales (auto simp: assms)

interpretation fallback: instruction_contract FallbackInstruction "\<lambda>_ a _. a" 0
    "\<lambda>_. True" "\<lambda>_ _ _. False"
  by (rule comb_instruction_contract) (simp_all add: FallbackInstruction_def)

end
