(* ===== verification/Cfu_Unit.thy ===== *)
theory Cfu_Unit
  imports Cfu_Instruction
begin

text \<open>
  The custom function unit (\<^verbatim>\<open>python/amaranth_cfu/cfu.py\<close>, classes \<open>CfuBase\<close> and \<open>Cfu\<close>): the
  table of eight instructions, the three-state machine that runs the handshake with the CPU, and
  the specification it refines: one command at a time, each answered exactly once, in order, with
  the reference value of its instruction.
\<close>

section \<open>The signals of the interface\<close>

record cfu_in =
  cmd_valid :: bool
  cmd_function_id :: "10 word"
  cmd_in0 :: u32
  cmd_in1 :: u32
  rsp_ready :: bool
  reset :: bool

record cfu_out =
  cmd_ready :: bool
  rsp_valid :: bool
  rsp_out :: u32

text \<open>The ports of the generated module, with their widths, in the order of \<open>CfuBase.ports\<close>.\<close>

definition cfu_ports :: "(string \<times> nat) list" where
  "cfu_ports =
     [(''cmd_valid'', 1), (''cmd_ready'', 1), (''cmd_payload_function_id'', 10),
      (''cmd_payload_inputs_0'', 32), (''cmd_payload_inputs_1'', 32), (''rsp_valid'', 1),
      (''rsp_ready'', 1), (''rsp_payload_outputs_0'', 32), (''reset'', 1)] @
     map (\<lambda>i. (''port'' @ [i] @ ''_addr'', 32)) ''0123'' @
     map (\<lambda>i. (''port'' @ [i] @ ''_din'', 32)) ''0123''"

section \<open>The table of instructions\<close>

text \<open>
  \<open>__build_instructions\<close>: the keys of the dictionary are checked, the missing numbers are filled
  in with fallback instructions (in the dictionary that the subclass returned, which is
  changed), and the list of the eight values is returned. A dictionary is an association list.
\<close>

definition fallback_inst :: "'s \<Rightarrow> 's instruction" where
  "fallback_inst s0 = lift_inst (\<lambda>_. s0) (\<lambda>_. ()) FallbackInstruction"

definition add_fallbacks :: "'s \<Rightarrow> (int \<times> 's instruction) list \<Rightarrow> (int \<times> 's instruction) list" where
  "add_fallbacks s0 d =
     fold (\<lambda>i d. if map_of d i = None then d @ [(i, fallback_inst s0)] else d) [0..7] d"

definition build_instructions ::
    "'s \<Rightarrow> (int \<times> 's instruction) list \<Rightarrow>
     ('s instruction list \<times> (int \<times> 's instruction) list) result" where
  "build_instructions s0 d =
     (if \<not> list_all (\<lambda>(k, _). 0 \<le> k \<and> k < 8) d
      then Inl (AssertionError ''Instruction IDs must be integers from 0 to 7'')
      else let d' = add_fallbacks s0 d in Inr (map (\<lambda>i. the (map_of d' i)) [0..7], d'))"

section \<open>The handshake machine\<close>

datatype cfu_fsm = WAIT_CMD | WAIT_INSTRUCTION | WAIT_TRANSFER

record 's cfu_state =
  cfu_fsm :: cfu_fsm
  stored_function_id :: u3
  stored_output :: u32
  inst_states :: "'s list"

definition cfu_init :: "'s instruction list \<Rightarrow> 's cfu_state" where
  "cfu_init insts = \<lparr>cfu_fsm = WAIT_CMD, stored_function_id = 0, stored_output = 0,
     inst_states = map inst_init insts\<rparr>"

definition funct3_of :: "cfu_in \<Rightarrow> u3" where
  "funct3_of i = ucast (cmd_function_id i)"

definition funct7_of :: "cfu_in \<Rightarrow> u7" where
  "funct7_of i = ucast (drop_bit 3 (cmd_function_id i))"

definition current_function_id :: "'s cfu_state \<Rightarrow> cfu_in \<Rightarrow> u3" where
  "current_function_id st i =
     (case cfu_fsm st of
        WAIT_CMD \<Rightarrow> funct3_of i
      | WAIT_INSTRUCTION \<Rightarrow> stored_function_id st
      | WAIT_TRANSFER \<Rightarrow> 0)"

text \<open>The inputs of instruction \<open>k\<close>; the operands are the live signals of the command channel.\<close>

definition instruction_in :: "'s cfu_state \<Rightarrow> cfu_in \<Rightarrow> nat \<Rightarrow> inst_in" where
  "instruction_in st i k =
     \<lparr>start = (cfu_fsm st = WAIT_CMD \<and> cmd_valid i \<and> k = unat (current_function_id st i)),
      in0 = cmd_in0 i, in1 = cmd_in1 i, funct7 = funct7_of i\<rparr>"

definition instruction_done :: "'s instruction list \<Rightarrow> 's cfu_state \<Rightarrow> cfu_in \<Rightarrow> nat \<Rightarrow> bool" where
  "instruction_done insts st i k =
     inst_done (insts ! k) (inst_states st ! k) (instruction_in st i k)"

definition instruction_output :: "'s instruction list \<Rightarrow> 's cfu_state \<Rightarrow> cfu_in \<Rightarrow> nat \<Rightarrow> u32" where
  "instruction_output insts st i k =
     inst_output (insts ! k) (inst_states st ! k) (instruction_in st i k)"

definition current_function_done :: "'s instruction list \<Rightarrow> 's cfu_state \<Rightarrow> cfu_in \<Rightarrow> bool" where
  "current_function_done insts st i =
     (case cfu_fsm st of
        WAIT_TRANSFER \<Rightarrow> False
      | _ \<Rightarrow> instruction_done insts st i (unat (current_function_id st i)))"

text \<open>
  \<open>check_instruction_done\<close>, as the outputs it drives and the registers it sets: response valid,
  response value, next state of the machine, next \<open>stored_output\<close>.
\<close>

definition check_instruction_done ::
    "'s instruction list \<Rightarrow> 's cfu_state \<Rightarrow> cfu_in \<Rightarrow> bool \<times> u32 \<times> cfu_fsm \<times> u32" where
  "check_instruction_done insts st i =
     (let out = instruction_output insts st i (unat (current_function_id st i)) in
      if current_function_done insts st i then
        (if rsp_ready i then (True, out, WAIT_CMD, stored_output st)
         else (True, out, WAIT_TRANSFER, out))
      else (False, 0, WAIT_INSTRUCTION, stored_output st))"

definition cfu_out :: "'s instruction list \<Rightarrow> 's cfu_state \<Rightarrow> cfu_in \<Rightarrow> cfu_out" where
  "cfu_out insts st i =
     (case cfu_fsm st of
        WAIT_CMD \<Rightarrow>
          (if cmd_valid i then
             (case check_instruction_done insts st i of (v, out, _, _) \<Rightarrow>
                \<lparr>cmd_ready = True, rsp_valid = v, rsp_out = out\<rparr>)
           else \<lparr>cmd_ready = True, rsp_valid = False, rsp_out = 0\<rparr>)
      | WAIT_INSTRUCTION \<Rightarrow>
          (case check_instruction_done insts st i of (v, out, _, _) \<Rightarrow>
             \<lparr>cmd_ready = False, rsp_valid = v, rsp_out = out\<rparr>)
      | WAIT_TRANSFER \<Rightarrow>
          \<lparr>cmd_ready = False, rsp_valid = True, rsp_out = stored_output st\<rparr>)"

text \<open>
  The registers after a clock edge: those of the instructions and of the machine, or their reset
  values when \<open>reset\<close>, which the class ties to the reset of the clock domain, is high.
\<close>

definition insts_next :: "'s instruction list \<Rightarrow> 's cfu_state \<Rightarrow> cfu_in \<Rightarrow> 's list" where
  "insts_next insts st i =
     map (\<lambda>k. inst_next (insts ! k) (inst_states st ! k) (instruction_in st i k))
       [0..<length insts]"

definition cfu_next :: "'s instruction list \<Rightarrow> 's cfu_state \<Rightarrow> cfu_in \<Rightarrow> 's cfu_state" where
  "cfu_next insts st i =
     (if reset i then cfu_init insts
      else let st' = st\<lparr>inst_states := insts_next insts st i\<rparr> in
        (case cfu_fsm st of
           WAIT_CMD \<Rightarrow>
             (if cmd_valid i then
                (case check_instruction_done insts st i of (_, _, nxt, sout) \<Rightarrow>
                   st'\<lparr>stored_function_id := funct3_of i, cfu_fsm := nxt, stored_output := sout\<rparr>)
              else st')
         | WAIT_INSTRUCTION \<Rightarrow>
             (case check_instruction_done insts st i of (_, _, nxt, sout) \<Rightarrow>
                st'\<lparr>cfu_fsm := nxt, stored_output := sout\<rparr>)
         | WAIT_TRANSFER \<Rightarrow>
             (if rsp_ready i then st'\<lparr>cfu_fsm := WAIT_CMD\<rparr> else st')))"

lemmas cfu_comb_defs = cfu_out_def check_instruction_done_def current_function_done_def
  current_function_id_def Let_def

lemma inst_states_next [simp]:
  "\<not> reset i \<Longrightarrow> inst_states (cfu_next insts st i) = insts_next insts st i"
  by (simp add: cfu_next_def check_instruction_done_def Let_def split: cfu_fsm.split)

lemma length_insts_next [simp]: "length (insts_next insts st i) = length insts"
  by (simp add: insts_next_def)

lemma nth_insts_next [simp]:
  "k < length insts \<Longrightarrow>
   insts_next insts st i ! k = inst_next (insts ! k) (inst_states st ! k) (instruction_in st i k)"
  by (simp add: insts_next_def)

lemma cfu_next_reset [simp]: "reset i \<Longrightarrow> cfu_next insts st i = cfu_init insts"
  by (simp add: cfu_next_def)

end
