(* ===== verification/Cfu_Refinement.thy ===== *)
theory Cfu_Refinement
  imports Cfu_Unit
begin

text \<open>
  The specification of a CFU and the proof that the handshake machine refines it, for every table
  of eight instructions that meet \<open>instruction_contract\<close> (locale \<open>cfu_instructions\<close>).
\<close>

section \<open>The specification: one command at a time\<close>

text \<open>
  The unit is idle, busy with a command that will answer \<open>v\<close> after at most \<open>n\<close> more cycles, or
  holds the answer \<open>v\<close> for a CPU that was not ready.
\<close>

datatype spec_state = Idle | Busy nat u32 | Reply u32

definition command_value :: "(nat \<Rightarrow> u7 \<Rightarrow> u32 \<Rightarrow> u32 \<Rightarrow> u32) \<Rightarrow> cfu_in \<Rightarrow> u32" where
  "command_value ref i = ref (unat (funct3_of i)) (funct7_of i) (cmd_in0 i) (cmd_in1 i)"

definition taken_or_held :: "cfu_in \<Rightarrow> u32 \<Rightarrow> spec_state" where
  "taken_or_held i v = (if rsp_ready i then Idle else Reply v)"

inductive spec_cycle ::
    "(nat \<Rightarrow> u7 \<Rightarrow> u32 \<Rightarrow> u32 \<Rightarrow> u32) \<Rightarrow> nat \<Rightarrow> spec_state \<Rightarrow> cfu_in \<Rightarrow> cfu_out \<Rightarrow> spec_state \<Rightarrow> bool"
  for ref lat where
  no_command: "\<not> cmd_valid i \<Longrightarrow>
     spec_cycle ref lat Idle i \<lparr>cmd_ready = True, rsp_valid = False, rsp_out = 0\<rparr> Idle"
| answer_at_once: "cmd_valid i \<Longrightarrow> v = command_value ref i \<Longrightarrow>
     spec_cycle ref lat Idle i \<lparr>cmd_ready = True, rsp_valid = True, rsp_out = v\<rparr>
       (taken_or_held i v)"
| begin_work: "cmd_valid i \<Longrightarrow> n < lat \<Longrightarrow> v = command_value ref i \<Longrightarrow>
     spec_cycle ref lat Idle i \<lparr>cmd_ready = True, rsp_valid = False, rsp_out = 0\<rparr> (Busy n v)"
| keep_working: "m < n \<Longrightarrow>
     spec_cycle ref lat (Busy n v) i \<lparr>cmd_ready = False, rsp_valid = False, rsp_out = 0\<rparr> (Busy m v)"
| finish: "spec_cycle ref lat (Busy n v) i \<lparr>cmd_ready = False, rsp_valid = True, rsp_out = v\<rparr>
       (taken_or_held i v)"
| hold: "spec_cycle ref lat (Reply v) i \<lparr>cmd_ready = False, rsp_valid = True, rsp_out = v\<rparr>
       (taken_or_held i v)"

inductive_cases spec_IdleE: "spec_cycle ref lat Idle i r a'"
inductive_cases spec_BusyE: "spec_cycle ref lat (Busy n v) i r a'"
inductive_cases spec_ReplyE: "spec_cycle ref lat (Reply v) i r a'"

lemmas spec_cycleE = spec_IdleE spec_BusyE spec_ReplyE

text \<open>The commands a cycle accepts and the answers it delivers, and those still owed.\<close>

definition accepted :: "(nat \<Rightarrow> u7 \<Rightarrow> u32 \<Rightarrow> u32 \<Rightarrow> u32) \<Rightarrow> cfu_in \<Rightarrow> cfu_out \<Rightarrow> u32 list" where
  "accepted ref i r = (if cmd_valid i \<and> cmd_ready r then [command_value ref i] else [])"

definition delivered :: "cfu_in \<Rightarrow> cfu_out \<Rightarrow> u32 list" where
  "delivered i r = (if rsp_valid r \<and> rsp_ready i then [rsp_out r] else [])"

fun owed :: "spec_state \<Rightarrow> u32 list" where
  "owed Idle = []"
| "owed (Busy n v) = [v]"
| "owed (Reply v) = [v]"

lemma spec_cycle_balance:
  "spec_cycle ref lat a i r a' \<Longrightarrow> owed a @ accepted ref i r = delivered i r @ owed a'"
  by (induction rule: spec_cycle.induct)
    (auto simp: accepted_def delivered_def taken_or_held_def)

text \<open>A reachable busy unit has fewer than \<open>lat\<close> cycles to go.\<close>

fun spec_bounded :: "nat \<Rightarrow> spec_state \<Rightarrow> bool" where
  "spec_bounded lat (Busy n v) \<longleftrightarrow> n < lat"
| "spec_bounded lat _ \<longleftrightarrow> True"

lemma spec_cycle_bounded:
  "spec_cycle ref lat a i r a' \<Longrightarrow> spec_bounded lat a \<Longrightarrow> spec_bounded lat a'"
  by (induction rule: spec_cycle.induct) (auto simp: taken_or_held_def)

section \<open>The refinement\<close>

text \<open>
  Related states: the machine is in the state that the specification names, the instruction of
  the stored function id is the one at work, and all others are idle.
\<close>

definition all_idle :: "(nat \<Rightarrow> 's \<Rightarrow> bool) \<Rightarrow> 's list \<Rightarrow> bool" where
  "all_idle idle ss \<longleftrightarrow> (\<forall>k<8. idle k (ss ! k))"

definition cfu_rel ::
    "(nat \<Rightarrow> 's \<Rightarrow> bool) \<Rightarrow> (nat \<Rightarrow> nat \<Rightarrow> u32 \<Rightarrow> 's \<Rightarrow> bool) \<Rightarrow> 's cfu_state \<Rightarrow> spec_state \<Rightarrow> bool" where
  "cfu_rel idle pending st a \<longleftrightarrow>
     (case a of
        Idle \<Rightarrow> cfu_fsm st = WAIT_CMD \<and> all_idle idle (inst_states st)
      | Busy n v \<Rightarrow> cfu_fsm st = WAIT_INSTRUCTION \<and>
          (let c = unat (stored_function_id st) in
           pending c n v (inst_states st ! c) \<and>
           (\<forall>k<8. k \<noteq> c \<longrightarrow> idle k (inst_states st ! k)))
      | Reply v \<Rightarrow> cfu_fsm st = WAIT_TRANSFER \<and> stored_output st = v \<and>
          all_idle idle (inst_states st))"

lemma unat_u3_less [simp]: "unat (w :: u3) < 8"
  using unsigned_less [of w] by simp

text \<open>A run of the unit: each cycle's input with the outputs of that cycle.\<close>

abbreviation cfu_trace :: "'s instruction list \<Rightarrow> 's cfu_state \<Rightarrow> cfu_in list \<Rightarrow> (cfu_in \<times> cfu_out) list" where
  "cfu_trace insts \<equiv> io_trace (cfu_next insts) (cfu_out insts)"

definition commands_of ::
    "(nat \<Rightarrow> u7 \<Rightarrow> u32 \<Rightarrow> u32 \<Rightarrow> u32) \<Rightarrow> (cfu_in \<times> cfu_out) list \<Rightarrow> u32 list" where
  "commands_of ref tr = concat (map (\<lambda>(i, r). accepted ref i r) tr)"

definition responses_of :: "(cfu_in \<times> cfu_out) list \<Rightarrow> u32 list" where
  "responses_of tr = concat (map (\<lambda>(i, r). delivered i r) tr)"

definition no_reset :: "cfu_in list \<Rightarrow> bool" where
  "no_reset is \<longleftrightarrow> list_all (\<lambda>i. \<not> reset i) is"

lemma events_simps [simp]:
  "commands_of ref [] = []"
  "commands_of ref ((i, r) # tr) = accepted ref i r @ commands_of ref tr"
  "responses_of [] = []"
  "responses_of ((i, r) # tr) = delivered i r @ responses_of tr"
  by (simp_all add: commands_of_def responses_of_def)

lemma no_reset_simps [simp]:
  "no_reset []"
  "no_reset (i # is) \<longleftrightarrow> \<not> reset i \<and> no_reset is"
  "no_reset (is @ js) \<longleftrightarrow> no_reset is \<and> no_reset js"
  by (simp_all add: no_reset_def)

lemma owed_iff_WAIT_CMD: "cfu_rel idle pending st a \<Longrightarrow> owed a = [] \<longleftrightarrow> cfu_fsm st = WAIT_CMD"
  by (cases a) (auto simp: cfu_rel_def Let_def)

lemma length_owed: "length (owed a) \<le> 1"
  by (cases a) auto

text \<open>
  Any circuit that refines the specification cycle by cycle answers exactly once and in time; the
  plain CFU and the clock-gated one are both such circuits.
\<close>

locale spec_refinement =
  fixes nxt :: "'s \<Rightarrow> cfu_in \<Rightarrow> 's"
    and out :: "'s \<Rightarrow> cfu_in \<Rightarrow> cfu_out"
    and ref :: "nat \<Rightarrow> u7 \<Rightarrow> u32 \<Rightarrow> u32 \<Rightarrow> u32"
    and lat :: nat
    and rel :: "'s \<Rightarrow> spec_state \<Rightarrow> bool"
  assumes step_refines: "rel st a \<Longrightarrow> \<not> reset i \<Longrightarrow>
      \<exists>a'. spec_cycle ref lat a i (out st i) a' \<and> rel (nxt st i) a'"
begin

text \<open>Whole runs: what was owed, with what is accepted, is what is delivered and still owed.\<close>

lemma run_balance:
  "rel st a \<Longrightarrow> no_reset is \<Longrightarrow>
   \<exists>a'. rel (run_state nxt st is) a' \<and>
     owed a @ commands_of ref (io_trace nxt out st is) = responses_of (io_trace nxt out st is) @ owed a'"
proof (induction "is" arbitrary: st a)
  case Nil
  then show ?case by auto
next
  case (Cons i "is")
  then obtain b where b: "spec_cycle ref lat a i (out st i) b"
    and rel: "rel (nxt st i) b"
    using step_refines by fastforce
  from Cons.IH [OF rel] Cons.prems obtain a' where
    a': "rel (run_state nxt st (i # is)) a'" and
    eq: "owed b @ commands_of ref (io_trace nxt out (nxt st i) is) =
      responses_of (io_trace nxt out (nxt st i) is) @ owed a'"
    by auto
  from eq spec_cycle_balance [OF b]
  have "owed a @ commands_of ref (io_trace nxt out st (i # is)) =
      responses_of (io_trace nxt out st (i # is)) @ owed a'"
    by (simp flip: append_assoc) (simp only: append_assoc)
  with a' show ?case by blast
qed

lemma run_bounded:
  "rel st a \<Longrightarrow> spec_bounded lat a \<Longrightarrow> no_reset is \<Longrightarrow>
   \<exists>a'. rel (run_state nxt st is) a' \<and> spec_bounded lat a'"
proof (induction "is" arbitrary: st a)
  case (Cons i "is")
  then show ?case using step_refines spec_cycle_bounded by fastforce
qed auto

text \<open>A busy unit answers within its bound, and accepts and answers nothing before.\<close>

lemma busy_answers:
  "rel st (Busy n v) \<Longrightarrow> no_reset is \<Longrightarrow> n < length is \<Longrightarrow>
   \<exists>j\<le>n. let outs = run_outs nxt out st is in
     rsp_valid (outs ! j) \<and> rsp_out (outs ! j) = v \<and>
     (\<forall>k<j. \<not> rsp_valid (outs ! k) \<and> \<not> cmd_ready (outs ! k))"
proof (induction n arbitrary: st "is" rule: less_induct)
  case (less n)
  then obtain i js where is_eq: "is = i # js" by (cases "is") auto
  with less.prems obtain b where b: "spec_cycle ref lat (Busy n v) i (out st i) b"
    and rel: "rel (nxt st i) b"
    using step_refines by fastforce
  from b show ?case
  proof (cases rule: spec_BusyE [consumes 1, case_names keep fin])
    case (keep m)
    with rel have "rel (nxt st i) (Busy m v)" by simp
    from less.IH [OF \<open>m < n\<close> this, of js] less.prems is_eq \<open>m < n\<close> obtain j where
      "j \<le> m" and j: "let outs = run_outs nxt out (nxt st i) js in
        rsp_valid (outs ! j) \<and> rsp_out (outs ! j) = v \<and>
        (\<forall>k<j. \<not> rsp_valid (outs ! k) \<and> \<not> cmd_ready (outs ! k))"
      by auto
    with keep is_eq show ?thesis
      by (intro exI [of _ "Suc j"]) (auto simp: Let_def less_Suc_eq_0_disj)
  next
    case fin
    with is_eq show ?thesis by (intro exI [of _ 0]) auto
  qed
qed

lemma command_answers:
  assumes rel: "rel st Idle" and "cmd_valid i" "no_reset (i # is)" "lat \<le> length is"
  shows "\<exists>j\<le>lat. let outs = run_outs nxt out st (i # is) in
     rsp_valid (outs ! j) \<and> rsp_out (outs ! j) = command_value ref i \<and>
     (\<forall>k<j. \<not> rsp_valid (outs ! k))"
proof -
  from assms obtain b where b: "spec_cycle ref lat Idle i (out st i) b"
    and rel': "rel (nxt st i) b"
    using step_refines by fastforce
  from b show ?thesis
  proof (cases rule: spec_IdleE [consumes 1, case_names none fast slow])
    case none
    with assms show ?thesis by simp
  next
    case fast
    then show ?thesis by (intro exI [of _ 0]) simp
  next
    case (slow n)
    with rel' have "rel (nxt st i) (Busy n (command_value ref i))" by simp
    from busy_answers [OF this, of "is"] assms slow obtain j where
      "j \<le> n" "let outs = run_outs nxt out (nxt st i) is in
        rsp_valid (outs ! j) \<and> rsp_out (outs ! j) = command_value ref i \<and>
        (\<forall>k<j. \<not> rsp_valid (outs ! k) \<and> \<not> cmd_ready (outs ! k))"
      by auto
    with slow show ?thesis
      by (intro exI [of _ "Suc j"]) (auto simp: Let_def less_Suc_eq_0_disj)
  qed
qed

end

locale cfu_instructions =
  fixes insts :: "'s instruction list"
    and ref :: "nat \<Rightarrow> u7 \<Rightarrow> u32 \<Rightarrow> u32 \<Rightarrow> u32"
    and lat :: nat
    and idle :: "nat \<Rightarrow> 's \<Rightarrow> bool"
    and pending :: "nat \<Rightarrow> nat \<Rightarrow> u32 \<Rightarrow> 's \<Rightarrow> bool"
  assumes eight: "length insts = 8"
    and contract: "k < 8 \<Longrightarrow> instruction_contract (insts ! k) (ref k) lat (idle k) (pending k)"
begin

lemmas inst_init_idle = instruction_contract.init_idle [OF contract]
lemmas inst_idle_hold = instruction_contract.idle_hold [OF contract]
lemmas inst_start_done = instruction_contract.start_done [OF contract]
lemmas inst_start_wait = instruction_contract.start_wait [OF contract]
lemmas inst_pending_done = instruction_contract.pending_done [OF contract]
lemmas inst_pending_wait = instruction_contract.pending_wait [OF contract]

lemma rel_init: "cfu_rel idle pending (cfu_init insts) Idle"
  using inst_init_idle by (simp add: cfu_rel_def cfu_init_def all_idle_def eight)

text \<open>Instructions that are not started stay idle.\<close>

lemma idle_next:
  "k < 8 \<Longrightarrow> idle k (inst_states st ! k) \<Longrightarrow> \<not> start (instruction_in st i k) \<Longrightarrow>
   idle k (insts_next insts st i ! k)"
  by (simp add: eight inst_idle_hold)

lemma step_from_idle:
  assumes rel: "cfu_rel idle pending st Idle" and "\<not> reset i"
  shows "\<exists>a'. spec_cycle ref lat Idle i (cfu_out insts st i) a' \<and>
    cfu_rel idle pending (cfu_next insts st i) a'"
proof (cases "cmd_valid i")
  case False
  with rel \<open>\<not> reset i\<close> show ?thesis
    by (intro exI [of _ Idle])
      (auto simp: cfu_rel_def cfu_out_def cfu_next_def all_idle_def Let_def instruction_in_def
        intro!: spec_cycle.intros idle_next)
next
  case True
  let ?c = "unat (funct3_of i)"
  let ?in = "instruction_in st i ?c"
  from rel have fsm: "cfu_fsm st = WAIT_CMD" and idle: "k < 8 \<Longrightarrow> idle k (inst_states st ! k)" for k
    by (auto simp: cfu_rel_def all_idle_def)
  have st: "start ?in" and val: "ref ?c (funct7 ?in) (in0 ?in) (in1 ?in) = command_value ref i"
    and others: "\<And>k. k \<noteq> ?c \<Longrightarrow> \<not> start (instruction_in st i k)"
    by (auto simp: instruction_in_def fsm True command_value_def current_function_id_def)
  show ?thesis
  proof (cases "inst_done (insts ! ?c) (inst_states st ! ?c) ?in")
    case d: True
    have *: "inst_output (insts ! ?c) (inst_states st ! ?c) ?in = command_value ref i"
      "idle ?c (insts_next insts st i ! ?c)"
      using inst_start_done [OF _ idle st d] by (simp_all add: val eight)
    have "all_idle idle (insts_next insts st i)"
      unfolding all_idle_def using *(2) idle_next [OF _ idle others] by metis
    then have nxt: "cfu_rel idle pending (cfu_next insts st i)
        (taken_or_held i (command_value ref i))"
      using * d fsm \<open>\<not> reset i\<close> True
      by (auto simp: cfu_rel_def cfu_comb_defs cfu_next_def instruction_done_def
          instruction_output_def taken_or_held_def)
    have "cfu_out insts st i =
        \<lparr>cmd_ready = True, rsp_valid = True, rsp_out = command_value ref i\<rparr>"
      using * d fsm True
      by (simp add: cfu_comb_defs instruction_done_def instruction_output_def)
    with nxt True show ?thesis
      by (metis spec_cycle.answer_at_once)
  next
    case nd: False
    from inst_start_wait [OF _ idle st nd] obtain n where
      n: "n < lat" "pending ?c n (command_value ref i) (insts_next insts st i ! ?c)"
      by (auto simp: val eight)
    have "k < 8 \<Longrightarrow> k \<noteq> ?c \<Longrightarrow> idle k (insts_next insts st i ! k)" for k
      using others by (auto intro: idle_next idle)
    with n nd fsm \<open>\<not> reset i\<close> True show ?thesis
      by (intro exI [of _ "Busy n (command_value ref i)"])
        (auto simp: cfu_rel_def cfu_comb_defs cfu_next_def instruction_done_def
          intro!: spec_cycle.intros)
  qed
qed

lemma step_from_busy:
  assumes rel: "cfu_rel idle pending st (Busy n v)" and "\<not> reset i"
  shows "\<exists>a'. spec_cycle ref lat (Busy n v) i (cfu_out insts st i) a' \<and>
    cfu_rel idle pending (cfu_next insts st i) a'"
proof -
  let ?c = "unat (stored_function_id st)"
  let ?in = "instruction_in st i ?c"
  from rel have fsm: "cfu_fsm st = WAIT_INSTRUCTION" and pend: "pending ?c n v (inst_states st ! ?c)"
    and others: "\<And>k. k < 8 \<Longrightarrow> k \<noteq> ?c \<Longrightarrow> idle k (inst_states st ! k)"
    by (auto simp: cfu_rel_def Let_def)
  have ns: "\<not> start (instruction_in st i k)" for k by (simp add: instruction_in_def fsm)
  have idle': "k < 8 \<Longrightarrow> k \<noteq> ?c \<Longrightarrow> idle k (insts_next insts st i ! k)" for k
    using others ns by (auto intro: idle_next)
  show ?thesis
  proof (cases "inst_done (insts ! ?c) (inst_states st ! ?c) ?in")
    case d: True
    have *: "inst_output (insts ! ?c) (inst_states st ! ?c) ?in = v"
      "idle ?c (insts_next insts st i ! ?c)"
      using inst_pending_done [OF _ pend ns d] by (simp_all add: eight)
    have "all_idle idle (insts_next insts st i)"
      using * idle' by (auto simp: all_idle_def)
    then have nxt: "cfu_rel idle pending (cfu_next insts st i) (taken_or_held i v)"
      using * d fsm \<open>\<not> reset i\<close>
      by (auto simp: cfu_rel_def cfu_comb_defs cfu_next_def instruction_done_def
          instruction_output_def taken_or_held_def)
    have "cfu_out insts st i = \<lparr>cmd_ready = False, rsp_valid = True, rsp_out = v\<rparr>"
      using * d fsm
      by (simp add: cfu_comb_defs instruction_done_def instruction_output_def)
    with nxt show ?thesis
      by (metis spec_cycle.finish)
  next
    case nd: False
    from inst_pending_wait [OF _ pend ns nd] obtain m where
      m: "m < n" "pending ?c m v (insts_next insts st i ! ?c)"
      by (auto simp: eight)
    with nd fsm \<open>\<not> reset i\<close> idle' show ?thesis
      by (intro exI [of _ "Busy m v"])
        (auto simp: cfu_rel_def cfu_comb_defs cfu_next_def instruction_done_def
          intro!: spec_cycle.intros)
  qed
qed

lemma step_from_reply:
  assumes rel: "cfu_rel idle pending st (Reply v)" and "\<not> reset i"
  shows "\<exists>a'. spec_cycle ref lat (Reply v) i (cfu_out insts st i) a' \<and>
    cfu_rel idle pending (cfu_next insts st i) a'"
proof -
  from rel have fsm: "cfu_fsm st = WAIT_TRANSFER" and "stored_output st = v"
    and idle: "\<And>k. k < 8 \<Longrightarrow> idle k (inst_states st ! k)"
    by (auto simp: cfu_rel_def all_idle_def)
  have "all_idle idle (insts_next insts st i)"
    using idle by (auto simp: all_idle_def instruction_in_def fsm intro!: idle_next)
  then have nxt: "cfu_rel idle pending (cfu_next insts st i) (taken_or_held i v)"
    using fsm \<open>stored_output st = v\<close> \<open>\<not> reset i\<close>
    by (auto simp: cfu_rel_def cfu_next_def taken_or_held_def)
  have "cfu_out insts st i = \<lparr>cmd_ready = False, rsp_valid = True, rsp_out = v\<rparr>"
    using fsm \<open>stored_output st = v\<close> by (simp add: cfu_out_def)
  with nxt show ?thesis
    by (metis spec_cycle.hold)
qed

lemma step_refines:
  assumes "cfu_rel idle pending st a" "\<not> reset i"
  shows "\<exists>a'. spec_cycle ref lat a i (cfu_out insts st i) a' \<and>
    cfu_rel idle pending (cfu_next insts st i) a'"
  using assms step_from_idle step_from_busy step_from_reply by (cases a) auto

end

sublocale cfu_instructions \<subseteq> spec: spec_refinement "cfu_next insts" "cfu_out insts" ref lat "cfu_rel idle pending"
  by unfold_locales (rule step_refines)

context cfu_instructions
begin

lemma run_rel: "no_reset is \<Longrightarrow> \<exists>a. cfu_rel idle pending (run_state (cfu_next insts) (cfu_init insts) is) a"
  using spec.run_balance [OF rel_init] by blast

lemmas cfu_run_balance = spec.run_balance
lemmas cfu_command_answers = spec.command_answers

lemma rel_Idle:
  assumes "cfu_rel idle pending st a" "cfu_fsm st = WAIT_CMD"
  shows "cfu_rel idle pending st Idle"
  using assms by (cases a) (auto simp: cfu_rel_def Let_def)

end

end
