(* ===== verification/Example_Instructions.thy ===== *)
theory Example_Instructions
  imports Cfu_Instruction
begin

text \<open>
  The example instructions of \<^verbatim>\<open>python/amaranth_cfu/test_cfu.py\<close>: three combinational ones
  (sum of bytes, byte swap, bit swap), a registered addition and the multi-cycle factorial. Each
  is shown to meet \<open>instruction_contract\<close> for its mathematical meaning.
\<close>

section \<open>Combinational instructions\<close>

text \<open>\<open>word_select k 8\<close> of a 32-bit value, and the assignment to it.\<close>

definition byte_of :: "u32 \<Rightarrow> nat \<Rightarrow> u32" where
  "byte_of w k = take_bit 8 (drop_bit (8 * k) w)"

definition set_byte :: "nat \<Rightarrow> u32 \<Rightarrow> u32 \<Rightarrow> u32" where
  "set_byte k b w = (w AND NOT (push_bit (8 * k) 0xff)) OR push_bit (8 * k) (take_bit 8 b)"

definition SumBytesInstruction :: "unit instruction" where
  "SumBytesInstruction = \<lparr>
     inst_init = (),
     inst_output = (\<lambda>_ i.
       byte_of (in0 i) 0 + byte_of (in0 i) 1 + byte_of (in0 i) 2 + byte_of (in0 i) 3 +
       byte_of (in1 i) 0 + byte_of (in1 i) 1 + byte_of (in1 i) 2 + byte_of (in1 i) 3),
     inst_done = (\<lambda>_ _. True),
     inst_next = (\<lambda>_ _. ())\<rparr>"

text \<open>
  The two reversals build \<open>output\<close> by one assignment per byte or bit, in the order of the loop,
  from the default value 0 of a combinational signal.
\<close>

definition ReverseBytesInstruction :: "unit instruction" where
  "ReverseBytesInstruction = \<lparr>
     inst_init = (),
     inst_output = (\<lambda>_ i. fold (\<lambda>n out. set_byte (3 - n) (byte_of (in0 i) n) out) [0..<4] 0),
     inst_done = (\<lambda>_ _. True),
     inst_next = (\<lambda>_ _. ())\<rparr>"

definition ReverseBitsInstruction :: "unit instruction" where
  "ReverseBitsInstruction = \<lparr>
     inst_init = (),
     inst_output = (\<lambda>_ i. fold (\<lambda>n out.
       if bit (in0 i) n then set_bit (31 - n) out else unset_bit (31 - n) out) [0..<32] 0),
     inst_done = (\<lambda>_ _. True),
     inst_next = (\<lambda>_ _. ())\<rparr>"

text \<open>
  Their meaning: the sum as a natural number, the bytes in the opposite order, and the bits in
  the opposite order.
\<close>

definition nat_byte :: "u32 \<Rightarrow> nat \<Rightarrow> nat" where
  "nat_byte w k = unat w div 256 ^ k mod 256"

definition sum_bytes_ref :: "u7 \<Rightarrow> u32 \<Rightarrow> u32 \<Rightarrow> u32" where
  "sum_bytes_ref _ a b = of_nat ((\<Sum>k<4. nat_byte a k) + (\<Sum>k<4. nat_byte b k))"

definition reverse_bytes_ref :: "u7 \<Rightarrow> u32 \<Rightarrow> u32 \<Rightarrow> u32" where
  "reverse_bytes_ref _ a _ = of_nat (\<Sum>k<4. nat_byte a k * 256 ^ (3 - k))"

definition reverse_bits_ref :: "u7 \<Rightarrow> u32 \<Rightarrow> u32 \<Rightarrow> u32" where
  "reverse_bits_ref _ a _ = word_reverse a"

lemma unat_byte_of: "unat (byte_of w k) = nat_byte w k"
proof -
  have "unat (byte_of w k) = take_bit 8 (drop_bit (8 * k) (unat w))"
    by (simp only: byte_of_def unsigned_take_bit_eq unat_drop_bit_eq)
  then show ?thesis
    by (simp add: nat_byte_def take_bit_eq_mod drop_bit_eq_div power_mult)
qed

lemma byte_of_nat_byte: "byte_of w k = of_nat (nat_byte w k)"
  by (simp flip: unat_byte_of)

lemma sum_bytes_output:
  "inst_output SumBytesInstruction s i = sum_bytes_ref f (in0 i) (in1 i)"
  by (simp add: SumBytesInstruction_def sum_bytes_ref_def byte_of_nat_byte numeral_eq_Suc)

lemma bit_byte_of: "bit (byte_of w k) m \<longleftrightarrow> m < 8 \<and> bit w (8 * k + m)"
  by (auto simp: byte_of_def bit_take_bit_iff bit_drop_bit_eq)

lemma bit_set_byte:
  assumes "k < 4"
  shows "bit (set_byte k b w) m \<longleftrightarrow>
    (if 8 * k \<le> m \<and> m < 8 * k + 8 then bit b (m - 8 * k) else bit w m)"
proof -
  have ff: "(0xff :: u32) = mask 8"
    by (simp add: mask_eq_exp_minus_1)
  show ?thesis
    using assms
    by (auto simp: set_byte_def bit_or_iff bit_and_iff bit_not_iff bit_push_bit_iff bit_take_bit_iff
        ff bit_mask_iff dest: bit_imp_le_length)
qed

text \<open>A 32-bit value is the sum of its bytes, each at its place.\<close>

lemma sum_digits: "(\<Sum>j<k. (n div 256 ^ j mod 256) * 256 ^ j) = n mod (256 :: nat) ^ k"
proof (induction k)
  case 0
  then show ?case by simp
next
  case (Suc k)
  have "n mod 256 ^ Suc k = 256 ^ k * (n div 256 ^ k mod 256) + n mod (256 :: nat) ^ k"
    using mod_mult2_eq [of n "256 ^ k" 256] by (simp add: mult.commute)
  with Suc show ?case by simp
qed

lemma unat_bytes: "unat (w :: u32) = (\<Sum>k<4. nat_byte w k * 256 ^ k)"
proof -
  have "unat w < 256 ^ 4"
    using unsigned_less [of w] by simp
  then show ?thesis
    by (simp only: nat_byte_def sum_digits mod_less)
qed

lemma reverse_bytes_unrolled:
  "inst_output ReverseBytesInstruction s i =
     set_byte 0 (byte_of (in0 i) 3) (set_byte 1 (byte_of (in0 i) 2)
       (set_byte 2 (byte_of (in0 i) 1) (set_byte 3 (byte_of (in0 i) 0) 0)))"
  by (simp add: ReverseBytesInstruction_def upt_rec numeral_2_eq_2 numeral_3_eq_3)

lemma byte_of_set_byte:
  assumes "k < 4" "j < 4"
  shows "byte_of (set_byte k (byte_of v n) w) j = (if j = k then byte_of v n else byte_of w j)"
  using assms by (intro bit_eqI) (auto simp: bit_byte_of bit_set_byte)

lemma reverse_bytes_bytes:
  assumes "k < 4"
  shows "nat_byte (inst_output ReverseBytesInstruction s i) k = nat_byte (in0 i) (3 - k)"
proof -
  have "k = 0 \<or> k = 1 \<or> k = 2 \<or> k = 3" using assms by auto
  then have "byte_of (inst_output ReverseBytesInstruction s i) k = byte_of (in0 i) (3 - k)"
    by (auto simp: reverse_bytes_unrolled byte_of_set_byte)
  then show ?thesis
    by (metis unat_byte_of)
qed

lemma reverse_bytes_output:
  "inst_output ReverseBytesInstruction s i = reverse_bytes_ref f (in0 i) b"
proof -
  let ?out = "inst_output ReverseBytesInstruction s i"
  have "unat ?out = (\<Sum>k<4. nat_byte (in0 i) (3 - k) * 256 ^ k)"
    by (subst unat_bytes) (simp add: reverse_bytes_bytes)
  also have "\<dots> = (\<Sum>k<4. nat_byte (in0 i) k * 256 ^ (3 - k))"
    by (rule sum.reindex_bij_witness [of _ "\<lambda>k. 3 - k" "\<lambda>k. 3 - k"]) auto
  finally have "of_nat (unat ?out) = reverse_bytes_ref f (in0 i) b"
    by (simp only: reverse_bytes_ref_def)
  then show ?thesis by simp
qed

lemma reverse_bits_loop:
  assumes "n \<le> 32"
  shows "bit (fold (\<lambda>n out. if bit w n then set_bit (31 - n) out else unset_bit (31 - n) out)
      [0..<n] (0 :: u32)) m \<longleftrightarrow> 32 - n \<le> m \<and> m < 32 \<and> bit (w :: u32) (31 - m)"
  using assms
proof (induction n)
  case 0
  then show ?case by simp
next
  case (Suc n)
  then have IH: "bit (fold (\<lambda>n out. if bit w n then set_bit (31 - n) out else unset_bit (31 - n) out)
      [0..<n] (0 :: u32)) m \<longleftrightarrow> 32 - n \<le> m \<and> m < 32 \<and> bit w (31 - m)" by simp
  show ?case
  proof (cases "m = 31 - n")
    case True
    with Suc.prems have "31 - m = n" "m < 32" by auto
    with True Suc.prems show ?thesis
      by (simp add: bit_set_bit_iff bit_unset_bit_iff)
  next
    case False
    with Suc.prems have "32 - Suc n \<le> m \<longleftrightarrow> 32 - n \<le> m" by auto
    with False IH show ?thesis
      by (simp add: bit_set_bit_iff bit_unset_bit_iff)
  qed
qed

lemma reverse_bits_output:
  "inst_output ReverseBitsInstruction s i = reverse_bits_ref f (in0 i) b"
  by (rule bit_eqI)
    (simp add: ReverseBitsInstruction_def reverse_bits_ref_def reverse_bits_loop
      bit_word_reverse_iff)

interpretation sum_bytes: instruction_contract SumBytesInstruction sum_bytes_ref 0
    "\<lambda>_. True" "\<lambda>_ _ _. False"
  by (rule comb_instruction_contract [OF _ sum_bytes_output]) (simp add: SumBytesInstruction_def)

interpretation reverse_bytes: instruction_contract ReverseBytesInstruction reverse_bytes_ref 0
    "\<lambda>_. True" "\<lambda>_ _ _. False"
  by (rule comb_instruction_contract [OF _ reverse_bytes_output])
    (simp add: ReverseBytesInstruction_def)

interpretation reverse_bits: instruction_contract ReverseBitsInstruction reverse_bits_ref 0
    "\<lambda>_. True" "\<lambda>_ _ _. False"
  by (rule comb_instruction_contract [OF _ reverse_bits_output])
    (simp add: ReverseBitsInstruction_def)

section \<open>The registered addition\<close>

record sync_add_state =
  sa_output :: u32
  sa_done :: bool

definition sync_add_next :: "sync_add_state \<Rightarrow> inst_in \<Rightarrow> sync_add_state" where
  "sync_add_next s i =
     (if start i then s\<lparr>sa_output := in0 i + in1 i, sa_done := True\<rparr>
      else s\<lparr>sa_done := False\<rparr>)"

definition SyncAddInstruction :: "sync_add_state instruction" where
  "SyncAddInstruction = \<lparr>
     inst_init = \<lparr>sa_output = 0, sa_done = False\<rparr>,
     inst_output = (\<lambda>s _. sa_output s),
     inst_done = (\<lambda>s _. sa_done s),
     inst_next = sync_add_next\<rparr>"

definition sync_add_ref :: "u7 \<Rightarrow> u32 \<Rightarrow> u32 \<Rightarrow> u32" where
  "sync_add_ref _ a b = a + b"

definition sync_add_idle :: "sync_add_state \<Rightarrow> bool" where
  "sync_add_idle s \<longleftrightarrow> \<not> sa_done s"

definition sync_add_pending :: "nat \<Rightarrow> u32 \<Rightarrow> sync_add_state \<Rightarrow> bool" where
  "sync_add_pending n v s \<longleftrightarrow> sa_done s \<and> sa_output s = v"

interpretation sync_add: instruction_contract SyncAddInstruction sync_add_ref 1
    sync_add_idle sync_add_pending
  by unfold_locales
    (auto simp: SyncAddInstruction_def sync_add_next_def sync_add_ref_def sync_add_idle_def
      sync_add_pending_def)

section \<open>The factorial\<close>

datatype fact_fsm = INIT | CALCULATING | FASTANSWER

record fact_state =
  fact_fsm :: fact_fsm
  fact_output :: u32
  counter :: u32

definition fact_next :: "fact_state \<Rightarrow> inst_in \<Rightarrow> fact_state" where
  "fact_next s i =
     (case fact_fsm s of
        INIT \<Rightarrow>
          (if start i then
             (if in0 i = 0 then s\<lparr>fact_output := 1, fact_fsm := FASTANSWER\<rparr>
              else if in0 i > 12 then s\<lparr>fact_output := 0xffffffff, fact_fsm := FASTANSWER\<rparr>
              else s\<lparr>fact_output := 1, counter := in0 i, fact_fsm := CALCULATING\<rparr>)
           else s)
      | CALCULATING \<Rightarrow>
          s\<lparr>fact_output := fact_output s * counter s, counter := counter s - 1,
            fact_fsm := (if counter s = 1 then INIT else CALCULATING)\<rparr>
      | FASTANSWER \<Rightarrow> s\<lparr>fact_fsm := INIT\<rparr>)"

definition fact_done :: "fact_state \<Rightarrow> bool" where
  "fact_done s \<longleftrightarrow>
     (case fact_fsm s of INIT \<Rightarrow> False | CALCULATING \<Rightarrow> counter s = 1 | FASTANSWER \<Rightarrow> True)"

definition FactorialInstruction :: "fact_state instruction" where
  "FactorialInstruction = \<lparr>
     inst_init = \<lparr>fact_fsm = INIT, fact_output = 0, counter = 0\<rparr>,
     inst_output = (\<lambda>s _. fact_output s),
     inst_done = (\<lambda>s _. fact_done s),
     inst_next = fact_next\<rparr>"

definition factorial_ref :: "u7 \<Rightarrow> u32 \<Rightarrow> u32 \<Rightarrow> u32" where
  "factorial_ref _ a _ = (if a > 12 then 0xffffffff else of_nat (fact (unat a)))"

definition factorial_idle :: "fact_state \<Rightarrow> bool" where
  "factorial_idle s \<longleftrightarrow> fact_fsm s = INIT"

text \<open>
  While it calculates, the product so far times the factorial of the counter is the answer, and
  the counter says how many cycles are left.
\<close>

definition factorial_pending :: "nat \<Rightarrow> u32 \<Rightarrow> fact_state \<Rightarrow> bool" where
  "factorial_pending n v s \<longleftrightarrow>
     (case fact_fsm s of
        INIT \<Rightarrow> False
      | CALCULATING \<Rightarrow> counter s \<noteq> 0 \<and> n = unat (counter s) - 1 \<and>
          v = fact_output s * of_nat (fact (unat (counter s)))
      | FASTANSWER \<Rightarrow> v = fact_output s)"

lemma fact_unat_step:
  assumes "(c :: u32) \<noteq> 0"
  shows "of_nat (fact (unat c)) = c * (of_nat (fact (unat (c - 1))) :: u32)"
proof -
  have "unat c = Suc (unat (c - 1))"
    using assms unat_gt_0 [of c] by (simp add: unat_minus_one)
  then have "of_nat (fact (unat c)) = (of_nat (unat c) :: u32) * of_nat (fact (unat (c - 1)))"
    by (metis fact_Suc of_nat_id of_nat_mult)
  then show ?thesis by simp
qed

lemma factorial_start:
  assumes "factorial_idle s" "start i"
  shows "\<exists>n<12. factorial_pending n (factorial_ref (funct7 i) (in0 i) (in1 i)) (fact_next s i)"
proof (cases "in0 i = 0 \<or> in0 i > 12")
  case True
  with assms show ?thesis
    by (intro exI [of _ 0])
      (auto simp: factorial_idle_def factorial_pending_def factorial_ref_def fact_next_def)
next
  case False
  then have "unat (in0 i) \<le> 12" "in0 i \<noteq> 0" by (auto simp: word_le_nat_alt word_less_nat_alt)
  then have "unat (in0 i) - 1 < 12" by simp
  with False assms show ?thesis
    by (intro exI [of _ "unat (in0 i) - 1"])
      (auto simp: factorial_idle_def factorial_pending_def factorial_ref_def fact_next_def)
qed

lemma factorial_wait:
  assumes "factorial_pending n v s" "\<not> fact_done s"
  shows "\<exists>m<n. factorial_pending m v (fact_next s i)"
proof -
  from assms have calc: "fact_fsm s = CALCULATING" "counter s \<noteq> 1" "counter s \<noteq> 0"
      "n = unat (counter s) - 1" "v = fact_output s * of_nat (fact (unat (counter s)))"
    by (auto simp: factorial_pending_def fact_done_def split: fact_fsm.splits)
  from calc have "unat (counter s) \<noteq> 1" "unat (counter s) \<noteq> 0"
    using word_unat_eq_iff [of "counter s" 1] by (simp_all add: unat_eq_zero)
  with calc have less: "unat (counter s - 1) - 1 < n" and nz: "counter s - 1 \<noteq> 0"
    by (auto simp: unat_minus_one)
  have "factorial_pending (unat (counter s - 1) - 1) v (fact_next s i)"
    using calc nz
    by (simp add: factorial_pending_def fact_next_def fact_unat_step [of "counter s"] mult.assoc)
  with less show ?thesis by blast
qed

interpretation factorial: instruction_contract FactorialInstruction factorial_ref 12
    factorial_idle factorial_pending
proof (unfold_locales, goal_cases)
  case (4 s i)
  then show ?case by (simp add: FactorialInstruction_def factorial_start)
next
  case (6 n v s i)
  then show ?case by (simp add: FactorialInstruction_def factorial_wait)
qed (auto simp: FactorialInstruction_def factorial_idle_def fact_done_def fact_next_def
      factorial_pending_def split: fact_fsm.splits)

end
