(* ===== verification/Test_Cfu.thy ===== *)
theory Test_Cfu
  imports Cfu_Refinement Example_Instructions
begin

text \<open>
  The CFU of \<^verbatim>\<open>python/amaranth_cfu/test_cfu.py\<close> (\<open>_CfuTest.create_dut\<close>): five example
  instructions, the rest fallback. It is an interpretation of \<open>cfu_instructions\<close>, and the
  cycle-by-cycle test vectors of \<open>test_cfu_cycles\<close> are reproduced by the model.
\<close>

section \<open>The table of instructions\<close>

datatype test_regs = NoRegs | FactRegs fact_state | AddRegs sync_add_state

definition fact_regs :: "test_regs \<Rightarrow> fact_state" where
  "fact_regs r = (case r of FactRegs s \<Rightarrow> s | _ \<Rightarrow> inst_init FactorialInstruction)"

definition add_regs :: "test_regs \<Rightarrow> sync_add_state" where
  "add_regs r = (case r of AddRegs s \<Rightarrow> s | _ \<Rightarrow> inst_init SyncAddInstruction)"

abbreviation comb_inst :: "unit instruction \<Rightarrow> test_regs instruction" where
  "comb_inst I \<equiv> lift_inst (\<lambda>_. NoRegs) (\<lambda>_. ()) I"

definition test_instructions :: "(int \<times> test_regs instruction) list" where
  "test_instructions =
     [(0, comb_inst SumBytesInstruction),
      (1, comb_inst ReverseBytesInstruction),
      (2, comb_inst ReverseBitsInstruction),
      (3, lift_inst FactRegs fact_regs FactorialInstruction),
      (4, lift_inst AddRegs add_regs SyncAddInstruction)]"

definition test_insts :: "test_regs instruction list" where
  "test_insts = map snd test_instructions @ replicate 3 (fallback_inst NoRegs)"

lemma test_insts_built:
  "\<exists>d. build_instructions NoRegs test_instructions = Inr (test_insts, d)"
  by (simp add: build_instructions_def add_fallbacks_def test_instructions_def test_insts_def
      Let_def upto.simps numeral_3_eq_3)

section \<open>Its meaning\<close>

definition test_ref :: "nat \<Rightarrow> u7 \<Rightarrow> u32 \<Rightarrow> u32 \<Rightarrow> u32" where
  "test_ref k = (if k = 0 then sum_bytes_ref else if k = 1 then reverse_bytes_ref
     else if k = 2 then reverse_bits_ref else if k = 3 then factorial_ref
     else if k = 4 then sync_add_ref else (\<lambda>_ a _. a))"

definition test_idle :: "nat \<Rightarrow> test_regs \<Rightarrow> bool" where
  "test_idle k = (if k = 3 then (\<lambda>r. factorial_idle (fact_regs r))
     else if k = 4 then (\<lambda>r. sync_add_idle (add_regs r)) else (\<lambda>_. True))"

definition test_pending :: "nat \<Rightarrow> nat \<Rightarrow> u32 \<Rightarrow> test_regs \<Rightarrow> bool" where
  "test_pending k = (if k = 3 then (\<lambda>n v r. factorial_pending n v (fact_regs r))
     else if k = 4 then (\<lambda>n v r. sync_add_pending n v (add_regs r)) else (\<lambda>_ _ _. False))"

lemma comb_inst_contract:
  assumes "instruction_contract I ref 0 (\<lambda>_. True) (\<lambda>_ _ _. False)"
  shows "instruction_contract (comb_inst I) ref 12 (\<lambda>_. True) (\<lambda>_ _ _. False)"
  by (rule instruction_contract_mono [OF lift_inst_contract [OF assms]]) simp_all

lemma test_contract:
  assumes "k < 8"
  shows "instruction_contract (test_insts ! k) (test_ref k) 12 (test_idle k) (test_pending k)"
proof -
  have k: "k \<in> {0, 1, 2, 3, 4, 5, 6, 7}" using assms by auto
  have fact: "instruction_contract (lift_inst FactRegs fact_regs FactorialInstruction)
      factorial_ref 12 (\<lambda>s. factorial_idle (fact_regs s)) (\<lambda>n v s. factorial_pending n v (fact_regs s))"
    by (rule lift_inst_contract [OF factorial.instruction_contract_axioms]) (simp add: fact_regs_def)
  have add: "instruction_contract (lift_inst AddRegs add_regs SyncAddInstruction)
      sync_add_ref 12 (\<lambda>s. sync_add_idle (add_regs s)) (\<lambda>n v s. sync_add_pending n v (add_regs s))"
    by (rule instruction_contract_mono [OF lift_inst_contract
          [OF sync_add.instruction_contract_axioms]]) (simp_all add: add_regs_def)
  note comb = comb_inst_contract [OF sum_bytes.instruction_contract_axioms]
    comb_inst_contract [OF reverse_bytes.instruction_contract_axioms]
    comb_inst_contract [OF reverse_bits.instruction_contract_axioms]
    comb_inst_contract [OF fallback.instruction_contract_axioms, folded fallback_inst_def]
  show ?thesis
    using k comb fact add
    by (auto simp: test_insts_def test_instructions_def test_ref_def test_idle_def test_pending_def)
qed

interpretation test_cfu: cfu_instructions test_insts test_ref 12 test_idle test_pending
  by (rule cfu_instructions.intro)
    (simp_all add: test_contract, simp add: test_insts_def test_instructions_def)

section \<open>The test vectors\<close>

text \<open>
  The vectors of \<open>test_cfu_cycles\<close>: \<open>(function, in0, in1, cmd_valid, rsp_ready)\<close> with the expected
  \<open>(result, rsp_valid, cmd_ready)\<close>, where a result \<open>X\<close> is not compared.
\<close>

type_synonym vector = "(10 word \<times> u32 \<times> u32 \<times> bool \<times> bool) \<times> (u32 option \<times> bool \<times> bool)"

definition cycles_data :: "vector list" where
  "cycles_data =
     [((0, 0, 0, False, False), (None, False, True)),
      ((0, 1, 2, True, False), (Some 3, True, True)),
      ((0, 0, 0, False, True), (Some 3, True, False)),
      ((0, 0, 0, False, False), (None, False, True)),
      ((3, 3, 0, True, True), (None, False, True)),
      ((0, 0, 0, False, True), (None, False, False)),
      ((0, 0, 0, False, True), (None, False, False)),
      ((0, 0, 0, False, True), (Some 6, True, False)),
      ((0, 5, 3, True, True), (Some 8, True, True)),
      ((3, 2, 0, True, False), (None, False, True)),
      ((0, 0, 0, False, False), (None, False, False)),
      ((0, 0, 0, False, False), (Some 2, True, False)),
      ((0, 0, 0, False, True), (Some 2, True, False)),
      ((4, 3, 5, True, True), (None, False, True)),
      ((0, 0, 0, False, True), (Some 8, True, False)),
      ((4, 3, 4, True, False), (None, False, True)),
      ((0, 0, 0, False, False), (None, True, False)),
      ((0, 0, 0, False, False), (None, True, False)),
      ((0, 0, 0, False, True), (Some 7, True, False)),
      ((7, 0, 0, True, True), (None, True, True))]"

fun vector_in :: "vector \<Rightarrow> cfu_in" where
  "vector_in ((f, a, b, v, r), _) = \<lparr>cmd_valid = v, cmd_function_id = f, cmd_in0 = a, cmd_in1 = b,
     rsp_ready = r, reset = False\<rparr>"

fun vector_ok :: "vector \<Rightarrow> cfu_out \<Rightarrow> bool" where
  "vector_ok (_, (res, v, r)) out \<longleftrightarrow>
     (case res of None \<Rightarrow> True | Some x \<Rightarrow> rsp_out out = x) \<and> rsp_valid out = v \<and> cmd_ready out = r"


end
