(* ===== verification/Cfu_Properties.thy ===== *)
theory Cfu_Properties
  imports Test_Cfu
begin

text \<open>
  The properties of the CFU: for every table of instructions that meets the contract, and for the
  CFU of the test file as the concrete instance on which each is witnessed.
\<close>

lemmas test_cfu_ok = test_cfu.cfu_instructions_axioms

lemma comb_inst_next [simp]: "inst_next (comb_inst I) s i = NoRegs"
  by (simp add: lift_inst_def)

lemmas test_eval = cfu_comb_defs instruction_in_def instruction_done_def instruction_output_def
  cfu_next_def insts_next_def funct3_of_def funct7_of_def test_insts_def test_instructions_def
  cfu_init_def lift_inst_def SumBytesInstruction_def FactorialInstruction_def
  SyncAddInstruction_def fact_next_def fact_done_def sync_add_next_def fact_regs_def add_regs_def
  fallback_inst_def FallbackInstruction_def byte_of_def

section \<open>The handshake\<close>

text \<open>
  C1: exactly one response per command, in order, with the right value. In any run from reset in
  which the CFU is not reset again, the values of the accepted commands are the delivered
  responses followed by at most one command that is still owed an answer, and none is owed
  exactly when the machine waits for a command.
\<close>

theorem cfu_exactly_once:
  assumes "cfu_instructions insts ref lat idle pending" and "no_reset is"
  shows "\<exists>rest. length rest \<le> 1 \<and>
    commands_of ref (cfu_trace insts (cfu_init insts) is) =
      responses_of (cfu_trace insts (cfu_init insts) is) @ rest \<and>
    (rest = [] \<longleftrightarrow> cfu_fsm (run_state (cfu_next insts) (cfu_init insts) is) = WAIT_CMD)"
proof -
  note init = cfu_instructions.rel_init [OF assms(1)]
  from cfu_instructions.cfu_run_balance [OF assms(1) init assms(2)] obtain a where
    rel: "cfu_rel idle pending (run_state (cfu_next insts) (cfu_init insts) is) a" and
    "commands_of ref (cfu_trace insts (cfu_init insts) is) =
      responses_of (cfu_trace insts (cfu_init insts) is) @ owed a"
    by auto
  with owed_iff_WAIT_CMD [OF rel] length_owed [of a] show ?thesis by blast
qed

theorem cfu_exactly_once_witness:
  "no_reset (map vector_in cycles_data) \<and>
   (\<exists>rest. length rest \<le> 1 \<and>
     commands_of test_ref (cfu_trace test_insts (cfu_init test_insts) (map vector_in cycles_data)) =
       responses_of (cfu_trace test_insts (cfu_init test_insts) (map vector_in cycles_data)) @ rest \<and>
     (rest = [] \<longleftrightarrow> cfu_fsm (run_state (cfu_next test_insts) (cfu_init test_insts)
       (map vector_in cycles_data)) = WAIT_CMD))"
proof -
  have nr: "no_reset (map vector_in cycles_data)" by (simp add: cycles_data_def)
  show ?thesis using nr cfu_exactly_once [OF test_cfu_ok nr] by blast
qed

text \<open>
  C3: every command is answered in time. After any run without reset that leaves the machine
  waiting for a command, a cycle with \<open>cmd_valid\<close> is answered in that cycle or one of the next
  \<open>lat\<close> cycles with the value of the command, whatever the CPU puts on the command and response
  signals meanwhile, and no response is signalled before.
\<close>

theorem cfu_answers_in_time:
  assumes "cfu_instructions insts ref lat idle pending" and "no_reset pre"
    and "st = run_state (cfu_next insts) (cfu_init insts) pre" and "cfu_fsm st = WAIT_CMD"
    and "cmd_valid i" and "no_reset (i # is)" and "lat \<le> length is"
  shows "\<exists>j\<le>lat. let outs = run_outs (cfu_next insts) (cfu_out insts) st (i # is) in
     rsp_valid (outs ! j) \<and> rsp_out (outs ! j) = command_value ref i \<and>
     (\<forall>k<j. \<not> rsp_valid (outs ! k))"
proof -
  from cfu_instructions.run_rel [OF assms(1,2)] assms(3)
  obtain a where "cfu_rel idle pending st a" by auto
  then have "cfu_rel idle pending st Idle"
    using assms(4) cfu_instructions.rel_Idle [OF assms(1)] by blast
  then show ?thesis
    using cfu_instructions.cfu_command_answers [OF assms(1)] assms(5-7) by blast
qed

definition fact5_in :: cfu_in where
  "fact5_in = \<lparr>cmd_valid = True, cmd_function_id = 3, cmd_in0 = 5, cmd_in1 = 0,
     rsp_ready = True, reset = False\<rparr>"

definition quiet_in :: cfu_in where
  "quiet_in = \<lparr>cmd_valid = False, cmd_function_id = 0, cmd_in0 = 0, cmd_in1 = 0,
     rsp_ready = False, reset = False\<rparr>"

theorem cfu_answers_in_time_witness:
  "\<exists>j\<le>12. let outs = run_outs (cfu_next test_insts) (cfu_out test_insts)
       (cfu_init test_insts) (fact5_in # replicate 12 quiet_in) in
     rsp_valid (outs ! j) \<and> rsp_out (outs ! j) = 120 \<and> (\<forall>k<j. \<not> rsp_valid (outs ! k))"
proof -
  have nr: "no_reset (fact5_in # replicate 12 quiet_in)"
    by (simp add: no_reset_def fact5_in_def quiet_in_def)
  have v: "command_value test_ref fact5_in = 120"
    by (simp add: command_value_def test_ref_def factorial_ref_def fact5_in_def funct3_of_def
        fact_numeral)
  have "cfu_fsm (cfu_init test_insts) = WAIT_CMD" "cmd_valid fact5_in"
    by (simp_all add: cfu_init_def fact5_in_def)
  from cfu_answers_in_time [OF test_cfu_ok, of "[]" "cfu_init test_insts" fact5_in
      "replicate 12 quiet_in"] this nr v
  show ?thesis by simp
qed

text \<open>
  C4: a response is stable until it is taken. When the CFU signals a response that the CPU does
  not take in this cycle, it signals a response with the same value in the next cycle, whatever
  the inputs of both cycles are (but for a reset), and whatever the instructions do.
\<close>

theorem cfu_response_stable:
  assumes "rsp_valid (cfu_out insts st i)" and "\<not> rsp_ready i" and "\<not> reset i"
  shows "rsp_valid (cfu_out insts (cfu_next insts st i) j) \<and>
    rsp_out (cfu_out insts (cfu_next insts st i) j) = rsp_out (cfu_out insts st i) \<and>
    \<not> cmd_ready (cfu_out insts (cfu_next insts st i) j)"
  using assms
  by (cases "cfu_fsm st")
    (auto simp: cfu_comb_defs cfu_next_def split: if_splits)

theorem cfu_response_stable_witness:
  "rsp_valid (cfu_out test_insts (cfu_next test_insts (cfu_init test_insts)
       (vector_in (cycles_data ! 1))) quiet_in)"
  using cfu_response_stable [of test_insts "cfu_init test_insts" "vector_in (cycles_data ! 1)" quiet_in]
  by (simp add: cycles_data_def test_eval)

text \<open>
  The model reproduces the cycle-by-cycle test of the sources: on every one of its twenty
  input vectors the outputs are the expected ones (\<open>test_cfu_cycles\<close>).
\<close>

theorem cfu_cycles_test:
  "list_all2 vector_ok cycles_data
    (run_outs (cfu_next test_insts) (cfu_out test_insts) (cfu_init test_insts)
       (map vector_in cycles_data))"
  by (simp add: cycles_data_def test_eval ReverseBytesInstruction_def upt_rec)

section \<open>The table of instructions\<close>

lemma add_fallbacks_step:
  "map_of (fold (\<lambda>i d. if map_of d i = None then d @ [(i, f)] else d) ks d) k =
    (case map_of d k of Some v \<Rightarrow> Some v | None \<Rightarrow> if k \<in> set ks then Some f else None)"
  by (induction ks arbitrary: d) (auto split: option.splits)

lemma add_fallbacks_lookup:
  "map_of (add_fallbacks s0 d) k =
    (case map_of d k of Some v \<Rightarrow> Some v
     | None \<Rightarrow> if 0 \<le> k \<and> k \<le> 7 then Some (fallback_inst s0) else None)"
  by (auto simp: add_fallbacks_def add_fallbacks_step split: option.splits)

lemma add_fallbacks_full:
  assumes "\<And>k. 0 \<le> k \<Longrightarrow> k \<le> 7 \<Longrightarrow> map_of d k \<noteq> None"
  shows "add_fallbacks s0 d = d"
proof -
  have "\<forall>k\<in>set ks. map_of d k \<noteq> None \<Longrightarrow>
      fold (\<lambda>i d. if map_of d i = None then d @ [(i, fallback_inst s0)] else d) ks d = d" for ks
    by (induction ks) auto
  then show ?thesis using assms by (simp add: add_fallbacks_def)
qed

lemma keys_in_range:
  "list_all (\<lambda>(k, _). 0 \<le> k \<and> k < 8) d \<longleftrightarrow> (\<forall>k\<in>fst ` set d. 0 \<le> k \<and> k < (8 :: int))"
  by (force simp: list_all_iff)

text \<open>
  \<open>__build_instructions\<close> accepts a dictionary exactly when all its keys are in \<open>range(8)\<close>, and
  then entry \<open>k\<close> of the list is the instruction of key \<open>k\<close>, or the fallback where there is none.
\<close>

theorem build_instructions_correct:
  "build_instructions s0 d =
     (if \<forall>k\<in>fst ` set d. 0 \<le> k \<and> k < 8
      then Inr (map (\<lambda>k. case map_of d k of Some I \<Rightarrow> I | None \<Rightarrow> fallback_inst s0) [0..7],
                add_fallbacks s0 d)
      else Inl (AssertionError ''Instruction IDs must be integers from 0 to 7''))"
  by (auto simp: build_instructions_def keys_in_range Let_def add_fallbacks_lookup
      split: option.splits)

theorem build_instructions_correct_witness:
  "build_instructions NoRegs test_instructions =
     Inr (map (\<lambda>k. case map_of test_instructions k of Some I \<Rightarrow> I | None \<Rightarrow> fallback_inst NoRegs)
       [0..7], add_fallbacks NoRegs test_instructions)"
  by (subst build_instructions_correct) (simp add: test_instructions_def)

text \<open>
  Elaborating a CFU again gives the same table: the dictionary that the first elaboration has
  filled up with fallback instructions is accepted and gives the same eight instructions.
\<close>

theorem build_instructions_again:
  assumes "build_instructions s0 d = Inr (insts, d')"
  shows "build_instructions s0 d' = Inr (insts, d')"
proof -
  from assms have ok: "\<forall>k\<in>fst ` set d. 0 \<le> k \<and> k < 8"
    and d': "d' = add_fallbacks s0 d" and insts: "insts = map (\<lambda>i. the (map_of d' i)) [0..7]"
    by (auto simp: build_instructions_def keys_in_range Let_def split: if_splits)
  have full: "map_of d' k \<noteq> None" if "0 \<le> k" "k \<le> 7" for k
    using that by (auto simp: d' add_fallbacks_lookup split: option.splits)
  have "\<forall>k\<in>fst ` set d'. 0 \<le> k \<and> k < 8"
  proof
    fix k assume "k \<in> fst ` set d'"
    then have "map_of d' k \<noteq> None" by (simp add: map_of_eq_None_iff)
    with ok show "0 \<le> k \<and> k < 8"
      by (auto simp: d' add_fallbacks_lookup split: option.splits if_splits dest!: map_of_SomeD)
  qed
  then have "build_instructions s0 d' = Inr (map (\<lambda>i. the (map_of d' i)) [0..7], d')"
    using add_fallbacks_full [OF full]
    by (simp add: build_instructions_def keys_in_range Let_def)
  with insts show ?thesis by simp
qed

theorem build_instructions_again_witness:
  "\<exists>d. build_instructions NoRegs d = Inr (test_insts, d)"
proof -
  obtain d where "build_instructions NoRegs test_instructions = Inr (test_insts, d)"
    using test_insts_built by blast
  from build_instructions_again [OF this] show ?thesis by blast
qed

section \<open>The example instructions\<close>

text \<open>
  The multi-cycle instruction of the tests, started on operand \<open>a\<close> in its initial state,
  signals \<open>done\<close> within twelve further cycles with \<open>a!\<close>, or with all ones when \<open>a\<close> exceeds 12
  and the factorial would not fit in 32 bits, whatever the operands of the later cycles are.
\<close>

theorem factorial_answers:
  assumes "factorial_idle s" and "start i" and "list_all (\<lambda>j. \<not> start j) is" and "12 \<le> length is"
  shows "wait_done FactorialInstruction s (i # is) =
    Some (if unat (in0 i) \<le> 12 then of_nat (fact (unat (in0 i))) else 0xffffffff)"
  using factorial.start_answers [OF assms]
  by (auto simp: factorial_ref_def word_less_nat_alt word_le_nat_alt)

definition fact_in :: "bool \<Rightarrow> u32 \<Rightarrow> inst_in" where
  "fact_in s a = \<lparr>start = s, in0 = a, in1 = 0, funct7 = 0\<rparr>"

theorem factorial_answers_witness:
  "wait_done FactorialInstruction (inst_init FactorialInstruction)
     (fact_in True 12 # replicate 12 (fact_in False 99)) = Some 479001600"
proof -
  have "factorial_idle (inst_init FactorialInstruction)" by (rule factorial.init_idle)
  from factorial_answers [OF this, of "fact_in True 12" "replicate 12 (fact_in False 99)"]
  show ?thesis by (simp add: fact_in_def fact_numeral list_all_length)
qed

end
