(* ===== verification/Clock_Control.thy ===== *)
theory Clock_Control
  imports Cfu_Properties
begin

text \<open>
  The dynamic clock control of \<^verbatim>\<open>soc/clock_control.py\<close>: the two-state machine that gates the
  clocks of CPU and CFU, and the CFU behind its gated clock as \<^verbatim>\<open>soc/hps_soc.py\<close> composes them.
  The clock gates are the documented ones: registers of a domain whose enable is low in a cycle
  keep their values at its end, while combinational outputs go on following the registers.
\<close>

section \<open>The controller\<close>

datatype clk_fsm = CPU_ENABLED | CFU_ENABLED

text \<open>The handshake signals that the controller sees (\<open>cfu_bus_minimized_layout\<close>).\<close>

record cfu_bus_minimized =
  bus_cmd_valid :: bool
  bus_cmd_ready :: bool
  bus_rsp_valid :: bool
  bus_rsp_ready :: bool

record clock_enables =
  cpu_cen :: bool
  cfu_cen :: bool

definition clk_enables :: "clk_fsm \<Rightarrow> cfu_bus_minimized \<Rightarrow> clock_enables" where
  "clk_enables c b =
     (case c of
        CPU_ENABLED \<Rightarrow> \<lparr>cpu_cen = True, cfu_cen = bus_cmd_valid b\<rparr>
      | CFU_ENABLED \<Rightarrow>
          (if \<not> bus_rsp_valid b \<and> \<not> bus_cmd_valid b
           then \<lparr>cpu_cen = bus_cmd_ready b, cfu_cen = True\<rparr>
           else \<lparr>cpu_cen = True, cfu_cen = True\<rparr>))"

definition clk_next :: "clk_fsm \<Rightarrow> cfu_bus_minimized \<Rightarrow> clk_fsm" where
  "clk_next c b =
     (case c of
        CPU_ENABLED \<Rightarrow> (if bus_cmd_valid b then CFU_ENABLED else CPU_ENABLED)
      | CFU_ENABLED \<Rightarrow>
          (if \<not> bus_rsp_valid b \<and> \<not> bus_cmd_valid b \<and> bus_cmd_ready b then CPU_ENABLED
           else CFU_ENABLED))"

section \<open>The gated system\<close>

text \<open>
  The composition of \<open>HpsSoC\<close>: the controller watches the signals between CPU and CFU, runs on
  the oscillator clock, and its enables gate the clocks of both.
\<close>

type_synonym 's gated_state = "clk_fsm \<times> 's cfu_state"

definition ctl_bus :: "cfu_in \<Rightarrow> cfu_out \<Rightarrow> cfu_bus_minimized" where
  "ctl_bus i r = \<lparr>bus_cmd_valid = cmd_valid i, bus_cmd_ready = cmd_ready r,
     bus_rsp_valid = rsp_valid r, bus_rsp_ready = rsp_ready i\<rparr>"

definition gated_init :: "'s instruction list \<Rightarrow> 's gated_state" where
  "gated_init insts = (CPU_ENABLED, cfu_init insts)"

definition gated_out :: "'s instruction list \<Rightarrow> 's gated_state \<Rightarrow> cfu_in \<Rightarrow> cfu_out" where
  "gated_out insts s i = cfu_out insts (snd s) i"

definition gated_enables :: "'s instruction list \<Rightarrow> 's gated_state \<Rightarrow> cfu_in \<Rightarrow> clock_enables" where
  "gated_enables insts s i = clk_enables (fst s) (ctl_bus i (gated_out insts s i))"

definition gated_next :: "'s instruction list \<Rightarrow> 's gated_state \<Rightarrow> cfu_in \<Rightarrow> 's gated_state" where
  "gated_next insts s i =
     (clk_next (fst s) (ctl_bus i (gated_out insts s i)),
      if cfu_cen (gated_enables insts s i) then cfu_next insts (snd s) i else snd s)"

lemmas gated_defs = gated_out_def gated_enables_def gated_next_def ctl_bus_def
  clk_enables_def clk_next_def

section \<open>Cycle by cycle\<close>

text \<open>No handshake happens in a cycle in which one of the two clocks is off.\<close>

lemma cpu_off_no_handshake:
  assumes "\<not> cpu_cen (gated_enables insts s i)"
  shows "accepted ref i (gated_out insts s i) = [] \<and> delivered i (gated_out insts s i) = []"
  using assms
  by (auto simp: gated_defs accepted_def delivered_def split: clk_fsm.splits if_splits)

lemma gated_enabled_iff:
  "cfu_cen (gated_enables insts s i) \<longleftrightarrow> fst s = CFU_ENABLED \<or> cmd_valid i"
  by (cases "fst s") (auto simp: gated_defs)

lemma cmd_ready_iff: "cmd_ready (cfu_out insts st i) \<longleftrightarrow> cfu_fsm st = WAIT_CMD"
  by (cases "cfu_fsm st") (auto simp: cfu_out_def split: prod.splits)

text \<open>The controller waits only when the CFU does: the CFU's clock is off only in \<open>WAIT_CMD\<close>.\<close>

definition clocks_agree :: "'s gated_state \<Rightarrow> bool" where
  "clocks_agree s \<longleftrightarrow> (fst s = CPU_ENABLED \<longrightarrow> cfu_fsm (snd s) = WAIT_CMD)"

interpretation gated: clocked_invariant "gated_next insts" "gated_init insts" "\<lambda>_. True" clocks_agree
  for insts
proof unfold_locales
  show "clocks_agree (gated_init insts)"
    by (simp add: clocks_agree_def gated_init_def cfu_init_def)
next
  fix s :: "'a gated_state" and i
  assume "clocks_agree s"
  then show "clocks_agree (gated_next insts s i)"
    by (cases "fst s"; cases "cfu_fsm (snd s)")
      (auto simp: clocks_agree_def gated_defs cmd_ready_iff cfu_next_def cfu_init_def
        split: if_splits)
qed

text \<open>
  The CPU's clock is off exactly while an instruction is at work and the CPU does not present a
  command, and the CFU's clock is off exactly while no command is at work or presented, but for
  the one cycle after the last answer.
\<close>

definition cpu_waits :: "'s instruction list \<Rightarrow> 's gated_state \<Rightarrow> cfu_in \<Rightarrow> bool" where
  "cpu_waits insts s i \<longleftrightarrow> cfu_fsm (snd s) = WAIT_INSTRUCTION \<and> \<not> cmd_valid i \<and>
     \<not> current_function_done insts (snd s) i"

lemma rsp_valid_iff:
  "rsp_valid (cfu_out insts st i) \<longleftrightarrow>
    (case cfu_fsm st of WAIT_CMD \<Rightarrow> cmd_valid i \<and> current_function_done insts st i
     | WAIT_INSTRUCTION \<Rightarrow> current_function_done insts st i | WAIT_TRANSFER \<Rightarrow> True)"
  by (cases "cfu_fsm st") (auto simp: cfu_out_def check_instruction_done_def Let_def)

lemma cpu_off_iff_waits:
  assumes "clocks_agree s"
  shows "\<not> cpu_cen (gated_enables insts s i) \<longleftrightarrow> cpu_waits insts s i"
  using assms
  by (cases "fst s"; cases "cfu_fsm (snd s)")
    (auto simp: clocks_agree_def gated_defs cpu_waits_def cmd_ready_iff rsp_valid_iff)

section \<open>The gated unit refines the specification\<close>

definition gated_rel ::
    "(nat \<Rightarrow> 's \<Rightarrow> bool) \<Rightarrow> (nat \<Rightarrow> nat \<Rightarrow> u32 \<Rightarrow> 's \<Rightarrow> bool) \<Rightarrow> 's gated_state \<Rightarrow> spec_state \<Rightarrow> bool" where
  "gated_rel idle pending s a \<longleftrightarrow>
     cfu_rel idle pending (snd s) a \<and> (fst s = CPU_ENABLED \<longrightarrow> a = Idle)"

context cfu_instructions
begin

lemma gated_step:
  assumes rel: "gated_rel idle pending s a" and "\<not> reset i"
  shows "\<exists>a'. spec_cycle ref lat a i (gated_out insts s i) a' \<and>
    gated_rel idle pending (gated_next insts s i) a'"
proof -
  from rel have crel: "cfu_rel idle pending (snd s) a" by (simp add: gated_rel_def)
  show ?thesis
  proof (cases "cfu_cen (gated_enables insts s i)")
    case True
    from step_refines [OF crel \<open>\<not> reset i\<close>] obtain a' where
      step: "spec_cycle ref lat a i (cfu_out insts (snd s) i) a'"
      and rel': "cfu_rel idle pending (cfu_next insts (snd s) i) a'" by blast
    have "a' = Idle" if "clk_next (fst s) (ctl_bus i (gated_out insts s i)) = CPU_ENABLED"
    proof -
      from that True have off: "cfu_fsm (snd s) = WAIT_CMD" "\<not> cmd_valid i"
        by (auto simp: gated_enabled_iff clk_next_def ctl_bus_def gated_out_def cmd_ready_iff
            split: clk_fsm.splits if_splits)
      with crel have "a = Idle" by (cases a) (auto simp: cfu_rel_def Let_def)
      with step off(2) show ?thesis by (auto elim: spec_IdleE)
    qed
    with step rel' True show ?thesis
      by (auto simp: gated_rel_def gated_next_def gated_out_def)
  next
    case False
    then have off: "fst s = CPU_ENABLED" "\<not> cmd_valid i" by (auto simp: gated_enabled_iff, metis clk_fsm.exhaust)
    with rel have a: "a = Idle" by (simp add: gated_rel_def)
    from step_refines [OF crel \<open>\<not> reset i\<close>] a off(2)
    have "spec_cycle ref lat Idle i (gated_out insts s i) Idle"
      by (auto simp: gated_out_def elim: spec_IdleE)
    with a rel off False show ?thesis
      by (intro exI [of _ Idle]) (simp add: gated_rel_def gated_next_def)
  qed
qed

end

sublocale cfu_instructions \<subseteq> gated_spec: spec_refinement "gated_next insts" "gated_out insts" ref lat "gated_rel idle pending"
  by unfold_locales (rule gated_step)

context cfu_instructions
begin

lemma gated_rel_init: "gated_rel idle pending (gated_init insts) Idle"
  using rel_init by (simp add: gated_rel_def gated_init_def)

lemmas gated_run_balance = gated_spec.run_balance [OF gated_rel_init]
lemmas gated_run_bounded = gated_spec.run_bounded [OF gated_rel_init]
lemmas gated_busy_answers = gated_spec.busy_answers
lemmas gated_command_answers = gated_spec.command_answers

end

section \<open>What the gated clocks guarantee\<close>

text \<open>The cycles that the CPU sees, those in which its clock runs, with what they carry.\<close>

fun cpu_view :: "'s instruction list \<Rightarrow> 's gated_state \<Rightarrow> cfu_in list \<Rightarrow> (cfu_in \<times> cfu_out) list" where
  "cpu_view insts s [] = []"
| "cpu_view insts s (i # is) =
     (if cpu_cen (gated_enables insts s i) then [(i, gated_out insts s i)] else []) @
     cpu_view insts (gated_next insts s i) is"

lemma cpu_view_events:
  "commands_of ref (cpu_view insts s is) = commands_of ref (io_trace (gated_next insts) (gated_out insts) s is)"
  "responses_of (cpu_view insts s is) = responses_of (io_trace (gated_next insts) (gated_out insts) s is)"
  by (induction "is" arbitrary: s) (auto dest!: cpu_off_no_handshake)

text \<open>
  C2: the gated CFU still answers every command exactly once. In any run from power-up without
  reset, the commands that the CPU issues in the cycles its clock runs are answered, in order and
  with the right values, in cycles its clock runs, but for at most one that is still at work.
\<close>

theorem gated_exactly_once:
  assumes "cfu_instructions insts ref lat idle pending" and "no_reset is"
  shows "\<exists>rest. length rest \<le> 1 \<and>
    commands_of ref (cpu_view insts (gated_init insts) is) =
      responses_of (cpu_view insts (gated_init insts) is) @ rest \<and>
    (rest = [] \<longleftrightarrow> cfu_fsm (snd (run_state (gated_next insts) (gated_init insts) is)) = WAIT_CMD)"
proof -
  from cfu_instructions.gated_run_balance [OF assms] obtain a where
    rel: "cfu_rel idle pending (snd (run_state (gated_next insts) (gated_init insts) is)) a" and
    "commands_of ref (cpu_view insts (gated_init insts) is) =
      responses_of (cpu_view insts (gated_init insts) is) @ owed a"
    by (auto simp: gated_rel_def cpu_view_events)
  with owed_iff_WAIT_CMD [OF rel] length_owed [of a] show ?thesis by blast
qed

theorem gated_exactly_once_witness:
  "\<exists>rest. length rest \<le> 1 \<and>
    commands_of test_ref (cpu_view test_insts (gated_init test_insts) (map vector_in cycles_data)) =
      responses_of (cpu_view test_insts (gated_init test_insts) (map vector_in cycles_data)) @ rest"
proof -
  have "no_reset (map vector_in cycles_data)" by (simp add: cycles_data_def)
  from gated_exactly_once [OF test_cfu_ok this] show ?thesis by blast
qed

lemma rsp_valid_cpu_on: "rsp_valid (gated_out insts s i) \<Longrightarrow> cpu_cen (gated_enables insts s i)"
  by (cases "fst s") (auto simp: gated_defs)

text \<open>
  C5: the CPU is never stopped for long. After any run without reset, whatever the inputs of the
  next cycles, the clock of the CPU runs in one of the next \<open>lat + 1\<close> cycles.
\<close>

theorem cpu_stall_bounded:
  assumes "cfu_instructions insts ref lat idle pending" and "no_reset pre" and "no_reset is"
    and "lat < length is" and "s = run_state (gated_next insts) (gated_init insts) pre"
  shows "\<exists>j\<le>lat. cpu_cen (run_outs (gated_next insts) (gated_enables insts) s is ! j)"
proof -
  from cfu_instructions.gated_run_bounded [OF assms(1) _ assms(2)] assms(5)
  obtain a where rel: "gated_rel idle pending s a" and bnd: "spec_bounded lat a" by auto
  show ?thesis
  proof (cases a)
    case (Busy n v)
    with bnd have "n < lat" by simp
    with cfu_instructions.gated_busy_answers [OF assms(1), of s n v "is"] rel Busy assms(3,4)
    obtain j where j: "j \<le> n" "rsp_valid (run_outs (gated_next insts) (gated_out insts) s is ! j)"
      by (auto simp: Let_def)
    then have "cpu_cen (run_outs (gated_next insts) (gated_enables insts) s is ! j)"
      using \<open>n < lat\<close> assms(4) by (simp add: nth_run_outs rsp_valid_cpu_on)
    with j \<open>n < lat\<close> show ?thesis by (intro exI [of _ j]) simp
  next
    case Idle
    with rel have "clocks_agree s" "cfu_fsm (snd s) = WAIT_CMD"
      by (auto simp: gated_rel_def cfu_rel_def clocks_agree_def)
    then have "cpu_cen (gated_enables insts s (is ! 0))"
      using cpu_off_iff_waits [of s insts "is ! 0"] by (simp add: cpu_waits_def)
    with assms(4) show ?thesis by (intro exI [of _ 0]) (cases "is"; simp)
  next
    case (Reply v)
    with rel have "clocks_agree s" "cfu_fsm (snd s) = WAIT_TRANSFER"
      by (auto simp: gated_rel_def cfu_rel_def clocks_agree_def)
    then have "cpu_cen (gated_enables insts s (is ! 0))"
      using cpu_off_iff_waits [of s insts "is ! 0"] by (simp add: cpu_waits_def)
    with assms(4) show ?thesis by (intro exI [of _ 0]) (cases "is"; simp)
  qed
qed

theorem cpu_stall_bounded_witness:
  "\<exists>j\<le>12. cpu_cen (run_outs (gated_next test_insts) (gated_enables test_insts)
     (run_state (gated_next test_insts) (gated_init test_insts) (map vector_in cycles_data))
     (replicate 13 (vector_in (hd cycles_data))) ! j)"
  using cpu_stall_bounded [OF test_cfu_ok, of "map vector_in cycles_data"
      "replicate 13 (vector_in (hd cycles_data))"]
  by (simp add: cycles_data_def no_reset_def)

text \<open>
  C6: the gates are exact. After any run, resets included, the CPU's clock is off exactly while an
  instruction is at work without an answer and the CPU presents no command, the CFU's clock is off
  only while the machine waits for a command and none is presented, and no handshake of either
  channel happens in a cycle in which one of the clocks is off.
\<close>

theorem clock_gating_exact:
  assumes "s = run_state (gated_next insts) (gated_init insts) is"
  shows "(\<not> cpu_cen (gated_enables insts s i) \<longleftrightarrow> cpu_waits insts s i) \<and>
    (\<not> cfu_cen (gated_enables insts s i) \<longrightarrow> cfu_fsm (snd s) = WAIT_CMD \<and> \<not> cmd_valid i) \<and>
    (\<not> cpu_cen (gated_enables insts s i) \<or> \<not> cfu_cen (gated_enables insts s i) \<longrightarrow>
       accepted ref i (gated_out insts s i) = [] \<and> delivered i (gated_out insts s i) = [])"
proof -
  have agree: "clocks_agree s"
    unfolding assms by (rule gated.inv_run) (simp add: list_all_iff)
  have off: "cfu_fsm (snd s) = WAIT_CMD \<and> \<not> cmd_valid i" if "\<not> cfu_cen (gated_enables insts s i)"
    using that agree by (cases "fst s") (auto simp: gated_enabled_iff clocks_agree_def)
  then have "accepted ref i (gated_out insts s i) = [] \<and> delivered i (gated_out insts s i) = []"
    if "\<not> cfu_cen (gated_enables insts s i)"
    using that by (auto simp: accepted_def delivered_def gated_out_def rsp_valid_iff)
  with off cpu_off_iff_waits [OF agree] cpu_off_no_handshake show ?thesis by blast
qed

theorem clock_gating_exact_witness:
  "\<not> cpu_cen (gated_enables test_insts (run_state (gated_next test_insts) (gated_init test_insts)
      (map vector_in (take 5 cycles_data))) (vector_in (cycles_data ! 5)))"
proof -
  have "cpu_waits test_insts (run_state (gated_next test_insts) (gated_init test_insts)
      (map vector_in (take 5 cycles_data))) (vector_in (cycles_data ! 5))"
    by (simp add: cycles_data_def test_eval gated_defs gated_init_def cpu_waits_def)
  with clock_gating_exact [OF refl, of test_insts "map vector_in (take 5 cycles_data)"
      "vector_in (cycles_data ! 5)"] show ?thesis by blast
qed

end
