(* ===== verification/Power_On_Reset.thy ===== *)
theory Power_On_Reset
  imports Cfu_Prelude
begin

text \<open>
  The power-on reset of the clock generators: a counter that starts at its largest value, counts
  down to zero and stays there, and holds the system in reset until then. The counters of the
  boards differ in their width only.
\<close>

definition por_next :: "'a::len word \<Rightarrow> unit \<Rightarrow> 'a word" where
  "por_next c _ = (if c \<noteq> 0 then c - 1 else c)"

definition por_reset :: "'a::len word \<Rightarrow> bool" where
  "por_reset c \<longleftrightarrow> c \<noteq> 0"

lemma por_run: "unat (run_state por_next c is) = unat c - length is"
proof (induction "is" arbitrary: c)
  case (Cons i "is")
  have "unat (por_next c i) = unat c - 1"
    by (auto simp: por_next_def unat_minus_one)
  with Cons show ?case by simp
qed simp

lemma por_reset_run: "por_reset (run_state por_next c is) \<longleftrightarrow> length is < unat c"
  using por_run [of c "is"] by (simp add: por_reset_def unat_eq_zero [symmetric] not_le del: unat_eq_zero)

text \<open>A counter at zero stays there: the reset is released once.\<close>

interpretation por_done: clocked_invariant por_next 0 "\<lambda>_. True" "\<lambda>c. \<not> por_reset c"
  by unfold_locales (auto simp: por_next_def por_reset_def)

end
