(* ===== verification/Text_Format.thy ===== *)
theory Text_Format
  imports Main "HOL-Library.Sublist"
begin

text \<open>
  The parts of Python's text handling that the generators and build scripts use, on HOL strings:
  numbers printed in a base with zero padding, strings read back as numbers, splitting and joining
  at a separator, \<open>str.replace\<close>, \<open>str.splitlines\<close> and \<open>in\<close>, with their round trips.
\<close>

section \<open>Numbers in a base\<close>

definition digit_char :: "nat \<Rightarrow> char" where
  "digit_char d = ''0123456789ABCDEF'' ! d"

definition lower_digit_char :: "nat \<Rightarrow> char" where
  "lower_digit_char d = ''0123456789abcdef'' ! d"

definition char_digit :: "char \<Rightarrow> nat option" where
  "char_digit c = map_of
     (zip ''0123456789ABCDEF'' [0..<16] @ zip ''abcdef'' [10..<16]) c"

lemma digit_chars:
  "list_all (\<lambda>d. char_digit (digit_char d) = Some d \<and> char_digit (lower_digit_char d) = Some d) [0..<16]"
  by code_simp

lemma char_digit_digit_char [simp]: "d < 16 \<Longrightarrow> char_digit (digit_char d) = Some d"
  using digit_chars by (simp add: list_all_iff)

lemma char_digit_lower [simp]: "d < 16 \<Longrightarrow> char_digit (lower_digit_char d) = Some d"
  using digit_chars by (simp add: list_all_iff)

lemma char_digit_0 [simp]: "char_digit CHR ''0'' = Some 0"
  by code_simp

fun in_base :: "(nat \<Rightarrow> char) \<Rightarrow> nat \<Rightarrow> nat \<Rightarrow> string" where
  "in_base dc b n = (if n < b \<or> b < 2 then [dc n] else in_base dc b (n div b) @ [dc (n mod b)])"

declare in_base.simps [simp del]

abbreviation dec :: "nat \<Rightarrow> string" where
  "dec \<equiv> in_base digit_char 10"

abbreviation hex_upper :: "nat \<Rightarrow> string" where
  "hex_upper \<equiv> in_base digit_char 16"

abbreviation hex_lower :: "nat \<Rightarrow> string" where
  "hex_lower \<equiv> in_base lower_digit_char 16"

text \<open>Zero padding to a least width, as in the format \<open>{:08X}\<close>.\<close>

definition zero_pad :: "nat \<Rightarrow> string \<Rightarrow> string" where
  "zero_pad w s = replicate (w - length s) CHR ''0'' @ s"

text \<open>Numbers with a sign.\<close>

definition signed_text :: "(nat \<Rightarrow> string) \<Rightarrow> int \<Rightarrow> string" where
  "signed_text f k = (if k < 0 then ''-'' @ f (nat (- k)) else f (nat k))"

definition int_text :: "int \<Rightarrow> string" where
  "int_text = signed_text dec"

text \<open>Reading a number: every character a digit below the base, at least one of them.\<close>

fun read_digits :: "nat \<Rightarrow> nat \<Rightarrow> string \<Rightarrow> nat option" where
  "read_digits b acc [] = Some acc"
| "read_digits b acc (c # cs) =
     (case char_digit c of
        Some d \<Rightarrow> if d < b then read_digits b (b * acc + d) cs else None
      | None \<Rightarrow> None)"

definition read_base :: "nat \<Rightarrow> string \<Rightarrow> nat option" where
  "read_base b s = (if s = [] then None else read_digits b 0 s)"

lemma read_digits_append:
  "read_digits b acc (s @ t) =
    (case read_digits b acc s of Some v \<Rightarrow> read_digits b v t | None \<Rightarrow> None)"
  by (induction s arbitrary: acc) (auto split: option.splits)

lemma in_base_not_Nil [simp]: "in_base dc b n \<noteq> []"
  by (subst in_base.simps) simp

lemma in_base_digit: "n < b \<Longrightarrow> in_base dc b n = [dc n]"
  by (simp add: in_base.simps)

lemma read_in_base:
  assumes "2 \<le> b" and "b \<le> 16" and dc: "\<And>d. d < 16 \<Longrightarrow> char_digit (dc d) = Some d"
  shows "read_digits b 0 (in_base dc b n) = Some n"
proof (induction n rule: less_induct)
  case (less n)
  have d: "char_digit (dc (n mod b)) = Some (n mod b)" and lt: "n mod b < b"
    using assms by (auto intro!: dc simp: order.strict_trans2 [OF mod_less_divisor])
  show ?case
  proof (cases "n < b")
    case True
    with d show ?thesis by (simp add: in_base.simps)
  next
    case False
    with less.IH [of "n div b"] \<open>2 \<le> b\<close> have "read_digits b 0 (in_base dc b (n div b)) = Some (n div b)"
      by simp
    with False d lt \<open>2 \<le> b\<close> show ?thesis
      by (subst in_base.simps) (simp add: read_digits_append)
  qed
qed

lemma read_digits_zeros [simp]: "0 < b \<Longrightarrow> read_digits b 0 (replicate k CHR ''0'' @ s) = read_digits b 0 s"
  by (induction k) simp_all

lemma read_zero_pad [simp]: "0 < b \<Longrightarrow> s \<noteq> [] \<Longrightarrow> read_base b (zero_pad w s) = read_base b s"
  by (simp add: zero_pad_def read_base_def)

lemma read_base_in_base [simp]:
  "read_base 10 (dec n) = Some n"
  "read_base 16 (hex_upper n) = Some n"
  "read_base 16 (hex_lower n) = Some n"
  by (simp_all add: read_base_def read_in_base)

lemma length_in_base:
  assumes "2 \<le> b" and "n < b ^ k" and "0 < k"
  shows "length (in_base dc b n) \<le> k"
  using assms(2,3)
proof (induction k arbitrary: n)
  case (Suc k)
  show ?case
  proof (cases "n < b")
    case False
    with Suc.prems \<open>2 \<le> b\<close> have "0 < k" by (cases k) auto
    moreover from Suc.prems have "n div b < b ^ k"
      by (simp add: less_mult_imp_div_less mult.commute)
    ultimately show ?thesis using Suc.IH False \<open>2 \<le> b\<close>
      by (subst in_base.simps) simp
  qed (simp add: in_base_digit)
qed simp

lemma length_zero_pad: "length (zero_pad w s) = max w (length s)"
  by (simp add: zero_pad_def)

lemma length_zero_pad_in_base [simp]:
  "2 \<le> b \<Longrightarrow> n < b ^ w \<Longrightarrow> 0 < w \<Longrightarrow> length (zero_pad w (in_base dc b n)) = w"
  using length_in_base [of b n w dc] by (simp add: length_zero_pad)

text \<open>The digits of a printed number.\<close>

lemma set_in_base:
  assumes "2 \<le> b"
  shows "set (in_base dc b n) \<subseteq> dc ` {..<b}"
proof (induction n rule: less_induct)
  case (less n)
  show ?case
  proof (cases "n < b")
    case False
    with less.IH [of "n div b"] assms show ?thesis by (subst in_base.simps) auto
  qed (auto simp: in_base_digit)
qed

section \<open>Splitting and joining\<close>

text \<open>\<open>s.split(sep)\<close> for a separator of one character, and \<open>sep.join(parts)\<close>.\<close>

fun split_char :: "char \<Rightarrow> string \<Rightarrow> string list" where
  "split_char sep [] = [[]]"
| "split_char sep (c # cs) =
     (if c = sep then [] # split_char sep cs
      else (case split_char sep cs of [] \<Rightarrow> [[c]] | w # ws \<Rightarrow> (c # w) # ws))"

fun join :: "string \<Rightarrow> string list \<Rightarrow> string" where
  "join sep [] = []"
| "join sep [p] = p"
| "join sep (p # q # ps) = p @ sep @ join sep (q # ps)"

lemma split_char_not_Nil [simp]: "split_char sep s \<noteq> []"
  by (cases s) (auto split: list.splits)

text \<open>\<open>repr\<close> of a list of strings without quotes, backslashes and control characters.\<close>

definition list_repr :: "string list \<Rightarrow> string" where
  "list_repr xs = ''['' @ join '', '' (map (\<lambda>x. [CHR 0x27] @ x @ [CHR 0x27]) xs) @ '']''"

lemma join_Cons: "ps \<noteq> [] \<Longrightarrow> join sep (p # ps) = p @ sep @ join sep ps"
  by (cases ps) auto

lemma join_split_char [simp]: "join [sep] (split_char sep s) = s"
proof (induction s)
  case (Cons c s)
  obtain w ws where "split_char sep s = w # ws" by (meson neq_Nil_conv split_char_not_Nil)
  with Cons show ?case by (cases ws) (auto simp: join_Cons)
qed simp

lemma split_char_append_sep:
  "sep \<notin> set p \<Longrightarrow> split_char sep (p @ sep # s) = p # split_char sep s"
  by (induction p) auto

lemma split_char_no_sep: "sep \<notin> set p \<Longrightarrow> split_char sep p = [p]"
  by (induction p) auto

lemma split_join:
  "ps \<noteq> [] \<Longrightarrow> list_all (\<lambda>p. sep \<notin> set p) ps \<Longrightarrow> split_char sep (join [sep] ps) = ps"
  by (induction "[sep]" ps rule: join.induct) (auto simp: split_char_no_sep split_char_append_sep)

lemma set_split_char: "p \<in> set (split_char sep s) \<Longrightarrow> sep \<notin> set p"
  by (induction s arbitrary: p) (auto split: list.splits if_splits)

text \<open>\<open>p in s\<close> for strings.\<close>

fun contains :: "string \<Rightarrow> string \<Rightarrow> bool" where
  "contains p [] \<longleftrightarrow> p = []"
| "contains p (c # cs) \<longleftrightarrow> prefix p (c # cs) \<or> contains p cs"

lemma contains_iff: "contains p s \<longleftrightarrow> (\<exists>a b. s = a @ p @ b)"
proof (induction s)
  case (Cons c s)
  show ?case
  proof
    assume "contains p (c # s)"
    then show "\<exists>a b. c # s = a @ p @ b"
      using Cons.IH by (metis append_Cons append_Nil contains.simps(2) prefix_def)
  next
    assume "\<exists>a b. c # s = a @ p @ b"
    then obtain a b where ab: "c # s = a @ p @ b" by blast
    show "contains p (c # s)"
    proof (cases a)
      case Nil
      with ab have "prefix p (c # s)" by (simp add: prefix_def)
      then show ?thesis by simp
    next
      case (Cons x a')
      with ab have "s = a' @ p @ b" by simp
      then have "contains p s" unfolding Cons.IH by blast
      then show ?thesis by simp
    qed
  qed
qed auto

lemma contains_append: "contains p s \<Longrightarrow> contains p (a @ s @ b)"
proof -
  assume "contains p s"
  then obtain u v where "s = u @ p @ v" by (auto simp: contains_iff)
  then have "a @ s @ b = (a @ u) @ p @ (v @ b)" by simp
  then show ?thesis unfolding contains_iff by blast
qed

text \<open>\<open>s.replace(old, new)\<close> for a nonempty \<open>old\<close>: leftmost occurrences, not overlapping.\<close>

function replace_str :: "string \<Rightarrow> string \<Rightarrow> string \<Rightarrow> string" where
  "replace_str old new s =
     (if s = [] \<or> old = [] then s
      else if prefix old s then new @ replace_str old new (drop (length old) s)
      else hd s # replace_str old new (tl s))"
  by pat_completeness auto
termination by (relation "measure (\<lambda>(_, _, s). length s)") auto

declare replace_str.simps [simp del]

lemma replace_str_char:
  "replace_str [c] new s = concat (map (\<lambda>x. if x = c then new else [x]) s)"
proof (induction s)
  case (Cons a s)
  then show ?case by (subst replace_str.simps) auto
qed (simp add: replace_str.simps)

lemma replace_str_absent: "\<not> contains old s \<Longrightarrow> replace_str old new s = s"
proof (induction s)
  case (Cons c s)
  then show ?case by (subst replace_str.simps) auto
qed (simp add: replace_str.simps)

text \<open>
  \<open>s.splitlines()\<close>: a line ends at a line boundary or at the end of a nonempty rest; a carriage
  return with a line feed is one boundary.
\<close>

definition line_boundary :: "char \<Rightarrow> bool" where
  "line_boundary c \<longleftrightarrow> of_char c \<in> {10, 11, 12, 13, 28, 29, 30, 133 :: nat}"

fun split_lines :: "string \<Rightarrow> string \<Rightarrow> string list" where
  "split_lines acc [] = (if acc = [] then [] else [rev acc])"
| "split_lines acc (c # cs) =
     (if line_boundary c then rev acc # split_lines [] cs else split_lines (c # acc) cs)"

definition splitlines :: "string \<Rightarrow> string list" where
  "splitlines s = split_lines [] (replace_str [CHR 0x0D, CHR 0x0A] [CHR 0x0A] s)"

lemma split_lines_line:
  "list_all (\<lambda>c. \<not> line_boundary c) l \<Longrightarrow>
   split_lines acc (l @ CHR 0x0A # s) = (rev acc @ l) # split_lines [] s"
  by (induction l arbitrary: acc) (auto simp: line_boundary_def)

lemma split_lines_lines:
  "list_all (list_all (\<lambda>c. \<not> line_boundary c)) ls \<Longrightarrow>
   split_lines [] (concat (map (\<lambda>l. l @ [CHR 0x0A]) ls)) = ls"
  by (induction ls) (auto simp: split_lines_line)

lemma line_boundary_CR: "line_boundary CHR 0x0D"
  by (simp add: line_boundary_def)

text \<open>The lines of a file with one name per line are the names.\<close>

lemma splitlines_lines:
  assumes "list_all (list_all (\<lambda>c. \<not> line_boundary c)) ls"
  shows "splitlines (concat (map (\<lambda>l. l @ [CHR 0x0A]) ls)) = ls"
proof -
  have "CHR 0x0D \<notin> set (concat (map (\<lambda>l. l @ [CHR 0x0A]) ls))"
    using assms line_boundary_CR by (auto simp: list_all_iff)
  then have "\<not> contains [CHR 0x0D, CHR 0x0A] (concat (map (\<lambda>l. l @ [CHR 0x0A]) ls))"
    unfolding contains_iff by (metis in_set_conv_decomp append_Cons)
  with assms show ?thesis
    by (simp add: splitlines_def replace_str_absent split_lines_lines)
qed

section \<open>Paths\<close>

text \<open>\<open>os.path.join(a, b)\<close> and \<open>os.path.basename\<close>, \<open>os.path.splitext\<close> on POSIX paths.\<close>

definition path_join :: "string \<Rightarrow> string \<Rightarrow> string" where
  "path_join a b =
     (if prefix ''/'' b then b else if a = [] \<or> last a = CHR ''/'' then a @ b else a @ ''/'' @ b)"

definition basename :: "string \<Rightarrow> string" where
  "basename p = last (split_char CHR ''/'' p)"

definition splitext_root :: "string \<Rightarrow> string" where
  "splitext_root p =
     (let parts = split_char CHR ''.'' (basename p);
          stem = join ''.'' (butlast parts)
      in if length parts < 2 \<or> list_all (\<lambda>c. c = CHR ''.'') stem then p
         else take (length p - length (last parts) - 1) p)"

lemma basename_no_slash: "CHR ''/'' \<notin> set (basename p)"
  unfolding basename_def by (rule set_split_char) (rule last_in_set, simp)

end
