(* ===== verification/Nx_Lram.thy ===== *)
theory Nx_Lram
  imports Cfu_Prelude Text_Format
begin

text \<open>
  The on-chip memory of \<^verbatim>\<open>soc/hps_lattice_nx.py\<close>: banks of 64 KiB memory primitives behind one
  Wishbone bus, in rows across the banks when the second port is used, and the text of the
  initialisation parameters. The primitives are third-party cells; their documented behaviour is
  the locale \<open>lram_primitive\<close>.
\<close>

definition kB :: nat where
  "kB = 1024"

section \<open>Initial contents\<close>

text \<open>
  \<open>initval_parameters\<close>: 128 named parameters of 4096 bits of data each, as hexadecimal text with
  the last word first, every 32 bits preceded by 8 bits of padding.
\<close>

definition initval_word :: "nat \<Rightarrow> nat \<Rightarrow> string" where
  "initval_word width c =
     (if width = 32 then ''00'' @ zero_pad 8 (hex_upper c)
      else ''00'' @ zero_pad 8 (hex_upper (drop_bit 32 c)) @
        ''00'' @ zero_pad 8 (hex_upper (c OR 0xFFFFFF)))"

definition initval_parameters :: "nat list \<Rightarrow> nat \<Rightarrow> (string \<times> string) list result" where
  "initval_parameters contents width =
     bindE (assertE (width \<in> {32, 64}) '''') (\<lambda>_.
     bindE (assertE (length contents = 524288 div width) '''') (\<lambda>_.
       let chunk_size = 4096 div width in
       Inr (map (\<lambda>i.
         (''INITVAL_'' @ zero_pad 2 (hex_upper i),
          ''0x'' @ concat (map (\<lambda>j. initval_word width (contents ! (chunk_size * i + j)))
            (rev [0..<chunk_size]))))
        [0..<0x80])))"

section \<open>Geometry\<close>

fun bit_length :: "nat \<Rightarrow> nat" where
  "bit_length n = (if n = 0 then 0 else Suc (bit_length (n div 2)))"

declare bit_length.simps [simp del]

record nxlram =
  nx_width :: nat
  nx_size :: nat
  depth_cascading :: nat
  width_cascading :: nat
  sel_bits :: nat
  sel_bits_start :: nat
  adr_bits_start :: nat
  dual_port :: bool

definition NXLRAM :: "nat \<Rightarrow> nat \<Rightarrow> bool \<Rightarrow> nxlram result" where
  "NXLRAM width size' dual =
     bindE (assertE (width \<in> {32, 64}) '''') (\<lambda>_.
     bindE (assertE (width = 32 \<longrightarrow> size' \<in> {64*kB, 128*kB, 192*kB, 256*kB, 320*kB}) '''') (\<lambda>_.
     bindE (assertE (width = 64 \<longrightarrow> size' \<in> {128*kB, 256*kB}) '''') (\<lambda>_.
       let depth = (if width = 32 then size' div (64*kB) else size' div (128*kB));
           wc = (if width = 32 then 1 else 2);
           sel = bit_length (depth - 1)
       in bindE (assertE (dual \<longrightarrow> 2 ^ sel = depth)
            (''Memory size '' @ dec size' @ '' results in depth of '' @ dec depth @
             '', but depth must be a power of 2.'')) (\<lambda>_.
          Inr \<lparr>nx_width = width, nx_size = size', depth_cascading = depth, width_cascading = wc,
            sel_bits = sel, sel_bits_start = (if dual then 0 else 14),
            adr_bits_start = (if dual then sel else 0), dual_port = dual\<rparr>))))"

section \<open>The memory primitive\<close>

text \<open>The pins that the module drives: port A, and of port B the read side.\<close>

type_synonym u14 = "14 word"

record lram_pins =
  pin_di :: u32
  pin_ad :: u14
  pin_ce :: bool
  pin_we :: bool
  pin_cs :: bool
  pin_be_n :: "4 word"
  pin_adb :: u14
  pin_ceb :: bool

text \<open>Byte \<open>k\<close> of the new word where its enable (active low) is clear, of the old one elsewhere.\<close>

definition byte_mask :: "4 word \<Rightarrow> u32" where
  "byte_mask be_n = fold (\<lambda>k m. if bit be_n k then m else m OR push_bit (8 * k) 0xFF) [0..<4] 0"

definition merge_bytes :: "4 word \<Rightarrow> u32 \<Rightarrow> u32 \<Rightarrow> u32" where
  "merge_bytes be_n new old = (new AND byte_mask be_n) OR (old AND NOT (byte_mask be_n))"

text \<open>
  A cell keeps its contents but for a selected and enabled write, and registers the word read:
  on port A when it is selected and does not write, on port B when port A does not write there.
  While the clock enable of port A is low, its output register keeps its value.
\<close>

locale lram_primitive =
  fixes lram_step :: "'m \<Rightarrow> lram_pins \<Rightarrow> 'm"
    and doa :: "'m \<Rightarrow> u32"
    and dob :: "'m \<Rightarrow> u32"
    and cell_word :: "'m \<Rightarrow> u14 \<Rightarrow> u32"
  assumes cell_write: "cell_word (lram_step m p) a =
      (if pin_ce p \<and> pin_cs p \<and> pin_we p \<and> a = pin_ad p
       then merge_bytes (pin_be_n p) (pin_di p) (cell_word m a) else cell_word m a)"
    and cell_read: "pin_ce p \<Longrightarrow> pin_cs p \<Longrightarrow> \<not> pin_we p \<Longrightarrow>
      doa (lram_step m p) = cell_word m (pin_ad p)"
    and cell_read_b: "pin_ceb p \<Longrightarrow>
      \<not> (pin_ce p \<and> pin_cs p \<and> pin_we p \<and> pin_adb p = pin_ad p) \<Longrightarrow>
      dob (lram_step m p) = cell_word m (pin_adb p)"
    and cell_hold: "\<not> pin_ce p \<Longrightarrow> doa (lram_step m p) = doa m"

section \<open>The module\<close>

text \<open>
  The bus has data signals of 32 or 64 bits; a 32-bit bus uses the low lane of the fields here.
  The lists \<open>a_clkens\<close>, \<open>b_clkens\<close> and \<open>b_addrs\<close> are read by index, as the code builds them.
\<close>

record nx_in =
  bus_adr :: "30 word"
  bus_dat_w :: "64 word"
  bus_sel :: "8 word"
  bus_cyc :: bool
  bus_stb :: bool
  bus_we :: bool
  a_clkens :: "nat \<Rightarrow> bool"
  b_clkens :: "nat \<Rightarrow> bool"
  b_addrs :: "nat \<Rightarrow> u14"

record 'm nx_state =
  lram_blocks :: "'m list list"
  bus_ack :: bool

definition bank_of :: "nxlram \<Rightarrow> 30 word \<Rightarrow> nat" where
  "bank_of cfg adr = unat adr div 2 ^ sel_bits_start cfg mod 2 ^ sel_bits cfg"

definition nx_cs :: "nxlram \<Rightarrow> 30 word \<Rightarrow> nat \<Rightarrow> bool" where
  "nx_cs cfg adr d \<longleftrightarrow> (if 0 < sel_bits cfg then bank_of cfg adr = d else True)"

definition row_of :: "nxlram \<Rightarrow> 30 word \<Rightarrow> u14" where
  "row_of cfg adr = ucast (drop_bit (adr_bits_start cfg) adr)"

definition block_pins :: "nxlram \<Rightarrow> nx_in \<Rightarrow> nat \<Rightarrow> nat \<Rightarrow> lram_pins" where
  "block_pins cfg i d w =
     (let k = d * width_cascading cfg + w in
      \<lparr>pin_di = ucast (drop_bit (32 * w) (bus_dat_w i)),
       pin_ad = row_of cfg (bus_adr i),
       pin_ce = a_clkens i k,
       pin_we = (nx_cs cfg (bus_adr i) d \<and> bus_we i \<and> bus_stb i \<and> bus_cyc i),
       pin_cs = nx_cs cfg (bus_adr i) d,
       pin_be_n = NOT (ucast (drop_bit (4 * w) (bus_sel i))),
       pin_adb = (if dual_port cfg then b_addrs i k else 0),
       pin_ceb = (dual_port cfg \<and> b_clkens i k)\<rparr>)"

definition nx_next ::
    "('m \<Rightarrow> lram_pins \<Rightarrow> 'm) \<Rightarrow> nxlram \<Rightarrow> 'm nx_state \<Rightarrow> nx_in \<Rightarrow> 'm nx_state" where
  "nx_next lram_step cfg s i =
     \<lparr>lram_blocks = map (\<lambda>d. map (\<lambda>w. lram_step (lram_blocks s ! d ! w) (block_pins cfg i d w))
          [0..<width_cascading cfg]) [0..<depth_cascading cfg],
      bus_ack = (bus_stb i \<and> bus_cyc i \<and> \<not> bus_ack s)\<rparr>"

text \<open>Lane \<open>w\<close> of the read data: the output of the bank that the address of this cycle selects.\<close>

definition nx_lane :: "('m \<Rightarrow> u32) \<Rightarrow> nxlram \<Rightarrow> 'm nx_state \<Rightarrow> nx_in \<Rightarrow> nat \<Rightarrow> u32" where
  "nx_lane doa cfg s i w =
     fold (\<lambda>d v. if nx_cs cfg (bus_adr i) d then doa (lram_blocks s ! d ! w) else v)
       [0..<depth_cascading cfg] 0"

definition nx_dat_r :: "('m \<Rightarrow> u32) \<Rightarrow> nxlram \<Rightarrow> 'm nx_state \<Rightarrow> nx_in \<Rightarrow> 64 word" where
  "nx_dat_r doa cfg s i =
     fold (\<lambda>w r. r OR push_bit (32 * w) (ucast (nx_lane doa cfg s i w)))
       [0..<width_cascading cfg] 0"

definition nx_b_dout :: "('m \<Rightarrow> u32) \<Rightarrow> nxlram \<Rightarrow> 'm nx_state \<Rightarrow> nat \<Rightarrow> u32" where
  "nx_b_dout dob cfg s k =
     dob (lram_blocks s ! (k div width_cascading cfg) ! (k mod width_cascading cfg))"

definition nx_init :: "nxlram \<Rightarrow> 'm \<Rightarrow> 'm nx_state" where
  "nx_init cfg m0 = \<lparr>lram_blocks =
     map (\<lambda>d. map (\<lambda>w. m0) [0..<width_cascading cfg]) [0..<depth_cascading cfg], bus_ack = False\<rparr>"

text \<open>
  \<open>add_init\<close>: the caller's list is padded in place, then each block is given the parameters of a
  slice of it. Result: the padded list and the parameters of each block.
\<close>

definition add_init ::
    "nxlram \<Rightarrow> nat list \<Rightarrow> (nat list \<times> (string \<times> string) list list list) result" where
  "add_init cfg data =
     (let data' = data @ replicate (nx_size cfg div nx_width cfg * 8 - length data) 0 in
      bindE (mapE (\<lambda>d. mapE (\<lambda>w.
          let offset = d * width_cascading cfg * 64 * kB + w * 64 * kB in
          initval_parameters (take (64 * kB) (drop offset data')) (nx_width cfg))
          [0..<width_cascading cfg]) [0..<depth_cascading cfg])
        (\<lambda>items. Inr (data', items)))"

text \<open>The constructor with its last parameter: initial contents are written when there are any.\<close>

definition NXLRAM_with_init ::
    "nat \<Rightarrow> nat \<Rightarrow> bool \<Rightarrow> nat list \<Rightarrow> (nxlram \<times> (string \<times> string) list list list option) result" where
  "NXLRAM_with_init width size' dual init =
     bindE (NXLRAM width size' dual) (\<lambda>cfg.
       if init \<noteq> [] then bindE (add_init cfg init) (\<lambda>(_, items). Inr (cfg, Some items))
       else Inr (cfg, None))"

section \<open>Lemmas: geometry and decoding\<close>

lemma bit_length_values:
  "bit_length 0 = 0" "bit_length (Suc 0) = 1" "bit_length 2 = 2" "bit_length 3 = 2" "bit_length 4 = 3"
  by (simp_all add: bit_length.simps)

text \<open>What an accepted configuration is.\<close>

definition nx_valid :: "nxlram \<Rightarrow> bool" where
  "nx_valid cfg \<longleftrightarrow>
     nx_width cfg = 32 * width_cascading cfg \<and> width_cascading cfg \<in> {1, 2} \<and>
     nx_size cfg = depth_cascading cfg * width_cascading cfg * 65536 \<and>
     0 < depth_cascading cfg \<and> depth_cascading cfg \<le> 2 ^ sel_bits cfg \<and> sel_bits cfg \<le> 3 \<and>
     (sel_bits cfg = 0 \<longrightarrow> depth_cascading cfg = 1) \<and>
     (if dual_port cfg
      then sel_bits_start cfg = 0 \<and> adr_bits_start cfg = sel_bits cfg \<and> depth_cascading cfg = 2 ^ sel_bits cfg
      else sel_bits_start cfg = 14 \<and> adr_bits_start cfg = 0)"

lemma nx_config:
  assumes "NXLRAM width sz dual = Inr cfg"
  shows "nx_valid cfg \<and> nx_width cfg = width \<and> nx_size cfg = sz \<and> dual_port cfg = dual"
proof -
  from assms have "width = 32 \<and> sz \<in> {65536, 131072, 196608, 262144, 327680} \<or>
      width = 64 \<and> sz \<in> {131072, 262144}"
    unfolding NXLRAM_def bindE_Inr_iff assertE_Inr_iff by (simp add: kB_def) blast
  then show ?thesis
    using assms
    by (elim disjE conjE insertE emptyE; cases dual)
      (simp_all add: NXLRAM_def kB_def bit_length_values nx_valid_def assertE_def bindE_def
        split: if_splits, auto)
qed

text \<open>The word addresses of the memory, and the cell of each.\<close>

definition nx_words :: "nxlram \<Rightarrow> nat" where
  "nx_words cfg = depth_cascading cfg * 16384"

definition nx_cell :: "nxlram \<Rightarrow> 30 word \<Rightarrow> nat \<times> u14" where
  "nx_cell cfg adr = (bank_of cfg adr, row_of cfg adr)"

definition nx_adr :: "nxlram \<Rightarrow> nat \<times> u14 \<Rightarrow> 30 word" where
  "nx_adr cfg c = (if dual_port cfg then of_nat (unat (snd c) * depth_cascading cfg + fst c)
     else of_nat (fst c * 16384 + unat (snd c)))"

lemma unat_row_of: "unat (row_of cfg adr) = unat adr div 2 ^ adr_bits_start cfg mod 16384"
  unfolding row_of_def unsigned_ucast_eq unat_drop_bit_eq
  by (simp add: take_bit_eq_mod drop_bit_eq_div)

lemma unat_of_nat_30: "n < 1073741824 \<Longrightarrow> unat (of_nat n :: 30 word) = n"
  by (simp add: unsigned_of_nat take_bit_nat_eq_self)

lemma depth_bound: "nx_valid cfg \<Longrightarrow> depth_cascading cfg \<le> 8"
proof -
  assume "nx_valid cfg"
  then have "depth_cascading cfg \<le> 2 ^ sel_bits cfg" "sel_bits cfg \<le> 3" by (auto simp: nx_valid_def)
  moreover from this(2) have "(2 :: nat) ^ sel_bits cfg \<le> 2 ^ 3" by (intro power_increasing) auto
  ultimately show ?thesis by simp
qed

lemma unat_nx_adr:
  assumes "nx_valid cfg" "fst c < depth_cascading cfg"
  shows "unat (nx_adr cfg c) = (if dual_port cfg then unat (snd c) * depth_cascading cfg + fst c
     else fst c * 16384 + unat (snd c))"
    and "unat (nx_adr cfg c) < nx_words cfg"
proof -
  let ?D = "depth_cascading cfg" and ?r = "unat (snd c)"
  have r: "?r < 16384" using unsigned_less [of "snd c"] by simp
  have "?r * ?D + fst c < (?r + 1) * ?D" using assms(2) by simp
  also have "\<dots> \<le> 16384 * ?D" using r by (intro mult_right_mono) auto
  finally have 1: "?r * ?D + fst c < nx_words cfg" by (simp add: nx_words_def)
  have "fst c * 16384 + ?r < (fst c + 1) * 16384" using r by simp
  also have "\<dots> \<le> ?D * 16384" using assms(2) by (intro mult_right_mono) auto
  finally have 2: "fst c * 16384 + ?r < nx_words cfg" by (simp add: nx_words_def)
  have "nx_words cfg \<le> 8 * 16384" using depth_bound [OF assms(1)] by (simp add: nx_words_def)
  with 1 2 show "unat (nx_adr cfg c) = (if dual_port cfg then ?r * ?D + fst c else fst c * 16384 + ?r)"
    by (simp add: nx_adr_def unat_of_nat_30 del: of_nat_add of_nat_mult)
  with 1 2 show "unat (nx_adr cfg c) < nx_words cfg" by simp
qed

lemma nx_cell_adr:
  assumes "nx_valid cfg" "fst c < depth_cascading cfg"
  shows "nx_cell cfg (nx_adr cfg c) = c"
proof -
  have r: "unat (snd c) < 16384" using unsigned_less [of "snd c"] by simp
  from assms have "fst c < 2 ^ sel_bits cfg" by (auto simp: nx_valid_def split: if_splits)
  with assms r have "unat (row_of cfg (nx_adr cfg c)) = unat (snd c)" "bank_of cfg (nx_adr cfg c) = fst c"
    by (auto simp: unat_row_of bank_of_def unat_nx_adr nx_valid_def split: if_splits)
  then show ?thesis by (simp add: nx_cell_def word_unat_eq_iff prod_eq_iff)
qed

lemma nx_adr_cell:
  assumes "nx_valid cfg" "unat adr < nx_words cfg"
  shows "nx_adr cfg (nx_cell cfg adr) = adr" and "bank_of cfg adr < depth_cascading cfg"
proof -
  let ?a = "unat adr" and ?D = "depth_cascading cfg"
  have bank: "bank_of cfg adr = (if dual_port cfg then ?a mod ?D else ?a div 16384)"
    and row: "unat (row_of cfg adr) = (if dual_port cfg then ?a div ?D else ?a mod 16384)"
  proof -
    have "?a div 16384 < ?D" using assms(2) by (simp add: nx_words_def less_mult_imp_div_less)
    then have "?a div 16384 < 2 ^ sel_bits cfg" using assms(1) by (simp add: nx_valid_def)
    then show "bank_of cfg adr = (if dual_port cfg then ?a mod ?D else ?a div 16384)"
      using assms(1) by (auto simp: nx_valid_def bank_of_def split: if_splits)
    have "?a div ?D < 16384" using assms(2)
      by (simp add: nx_words_def less_mult_imp_div_less mult.commute)
    then show "unat (row_of cfg adr) = (if dual_port cfg then ?a div ?D else ?a mod 16384)"
      using assms(1) by (auto simp: nx_valid_def unat_row_of split: if_splits)
  qed
  show lt: "bank_of cfg adr < ?D"
    using assms by (auto simp: bank nx_words_def nx_valid_def less_mult_imp_div_less)
  from unat_nx_adr(1) [OF assms(1), of "nx_cell cfg adr"] lt
  have "unat (nx_adr cfg (nx_cell cfg adr)) = ?a"
    by (simp add: nx_cell_def bank row mult.commute)
  then show "nx_adr cfg (nx_cell cfg adr) = adr" by (simp add: word_unat_eq_iff)
qed

end
