(* ===== verification/Text_Scan.thy ===== *)
theory Text_Scan
  imports Text_Format
begin

text \<open>
  The regular expressions of the scripts. They are built from repetitions of disjoint character
  classes, so that matching them is to take the longest run of each class in turn.
\<close>

section \<open>Character classes\<close>

definition is_space :: "char \<Rightarrow> bool" where
  "is_space c \<longleftrightarrow> (of_char c :: nat) \<in> {9, 10, 11, 12, 13, 28, 29, 30, 31, 32}"

definition is_digit :: "char \<Rightarrow> bool" where
  "is_digit c \<longleftrightarrow> 48 \<le> (of_char c :: nat) \<and> (of_char c :: nat) \<le> 57"

definition is_word :: "char \<Rightarrow> bool" where
  "is_word c \<longleftrightarrow> is_digit c \<or> (65 \<le> (of_char c :: nat) \<and> (of_char c :: nat) \<le> 90) \<or>
     (97 \<le> (of_char c :: nat) \<and> (of_char c :: nat) \<le> 122) \<or> c = CHR ''_''"

definition is_hex :: "char \<Rightarrow> bool" where
  "is_hex c \<longleftrightarrow> is_digit c \<or> (65 \<le> (of_char c :: nat) \<and> (of_char c :: nat) \<le> 70) \<or>
     (97 \<le> (of_char c :: nat) \<and> (of_char c :: nat) \<le> 102)"

lemma space_not_word: "is_space c \<Longrightarrow> \<not> is_word c"
  by (auto simp: is_space_def is_word_def is_digit_def)

lemma hex_is_word: "is_hex c \<Longrightarrow> is_word c"
  by (auto simp: is_hex_def is_word_def)

lemma digit_chars_classes:
  "list_all (\<lambda>d. is_digit (digit_char d)) [0..<10]"
  "list_all (\<lambda>d. is_hex (digit_char d) \<and> is_hex (lower_digit_char d)) [0..<16]"
  by code_simp+

lemma dec_digits: "list_all is_digit (dec n)"
  using set_in_base [of 10 digit_char n] digit_chars_classes(1) by (auto simp: list_all_iff)

lemma hex_digits: "list_all is_hex (hex_lower n)" "list_all is_hex (hex_upper n)"
  using set_in_base [of 16 lower_digit_char n] set_in_base [of 16 digit_char n] digit_chars_classes(2)
  by (auto simp: list_all_iff)

section \<open>One or more characters of a class\<close>

definition many1 :: "(char \<Rightarrow> bool) \<Rightarrow> string \<Rightarrow> (string \<times> string) option" where
  "many1 P s =
     (case takeWhile P s of [] \<Rightarrow> None | a \<Rightarrow> Some (a, dropWhile P s))"

lemma many1_append:
  "a \<noteq> [] \<Longrightarrow> list_all P a \<Longrightarrow> s = [] \<or> \<not> P (hd s) \<Longrightarrow> many1 P (a @ s) = Some (a, s)"
proof -
  assume a: "a \<noteq> []" "list_all P a" and s: "s = [] \<or> \<not> P (hd s)"
  have "takeWhile P (a @ s) = a" "dropWhile P (a @ s) = s"
    using a s by (cases s; auto simp: list_all_iff takeWhile_append2 dropWhile_append2)+
  with a show ?thesis by (cases a) (auto simp: many1_def)
qed

lemma many1_Some: "many1 P s = Some (a, r) \<Longrightarrow>
    s = a @ r \<and> a \<noteq> [] \<and> list_all P a \<and> (r = [] \<or> \<not> P (hd r))"
proof -
  assume "many1 P s = Some (a, r)"
  then have a: "a = takeWhile P s" "r = dropWhile P s" "a \<noteq> []"
    by (auto simp: many1_def split: list.splits)
  then show ?thesis
    using hd_dropWhile [of P s] by (auto simp: list_all_iff dest: set_takeWhileD)
qed

text \<open>A character that must come next.\<close>

definition lit :: "char \<Rightarrow> string \<Rightarrow> string option" where
  "lit c s = (case s of x # r \<Rightarrow> if x = c then Some r else None | [] \<Rightarrow> None)"

lemma lit_simps [simp]: "lit c (c # r) = Some r" "lit c [] = None" "x \<noteq> c \<Longrightarrow> lit c (x # r) = None"
  by (simp_all add: lit_def)

end
