(* ===== verification/Py_Numbers.thy ===== *)
theory Py_Numbers
  imports Text_Scan
begin

text \<open>
  Python's numbers as the command lines use them: \<open>float(s)\<close> of a string as the double that is
  nearest to the decimal literal, \<open>int(x)\<close> of a float, and \<open>int(s)\<close> of a string. A finite double is
  \<open>m * 2 ^ e\<close> for integers \<open>m\<close> and \<open>e\<close>. Digit separators are not read.
\<close>

section \<open>Doubles\<close>

datatype py_float = Finite int int | Infinite bool | NotANumber

fun bit_size :: "nat \<Rightarrow> nat" where
  "bit_size n = (if n = 0 then 0 else Suc (bit_size (n div 2)))"

declare bit_size.simps [simp del]

definition round_half_even :: "nat \<Rightarrow> nat \<Rightarrow> nat" where
  "round_half_even a b =
     (let q = a div b; r = a mod b in
      if b < 2 * r \<or> (2 * r = b \<and> odd q) then q + 1 else q)"

text \<open>
  The exponent of the double nearest to \<open>a / b\<close>: such that the significand has 53 bits, but not
  below that of the subnormal numbers.
\<close>

definition double_exp :: "nat \<Rightarrow> nat \<Rightarrow> int" where
  "double_exp a b =
     (let l = int (bit_size a) - int (bit_size b);
          big = (if 0 \<le> l then b * 2 ^ nat l \<le> a else b \<le> a * 2 ^ nat (- l))
      in max (if big then l - 52 else l - 53) (- 1074))"

definition double_of :: "bool \<Rightarrow> nat \<Rightarrow> nat \<Rightarrow> py_float" where
  "double_of neg a b =
     (let e = double_exp a b;
          m = (if 0 \<le> e then round_half_even a (b * 2 ^ nat e) else round_half_even (a * 2 ^ nat (- e)) b)
      in if 0 \<le> e \<and> 2 ^ 1024 \<le> m * 2 ^ nat e then Infinite neg
         else Finite (if neg then - int m else int m) e)"

text \<open>\<open>int(x)\<close> of a finite float cuts off its fraction.\<close>

definition trunc_double :: "int \<Rightarrow> int \<Rightarrow> int" where
  "trunc_double m e =
     (if 0 \<le> e then m * 2 ^ nat e else sgn m * (\<bar>m\<bar> div 2 ^ nat (- e)))"

section \<open>Literals\<close>

definition lower_case :: "char \<Rightarrow> char" where
  "lower_case c = (let n = of_char c :: nat in if 65 \<le> n \<and> n \<le> 90 then char_of (n + 32) else c)"

definition py_strip :: "string \<Rightarrow> string" where
  "py_strip s = rev (dropWhile is_space (rev (dropWhile is_space s)))"

text \<open>A sign, the digits before the point, those after it, and the exponent.\<close>

definition split_sign :: "string \<Rightarrow> bool \<times> string" where
  "split_sign s = (case s of
     [] \<Rightarrow> (False, [])
   | c # cs \<Rightarrow> if c = CHR ''-'' then (True, cs) else if c = CHR ''+'' then (False, cs) else (False, s))"

definition read_exponent :: "string \<Rightarrow> int option" where
  "read_exponent s =
     (case s of
        [] \<Rightarrow> Some 0
      | c # cs \<Rightarrow>
          if lower_case c = CHR ''e''
          then (case split_sign cs of (neg, ds) \<Rightarrow>
            map_option (\<lambda>n. if neg then - int n else int n) (read_base 10 ds))
          else None)"

definition read_decimal :: "bool \<Rightarrow> string \<Rightarrow> py_float option" where
  "read_decimal neg s =
     (let whole = takeWhile is_digit s; rest = dropWhile is_digit s;
          point = (rest \<noteq> [] \<and> hd rest = CHR ''.'');
          frac = (if point then takeWhile is_digit (tl rest) else []);
          tail = (if point then dropWhile is_digit (tl rest) else rest)
      in case (read_base 10 (whole @ frac), read_exponent tail) of
           (Some n, Some x) \<Rightarrow>
             (let e = x - int (length frac) in
              Some (if 0 \<le> e then double_of neg (n * 10 ^ nat e) 1
                else double_of neg n (10 ^ nat (- e))))
         | _ \<Rightarrow> None)"

definition read_float :: "string \<Rightarrow> py_float option" where
  "read_float s =
     (case split_sign (py_strip s) of (neg, body) \<Rightarrow>
        let name = map lower_case body in
        if name = ''inf'' \<or> name = ''infinity'' then Some (Infinite neg)
        else if name = ''nan'' then Some NotANumber
        else read_decimal neg body)"

definition read_int :: "string \<Rightarrow> int option" where
  "read_int s =
     (case split_sign (py_strip s) of (neg, body) \<Rightarrow>
        map_option (\<lambda>n. if neg then - int n else int n) (read_base 10 body))"

section \<open>Printing a float\<close>

text \<open>
  \<open>repr\<close> of a float: the shortest decimal that reads back as the same double, and of those the one
  that is nearest to it. The absolute value is a fraction \<open>a / b\<close>, and \<open>decimal_exp\<close> the power of
  ten of its first digit. Negative zero does not exist in \<^typ>\<open>py_float\<close>.
\<close>

definition double_num :: "int \<Rightarrow> int \<Rightarrow> nat" where
  "double_num m e = nat \<bar>m\<bar> * 2 ^ nat e"

definition double_den :: "int \<Rightarrow> nat" where
  "double_den e = 2 ^ nat (- e)"

fun same_double :: "py_float \<Rightarrow> py_float \<Rightarrow> bool" where
  "same_double (Finite m e) (Finite m' e') \<longleftrightarrow> sgn m = sgn m' \<and>
     double_num m e * double_den e' = double_num m' e' * double_den e"
| "same_double (Infinite b) (Infinite b') \<longleftrightarrow> b = b'"
| "same_double _ _ \<longleftrightarrow> False"

definition decimal_exp :: "nat \<Rightarrow> nat \<Rightarrow> int" where
  "decimal_exp a b =
     (if b \<le> a then int (length (dec (a div b))) - 1
      else - int (length (dec ((b + a - 1) div a - 1))))"

definition scaled :: "nat \<Rightarrow> nat \<Rightarrow> int \<Rightarrow> nat \<times> nat" where
  "scaled a b s = (if 0 \<le> s then (a * 10 ^ nat s, b) else (a, b * 10 ^ nat (- s)))"

text \<open>The double that a decimal \<open>d / 10 ^ s\<close> reads as.\<close>

definition double_of_decimal :: "nat \<Rightarrow> int \<Rightarrow> py_float" where
  "double_of_decimal d s = (if 0 \<le> s then double_of False d (10 ^ nat s) else double_of False (d * 10 ^ nat (- s)) 1)"

definition nearest_first :: "nat \<Rightarrow> nat \<Rightarrow> nat list" where
  "nearest_first a b = (let q = a div b in if 2 * (a mod b) \<le> b then [q, q + 1] else [q + 1, q])"

definition shortest_decimal :: "int \<Rightarrow> int \<Rightarrow> nat \<times> int" where
  "shortest_decimal m e =
     (let a = double_num m e; b = double_den e; k = decimal_exp a b;
          candidates = concat (map (\<lambda>n. let s = int n - 1 - k in
            map (\<lambda>d. (d, s)) (case scaled a b s of (x, y) \<Rightarrow> nearest_first x y)) [1..<18])
      in case find (\<lambda>(d, s). same_double (double_of_decimal d s) (Finite \<bar>m\<bar> e)) candidates of
           Some c \<Rightarrow> c | None \<Rightarrow> last candidates)"

definition decimal_text :: "string \<Rightarrow> int \<Rightarrow> string" where
  "decimal_text ds point =
     (if - 4 < point \<and> point \<le> 16 then
        (if point \<le> 0 then ''0.'' @ replicate (nat (- point)) CHR ''0'' @ ds
         else if length ds \<le> nat point then ds @ replicate (nat point - length ds) CHR ''0'' @ ''.0''
         else take (nat point) ds @ ''.'' @ drop (nat point) ds)
      else take 1 ds @ (if length ds = 1 then '''' else ''.'' @ drop 1 ds) @ ''e'' @
        (if 1 \<le> point then ''+'' else ''-'') @ zero_pad 2 (dec (nat \<bar>point - 1\<bar>)))"

definition drop_zeros :: "string \<Rightarrow> string" where
  "drop_zeros ds = rev (dropWhile (\<lambda>c. c = CHR ''0'') (rev ds))"

fun float_repr :: "py_float \<Rightarrow> string" where
  "float_repr (Finite m e) =
     (if m = 0 then ''0.0''
      else (case shortest_decimal m e of (d, s) \<Rightarrow>
        (if m < 0 then ''-'' else '''') @ decimal_text (drop_zeros (dec d)) (int (length (dec d)) - s)))"
| "float_repr (Infinite neg) = (if neg then ''-inf'' else ''inf'')"
| "float_repr NotANumber = ''nan''"

text \<open>
  The format \<open>%.1f\<close>, for a double that is not negative, and the division of a whole number by a
  thousand; the whole number is rounded to a double first.
\<close>

definition format_tenths :: "int \<Rightarrow> int \<Rightarrow> string" where
  "format_tenths m e =
     (let n = round_half_even (double_num m e * 10) (double_den e) in dec (n div 10) @ ''.'' @ dec (n mod 10))"

fun thousandth :: "py_float \<Rightarrow> py_float" where
  "thousandth (Finite m e) = double_of (m < 0) (double_num m e) (double_den e * 1000)"
| "thousandth x = x"

section \<open>Whole numbers below \<open>2 ^ 53\<close> are exact\<close>

lemma bit_size_bounds: "0 < n \<Longrightarrow> 2 ^ (bit_size n - 1) \<le> n \<and> n < 2 ^ bit_size n \<and> 0 < bit_size n"
proof (induction n rule: less_induct)
  case (less n)
  show ?case
  proof (cases "n = 1")
    case True
    have "bit_size 1 = Suc 0" by (simp add: bit_size.simps)
    with True show ?thesis by simp
  next
    case False
    with less.prems have pos: "0 < n div 2" by (simp add: div_greater_zero_iff)
    with less.IH [of "n div 2"] less.prems have IH: "2 ^ (bit_size (n div 2) - 1) \<le> n div 2"
      "n div 2 < 2 ^ bit_size (n div 2)" "0 < bit_size (n div 2)"
      by auto
    have step: "bit_size n = Suc (bit_size (n div 2))" using less.prems by (subst bit_size.simps) simp
    have "2 ^ bit_size (n div 2) = 2 * (2 :: nat) ^ (bit_size (n div 2) - 1)"
      using IH(3) by (metis Suc_pred' power_Suc)
    moreover have "n = 2 * (n div 2) + n mod 2" "n mod 2 < 2" by simp_all
    ultimately have "2 ^ bit_size (n div 2) \<le> n" "n < 2 * 2 ^ bit_size (n div 2)" using IH by linarith+
    then show ?thesis unfolding step by simp
  qed
qed

lemma double_of_whole:
  assumes "n < 2 ^ 53"
  shows "\<exists>m e. double_of neg n 1 = Finite m e \<and> trunc_double m e = (if neg then - int n else int n)"
proof (cases "n = 0")
  case True
  then have "double_exp n 1 \<le> 0" by (simp add: double_exp_def bit_size.simps)
  with True show ?thesis
    by (auto simp: double_of_def round_half_even_def trunc_double_def Let_def)
next
  case False
  then have b: "2 ^ (bit_size n - 1) \<le> n" "n < 2 ^ bit_size n" "0 < bit_size n"
    using bit_size_bounds [of n] by auto
  have "bit_size n \<le> 53"
  proof (rule ccontr)
    assume "\<not> bit_size n \<le> 53"
    then have "(2 :: nat) ^ 53 \<le> 2 ^ (bit_size n - 1)" by (intro power_increasing) auto
    with b(1) assms show False by linarith
  qed
  moreover have one: "bit_size 1 = 1" by (simp add: bit_size.simps)
  moreover have "2 ^ nat (int (bit_size n) - 1) \<le> n" using b by (simp add: nat_diff_distrib)
  ultimately have e: "double_exp n 1 = int (bit_size n) - 53"
    using b(3) by (simp add: double_exp_def Let_def)
  let ?k = "53 - bit_size n"
  have k: "nat (- double_exp n 1) = ?k" "double_exp n 1 \<le> 0" using e \<open>bit_size n \<le> 53\<close> by auto
  show ?thesis
  proof (cases "double_exp n 1 = 0")
    case True
    with assms show ?thesis
      by (auto simp: double_of_def round_half_even_def trunc_double_def Let_def)
  next
    case False
    with k have "double_of neg n 1 = Finite (if neg then - int (n * 2 ^ ?k) else int (n * 2 ^ ?k)) (double_exp n 1)"
      by (auto simp: double_of_def round_half_even_def Let_def)
    moreover have "trunc_double (if neg then - int (n * 2 ^ ?k) else int (n * 2 ^ ?k)) (double_exp n 1) =
        (if neg then - int n else int n)"
      using k False \<open>n \<noteq> 0\<close> by (auto simp: trunc_double_def sgn_mult abs_mult)
    ultimately show ?thesis by blast
  qed
qed

text \<open>Rounding is off by at most one half.\<close>

lemma round_half_even_bound:
  assumes "0 < b"
  shows "\<bar>2 * int (round_half_even a b * b) - 2 * int a\<bar> \<le> int b"
proof -
  define q r where "q = int (a div b)" and "r = int (a mod b)"
  have "a = b * (a div b) + a mod b" by simp
  then have "int a = int (b * (a div b)) + r" unfolding r_def of_nat_add [symmetric] by (rule arg_cong)
  then have a: "int a = q * int b + r" by (simp add: q_def mult.commute)
  moreover have "0 \<le> r" "r < int b" using assms by (simp_all add: r_def)
  moreover have "int (round_half_even a b * b) = (if int b < 2 * r \<or> (2 * r = int b \<and> odd (a div b))
      then q * int b + int b else q * int b)"
    by (auto simp: round_half_even_def Let_def q_def r_def algebra_simps)
  ultimately show ?thesis by (auto simp: abs_le_iff)
qed

section \<open>Printed numbers are read back\<close>

lemma digit_plain:
  assumes "is_digit c"
  shows "\<not> is_space c" "c \<noteq> CHR ''-''" "c \<noteq> CHR ''+''" "lower_case c = c" "c \<noteq> CHR ''i''" "c \<noteq> CHR ''n''"
  using assms by (auto simp: is_digit_def is_space_def lower_case_def Let_def)

lemma digits_strip: "list_all is_digit s \<Longrightarrow> py_strip s = s"
proof -
  assume d: "list_all is_digit s"
  have "dropWhile is_space t = t" if "list_all is_digit t" for t
    using that digit_plain(1) by (cases t) auto
  with d show ?thesis by (simp add: py_strip_def)
qed

lemma digits_sign: "list_all is_digit s \<Longrightarrow> split_sign s = (False, s)"
  using digit_plain(2,3) by (cases s) (auto simp: split_sign_def)

lemma digits_lower: "list_all is_digit s \<Longrightarrow> map lower_case s = s"
  using digit_plain(4) by (induction s) auto

lemma digits_runs: "list_all is_digit s \<Longrightarrow> takeWhile is_digit s = s" "list_all is_digit s \<Longrightarrow> dropWhile is_digit s = []"
  by (auto simp: list_all_iff takeWhile_eq_all_conv dropWhile_eq_Nil_conv)

lemma read_int_dec [simp]: "read_int (dec n) = Some (int n)"
  using dec_digits [of n] by (simp add: read_int_def digits_strip digits_sign)

lemma read_float_dec: "read_float (dec n) = Some (double_of False n 1)"
proof -
  note d = dec_digits [of n]
  have "dec n \<noteq> ''inf'' \<and> dec n \<noteq> ''infinity'' \<and> dec n \<noteq> ''nan''"
  proof -
    have "\<not> list_all is_digit ''inf''" "\<not> list_all is_digit ''infinity''" "\<not> list_all is_digit ''nan''"
      by (simp_all add: is_digit_def)
    with d show ?thesis by metis
  qed
  moreover have "read_decimal False (dec n) = Some (double_of False n 1)"
    by (simp add: read_decimal_def digits_runs [OF d] read_exponent_def Let_def)
  ultimately show ?thesis
    using d by (simp add: read_float_def digits_strip digits_sign digits_lower Let_def)
qed

end
