(* ===== verification/Soc_Ops.thy ===== *)
theory Soc_Ops
  imports Cfu_Prelude Py_Numbers "HOL-Library.AList"
begin

text \<open>
  The vocabulary of the SoC generators. Their effects are calls on objects of the SoC framework,
  which is third-party: a generator is modelled by the list of those calls, attribute settings and
  signal connections in their order, or by the exception it raises. Python dictionaries are
  association lists that keep the order of insertion.
\<close>

section \<open>Values, regions and operations\<close>

record soc_region =
  origin :: nat
  region_size :: nat
  region_mode :: string
  cached :: bool
  linker :: bool

datatype py_val =
    PNone
  | PBool bool
  | PInt int
  | PFloat py_float
  | PStr string
  | PList "py_val list"
  | PRef string
  | PKw string py_val
  | PRegion soc_region

datatype soc_op =
    Call string "py_val list"
  | SetAttr string py_val
  | Connect string string

text \<open>Python's truth of a value.\<close>

fun truthy :: "py_val \<Rightarrow> bool" where
  "truthy PNone \<longleftrightarrow> False"
| "truthy (PBool b) \<longleftrightarrow> b"
| "truthy (PInt n) \<longleftrightarrow> n \<noteq> 0"
| "truthy (PFloat x) \<longleftrightarrow> (case x of Finite m e \<Rightarrow> m \<noteq> 0 | _ \<Rightarrow> True)"
| "truthy (PStr s) \<longleftrightarrow> s \<noteq> []"
| "truthy (PList xs) \<longleftrightarrow> xs \<noteq> []"
| "truthy _ \<longleftrightarrow> True"

text \<open>The numbers among the values, and \<open>v == 0\<close>, which holds of \<open>False\<close> too.\<close>

fun is_number :: "py_val \<Rightarrow> bool" where
  "is_number (PBool b) \<longleftrightarrow> True"
| "is_number (PInt n) \<longleftrightarrow> True"
| "is_number (PFloat x) \<longleftrightarrow> True"
| "is_number _ \<longleftrightarrow> False"

definition is_zero :: "py_val \<Rightarrow> bool" where
  "is_zero v \<longleftrightarrow> is_number v \<and> \<not> truthy v"

text \<open>\<open>int(v)\<close> and \<open>float(v)\<close>; the errors of both name the value.\<close>

definition int_of_float :: "py_float \<Rightarrow> int result" where
  "int_of_float x =
     (case x of
        Finite m e \<Rightarrow> Inr (trunc_double m e)
      | Infinite _ \<Rightarrow> Inl (OverflowError ''cannot convert float infinity to integer'')
      | NotANumber \<Rightarrow> Inl (ValueError ''cannot convert float NaN to integer''))"

definition py_int :: "py_val \<Rightarrow> int result" where
  "py_int v =
     (case v of
        PInt n \<Rightarrow> Inr n
      | PBool b \<Rightarrow> Inr (of_bool b)
      | PFloat x \<Rightarrow> int_of_float x
      | PStr s \<Rightarrow> (case read_int s of
            Some n \<Rightarrow> Inr n
          | None \<Rightarrow> Inl (ValueError (''invalid literal for int() with base 10: '' @ s)))
      | _ \<Rightarrow> Inl (TypeError ''int() argument must be a string or a number''))"

definition py_float :: "py_val \<Rightarrow> py_float result" where
  "py_float v =
     (case v of
        PInt n \<Rightarrow> (case double_of (n < 0) (nat \<bar>n\<bar>) 1 of
            Infinite _ \<Rightarrow> Inl (OverflowError ''int too large to convert to float'')
          | x \<Rightarrow> Inr x)
      | PBool b \<Rightarrow> Inr (Finite (of_bool b) 0)
      | PFloat x \<Rightarrow> Inr x
      | PStr s \<Rightarrow> (case read_float s of
            Some x \<Rightarrow> Inr x
          | None \<Rightarrow> Inl (ValueError (''could not convert string to float: '' @ s)))
      | _ \<Rightarrow> Inl (TypeError ''float() argument must be a string or a number''))"

text \<open>\<open>int(float(v))\<close>, as the programs read frequencies and times.\<close>

definition float_int :: "py_val \<Rightarrow> int result" where
  "float_int v = bindE (py_float v) int_of_float"

lemma float_int_whole: "n < 2 ^ 53 \<Longrightarrow> float_int (PStr (dec n)) = Inr (int n)"
  using double_of_whole [of n False]
  by (auto simp: float_int_def py_float_def int_of_float_def read_float_dec)

lemma float_int_float: "float_int (PFloat (Finite m e)) = Inr (trunc_double m e)"
  by (simp add: float_int_def py_float_def int_of_float_def)

lemma float_int_int: "\<bar>n\<bar> < 2 ^ 53 \<Longrightarrow> float_int (PInt n) = Inr n"
proof -
  assume n: "\<bar>n\<bar> < 2 ^ 53"
  then have "nat \<bar>n\<bar> < 2 ^ 53" by simp
  from double_of_whole [OF this, of "n < 0"] n show ?thesis
    by (auto simp: float_int_def py_float_def int_of_float_def)
qed

section \<open>Dictionaries\<close>

type_synonym 'v dict = "(string \<times> 'v) list"

definition dict_update :: "('k \<times> 'v) list \<Rightarrow> ('k \<times> 'v) list \<Rightarrow> ('k \<times> 'v) list" where
  "dict_update d kvs = fold (\<lambda>(k, v). AList.update k v) kvs d"

definition dict_get :: "('k \<times> 'v) list \<Rightarrow> 'k \<Rightarrow> 'v \<Rightarrow> 'v" where
  "dict_get d k dflt = (case map_of d k of None \<Rightarrow> dflt | Some v \<Rightarrow> v)"

definition dict_has :: "('k \<times> 'v) list \<Rightarrow> 'k \<Rightarrow> bool" where
  "dict_has d k = list_ex (\<lambda>p. fst p = k) d"

lemma dict_has_iff: "dict_has d k \<longleftrightarrow> map_of d k \<noteq> None"
  by (auto simp: dict_has_def list_ex_iff map_of_eq_None_iff)

lemma map_of_dict_update: "map_of (dict_update d kvs) = map_of d ++ map_of (rev kvs)"
proof (induction kvs arbitrary: d)
  case (Cons p kvs)
  then show ?case by (cases p) (simp add: dict_update_def update_conv' map_add_def fun_eq_iff
      split: option.splits)
qed (simp add: dict_update_def)

lemma dict_update_Nil [simp]: "dict_update d [] = d"
  by (simp add: dict_update_def)

lemma dict_update_lookup:
  "distinct (map fst kvs) \<Longrightarrow>
   map_of (dict_update d kvs) k = (case map_of kvs k of Some v \<Rightarrow> Some v | None \<Rightarrow> map_of d k)"
proof (induction kvs arbitrary: d)
  case (Cons p kvs)
  obtain k0 v0 where p: "p = (k0, v0)" by force
  with Cons.prems have "map_of kvs k0 = None" by (simp add: map_of_eq_None_iff)
  with Cons p show ?case
    by (cases "k = k0") (auto simp: dict_update_def update_conv' split: option.splits)
qed simp

lemma distinct_dict_update:
  "distinct (map fst d) \<Longrightarrow> distinct (map fst (dict_update d kvs))"
  by (induction kvs arbitrary: d) (auto simp: dict_update_def distinct_update)

text \<open>An argument given by name, not by \<open>**kwargs\<close>, replaces the default.\<close>

lemma dict_update_named:
  assumes "distinct (map fst A)" "k \<notin> fst ` set kw" "(k, v) \<in> set A" "P (k, v)"
  shows "map_of (dict_update D (filter P (A @ kw))) k = Some v"
proof -
  have d: "distinct (map fst (filter P A))" using assms(1) by (rule distinct_map_filter)
  have "map_of (rev (filter P kw)) k = None" using assms(2) by (auto simp: map_of_eq_None_iff)
  moreover have "map_of (rev (filter P A)) k = Some v"
    using assms(3,4) d by (intro map_of_is_SomeI) (auto simp: rev_map [symmetric])
  ultimately show ?thesis by (simp add: map_of_dict_update map_add_def)
qed

text \<open>A dictionary as the keyword arguments of a call.\<close>

definition kw_args :: "py_val dict \<Rightarrow> py_val list" where
  "kw_args d = map (\<lambda>(k, v). PKw k v) d"

section \<open>What a list of operations builds\<close>

text \<open>The slaves on the bus, the regions declared, the memories created, the signals driven.\<close>

fun slave_of :: "soc_op \<Rightarrow> (string \<times> soc_region) list" where
  "slave_of (Call f [PStr name, PRef _, PRegion r]) = (if f = ''bus.add_slave'' then [(name, r)] else [])"
| "slave_of _ = []"

fun region_of :: "soc_op \<Rightarrow> (string \<times> soc_region) list" where
  "region_of (Call f [PStr name, PRegion r]) = (if f = ''bus.add_region'' then [(name, r)] else [])"
| "region_of _ = []"

lemma built_other [simp]:
  "f \<noteq> ''bus.add_slave'' \<Longrightarrow> slave_of (Call f xs) = []"
  "f \<noteq> ''bus.add_region'' \<Longrightarrow> region_of (Call f xs) = []"
  by (cases "Call f xs" rule: slave_of.cases; simp) (cases "Call f xs" rule: region_of.cases; simp)

fun driven_of :: "soc_op \<Rightarrow> (string \<times> string) list" where
  "driven_of (Connect t s) = [(t, s)]"
| "driven_of _ = []"

definition slaves :: "soc_op list \<Rightarrow> (string \<times> soc_region) list" where
  "slaves ops = concat (map slave_of ops)"

definition regions :: "soc_op list \<Rightarrow> (string \<times> soc_region) list" where
  "regions ops = concat (map region_of ops)"

definition driven :: "soc_op list \<Rightarrow> (string \<times> string) list" where
  "driven ops = concat (map driven_of ops)"

definition region_within :: "soc_region \<Rightarrow> soc_region \<Rightarrow> bool" where
  "region_within r q \<longleftrightarrow> origin q \<le> origin r \<and> origin r + region_size r \<le> origin q + region_size q"

definition region_disjoint :: "soc_region \<Rightarrow> soc_region \<Rightarrow> bool" where
  "region_disjoint r q \<longleftrightarrow> origin r + region_size r \<le> origin q \<or> origin q + region_size q \<le> origin r"

fun pairwise_disjoint :: "soc_region list \<Rightarrow> bool" where
  "pairwise_disjoint [] \<longleftrightarrow> True"
| "pairwise_disjoint (r # rs) \<longleftrightarrow> list_all (region_disjoint r) rs \<and> pairwise_disjoint rs"

definition in_region :: "nat \<Rightarrow> soc_region \<Rightarrow> bool" where
  "in_region a r \<longleftrightarrow> origin r \<le> a \<and> a < origin r + region_size r"

text \<open>Disjoint regions decode an address to at most one slave.\<close>

lemma pairwise_disjoint_decode:
  assumes "pairwise_disjoint rs" "i < length rs" "j < length rs" "in_region a (rs ! i)" "in_region a (rs ! j)"
  shows "i = j"
proof -
  have dis: "i < j \<Longrightarrow> j < length rs \<Longrightarrow> pairwise_disjoint rs \<Longrightarrow> region_disjoint (rs ! i) (rs ! j)" for i j rs
  proof (induction rs arbitrary: i j)
    case (Cons r rs)
    then show ?case by (cases i; cases j) (auto simp: list_all_length)
  qed simp
  have "\<not> (region_disjoint r q \<and> in_region a r \<and> in_region a q)" for r q
    by (auto simp: region_disjoint_def in_region_def)
  with assms dis [of i j rs] dis [of j i rs] show ?thesis
    by (cases i j rule: linorder_cases) blast+
qed

lemma built_append [simp]:
  "slaves (xs @ ys) = slaves xs @ slaves ys"
  "regions (xs @ ys) = regions xs @ regions ys"
  "driven (xs @ ys) = driven xs @ driven ys"
  by (simp_all add: slaves_def regions_def driven_def)

lemma built_Nil [simp]: "slaves [] = []" "regions [] = []" "driven [] = []"
  by (simp_all add: slaves_def regions_def driven_def)

lemma built_Cons [simp]:
  "slaves (x # xs) = slave_of x @ slaves xs"
  "regions (x # xs) = region_of x @ regions xs"
  "driven (x # xs) = driven_of x @ driven xs"
  by (simp_all add: slaves_def regions_def driven_def)

section \<open>A pin patched through\<close>

text \<open>\<open>Patch\<close> of \<^verbatim>\<open>soc/patch.py\<close>: the output pin follows the input pin.\<close>

definition Patch :: "string \<Rightarrow> string \<Rightarrow> soc_op list" where
  "Patch input_pin output_pin = [Connect output_pin input_pin]"

end
