(* ===== verification/Hps_Platform.thy ===== *)
theory Hps_Platform
  imports Power_On_Reset Nx_Lram Soc_Ops
begin

text \<open>
  The two HPS platforms, \<^verbatim>\<open>soc/hps_proto2_platform.py\<close> and \<^verbatim>\<open>soc/hps_proto0_platform.py\<close>: the
  pins of their resources, the clock and reset generators, and the choice of the build script.
\<close>

section \<open>Resources and pins\<close>

datatype io_item =
    Pins string
  | Subsignal string "io_item list"
  | IOStandard string
  | Misc string

type_synonym io_resource = "string \<times> nat \<times> io_item list"

definition hps_io_proto2 :: "io_resource list" where
  "hps_io_proto2 =
    [(''done'', 0, [Pins ''A5'', IOStandard ''LVCMOS18H'']),
     (''programn'', 0, [Pins ''A4'', IOStandard ''LVCMOS18H'']),
     (''jtag'', 0,
       [Subsignal ''en'' [Pins ''C2''], Subsignal ''tck'' [Pins ''D2''],
        Subsignal ''tdi'' [Pins ''C3''], Subsignal ''tdo'' [Pins ''D3''],
        Subsignal ''tms'' [Pins ''B1''], IOStandard ''LVCMOS18H'', Misc ''SLEWRATE=FAST'']),
     (''spiflash'', 0,
       [Subsignal ''cs_n'' [Pins ''A3''], Subsignal ''clk'' [Pins ''B4''],
        Subsignal ''mosi'' [Pins ''B5''], Subsignal ''miso'' [Pins ''C4''],
        Subsignal ''wp'' [Pins ''B3''], Subsignal ''hold'' [Pins ''B2''],
        IOStandard ''LVCMOS18'', Misc ''SLEWRATE=FAST'']),
     (''spiflash4x'', 0,
       [Subsignal ''cs_n'' [Pins ''A3''], Subsignal ''clk'' [Pins ''B4''],
        Subsignal ''dq'' [Pins ''B5 C4 B3 B2''], IOStandard ''LVCMOS18'', Misc ''SLEWRATE=FAST''])]"

definition hps_nx17_debug_io_proto2 :: "io_resource list" where
  "hps_nx17_debug_io_proto2 =
    [(''serial'', 0,
       [Subsignal ''rx'' [Pins ''E2'', IOStandard ''LVCMOS18''],
        Subsignal ''tx'' [Pins ''G1'', IOStandard ''LVCMOS18H'']])]"

definition hps_debug_common_proto2 :: "io_resource list" where
  "hps_debug_common_proto2 = [(''user_led'', 0, [Pins ''G3'', IOStandard ''LVCMOS18H''])]"

definition hps_io_proto0 :: "io_resource list" where
  "hps_io_proto0 =
    [(''i2c'', 0,
       [Subsignal ''scl'' [Pins ''D1''], Subsignal ''sda'' [Pins ''E3''], IOStandard ''LVCMOS18H'']),
     (''done'', 0, [Pins ''A5'', IOStandard ''LVCMOS18H'']),
     (''programn'', 0, [Pins ''A4'', IOStandard ''LVCMOS18H'']),
     (''jtag'', 0,
       [Subsignal ''en'' [Pins ''C2''], Subsignal ''tck'' [Pins ''D2''],
        Subsignal ''tdi'' [Pins ''C3''], Subsignal ''tdo'' [Pins ''D3''],
        Subsignal ''tms'' [Pins ''B1''], IOStandard ''LVCMOS18H'']),
     (''spiflash'', 0,
       [Subsignal ''cs_n'' [Pins ''A3''], Subsignal ''clk'' [Pins ''B4''],
        Subsignal ''mosi'' [Pins ''B5''], Subsignal ''miso'' [Pins ''C4''],
        Subsignal ''wp'' [Pins ''B3''], Subsignal ''hold'' [Pins ''B2''],
        IOStandard ''LVCMOS18'']),
     (''spiflash4x'', 0,
       [Subsignal ''cs_n'' [Pins ''A3''], Subsignal ''clk'' [Pins ''B4''],
        Subsignal ''dq'' [Pins ''B5 C4 B3 B2''], IOStandard ''LVCMOS18''])]"

definition hps_nx17_io_proto0 :: "io_resource list" where
  "hps_nx17_io_proto0 =
    [(''i2c'', 1,
       [Subsignal ''scl'' [Pins ''H1''], Subsignal ''sda'' [Pins ''G2''], IOStandard ''LVCMOS18H''])]"

definition hps_nx17_debug_io_proto0 :: "io_resource list" where
  "hps_nx17_debug_io_proto0 =
    [(''serial'', 0,
       [Subsignal ''rx'' [Pins ''E2'', IOStandard ''LVCMOS18''],
        Subsignal ''tx'' [Pins ''G1'', IOStandard ''LVCMOS18H'']]),
     (''serial2'', 0,
       [Subsignal ''rx'' [Pins ''C3''], Subsignal ''tx'' [Pins ''D3''], IOStandard ''LVCMOS18H''])]"

definition hps_debug_common_proto0 :: "io_resource list" where
  "hps_debug_common_proto0 = [(''user_led'', 0, [Pins ''D2'', IOStandard ''LVCMOS18''])]"

text \<open>The tables that the two \<open>Platform\<close> constructors hand to the framework.\<close>

definition proto2_io :: "io_resource list" where
  "proto2_io = hps_io_proto2 @ hps_nx17_debug_io_proto2 @ hps_debug_common_proto2"

definition proto0_io :: "io_resource list" where
  "proto0_io = hps_io_proto0 @ hps_nx17_io_proto0 @ hps_nx17_debug_io_proto0 @ hps_debug_common_proto0"

text \<open>The pins of a resource; a pin string names pins separated by blanks.\<close>

function pins_of :: "io_item \<Rightarrow> string list" where
  "pins_of (Pins s) = filter (\<lambda>w. w \<noteq> []) (split_char CHR '' '' s)"
| "pins_of (Subsignal _ items) = concat (map pins_of items)"
| "pins_of (IOStandard _) = []"
| "pins_of (Misc _) = []"
  by pat_completeness auto
termination by lexicographic_order

definition resource_pins :: "io_resource list \<Rightarrow> string \<Rightarrow> string list" where
  "resource_pins io name = concat (map (\<lambda>(n, _, items). if n = name then concat (map pins_of items) else []) io)"

definition has_resource :: "io_resource list \<Rightarrow> string \<Rightarrow> bool" where
  "has_resource io name = list_ex (\<lambda>(n, _, _). n = name) io"

section \<open>Clock and reset generators\<close>

definition por_cycles :: nat where
  "por_cycles = 4096"

definition hps_por_init :: "12 word" where
  "hps_por_init = of_nat (por_cycles - 1)"

definition proto2_clk_divisor :: nat where
  "proto2_clk_divisor = 9"

definition proto2_sys_clk_freq :: nat where
  "proto2_sys_clk_freq = 450000000 div proto2_clk_divisor"

definition proto0_clk_divisor :: nat where
  "proto0_clk_divisor = 7"

definition proto0_sys_clk_freq :: nat where
  "proto0_sys_clk_freq = 450000000 div proto0_clk_divisor"

text \<open>The generators: their domains, cells and connections; only proto2 has a gated system clock.\<close>

definition crg_proto2 :: "nat \<Rightarrow> soc_op list" where
  "crg_proto2 sys_clk_freq =
    [Call ''clock_domains'' [PStr ''cd_osc''],
     Call ''clock_domains'' [PStr ''cd_sys''],
     Call ''clock_domains'' [PStr ''cd_por''],
     Call ''osc_clk.create_hf_clk'' [PRef ''cd_osc'', PInt (int sys_clk_freq)],
     Connect ''DCC.CLKI'' ''osc.clk'',
     Connect ''sys.clk'' ''DCC.CLKO'',
     Connect ''DCC.CE'' ''sys_clk_enable'',
     Connect ''cd_sys.rst'' ''cd_osc.rst'',
     Call ''platform.add_period_constraint'' [PRef ''cd_osc.clk'', PRef ''1e9 / (sys_clk_freq * 1.07)''],
     Connect ''cd_por.clk'' ''cd_osc.clk'',
     Call ''AsyncResetSynchronizer'' [PRef ''cd_osc'', PRef ''por_counter != 0'']]"

definition crg_proto0 :: "nat \<Rightarrow> soc_op list" where
  "crg_proto0 sys_clk_freq =
    [Call ''clock_domains'' [PStr ''cd_sys''],
     Call ''clock_domains'' [PStr ''cd_por''],
     Call ''sys_clk.create_hf_clk'' [PRef ''cd_sys'', PInt (int sys_clk_freq)],
     Call ''platform.add_period_constraint'' [PRef ''cd_sys.clk'', PRef ''1e9 / (sys_clk_freq * 1.1)''],
     Connect ''cd_por.clk'' ''cd_sys.clk'',
     Call ''AsyncResetSynchronizer'' [PRef ''cd_sys'', PRef ''por_counter != 0'']]"

section \<open>Build scripts\<close>

definition oxide_parallel_build_template :: "string list" where
  "oxide_parallel_build_template =
    [''yosys -l {build_name}.rpt {build_name}.ys'',
     ''parallel-nextpnr-nexus {build_name}.json {build_name}.pdc {build_name}.fasm         $(nproc) {seed}'',
     ''prjoxide pack {build_name}.fasm {build_name}.bit'']"

definition oxide_custom_build_template :: "string list" where
  "oxide_custom_build_template =
    [''yosys -l {build_name}.rpt {build_name}.ys'',
     ''custom-nextpnr-nexus {build_name}.json {build_name}.pdc {build_name}.fasm'',
     ''prjoxide pack {build_name}.fasm {build_name}.bit'']"

definition oxide_synth_build_template :: "string list" where
  "oxide_synth_build_template = [''yosys -l {build_name}.rpt {build_name}.ys'']"

definition oxide_router1_build_template :: "string list" where
  "oxide_router1_build_template =
    [''yosys -l {build_name}.rpt {build_name}.ys'',
     ''nextpnr-nexus '' @ ''--json {build_name}.json '' @ ''--pdc {build_name}.pdc '' @
     ''--fasm {build_name}.fasm '' @ ''--report={build_name}-report.json '' @
     ''--detailed-timing-report '' @ ''--device {device} '' @ ''{timefailarg} '' @
     ''{ignoreloops} '' @ ''--seed {seed} '' @ ''--router router1'',
     ''prjoxide pack {build_name}.fasm {build_name}.bit'']"

definition extra_yosys_template :: "string list" where
  "extra_yosys_template =
    [''techmap -map +/nexus/cells_sim.v t:VLO t:VHI %u'',
     ''plugin -i dsp-ff'',
     ''dsp_ff -rules +/nexus/dsp_rules.txt'',
     ''hilomap -singleton -hicell VHI Z -locell VLO Z'',
     ''write_json {build_name}.json'']"

text \<open>
  \<open>Platform.__init__\<close> of proto2: for the open toolchain the synthesis script is extended and one
  of four build scripts is chosen. The pair is (synthesis script, build script), starting from the
  two that the framework has set.
\<close>

definition proto2_templates ::
    "string \<Rightarrow> bool \<Rightarrow> bool \<Rightarrow> bool \<Rightarrow> string list \<times> string list \<Rightarrow> string list \<times> string list" where
  "proto2_templates toolchain parallel_pnr custom_params just_synth tpl =
     (if toolchain = ''oxide'' then
        (fst tpl @ extra_yosys_template,
         if just_synth then oxide_synth_build_template
         else if custom_params then oxide_custom_build_template
         else if parallel_pnr then oxide_parallel_build_template
         else oxide_router1_build_template)
      else tpl)"

text \<open>The constructors of the two platforms, as operations on the framework's.\<close>

definition lattice_platform_op :: "string \<Rightarrow> string \<Rightarrow> soc_op" where
  "lattice_platform_op io toolchain = Call ''LatticePlatform.__init__''
     [PKw ''device'' (PStr ''LIFCL-17-8UWG72C''), PKw ''io'' (PRef io), PKw ''connectors'' (PList []),
      PKw ''toolchain'' (PStr toolchain)]"

definition Platform_proto2 ::
    "string \<Rightarrow> bool \<Rightarrow> bool \<Rightarrow> bool \<Rightarrow> string list \<times> string list \<Rightarrow> soc_op list" where
  "Platform_proto2 toolchain parallel_pnr custom_params just_synth tpl =
     lattice_platform_op ''hps_io + hps_nx17_debug_io + hps_debug_common'' toolchain #
     (if toolchain = ''oxide''
      then (case proto2_templates toolchain parallel_pnr custom_params just_synth tpl of
        (yosys, build) \<Rightarrow>
          [SetAttr ''toolchain.yosys_template'' (PList (map PStr yosys)),
           SetAttr ''toolchain.build_template'' (PList (map PStr build))])
      else [])"

definition Platform_proto0 :: "string \<Rightarrow> soc_op list" where
  "Platform_proto0 toolchain =
     [lattice_platform_op ''hps_io + hps_nx17_io + hps_nx17_debug_io + hps_debug_common'' toolchain]"

definition proto2_create_crg :: "soc_op list" where
  "proto2_create_crg = crg_proto2 proto2_sys_clk_freq"

definition proto0_create_crg :: "soc_op list" where
  "proto0_create_crg = crg_proto0 proto0_sys_clk_freq"

definition proto0_create_ram :: "nat \<Rightarrow> nat \<Rightarrow> nxlram result" where
  "proto0_create_ram width size' = NXLRAM width size' False"

definition proto2_create_ram :: "nat \<Rightarrow> nat \<Rightarrow> bool \<Rightarrow> nxlram result" where
  "proto2_create_ram width size' dual = NXLRAM width size' dual"

text \<open>
  Every script that packs a bitstream first produces the file it packs, and a synthesis-only
  build runs synthesis only.
\<close>

lemma proto2_templates_start:
  "toolchain = ''oxide'' \<Longrightarrow>
   hd (snd (proto2_templates toolchain p c j tpl)) = ''yosys -l {build_name}.rpt {build_name}.ys'' \<and>
   (last (snd (proto2_templates toolchain p c j tpl)) =
      ''prjoxide pack {build_name}.fasm {build_name}.bit'' \<longleftrightarrow> \<not> j)"
  by (simp add: proto2_templates_def oxide_synth_build_template_def oxide_custom_build_template_def
      oxide_parallel_build_template_def oxide_router1_build_template_def)

end
