(* ===== verification/Hps_Soc.thy ===== *)
theory Hps_Soc
  imports Hps_Platform Cfu_Unit
begin

text \<open>
  The HPS system-on-chip of \<^verbatim>\<open>soc/hps_soc.py\<close>: the constructor as the list of operations it
  performs on the framework's SoC (or the exception it raises), the later calls of the builder on
  it.
\<close>

definition KB :: nat where
  "KB = 1024"

definition MB :: nat where
  "MB = 1024 * KB"

definition UART_SPEED :: nat where
  "UART_SPEED = 115200"

definition RAM_SIZE :: nat where
  "RAM_SIZE = 320 * KB"

section \<open>Memory layout\<close>

definition csr_origin :: nat where
  "csr_origin = 0xf0000000"

definition spiflash_region :: soc_region where
  "spiflash_region = \<lparr>origin = 0x20000000, region_size = 16 * MB, region_mode = ''rw'',
     cached = True, linker = False\<rparr>"

definition rom_offset :: nat where
  "rom_offset = 2 * MB"

definition sram_origin :: nat where
  "sram_origin = 0x40000000"

definition arena_origin :: nat where
  "arena_origin = 0x60000000"

definition vexriscv_region :: soc_region where
  "vexriscv_region = \<lparr>origin = 0xf00f0000, region_size = 0x100, region_mode = ''rw'',
     cached = True, linker = False\<rparr>"

definition mem_map :: "nat dict" where
  "mem_map = [(''sram'', sram_origin), (''arena'', arena_origin), (''csr'', csr_origin)]"

section \<open>The constructor\<close>

record hps_args =
  hps_debug :: bool
  hps_variant :: "string option"
  hps_cpu_cfu :: "string option"
  execute_from_lram :: bool
  separate_arena :: bool
  with_led_chaser :: bool
  integrated_rom_init :: "nat list"
  build_bios :: bool
  cfu_mport :: bool
  dynamic_clock_control :: bool

definition opt_str :: "string option \<Rightarrow> py_val" where
  "opt_str s = (case s of None \<Rightarrow> PNone | Some x \<Rightarrow> PStr x)"

definition hps_default_variant :: "hps_args \<Rightarrow> string" where
  "hps_default_variant a = (case hps_variant a of
     None \<Rightarrow> (if hps_debug a then ''full+debug'' else ''full'') | Some v \<Rightarrow> v)"

definition hps_reset_address :: "hps_args \<Rightarrow> nat" where
  "hps_reset_address a =
     (if execute_from_lram a then 0x00000000 else origin spiflash_region + rom_offset)"

text \<open>The split of the memory between RAM and arena.\<close>

definition hps_ram_sizes :: "hps_args \<Rightarrow> nat \<times> nat" where
  "hps_ram_sizes a =
     (if separate_arena a then (64 * KB, RAM_SIZE - 64 * KB)
      else if execute_from_lram a then (RAM_SIZE - 64 * KB, 0)
      else (RAM_SIZE, 0))"

definition ram_blocks :: "nxlram \<Rightarrow> nat" where
  "ram_blocks cfg = depth_cascading cfg * width_cascading cfg"

definition sig_index :: "string \<Rightarrow> nat \<Rightarrow> string" where
  "sig_index s i = s @ ''['' @ dec i @ '']''"

text \<open>
  A memory as a submodule, with the clock domain of its synchronous parts: \<^verbatim>\<open>osc\<close> where
  \<open>ClockDomainsRenamer\<close> puts it there, the default domain \<^verbatim>\<open>sys\<close> otherwise.
\<close>

definition create_ram_op :: "string \<Rightarrow> string \<Rightarrow> nat \<Rightarrow> bool \<Rightarrow> soc_op" where
  "create_ram_op domain name sz dual = Call (name @ '' = platform.create_ram'')
     [PStr domain, PInt 32, PInt (int sz), PKw ''dual_port'' (PBool dual)]"

definition ram_region :: "nat \<Rightarrow> nat \<Rightarrow> soc_region" where
  "ram_region org sz = \<lparr>origin = org, region_size = sz, region_mode = ''rw'', cached = True, linker = True\<rparr>"

text \<open>\<open>setup_ram\<close> and \<open>setup_arena\<close>, with the memory that they create.\<close>

definition setup_ram :: "nat \<Rightarrow> (nxlram \<times> soc_op list) result" where
  "setup_ram sz =
     bindE (proto2_create_ram 32 sz False) (\<lambda>lram.
       Inr (lram,
         [create_ram_op ''osc'' ''lram'' sz False,
          Call ''bus.add_slave'' [PStr ''sram_lram'', PRef ''lram.bus'', PRegion (ram_region sram_origin sz)],
          Call ''bus.add_region'' [PStr ''sram'', PRegion (ram_region sram_origin sz)]]))"

definition setup_arena :: "nat \<Rightarrow> (nxlram option \<times> soc_op list) result" where
  "setup_arena sz =
     (let add = Call ''bus.add_region'' [PStr ''arena'', PRegion (ram_region arena_origin sz)] in
      if 0 < sz then
        bindE (proto2_create_ram 32 sz True) (\<lambda>arena.
          Inr (Some arena,
            [add, create_ram_op ''osc'' ''arena'' sz True,
             Call ''bus.add_slave'' [PStr ''arena_lram'', PRef ''arena.bus'', PRegion (ram_region arena_origin sz)],
             Call ''add_config'' [PStr ''SOC_SEPARATE_ARENA'']]))
      else Inr (None, [add]))"

text \<open>The clock enables of the memories that exist at this point of the constructor.\<close>

definition connect_clkens :: "string \<Rightarrow> nat \<Rightarrow> string \<Rightarrow> soc_op list" where
  "connect_clkens arr n src = map (\<lambda>i. Connect (sig_index arr i) src) [0..<n]"

definition arena_blocks :: "nxlram option \<Rightarrow> nat result" where
  "arena_blocks arena = (case arena of
     Some cfg \<Rightarrow> Inr (ram_blocks cfg)
   | None \<Rightarrow> Inl (AttributeError ''HpsSoC object has no attribute arena''))"

definition memory_clkens :: "hps_args \<Rightarrow> nxlram \<Rightarrow> nxlram option \<Rightarrow> string \<Rightarrow> string \<Rightarrow> soc_op list result" where
  "memory_clkens a lram arena cpu_en cfu_en =
     (if separate_arena a then
        bindE (arena_blocks arena) (\<lambda>n.
          Inr (connect_clkens ''lram.a_clkens'' (ram_blocks lram) cpu_en @
            connect_clkens ''arena.a_clkens'' n cpu_en @
            (if cfu_mport a then connect_clkens ''arena.b_clkens'' n cfu_en else [])))
      else Inr (connect_clkens ''lram.a_clkens'' (ram_blocks lram) cpu_en))"

definition clock_control_ops :: "soc_op list" where
  "clock_control_ops =
    [Call ''cfu_cpu_clk_ctl = CfuCpuClockCtrl'' [PStr ''osc''],
     Connect ''cfu_cpu_clk_ctl.cfu_bus.rsp.valid'' ''cpu.cfu_bus.rsp.valid'',
     Connect ''cfu_cpu_clk_ctl.cfu_bus.rsp.ready'' ''cpu.cfu_bus.rsp.ready'',
     Connect ''cfu_cpu_clk_ctl.cfu_bus.cmd.valid'' ''cpu.cfu_bus.cmd.valid'',
     Connect ''cfu_cpu_clk_ctl.cfu_bus.cmd.ready'' ''cpu.cfu_bus.cmd.ready'',
     Connect ''crg.sys_clk_enable'' ''cfu_cpu_clk_ctl.cpu_cen'',
     Call ''clock_domains'' [PStr ''cd_cfu''],
     Call ''Instance'' [PStr ''DCC'', PKw ''i_CLKI'' (PRef ''osc.clk''), PKw ''o_CLKO'' (PRef ''cfu.clk''),
       PKw ''i_CE'' (PRef ''cfu_cpu_clk_ctl.cfu_cen'')],
     Call ''cpu.cfu_params.update'' [PKw ''i_clk'' (PRef ''cfu.clk'')],
     Call ''cpu.cfu_params.update'' [PKw ''i_reset'' (PRef ''osc.rst'')]]"

text \<open>\<open>connect_cfu_to_lram\<close>: four read ports with 14 address bits, one for each bank of the arena.\<close>

definition lram_ports :: "nat list" where
  "lram_ports = [0, 1, 2, 3]"

definition cfu_lram_bus_layout :: "(string \<times> (string \<times> nat) list) list" where
  "cfu_lram_bus_layout =
     map (\<lambda>i. (''lram'' @ dec i, [(''addr'', 14), (''din'', 32)])) lram_ports"

definition cfu_lram_sig :: "nat \<Rightarrow> string \<Rightarrow> string" where
  "cfu_lram_sig i f = ''cfu_lram_bus.lram'' @ dec i @ ''.'' @ f"

definition connect_cfu_to_lram :: "nxlram option \<Rightarrow> soc_op list result" where
  "connect_cfu_to_lram arena =
     bindE (arena_blocks arena) (\<lambda>n.
       if n < 4 then Inl (IndexError ''list index out of range'')
       else Inr
         (Call ''cpu.cfu_params.update''
            (concat (map (\<lambda>i. [PKw (''o_port'' @ dec i @ ''_addr'') (PRef (cfu_lram_sig i ''addr'')),
               PKw (''i_port'' @ dec i @ ''_din'') (PRef (cfu_lram_sig i ''din''))]) lram_ports)) #
          map (\<lambda>i. Connect (sig_index ''arena.b_addrs'' i) (cfu_lram_sig i ''addr'')) lram_ports @
          map (\<lambda>i. Connect (cfu_lram_sig i ''din'') (sig_index ''arena.b_douts'' i)) lram_ports))"

text \<open>
  The attributes \<open>cfu_bus\<close> and \<open>cfu_params\<close> of the CPU, which the framework adds together with a CFU:
  \<open>has_cfu\<close> says for which values of the argument \<open>cfu\<close> of \<open>add_cpu\<close>.
\<close>

definition cpu_attr :: "(string option \<Rightarrow> bool) \<Rightarrow> hps_args \<Rightarrow> string \<Rightarrow> unit result" where
  "cpu_attr has_cfu a name =
     (if has_cfu (hps_cpu_cfu a) then Inr () else Inl (AttributeError (''VexRiscv object has no attribute '' @ name)))"

definition setup_litespi_flash :: "soc_op list" where
  "setup_litespi_flash =
    [Call ''platform.request'' [PStr ''spiflash4x''],
     Call ''spiflash_phy = LiteSPIPHY'' [PStr ''GD25LQ128D(READ_1_1_4)'', PKw ''default_divisor'' (PInt 0),
       PKw ''rate'' (PStr ''1:2''), PKw ''extra_latency'' (PInt 1)],
     Call ''spiflash_mmap = LiteSPI'' [PKw ''phy'' (PRef ''spiflash_phy''),
       PKw ''mmap_endianness'' (PRef ''cpu.endianness'')],
     Call ''csr.add'' [PStr ''spiflash_mmap''],
     Call ''csr.add'' [PStr ''spiflash_phy''],
     Call ''bus.add_slave'' [PStr ''spiflash'', PRef ''spiflash_mmap.bus'', PRegion spiflash_region]]"

definition lram_rom_region :: "hps_args \<Rightarrow> soc_region" where
  "lram_rom_region a = \<lparr>origin = hps_reset_address a, region_size = 64 * KB, region_mode = ''r'',
     cached = True, linker = True\<rparr>"

definition flash_rom_region :: soc_region where
  "flash_rom_region = \<lparr>origin = origin spiflash_region + rom_offset,
     region_size = region_size spiflash_region - rom_offset, region_mode = ''r'',
     cached = True, linker = True\<rparr>"

definition setup_rom_in_lram :: "hps_args \<Rightarrow> (nxlram \<times> soc_op list) result" where
  "setup_rom_in_lram a =
     (let region = lram_rom_region a in
      bindE (proto2_create_ram 32 (region_size region) False) (\<lambda>rom.
        Inr (rom,
          [create_ram_op ''sys'' ''rom'' (region_size region) False,
           Call ''bus.add_slave'' [PStr ''rom_lram'', PRef ''rom.bus'', PRegion region],
           Call ''bus.add_region'' [PStr ''rom'', PRegion region],
           SetAttr ''integrated_rom_initialized'' (PBool False),
           SetAttr ''integrated_rom_size'' (PInt (int (region_size region)))])))"

definition setup_rom_in_flash :: "soc_op list" where
  "setup_rom_in_flash =
    [Call ''bus.add_region'' [PStr ''rom'', PRegion flash_rom_region],
     SetAttr ''integrated_rom_initialized'' (PBool False),
     SetAttr ''integrated_rom_size'' (PInt (int (region_size flash_rom_region)))]"

text \<open>The read-only memory, with initial contents when they are given.\<close>

definition setup_rom :: "hps_args \<Rightarrow> soc_op list result" where
  "setup_rom a =
     (if execute_from_lram a then
        bindE (setup_rom_in_lram a) (\<lambda>(rom, ops).
          if integrated_rom_init a \<noteq> [] then
            bindE (assertE (length (integrated_rom_init a) * 4 \<le> 64 * KB) '''') (\<lambda>_.
            bindE (add_init rom (integrated_rom_init a)) (\<lambda>_.
              Inr (ops @ [SetAttr ''integrated_rom_initialized'' (PBool True),
                Call ''rom.add_init'' [PList (map (\<lambda>w. PInt (int w)) (integrated_rom_init a))]])))
          else Inr ops)
      else Inr setup_rom_in_flash)"

text \<open>The constructor: first clocks, controller and CPU; the peripherals come last.\<close>

definition hps_cpu_ops :: "nat \<Rightarrow> hps_args \<Rightarrow> soc_op list" where
  "hps_cpu_ops sys_clk_freq a =
    [Call ''LiteXSoC.__init__'' [PKw ''sys_clk_freq'' (PInt (int sys_clk_freq)),
       PKw ''csr_data_width'' (PInt 32)],
     Call ''crg = platform.create_crg'' [],
     Call ''add_controller'' [PStr ''ctrl''],
     Call ''add_cpu'' [PStr ''vexriscv'', PKw ''variant'' (PStr (hps_default_variant a)),
       PKw ''reset_address'' (PInt (int (hps_reset_address a))),
       PKw ''cfu'' (opt_str (hps_cpu_cfu a))]]"

definition add_serial :: "soc_op list" where
  "add_serial = [Call ''add_uart'' [PStr ''uart'', PKw ''baudrate'' (PInt (int UART_SPEED))]]"

definition hps_peripheral_ops :: "nat \<Rightarrow> hps_args \<Rightarrow> soc_op list" where
  "hps_peripheral_ops sys_clk_freq a =
     (if with_led_chaser a then
        [Call ''leds = LedChaser'' [PStr ''user_led'', PInt (int sys_clk_freq)],
         Call ''csr.add'' [PStr ''leds'']] else []) @
     add_serial @
     (if hps_debug a then
        [Call ''add_uartbone'' [PStr ''serial2'', PKw ''baudrate'' (PInt (int UART_SPEED))],
         Call ''bus.add_slave'' [PStr ''vexriscv_debug'', PRef ''cpu.debug_bus'', PRegion vexriscv_region]]
      else []) @
     (if build_bios a then
        [Call ''add_timer'' [PKw ''name'' (PStr ''timer0'')], Call ''timer0.add_uptime'' []]
      else [])"

definition HpsSoC :: "(string option \<Rightarrow> bool) \<Rightarrow> nat \<Rightarrow> hps_args \<Rightarrow> soc_op list result" where
  "HpsSoC has_cfu sys_clk_freq a =
     bindE (setup_ram (fst (hps_ram_sizes a))) (\<lambda>(lram, ram_ops).
     bindE (setup_arena (snd (hps_ram_sizes a))) (\<lambda>(arena, arena_ops).
     bindE (if dynamic_clock_control a then cpu_attr has_cfu a ''cfu_bus'' else Inr ()) (\<lambda>_.
     bindE (if dynamic_clock_control a
            then memory_clkens a lram arena ''cfu_cpu_clk_ctl.cpu_cen'' ''cfu_cpu_clk_ctl.cfu_cen''
            else memory_clkens a lram arena ''1'' ''1'') (\<lambda>clken_ops.
     bindE (if cfu_mport a
            then bindE (cpu_attr has_cfu a ''cfu_params'') (\<lambda>_. connect_cfu_to_lram arena)
            else Inr []) (\<lambda>mport_ops.
     bindE (setup_rom a) (\<lambda>rom_ops.
       Inr (hps_cpu_ops sys_clk_freq a @ ram_ops @ arena_ops @
         (if dynamic_clock_control a then clock_control_ops else []) @ clken_ops @ mport_ops @
         setup_litespi_flash @ rom_ops @ hps_peripheral_ops sys_clk_freq a)))))))"

section \<open>Calls of the builder\<close>

text \<open>
  \<open>initialize_rom\<close>: the state is whether the SoC has a \<open>rom\<close> object (its geometry) and whether it
  is marked as initialised; the result is what was written into the memory, if anything.
\<close>

definition initialize_rom :: "nxlram option \<Rightarrow> bool \<Rightarrow> nat list \<Rightarrow> (string \<times> string) list list list option result" where
  "initialize_rom rom initialized data =
     (case rom of
        Some cfg \<Rightarrow> (if \<not> initialized then bindE (add_init cfg data) (\<lambda>(_, items). Inr (Some items))
                    else Inr None)
      | None \<Rightarrow> Inr None)"

text \<open>\<open>do_finalize\<close>: the attributes that the builder reads from every region.\<close>

definition legacy_region :: "soc_region \<Rightarrow> nat \<times> string" where
  "legacy_region r =
     (region_size r, (if cached r then ''cached'' else ''io'') @ (if linker r then ''+linker'' else ''''))"

definition do_finalize :: "(string \<times> soc_region) list \<Rightarrow> (string \<times> nat \<times> string) list \<times> soc_op list" where
  "do_finalize rs =
     (map (\<lambda>(n, r). (n, legacy_region r)) rs,
      [Call ''LiteXSoC.do_finalize'' [], SetAttr ''csr_regions'' (PRef ''csr.regions'')])"

text \<open>\<open>mem_regions\<close>: what the builder reads are the regions that the constructor has added.\<close>

definition mem_regions :: "soc_op list \<Rightarrow> (string \<times> soc_region) list" where
  "mem_regions ops = regions ops"

end
