(* ===== verification/Cpu_Variants.thy ===== *)
theory Cpu_Variants
  imports Soc_Ops "HOL-Library.Char_ord" "HOL-Library.List_Lexorder"
begin

text \<open>
  The CPU variants of \<^verbatim>\<open>soc/patch_cpu_variant.py\<close>: the tables that are patched into the CPU core
  of the framework, the method that is replaced by one that calls it, and the variants that are
  copied or built on demand. The state is the patched module; files and processes are parameters.
\<close>

section \<open>The patched module\<close>

text \<open>
  \<open>add_soc_components\<close> is modelled by its effect on the constants of the SoC: a function of the
  variant of the CPU and the constants. \<open>add_config(name, value)\<close> of the framework sets the
  constant \<open>CONFIG_<name>\<close>.
\<close>

type_synonym constants = "py_val dict"

record core_state =
  CPU_VARIANTS :: "string dict"
  GCC_FLAGS :: "string dict"
  add_soc_components :: "string \<Rightarrow> constants \<Rightarrow> constants"

definition add_config :: "string \<Rightarrow> py_val \<Rightarrow> constants \<Rightarrow> constants" where
  "add_config name v d = AList.update (''CONFIG_'' @ name) v d"

definition variants_patch :: "string dict" where
  "variants_patch =
    [(''fomu'', ''VexRiscv_Fomu''),
     (''fomu+cfu'', ''VexRiscv_FomuCfu''),
     (''breaker'', ''VexRiscv_Breaker''),
     (''breaker+cfu'', ''VexRiscv_BreakerCfu''),
     (''custom'', ''VexRiscv_Custom''),
     (''custom+cfu'', ''VexRiscv_CustomCfu''),
     (''fpu'', ''VexRiscv_Fpu''),
     (''fpu+cfu'', ''VexRiscv_FpuCfu''),
     (''hps+cfu'', ''VexRiscv_HpsCfu''),
     (''hpsdelta+cfu'', ''VexRiscv_HpsdeltaCfu''),
     (''dbpl8+cfu'', ''VexRiscv_dbpl8Cfu''),
     (''minimal+cfu'', ''VexRiscv_MinCfu''),
     (''slim+cfu'', ''VexRiscv_SlimCfu''),
     (''slimopt+cfu'', ''VexRiscv_SlimoptCfu''),
     (''slim+cfu+debug'', ''VexRiscv_SlimCfuDebug''),
     (''perf+cfu'', ''VexRiscv_PerfCfu''),
     (''perf+cfu+debug'', ''VexRiscv_PerfCfuDebug''),
     (''slimperf+cfu'', ''VexRiscv_SlimPerfCfu''),
     (''slimperf+cfu+debug'', ''VexRiscv_SlimPerfCfuDebug'')]"

definition gcc_flags_patch :: "string dict" where
  "gcc_flags_patch =
    [(''fomu'', ''-march=rv32im -mabi=ilp32 -mno-div''),
     (''fomu+cfu'', ''-march=rv32im -mabi=ilp32 -mno-div''),
     (''breaker'', ''-march=rv32im -mabi=ilp32 -mno-div''),
     (''breaker+cfu'', ''-march=rv32im -mabi=ilp32 -mno-div''),
     (''custom'', ''-march=rv32im -mabi=ilp32''),
     (''custom+cfu'', ''-march=rv32im -mabi=ilp32''),
     (''fpu'', ''-march=rv32imf -mabi=ilp32''),
     (''fpu+cfu'', ''-march=rv32imf -mabi=ilp32''),
     (''hps+cfu'', ''-march=rv32im -mabi=ilp32''),
     (''hpsdelta+cfu'', ''-march=rv32im -mabi=ilp32''),
     (''dbpl8+cfu'', ''-march=rv32im -mabi=ilp32''),
     (''minimal+cfu'', ''-march=rv32i  -mabi=ilp32''),
     (''slimopt+cfu'', ''-march=rv32im -mabi=ilp32''),
     (''slim+cfu'', ''-march=rv32im -mabi=ilp32''),
     (''slim+cfu+debug'', ''-march=rv32im -mabi=ilp32''),
     (''perf+cfu'', ''-march=rv32im -mabi=ilp32''),
     (''perf+cfu+debug'', ''-march=rv32im -mabi=ilp32''),
     (''slimperf+cfu'', ''-march=rv32im -mabi=ilp32''),
     (''slimperf+cfu+debug'', ''-march=rv32im -mabi=ilp32''),
     (''full+cfu'', ''-march=rv32im -mabi=ilp32''),
     (''full+cfu+debug'', ''-march=rv32im -mabi=ilp32'')]"

definition patched_components ::
    "(string \<Rightarrow> constants \<Rightarrow> constants) \<Rightarrow> string \<Rightarrow> constants \<Rightarrow> constants" where
  "patched_components old variant soc =
     (let soc = old variant soc;
          soc = (if contains ''perf'' variant then add_config ''CPU_PERF_CSRS'' (PInt 8) soc else soc)
      in if contains ''fomu'' variant \<or> contains ''breaker'' variant then
           AList.delete ''CONFIG_CPU_HAS_DCACHE'' (add_config ''CPU_DIV_UNIMPLEMENTED'' PNone soc)
         else soc)"

definition patch_cpu_variant :: "core_state \<Rightarrow> core_state" where
  "patch_cpu_variant st =
     \<lparr>CPU_VARIANTS = dict_update (CPU_VARIANTS st) variants_patch,
      GCC_FLAGS = dict_update (GCC_FLAGS st) gcc_flags_patch,
      add_soc_components = patched_components (add_soc_components st)\<rparr>"

section \<open>Copying a variant\<close>

text \<open>
  The files are a predicate \<open>exists\<close>; \<open>vdir\<close> is the directory in which the framework looks for CPU
  sources and \<open>cfu_root\<close> the environment variable, which may be unset. The result lists the prints
  and the copies.
\<close>

definition copy_cpu_variant_if_needed ::
    "(string \<Rightarrow> bool) \<Rightarrow> string \<Rightarrow> string option \<Rightarrow> core_state \<Rightarrow> string \<Rightarrow> soc_op list result" where
  "copy_cpu_variant_if_needed exists vdir cfu_root st variant =
     (case map_of (CPU_VARIANTS st) variant of
        Some f \<Rightarrow>
          (let cpu_filename = f @ ''.v'';
               fullpath = path_join vdir cpu_filename
           in case cfu_root of
                None \<Rightarrow> Inl (TypeError ''expected str, bytes or os.PathLike object, not NoneType'')
              | Some root \<Rightarrow>
                  (let custom_dir = path_join (path_join root ''soc'') ''vexriscv'';
                       custom_cpu = path_join custom_dir cpu_filename
                   in Inr (if exists custom_cpu then
                        [Call ''print'' [PStr (''Found and copied \"'' @ custom_cpu @ ''\".'')],
                         Call ''copyfile'' [PStr custom_cpu, PStr fullpath]]
                      else if \<not> exists fullpath then
                        [Call ''print'' [PStr (''Couldn't find \"'' @ fullpath @ ''\".'')],
                         Call ''print'' [PStr (''Couldn't find \"'' @ custom_cpu @ ''\".'')]]
                      else [])))
      | None \<Rightarrow> Inr [Call ''print'' [PStr (''Variant \"'' @ variant @ ''\" not known.'')]])"

section \<open>Building a variant\<close>

definition generated_components ::
    "(string \<Rightarrow> constants \<Rightarrow> constants) \<Rightarrow> string \<Rightarrow> constants \<Rightarrow> constants" where
  "generated_components old variant soc =
     (let soc = old variant soc;
          soc = (if contains ''dCacheSize:0'' variant
                 then AList.delete ''CONFIG_CPU_HAS_DCACHE'' soc else soc)
      in if contains ''iCacheSize:0'' variant
         then AList.delete ''CONFIG_CPU_HAS_ICACHE'' soc else soc)"

definition default_cpu_params :: "string dict" where
  "default_cpu_params =
    [(''csrPluginConfig'', ''mcycle''),
     (''bypass'', ''true''),
     (''cfu'', ''false''),
     (''dCacheSize'', ''4096''),
     (''hardwareDiv'', ''false''),
     (''iCacheSize'', ''4096''),
     (''mulDiv'', ''true''),
     (''prediction'', ''none''),
     (''safe'', ''true''),
     (''singleCycleShift'', ''true''),
     (''singleCycleMulDiv'', ''true'')]"

definition set_param :: "string dict \<Rightarrow> string \<Rightarrow> string dict result" where
  "set_param cpu_params param =
     (if contains ''cfu'' param then Inr (AList.update param ''true'' cpu_params)
      else case split_char CHR '':'' param of
          [param_name, val] \<Rightarrow>
            (if dict_has cpu_params param_name then Inr (AList.update param_name val cpu_params)
             else Inl (ValueError (param_name @ '' parameter not recognized.'')))
        | [_] \<Rightarrow> Inl (ValueError ''not enough values to unpack (expected 2, got 1)'')
        | _ \<Rightarrow> Inl (ValueError ''too many values to unpack (expected 2)''))"

fun set_params :: "string dict \<Rightarrow> string list \<Rightarrow> string dict result" where
  "set_params d [] = Inr d"
| "set_params d (p # ps) = bindE (set_param d p) (\<lambda>d. set_params d ps)"

definition variant_params :: "string \<Rightarrow> string dict result" where
  "variant_params variant =
     (let params = split_char CHR ''+'' variant in
      if hd params \<noteq> ''generate'' then Inl (SystemExit '''')
      else set_params default_cpu_params (tl params))"

definition sorted_params :: "string dict \<Rightarrow> string dict" where
  "sorted_params d = sort_key fst d"

definition cpu_filename_base :: "string dict \<Rightarrow> string" where
  "cpu_filename_base d =
     foldl (\<lambda>base (n, v). base @ ''_'' @ n @ ''-'' @ v) ''VexRiscv'' (sorted_params d)"

definition gen_args :: "string dict \<Rightarrow> string list" where
  "gen_args d = map (\<lambda>(n, v). ''--'' @ n @ ''='' @ v) (sorted_params d) @
     [''--outputFile='' @ cpu_filename_base d]"

definition generated_gcc_flags :: "string dict \<Rightarrow> string" where
  "generated_gcc_flags d =
     (let arch = (if map_of d ''mulDiv'' = Some ''false'' then ''rv32i'' else ''rv32im'');
          hwDiv = (if map_of d ''mulDiv'' = Some ''false'' then ''  -mno-div''
                   else if map_of d ''hardwareDiv'' = Some ''false'' then ''  -mno-div'' else '''')
      in ''-march='' @ arch @ '' -mabi=ilp32 '' @ hwDiv)"

text \<open>
  The whole function: outcome, new state of the module, and operations. \<open>sbt\<close> is the exit status
  of the shell command, and a command that succeeds has written the file that is copied; \<open>serv\<close>
  are the variants of the other core.
\<close>

definition build_cpu_variant_if_needed ::
    "(string \<Rightarrow> bool) \<Rightarrow> string \<Rightarrow> string option \<Rightarrow> (string \<Rightarrow> int) \<Rightarrow> string list \<Rightarrow>
     string \<Rightarrow> core_state \<Rightarrow> unit result \<times> core_state \<times> soc_op list" where
  "build_cpu_variant_if_needed exists vdir cfu_root sbt serv variant st =
     (if dict_has (CPU_VARIANTS st) variant \<or> variant \<in> set serv then
        (Inr (), st, [Call ''print'' [PStr (''Variant \"'' @ variant @ ''\" already known.'')]])
      else
        let st = st\<lparr>add_soc_components := generated_components (add_soc_components st)\<rparr> in
        case variant_params variant of
          Inl (SystemExit e) \<Rightarrow> (Inl (SystemExit e), st,
            [Call ''print'' [PStr ''ERROR: Need generate keyword to begin on demand Vexriscv build.'']])
        | Inl e \<Rightarrow> (Inl e, st, [])
        | Inr d \<Rightarrow>
            (case cfu_root of
               None \<Rightarrow> (Inl (TypeError ''expected str, bytes or os.PathLike object, not NoneType''), st, [])
             | Some root \<Rightarrow>
                (let base = cpu_filename_base d;
                     cpu_filename = base @ ''.v'';
                     custom_dir = path_join (path_join root ''soc'') ''vexriscv'';
                     custom_cpu = path_join custom_dir cpu_filename;
                     fullpath = path_join vdir cpu_filename;
                     cmd = ''cd '' @ custom_dir @ '' && sbt compile \"runMain vexriscv.GenCoreDefault '' @
                       join '' '' (gen_args d) @ ''\"'';
                     log = [Call ''print'' [PStr (''CUSTOM CPU: '' @ custom_cpu)],
                            Call ''print'' [PStr (''VDIR: '' @ vdir)],
                            Call ''print'' [PStr (''FULL PATH: '' @ fullpath)]];
                     log = log @ (if exists custom_cpu
                       then [Call ''print'' [PStr (''Variant \"'' @ variant @ ''\" already known.'')]]
                       else [Call ''print'' [PStr (''Generating variant \"'' @ variant @ ''\" in file \"'' @
                               cpu_filename @ ''\".'')], Call ''os.system'' [PStr cmd]])
                 in if \<not> exists custom_cpu \<and> sbt cmd \<noteq> 0 then
                      (Inl (OSError ''Failed to run sbt''), st, log)
                    else
                      (Inr (),
                       st\<lparr>CPU_VARIANTS := AList.update variant base (CPU_VARIANTS st),
                          GCC_FLAGS := AList.update variant (generated_gcc_flags d) (GCC_FLAGS st)\<rparr>,
                       log @ [Call ''copyfile'' [PStr custom_cpu, PStr fullpath]]))))"

end
