(* ===== verification/Arg_Parse.thy ===== *)
theory Arg_Parse
  imports Soc_Ops
begin

text \<open>
  The command lines: the part of Python's \<open>argparse\<close> that the programs use, as tables of long
  options and a parser over the list of arguments. Options may be abbreviated to a unique prefix
  and take their value as the next argument or after an equal sign; the value of a stored option
  must not look like an option. A usage error exits. \<open>--help\<close> and the separator \<open>--\<close> are left out.
\<close>

section \<open>Option tables\<close>

datatype opt_action = Store | StoreTrue | AppendTo

datatype opt_type = TStr | TInt | TFloat

record option_spec =
  opt_flag :: string
  opt_action :: opt_action
  opt_type :: opt_type
  opt_default :: py_val

record parser_spec =
  parser_options :: "option_spec list"
  parser_positionals :: "string list"
  exclusive_groups :: "string list list"

definition dest_of :: "string \<Rightarrow> string" where
  "dest_of flag = map (\<lambda>c. if c = CHR ''-'' then CHR ''_'' else c) (drop 2 flag)"

abbreviation store_true :: "string \<Rightarrow> option_spec" where
  "store_true flag \<equiv> \<lparr>opt_flag = flag, opt_action = StoreTrue, opt_type = TStr, opt_default = PBool False\<rparr>"

abbreviation store_opt :: "string \<Rightarrow> py_val \<Rightarrow> option_spec" where
  "store_opt flag d \<equiv> \<lparr>opt_flag = flag, opt_action = Store, opt_type = TStr, opt_default = d\<rparr>"

abbreviation append_opt :: "string \<Rightarrow> option_spec" where
  "append_opt flag \<equiv> \<lparr>opt_flag = flag, opt_action = AppendTo, opt_type = TStr, opt_default = PList []\<rparr>"

text \<open>The defaults of a parser, in the order of its options; positionals have none.\<close>

definition parser_defaults :: "parser_spec \<Rightarrow> py_val dict" where
  "parser_defaults ps = fold (\<lambda>o' d. AList.update (dest_of (opt_flag o')) (opt_default o') d)
     (parser_options ps) []"

text \<open>\<open>set_defaults\<close>: replaces the defaults of known options and adds the others.\<close>

definition set_defaults :: "py_val dict \<Rightarrow> py_val dict \<Rightarrow> py_val dict" where
  "set_defaults kvs d = dict_update d kvs"

section \<open>Parsing\<close>

definition usage_error :: "'a result" where
  "usage_error = Inl (SystemExit ''2'')"

text \<open>A negative number: a minus sign, then digits, or digits, a point and digits.\<close>

definition looks_negative :: "string \<Rightarrow> bool" where
  "looks_negative s \<longleftrightarrow>
     (let body = tl s; whole = takeWhile is_digit body; rest = dropWhile is_digit body in
      s \<noteq> [] \<and> hd s = CHR ''-'' \<and>
      (whole \<noteq> [] \<and> rest = [] \<or>
       rest \<noteq> [] \<and> hd rest = CHR ''.'' \<and> tl rest \<noteq> [] \<and> list_all is_digit (tl rest)))"

definition split_eq :: "string \<Rightarrow> string \<times> string option" where
  "split_eq s =
     (let name = takeWhile (\<lambda>c. c \<noteq> CHR ''='') s in
      if length name < length s then (name, Some (drop (Suc (length name)) s)) else (s, None))"

text \<open>The option that an argument names: an exact match, else a unique prefix.\<close>

definition find_option :: "option_spec list \<Rightarrow> string \<Rightarrow> option_spec option result" where
  "find_option os name =
     (case filter (\<lambda>o'. opt_flag o' = name) os of
        o' # _ \<Rightarrow> Inr (Some o')
      | [] \<Rightarrow> (case filter (\<lambda>o'. prefix name (opt_flag o')) os of
          [] \<Rightarrow> Inr None
        | [o'] \<Rightarrow> Inr (Some o')
        | _ \<Rightarrow> usage_error))"

text \<open>
  What counts as an option: an argument with a dash that names one, or that is neither a negative
  number nor has a space.
\<close>

definition is_option :: "option_spec list \<Rightarrow> string \<Rightarrow> bool" where
  "is_option os s \<longleftrightarrow> length s > 1 \<and> hd s = CHR ''-'' \<and>
     (find_option os (fst (split_eq s)) \<noteq> Inr None \<or> \<not> looks_negative s \<and> CHR '' '' \<notin> set s)"

definition convert :: "opt_type \<Rightarrow> string \<Rightarrow> py_val result" where
  "convert ty s =
     (case ty of
        TStr \<Rightarrow> Inr (PStr s)
      | TFloat \<Rightarrow> (case read_float s of Some x \<Rightarrow> Inr (PFloat x) | None \<Rightarrow> usage_error)
      | TInt \<Rightarrow> (case read_int s of Some n \<Rightarrow> Inr (PInt n) | None \<Rightarrow> usage_error))"

definition store_value :: "option_spec \<Rightarrow> string \<Rightarrow> py_val dict \<Rightarrow> py_val dict result" where
  "store_value o' s d =
     bindE (convert (opt_type o') s) (\<lambda>v.
       let dest = dest_of (opt_flag o') in
       Inr (AList.update dest
         (case opt_action o' of
            AppendTo \<Rightarrow> (case map_of d dest of Some (PList vs) \<Rightarrow> PList (vs @ [v]) | _ \<Rightarrow> PList [v])
          | _ \<Rightarrow> v) d))"

text \<open>
  The loop over the arguments; the state is the namespace, the options seen, the positionals still
  expected, and the arguments that are not known.
\<close>

record parse_state =
  parsed_ns :: "py_val dict"
  opts_seen :: "string list"
  pos_left :: "string list"
  parse_extras :: "string list"

fun parse_loop :: "option_spec list \<Rightarrow> string list \<Rightarrow> parse_state \<Rightarrow> parse_state result" where
  "parse_loop os [] st = Inr st"
| "parse_loop os (a # as) st =
     (if is_option os a then
        (case split_eq a of (name, inline) \<Rightarrow>
           bindE (find_option os name) (\<lambda>m.
             case m of
               None \<Rightarrow> parse_loop os as (st\<lparr>parse_extras := parse_extras st @ [a]\<rparr>)
             | Some o' \<Rightarrow>
                 let st' = st\<lparr>opts_seen := dest_of (opt_flag o') # opts_seen st\<rparr> in
                 (case opt_action o' of
                    StoreTrue \<Rightarrow>
                      (if inline \<noteq> None then usage_error
                       else parse_loop os as
                         (st'\<lparr>parsed_ns := AList.update (dest_of (opt_flag o')) (PBool True) (parsed_ns st')\<rparr>))
                  | _ \<Rightarrow>
                      (case inline of
                         Some v \<Rightarrow> bindE (store_value o' v (parsed_ns st')) (\<lambda>d. parse_loop os as (st'\<lparr>parsed_ns := d\<rparr>))
                       | None \<Rightarrow>
                           (case as of
                              v # rest \<Rightarrow>
                                (if is_option os v then usage_error
                                 else bindE (store_value o' v (parsed_ns st'))
                                   (\<lambda>d. parse_loop os rest (st'\<lparr>parsed_ns := d\<rparr>)))
                            | [] \<Rightarrow> usage_error)))))
      else (case pos_left st of
          p # ps \<Rightarrow> parse_loop os as (st\<lparr>parsed_ns := AList.update p (PStr a) (parsed_ns st), pos_left := ps\<rparr>)
        | [] \<Rightarrow> parse_loop os as (st\<lparr>parse_extras := parse_extras st @ [a]\<rparr>)))"

definition exclusive_ok :: "string list list \<Rightarrow> string list \<Rightarrow> bool" where
  "exclusive_ok groups ss \<longleftrightarrow>
     list_all (\<lambda>g. length (filter (\<lambda>d. d \<in> set ss) g) \<le> 1) groups"

definition parse_known_args ::
    "parser_spec \<Rightarrow> py_val dict \<Rightarrow> string list \<Rightarrow> (py_val dict \<times> string list) result" where
  "parse_known_args ps defaults argv =
     bindE (parse_loop (parser_options ps) argv
       \<lparr>parsed_ns = defaults, opts_seen = [], pos_left = parser_positionals ps, parse_extras = []\<rparr>) (\<lambda>st.
       if pos_left st \<noteq> [] \<or> \<not> exclusive_ok (exclusive_groups ps) (opts_seen st) then usage_error
       else Inr (parsed_ns st, parse_extras st))"

definition parse_args :: "parser_spec \<Rightarrow> py_val dict \<Rightarrow> string list \<Rightarrow> py_val dict result" where
  "parse_args ps defaults argv =
     bindE (parse_known_args ps defaults argv) (\<lambda>(d, ex). if ex = [] then Inr d else usage_error)"

text \<open>Reading a namespace.\<close>

definition arg_val :: "py_val dict \<Rightarrow> string \<Rightarrow> py_val" where
  "arg_val d k = dict_get d k PNone"

definition flag_set :: "py_val dict \<Rightarrow> string \<Rightarrow> bool" where
  "flag_set d k = truthy (arg_val d k)"

fun str_arg :: "py_val \<Rightarrow> string" where
  "str_arg (PStr s) = s"
| "str_arg _ = ''''"

lemma arg_val_update [simp]:
  "arg_val (AList.update k v d) k' = (if k = k' then v else arg_val d k')"
  by (simp add: arg_val_def dict_get_def update_conv')

section \<open>What is written is what is read\<close>

text \<open>A setting of the command line: a flag, or an option with a value.\<close>

datatype setting = Flag string | Value string string

fun setting_argv :: "setting \<Rightarrow> string list" where
  "setting_argv (Flag f) = [f]"
| "setting_argv (Value f v) = [f, v]"

fun setting_dest :: "setting \<Rightarrow> string" where
  "setting_dest (Flag f) = dest_of f"
| "setting_dest (Value f v) = dest_of f"

fun setting_val :: "setting \<Rightarrow> py_val" where
  "setting_val (Flag f) = PBool True"
| "setting_val (Value f v) = PStr v"

text \<open>A setting that the table knows: the flag is in it with the right action and is a long option.\<close>

fun setting_known :: "option_spec list \<Rightarrow> setting \<Rightarrow> bool" where
  "setting_known os (Flag f) \<longleftrightarrow> prefix ''--'' f \<and> CHR ''='' \<notin> set f \<and>
     list_ex (\<lambda>o'. opt_flag o' = f) os \<and>
     list_all (\<lambda>o'. opt_flag o' = f \<longrightarrow> opt_action o' = StoreTrue) os"
| "setting_known os (Value f v) \<longleftrightarrow> prefix ''--'' f \<and> CHR ''='' \<notin> set f \<and> \<not> is_option os v \<and>
     list_ex (\<lambda>o'. opt_flag o' = f) os \<and>
     list_all (\<lambda>o'. opt_flag o' = f \<longrightarrow> opt_action o' = Store \<and> opt_type o' = TStr) os"

lemma split_eq_plain: "CHR ''='' \<notin> set f \<Longrightarrow> split_eq f = (f, None)"
proof -
  assume "CHR ''='' \<notin> set f"
  then have tw: "takeWhile (\<lambda>c. c \<noteq> CHR ''='') f = f" by (auto simp: takeWhile_eq_all_conv)
  show ?thesis unfolding split_eq_def Let_def tw by simp
qed

lemma find_option_exact:
  "list_ex (\<lambda>o'. opt_flag o' = f) os \<Longrightarrow>
   \<exists>o'\<in>set os. find_option os f = Inr (Some o') \<and> opt_flag o' = f"
proof -
  assume "list_ex (\<lambda>o'. opt_flag o' = f) os"
  then obtain o' rest where *: "filter (\<lambda>o'. opt_flag o' = f) os = o' # rest"
    by (cases "filter (\<lambda>o'. opt_flag o' = f) os") (auto simp: filter_empty_conv list_ex_iff)
  then have "o' \<in> set (filter (\<lambda>o'. opt_flag o' = f) os)" by simp
  then have "o' \<in> set os" "opt_flag o' = f" by auto
  with * show ?thesis by (auto simp: find_option_def)
qed

lemma parse_setting:
  assumes "setting_known os s"
  shows "parse_loop os (setting_argv s @ as) st =
    parse_loop os as (st\<lparr>opts_seen := setting_dest s # opts_seen st,
      parsed_ns := AList.update (setting_dest s) (setting_val s) (parsed_ns st)\<rparr>)"
proof (cases s)
  case (Flag f)
  with assms obtain o' where "find_option os f = Inr (Some o')" "opt_flag o' = f" "opt_action o' = StoreTrue"
    using find_option_exact [of f os] by (auto simp: list_all_iff)
  moreover from Flag assms have "length f > 1" "hd f = CHR ''-''" by (cases f; auto)+
  ultimately show ?thesis using Flag assms by (simp add: is_option_def split_eq_plain)
next
  case (Value f v)
  with assms obtain o' where "find_option os f = Inr (Some o')" "opt_flag o' = f"
    "opt_action o' = Store" "opt_type o' = TStr"
    using find_option_exact [of f os] by (auto simp: list_all_iff)
  moreover from this Value assms have "is_option os f"
    by (cases f; cases "tl f") (auto simp: is_option_def split_eq_plain)
  ultimately show ?thesis using Value assms
    by (simp add: split_eq_plain store_value_def convert_def)
qed

lemma parse_settings:
  assumes "list_all (setting_known os) ss"
  shows "parse_loop os (concat (map setting_argv ss)) st =
    Inr (st\<lparr>opts_seen := rev (map setting_dest ss) @ opts_seen st,
      parsed_ns := dict_update (parsed_ns st) (map (\<lambda>s. (setting_dest s, setting_val s)) ss)\<rparr>)"
  using assms
proof (induction ss arbitrary: st)
  case (Cons s ss)
  then show ?case by (simp add: parse_setting dict_update_def)
qed simp

lemma parse_args_settings:
  assumes "list_all (setting_known (parser_options ps)) ss" and "parser_positionals ps = []"
    and "exclusive_ok (exclusive_groups ps) (map setting_dest ss)"
  shows "parse_args ps d (concat (map setting_argv ss)) =
    Inr (dict_update d (map (\<lambda>s. (setting_dest s, setting_val s)) ss))"
proof -
  have "exclusive_ok (exclusive_groups ps) (rev (map setting_dest ss))"
    using assms(3) by (simp add: exclusive_ok_def)
  then show ?thesis
    using assms(2) by (simp add: parse_args_def parse_known_args_def parse_settings [OF assms(1)])
qed

section \<open>Names in a parsed namespace\<close>

lemma filter_hd_in: "filter P xs = y # ys \<Longrightarrow> y \<in> set xs"
  by (metis filter_is_subset list.set_intros(1) subsetD)

lemma find_option_in: "find_option os name = Inr (Some o') \<Longrightarrow> o' \<in> set os"
  by (auto simp: find_option_def usage_error_def split: list.splits dest: filter_hd_in)

lemma store_value_update:
  "store_value o' v d = Inr d' \<Longrightarrow> \<exists>y. d' = AList.update (dest_of (opt_flag o')) y d"
  by (auto simp: store_value_def bindE_Inr_iff Let_def)

text \<open>What an argument can do to the state of the parser.\<close>

inductive parse_step :: "option_spec list \<Rightarrow> parse_state \<Rightarrow> parse_state \<Rightarrow> bool" for os where
  parse_extra: "parse_step os st (st\<lparr>parse_extras := e\<rparr>)"
| parse_positional: "pos_left st = p # ps \<Longrightarrow>
    parse_step os st (st\<lparr>parsed_ns := AList.update p v (parsed_ns st), pos_left := ps\<rparr>)"
| parse_option: "o' \<in> set os \<Longrightarrow>
    parse_step os st (st\<lparr>opts_seen := dest_of (opt_flag o') # opts_seen st,
      parsed_ns := AList.update (dest_of (opt_flag o')) v (parsed_ns st)\<rparr>)"

lemma parse_loop_step:
  assumes "parse_loop os (a # as) st = Inr st'"
  shows "\<exists>as2 st2. length as2 \<le> length as \<and> parse_loop os as2 st2 = Inr st' \<and> parse_step os st st2"
proof (cases "is_option os a")
  case False
  show ?thesis
  proof (cases "pos_left st")
    case Nil
    with False assms show ?thesis by (auto intro: parse_extra)
  next
    case (Cons p ps)
    with False assms have "parse_loop os as
        (st\<lparr>parsed_ns := AList.update p (PStr a) (parsed_ns st), pos_left := ps\<rparr>) = Inr st'" by simp
    with parse_positional [OF Cons] show ?thesis by blast
  qed
next
  case True
  obtain name inline where eq: "split_eq a = (name, inline)" by force
  with True assms obtain m where m: "find_option os name = Inr m" by (auto simp: bindE_Inr_iff)
  show ?thesis
  proof (cases m)
    case None
    with assms True eq m show ?thesis by (auto intro: parse_extra)
  next
    case (Some o')
    then have o': "o' \<in> set os" using find_option_in m by blast
    let ?st = "st\<lparr>opts_seen := dest_of (opt_flag o') # opts_seen st\<rparr>"
    have sv: ?thesis if "store_value o' v (parsed_ns st) = Inr e"
        "parse_loop os as2 (?st\<lparr>parsed_ns := e\<rparr>) = Inr st'" "length as2 \<le> length as" for v e as2
    proof -
      from store_value_update [OF that(1)] obtain y where
        "e = AList.update (dest_of (opt_flag o')) y (parsed_ns st)" by blast
      with that(2,3) parse_option [OF o', of st y] show ?thesis by auto
    qed
    show ?thesis
    proof (cases "opt_action o' = StoreTrue")
      case act: True
      then have "parse_loop os as (?st\<lparr>parsed_ns :=
          AList.update (dest_of (opt_flag o')) (PBool True) (parsed_ns st)\<rparr>) = Inr st'"
        using assms True eq m Some by (cases inline) (simp_all add: usage_error_def Let_def)
      with parse_option [OF o', of st "PBool True"] show ?thesis by auto
    next
      case act: False
      show ?thesis
      proof (cases inline)
        case (Some v)
        from assms True eq m \<open>m = Some o'\<close> act Some obtain e where
          "store_value o' v (parsed_ns st) = Inr e" "parse_loop os as (?st\<lparr>parsed_ns := e\<rparr>) = Inr st'"
          by (cases "opt_action o'") (auto simp: bindE_Inr_iff Let_def)
        then show ?thesis by (rule sv) simp
      next
        case None
        from assms True eq m Some act None obtain v rest e where "as = v # rest"
          "store_value o' v (parsed_ns st) = Inr e" "parse_loop os rest (?st\<lparr>parsed_ns := e\<rparr>) = Inr st'"
          by (cases "opt_action o'"; cases as)
            (auto simp: bindE_Inr_iff Let_def usage_error_def split: if_splits)
        then show ?thesis by (intro sv [of v e rest]) auto
      qed
    qed
  qed
qed

lemma parse_loop_steps: "parse_loop os as st = Inr st' \<Longrightarrow> (parse_step os)\<^sup>*\<^sup>* st st'"
proof (induction "length as" arbitrary: as st rule: less_induct)
  case less
  show ?case
  proof (cases as)
    case (Cons a as')
    from parse_loop_step [OF less.prems [unfolded Cons]] obtain as2 st2 where
      "length as2 \<le> length as'" "parse_loop os as2 st2 = Inr st'" "parse_step os st st2" by blast
    with less.hyps [of as2 st2] Cons show ?thesis by (simp add: converse_rtranclp_into_rtranclp)
  qed (use less.prems in auto)
qed

definition option_dests :: "option_spec list \<Rightarrow> string set" where
  "option_dests os = (dest_of \<circ> opt_flag) ` set os"

definition names_of :: "parse_state \<Rightarrow> string set" where
  "names_of st = fst ` set (parsed_ns st) \<union> set (pos_left st)"

lemma parse_steps_names:
  "(parse_step os)\<^sup>*\<^sup>* st st' \<Longrightarrow> names_of st' \<subseteq> names_of st \<union> option_dests os"
proof (induction rule: rtranclp_induct)
  case (step st1 st2)
  have "names_of st2 \<subseteq> names_of st1 \<union> option_dests os"
    using step.hyps(2) by cases (auto simp: names_of_def option_dests_def dom_update)
  with step.IH show ?case by blast
qed auto

text \<open>A name that was not given, as an option or a positional, has its old value.\<close>

lemma parse_steps_unseen:
  "(parse_step os)\<^sup>*\<^sup>* st st' \<Longrightarrow>
   set (pos_left st') \<subseteq> set (pos_left st) \<and> set (opts_seen st) \<subseteq> set (opts_seen st') \<and>
   (\<forall>k. k \<notin> set (opts_seen st') \<and> k \<notin> set (pos_left st) \<longrightarrow> map_of (parsed_ns st') k = map_of (parsed_ns st) k)"
proof (induction rule: rtranclp_induct)
  case (step st1 st2)
  show ?case using step.hyps(2) step.IH by cases (auto simp: update_conv')
qed simp

text \<open>A parsed namespace has only the names of the defaults, the options and the positionals.\<close>

lemma parse_known_args_names:
  assumes "parse_known_args ps d argv = Inr (e, ex)"
  shows "fst ` set e \<subseteq> fst ` set d \<union> option_dests (parser_options ps) \<union> set (parser_positionals ps)"
proof -
  from assms obtain st where "e = parsed_ns st" and
    "parse_loop (parser_options ps) argv \<lparr>parsed_ns = d, opts_seen = [],
      pos_left = parser_positionals ps, parse_extras = []\<rparr> = Inr st"
    by (auto simp: parse_known_args_def bindE_Inr_iff usage_error_def split: if_splits)
  from this(1) parse_steps_names [OF parse_loop_steps [OF this(2)]] show ?thesis
    by (simp add: names_of_def Un_ac)
qed

text \<open>Of a group of mutually exclusive options a parsed command line has at most one.\<close>

lemma parse_args_exclusive:
  assumes "parse_args ps d argv = Inr e" and "g \<in> set (exclusive_groups ps)"
    and "k \<in> set g" "k' \<in> set g" "k \<noteq> k'" and "distinct g" and "parser_positionals ps = []"
  shows "map_of e k = map_of d k \<or> map_of e k' = map_of d k'"
proof -
  from assms(1,7) obtain st where e: "e = parsed_ns st" and run:
    "parse_loop (parser_options ps) argv \<lparr>parsed_ns = d, opts_seen = [], pos_left = [], parse_extras = []\<rparr> = Inr st"
    and ex: "exclusive_ok (exclusive_groups ps) (opts_seen st)"
    by (auto simp: parse_args_def parse_known_args_def bindE_Inr_iff usage_error_def split: if_splits)
  have "\<not> (k \<in> set (opts_seen st) \<and> k' \<in> set (opts_seen st))"
  proof
    assume *: "k \<in> set (opts_seen st) \<and> k' \<in> set (opts_seen st)"
    let ?g = "filter (\<lambda>d. d \<in> set (opts_seen st)) g"
    have "card {k, k'} \<le> card (set ?g)" using * assms(3,4) by (intro card_mono) auto
    also have "\<dots> = length ?g" by (rule distinct_card [OF distinct_filter [OF assms(6)]])
    finally show False using ex assms(2,5) by (force simp: exclusive_ok_def list_all_iff)
  qed
  with parse_steps_unseen [OF parse_loop_steps [OF run]] show ?thesis by (auto simp: e)
qed

end
