(* ===== verification/Board_Workflows.thy ===== *)
theory Board_Workflows
  imports Cpu_Variants Arg_Parse
begin

text \<open>
  The board workflows of \<^verbatim>\<open>soc/board_specific_workflows\<close> and \<^verbatim>\<open>soc/common_soc.py\<close>: a class per
  board, derived from a general workflow, with the methods that make, build and load a SoC and
  load software onto the board. Constructors of the framework are parameters that return the SoC
  they make; the state threaded through the methods is the patched CPU module.
\<close>

section \<open>Workflow classes and their arguments\<close>

datatype wf_class =
    GeneralSoCWorkflow
  | DigilentArtySoCWorkflow
  | Ice40UP5KWorkflow
  | IcebreakerSoCWorkflow
  | KosagiFomuSoCWorkflow
  | LatticeCrossLinkNXEVNSoCWorkflow

definition workflow_table :: "(string \<times> wf_class) list" where
  "workflow_table =
    [(''digilent_arty'', DigilentArtySoCWorkflow),
     (''icebreaker'', IcebreakerSoCWorkflow),
     (''kosagi_fomu'', KosagiFomuSoCWorkflow),
     (''lattice_crosslink_nx_evn'', LatticeCrossLinkNXEVNSoCWorkflow)]"

definition workflow_factory :: "string \<Rightarrow> wf_class" where
  "workflow_factory target = dict_get workflow_table target GeneralSoCWorkflow"

text \<open>\<open>__all__\<close> of the package; the last two literals are one string, a comma is missing.\<close>

definition workflow_exports :: "string list" where
  "workflow_exports =
    [''DigilentArtySoCWorkflow'', ''GeneralSoCWorkflow'', ''IcebreakerSoCWorkflow'',
     ''KosagiFomuSoCWorkflow'', ''LatticeCrossLinkNXEVNSoCWorkflow'',
     ''parse_workflow_args'' @ ''workflow_factory'']"

definition workflow_names :: "string list" where
  "workflow_names =
    [''DigilentArtySoCWorkflow'', ''GeneralSoCWorkflow'', ''IcebreakerSoCWorkflow'',
     ''KosagiFomuSoCWorkflow'', ''LatticeCrossLinkNXEVNSoCWorkflow'', ''parse_workflow_args'',
     ''workflow_factory'']"

text \<open>The command line; the framework's own options are parameters, in the order they are added.\<close>

definition workflow_parser ::
    "option_spec list \<Rightarrow> option_spec list \<Rightarrow> option_spec list \<Rightarrow> parser_spec" where
  "workflow_parser builder_opts soc_core_opts vivado_opts =
     \<lparr>parser_options =
        [store_true ''--build'', store_true ''--load'', store_opt ''--toolchain'' PNone,
         (store_opt ''--sys-clk-freq'' PNone)\<lparr>opt_type := TFloat\<rparr>] @
        builder_opts @ soc_core_opts @ vivado_opts @
        [store_true ''--with-ethernet'', store_true ''--with-etherbone'',
         store_true ''--with-mapped-flash'', store_true ''--with-spi-sdcard'',
         store_true ''--with-video-framebuffer'',
         store_opt ''--target'' (PStr ''digilent_arty'')],
      parser_positionals = [], exclusive_groups = []\<rparr>"

definition workflow_set_defaults :: "py_val dict" where
  "workflow_set_defaults =
    [(''csr_csv'', PStr ''csr.csv''), (''uart_name'', PStr ''serial''),
     (''uart_baudrate'', PInt 921600), (''cpu_variant'', PStr ''full+cfu''),
     (''with_etherbone'', PBool False)]"

text \<open>An \<open>input\<close> that is missing or empty stands for the arguments of the process.\<close>

definition parse_workflow_args ::
    "parser_spec \<Rightarrow> string list \<Rightarrow> string list option \<Rightarrow> py_val dict result" where
  "parse_workflow_args ps sys_argv input =
     (let argv = (case input of None \<Rightarrow> sys_argv | Some [] \<Rightarrow> sys_argv | Some xs \<Rightarrow> xs) in
      bindE (parse_known_args ps (set_defaults workflow_set_defaults (parser_defaults ps)) argv)
        (\<lambda>(d, _). Inr d))"

section \<open>Constructors\<close>

record workflow =
  wf_class :: wf_class
  wf_args :: "py_val dict"
  bios_flash_offset :: nat

text \<open>The Arty workflow parses the command line again for its own option and adds it in front.\<close>

definition arty_parser :: parser_spec where
  "arty_parser = \<lparr>parser_options = [store_opt ''--variant'' (PStr ''a7-35'')],
     parser_positionals = [], exclusive_groups = []\<rparr>"

definition namespace_union :: "py_val dict \<Rightarrow> py_val dict \<Rightarrow> py_val dict result" where
  "namespace_union a b =
     (if list_ex (\<lambda>k. dict_has b k) (map fst a)
      then Inl (TypeError ''got multiple values for keyword argument'') else Inr (a @ b))"

definition arty_args :: "string list \<Rightarrow> py_val dict \<Rightarrow> (py_val dict \<times> soc_op list) result" where
  "arty_args argv args =
     bindE (parse_known_args arty_parser (parser_defaults arty_parser) argv) (\<lambda>(a, _).
     bindE (namespace_union a args) (\<lambda>args.
       Inr (if arg_val args ''toolchain'' = PStr ''symbiflow'' \<and> \<not> flag_set args ''sys_clk_freq''
            then (AList.update ''sys_clk_freq'' (PInt 75000000) args,
                  [Call ''print'' [PStr ''INFO:Workflow:Setting sys_clk_freq to 75MHz.'']])
            else (args, []))))"

definition allowed_variants :: "string list dict" where
  "allowed_variants =
    [(''kosagi_fomu'', [''fomu'', ''fonu+cfu'', ''minimal'', ''minimal+cfu'']),
     (''icebreaker'', [''fomu'', ''fomu+cfu'', ''breaker'', ''breaker+cfu'', ''minimal'', ''minimal+cfu''])]"

definition ice40_warning :: "string list \<Rightarrow> string \<Rightarrow> string \<Rightarrow> string" where
  "ice40_warning allowed target variant =
     [CHR 0x0A] @ ''Only '' @ list_repr allowed @ '' variants of Vexriscv are supported for '' @
     [CHR 0x22] @ target @ [CHR 0x22] @ ''; '' @ variant @ '' is not supported.'' @
     [CHR 0x0A] @ ''Using fomu+cfu.''"

definition ice40_args :: "bool \<Rightarrow> py_val dict \<Rightarrow> (py_val dict \<times> soc_op list) result" where
  "ice40_args warn args =
     (let target = str_arg (arg_val args ''target''); variant = str_arg (arg_val args ''cpu_variant'') in
      case map_of allowed_variants target of
        None \<Rightarrow> Inl (AssertionError (''Internal error: unexpected target '' @ target @
          '' for ice40-specific workflow.''))
      | Some allowed \<Rightarrow>
          Inr (if variant \<notin> set allowed
               then (AList.update ''cpu_variant''
                   (PStr (if contains ''cfu'' variant then ''fomu+cfu'' else ''fomu'')) args,
                 if warn then [Call ''warnings.warn'' [PStr (ice40_warning allowed target variant)]] else [])
               else (args, [])))"

text \<open>The subclasses of the ice40 workflow, itself among them.\<close>

definition is_ice40 :: "wf_class \<Rightarrow> bool" where
  "is_ice40 c \<longleftrightarrow> c \<in> {Ice40UP5KWorkflow, IcebreakerSoCWorkflow, KosagiFomuSoCWorkflow}"

text \<open>
  \<open>__init__\<close>: the general one keeps the arguments and patches the CPU variants; the classes
  derived from it adapt the arguments first and then set the flash offset of the software.
\<close>

definition general_init ::
    "wf_class \<Rightarrow> py_val dict \<Rightarrow> core_state \<Rightarrow> soc_op list \<Rightarrow> workflow \<times> core_state \<times> soc_op list" where
  "general_init c args st log =
     (\<lparr>wf_class = c, wf_args = args, bios_flash_offset = 0\<rparr>, patch_cpu_variant st, log)"

definition ice40_init ::
    "bool \<Rightarrow> wf_class \<Rightarrow> py_val dict \<Rightarrow> core_state \<Rightarrow> (workflow \<times> core_state \<times> soc_op list) result" where
  "ice40_init warn c args st =
     bindE (ice40_args warn args) (\<lambda>(args, log).
       case general_init c args st log of
         (flow, st, log) \<Rightarrow> Inr (flow\<lparr>bios_flash_offset := 0x30000\<rparr>, st, log))"

definition fomu_init ::
    "bool \<Rightarrow> wf_class \<Rightarrow> py_val dict \<Rightarrow> core_state \<Rightarrow> (workflow \<times> core_state \<times> soc_op list) result" where
  "fomu_init warn c args st =
     bindE (ice40_init warn c args st) (\<lambda>(flow, st, log).
       Inr (flow\<lparr>bios_flash_offset := 0x60000\<rparr>, st, log))"

definition arty_init ::
    "string list \<Rightarrow> wf_class \<Rightarrow> py_val dict \<Rightarrow> core_state \<Rightarrow>
     (workflow \<times> core_state \<times> soc_op list) result" where
  "arty_init argv c args st =
     bindE (arty_args argv args) (\<lambda>(args, log). Inr (general_init c args st log))"

definition workflow_init ::
    "string list \<Rightarrow> bool \<Rightarrow> wf_class \<Rightarrow> py_val dict \<Rightarrow> core_state \<Rightarrow>
     (workflow \<times> core_state \<times> soc_op list) result" where
  "workflow_init argv warn c args st =
     (case c of
        GeneralSoCWorkflow \<Rightarrow> Inr (general_init c args st [])
      | LatticeCrossLinkNXEVNSoCWorkflow \<Rightarrow> Inr (general_init c args st [])
      | DigilentArtySoCWorkflow \<Rightarrow> arty_init argv c args st
      | Ice40UP5KWorkflow \<Rightarrow> ice40_init warn c args st
      | IcebreakerSoCWorkflow \<Rightarrow> ice40_init warn c args st
      | KosagiFomuSoCWorkflow \<Rightarrow> fomu_init warn c args st)"

section \<open>Making a SoC\<close>

record soc =
  soc_kwargs :: "py_val dict"
  soc_regions :: "soc_region dict"
  soc_build_name :: string
  soc_vivado :: bool
  soc_log :: "soc_op list"

text \<open>
  The world of the workflows: files, directories and processes as in \<open>Cpu_Variants\<close>, the argument
  dictionaries that the framework extracts from the namespace, and its SoC constructor.
\<close>

record wf_world =
  file_exists :: "string \<Rightarrow> bool"
  vexriscv_dir :: string
  cfu_root_env :: "string option"
  sbt_status :: "string \<Rightarrow> int"
  serv_variants :: "string list"
  soc_core_argdict :: "py_val dict \<Rightarrow> py_val dict"
  builder_argdict :: "py_val dict \<Rightarrow> py_val dict"
  vivado_argdict :: "py_val dict \<Rightarrow> py_val dict"
  soc_constructor :: "py_val dict \<Rightarrow> soc result"
  builder_output_dir :: "soc \<Rightarrow> string"
  builder_gateware_dir :: "soc \<Rightarrow> string"

lemma namespace_union_Inr:
  "namespace_union a b = Inr d \<longleftrightarrow> d = a @ b \<and> list_all (\<lambda>k. \<not> dict_has b k) (map fst a)"
  by (auto simp: namespace_union_def list_ex_iff list_all_iff)

text \<open>A call with fixed keyword arguments and \<open>**kwargs\<close>; a key in both raises.\<close>

definition call_kwargs :: "py_val dict \<Rightarrow> py_val dict \<Rightarrow> py_val dict result" where
  "call_kwargs fixed kwargs = namespace_union fixed kwargs"

text \<open>The constructor of the framework's SoC; its first two parameters are positional in some calls.\<close>

definition SoCCore_init :: "py_val \<Rightarrow> string \<Rightarrow> py_val dict \<Rightarrow> soc_op result" where
  "SoCCore_init clk_freq ident kwargs =
     bindE (call_kwargs [(''platform'', PRef ''platform''), (''clk_freq'', clk_freq),
         (''ident'', PStr ident)] kwargs) (\<lambda>kw. Inr (Call ''SoCCore.__init__'' (kw_args kw)))"

lemma SoCCore_init_Inr:
  "SoCCore_init f ident kwargs = Inr op \<longleftrightarrow>
   op = Call ''SoCCore.__init__'' ([PKw ''platform'' (PRef ''platform''), PKw ''clk_freq'' f,
     PKw ''ident'' (PStr ident)] @ kw_args kwargs) \<and>
   \<not> dict_has kwargs ''platform'' \<and> \<not> dict_has kwargs ''clk_freq'' \<and> \<not> dict_has kwargs ''ident''"
  by (auto simp: SoCCore_init_def bindE_Inr_iff call_kwargs_def namespace_union_Inr kw_args_def)

definition set_if :: "bool \<Rightarrow> string \<Rightarrow> py_val \<Rightarrow> py_val dict \<Rightarrow> py_val dict" where
  "set_if b k v d = (if b then AList.update k v d else d)"

definition feature_switches :: "string list" where
  "feature_switches = [''with_ethernet'', ''with_etherbone'', ''with_mapped_flash'', ''with_spi_sdcard'',
     ''with_video_framebuffer'']"

definition base_soc_kwargs :: "wf_world \<Rightarrow> py_val dict \<Rightarrow> py_val dict" where
  "base_soc_kwargs w args =
     (let d = map (\<lambda>k. (k, arg_val args k)) feature_switches;
          d = dict_update d (soc_core_argdict w args);
          d = set_if (flag_set args ''toolchain'') ''toolchain'' (arg_val args ''toolchain'') d
      in set_if (flag_set args ''sys_clk_freq'') ''sys_clk_freq'' (arg_val args ''sys_clk_freq'') d)"

definition general_make_soc ::
    "wf_world \<Rightarrow> workflow \<Rightarrow> py_val dict \<Rightarrow> core_state \<Rightarrow> (soc \<times> core_state \<times> soc_op list) result" where
  "general_make_soc w flow kwargs st =
     (let variant = str_arg (arg_val (wf_args flow) ''cpu_variant'') in
      case build_cpu_variant_if_needed (file_exists w) (vexriscv_dir w) (cfu_root_env w) (sbt_status w)
          (serv_variants w) variant st of
        (Inl e, _, _) \<Rightarrow> Inl e
      | (Inr _, st', log) \<Rightarrow>
          (let all_kwargs = dict_update (base_soc_kwargs w (wf_args flow)) kwargs in
           bindE (soc_constructor w all_kwargs) (\<lambda>s.
             Inr (s, st', [Call ''print'' [PStr ''make_soc: cpu_variant is'', PStr variant]] @ log @
               [Call ''soc_constructor'' (kw_args all_kwargs)]))))"

text \<open>The ice40 boards give all of their RAM back to the \<open>sram\<close> region.\<close>

definition give_back_sram :: "soc \<Rightarrow> soc result" where
  "give_back_sram s =
     (case map_of (soc_regions s) ''sram'' of
        None \<Rightarrow> Inl (KeyError ''sram'')
      | Some sram \<Rightarrow>
          (let rs = AList.update ''sram'' (sram\<lparr>region_size := 128 * 1024\<rparr>) (soc_regions s) in
           case map_of rs ''main_ram'' of
             None \<Rightarrow> Inl (KeyError ''main_ram'')
           | Some ram \<Rightarrow> Inr (s\<lparr>soc_regions :=
               AList.update ''main_ram'' (ram\<lparr>origin := 128 * 1024, region_size := 0\<rparr>) rs\<rparr>)))"

definition ice40_make_soc ::
    "wf_world \<Rightarrow> workflow \<Rightarrow> py_val dict \<Rightarrow> core_state \<Rightarrow> (soc \<times> core_state \<times> soc_op list) result" where
  "ice40_make_soc w flow kwargs st =
     bindE (call_kwargs [(''bios_flash_offset'', PInt (int (bios_flash_offset flow)))] kwargs) (\<lambda>kwargs.
     bindE (general_make_soc w flow kwargs st) (\<lambda>(s, st, log).
     bindE (give_back_sram s) (\<lambda>s. Inr (s, st, log))))"

definition fomu_kwargs :: "py_val dict" where
  "fomu_kwargs =
    [(''integrated_rom_init'', PList [PNone]), (''spi_flash_module'', PStr ''W25Q128JV''),
     (''with_ctrl'', PBool False), (''with_led_chaser'', PBool False), (''with_timer'', PBool False)]"

definition nx_spiflash_region :: soc_region where
  "nx_spiflash_region = \<lparr>origin = 0x00000000, region_size = 16 * 1024 * 1024, region_mode = ''r'',
     cached = True, linker = True\<rparr>"

text \<open>The NX evaluation board runs from its SPI flash: it is mapped as the ROM at address zero.\<close>

definition add_spiflash_rom :: "soc \<Rightarrow> soc" where
  "add_spiflash_rom s = s\<lparr>
     soc_regions := AList.update ''rom'' nx_spiflash_region
       (AList.update ''spiflash'' nx_spiflash_region (soc_regions s)),
     soc_log := soc_log s @
       [Call ''spiflash_phy = LiteSPIPHY'' [PStr ''spiflash'', PStr ''MX25L12835F(READ_1_1_1)'',
          PKw ''default_divisor'' (PInt 1)],
        Call ''spiflash_mmap = LiteSPI'' [PKw ''phy'' (PRef ''spiflash_phy''),
          PKw ''clk_freq'' (PRef ''sys_clk_freq''), PKw ''mmap_endianness'' (PRef ''cpu.endianness'')],
        Call ''csr.add'' [PStr ''spiflash_mmap''],
        Call ''csr.add'' [PStr ''spiflash_phy''],
        Call ''bus.add_slave'' [PStr ''spiflash'', PRef ''spiflash_mmap.bus'', PRegion nx_spiflash_region],
        Call ''bus.add_region'' [PStr ''rom'', PRegion nx_spiflash_region]]\<rparr>"

definition arty_make_soc ::
    "wf_world \<Rightarrow> workflow \<Rightarrow> py_val dict \<Rightarrow> core_state \<Rightarrow> (soc \<times> core_state \<times> soc_op list) result" where
  "arty_make_soc w flow kwargs st =
     bindE (call_kwargs [(''l2_size'', arg_val (wf_args flow) ''l2_size''),
         (''variant'', arg_val (wf_args flow) ''variant''), (''with_jtagbone'', PBool False)] kwargs)
       (\<lambda>kwargs. general_make_soc w flow kwargs st)"

definition fomu_make_soc ::
    "wf_world \<Rightarrow> workflow \<Rightarrow> py_val dict \<Rightarrow> core_state \<Rightarrow> (soc \<times> core_state \<times> soc_op list) result" where
  "fomu_make_soc w flow kwargs st =
     bindE (call_kwargs fomu_kwargs kwargs) (\<lambda>kwargs. ice40_make_soc w flow kwargs st)"

definition nx_make_soc ::
    "wf_world \<Rightarrow> workflow \<Rightarrow> py_val dict \<Rightarrow> core_state \<Rightarrow> (soc \<times> core_state \<times> soc_op list) result" where
  "nx_make_soc w flow kwargs st =
     bindE (call_kwargs [(''integrated_rom_size'', PInt 0), (''integrated_rom_init'', PList [])] kwargs)
       (\<lambda>kwargs. bindE (general_make_soc w flow kwargs st) (\<lambda>(s, st, log).
          Inr (add_spiflash_rom s, st, log)))"

text \<open>The method that a call of \<open>make_soc\<close> reaches, by the class of the workflow.\<close>

definition make_soc ::
    "wf_world \<Rightarrow> workflow \<Rightarrow> py_val dict \<Rightarrow> core_state \<Rightarrow> (soc \<times> core_state \<times> soc_op list) result" where
  "make_soc w flow =
     (case wf_class flow of
        GeneralSoCWorkflow \<Rightarrow> general_make_soc w flow
      | DigilentArtySoCWorkflow \<Rightarrow> arty_make_soc w flow
      | Ice40UP5KWorkflow \<Rightarrow> ice40_make_soc w flow
      | IcebreakerSoCWorkflow \<Rightarrow> ice40_make_soc w flow
      | KosagiFomuSoCWorkflow \<Rightarrow> fomu_make_soc w flow
      | LatticeCrossLinkNXEVNSoCWorkflow \<Rightarrow> nx_make_soc w flow)"

section \<open>Building and loading\<close>

definition general_build_soc ::
    "wf_world \<Rightarrow> workflow \<Rightarrow> py_val dict \<Rightarrow> core_state \<Rightarrow> soc_op list result" where
  "general_build_soc w flow kwargs st =
     (let args = wf_args flow in
      bindE (copy_cpu_variant_if_needed (file_exists w) (vexriscv_dir w) (cfu_root_env w) st
        (str_arg (arg_val args ''cpu_variant''))) (\<lambda>log.
      bindE (call_kwargs [(''run'', arg_val args ''build'')] kwargs) (\<lambda>kw.
        Inr (log @ [Call ''builder_constructor'' (kw_args (builder_argdict w args)),
          Call ''builder.build'' (kw_args kw)]))))"

definition arty_build_soc ::
    "wf_world \<Rightarrow> workflow \<Rightarrow> soc \<Rightarrow> py_val dict \<Rightarrow> core_state \<Rightarrow> soc_op list result" where
  "arty_build_soc w flow s kwargs st =
     general_build_soc w flow
       (if soc_vivado s then dict_update kwargs (vivado_argdict w (wf_args flow)) else kwargs) st"

definition build_soc :: "wf_world \<Rightarrow> workflow \<Rightarrow> soc \<Rightarrow> py_val dict \<Rightarrow> core_state \<Rightarrow> soc_op list result" where
  "build_soc w flow s kwargs st =
     (case wf_class flow of
        DigilentArtySoCWorkflow \<Rightarrow> arty_build_soc w flow s kwargs st
      | _ \<Rightarrow> general_build_soc w flow kwargs st)"

definition output_dir :: "workflow \<Rightarrow> string" where
  "output_dir flow = str_arg (arg_val (wf_args flow) ''output_dir'')"

definition format_bitstream_filename :: "string \<Rightarrow> string \<Rightarrow> string" where
  "format_bitstream_filename directory build_name = path_join directory (build_name @ ''.bit'')"

definition general_load :: "wf_world \<Rightarrow> soc \<Rightarrow> soc_op list" where
  "general_load w s =
     [Call ''platform.create_programmer'' [],
      Call ''prog.load_bitstream''
        [PStr (format_bitstream_filename (builder_gateware_dir w s) (soc_build_name s))]]"

definition flash :: "nat \<Rightarrow> py_val \<Rightarrow> soc_op" where
  "flash offset filename = Call ''IceStormProgrammer.flash'' [PInt (int offset), filename]"

definition icebreaker_load :: "wf_world \<Rightarrow> workflow \<Rightarrow> soc \<Rightarrow> soc_op list" where
  "icebreaker_load w flow s =
     [flash 0x0 (PStr (builder_output_dir w s @ ''/gateware/'' @ soc_build_name s @ ''.bin'')),
      flash (bios_flash_offset flow) (PStr (builder_output_dir w s @ ''/software/bios/bios.bin''))]"

definition fomu_load :: "soc_op list" where
  "fomu_load = []"

definition load :: "wf_world \<Rightarrow> workflow \<Rightarrow> soc \<Rightarrow> soc_op list" where
  "load w flow s =
     (case wf_class flow of
        KosagiFomuSoCWorkflow \<Rightarrow> fomu_load
      | IcebreakerSoCWorkflow \<Rightarrow> icebreaker_load w flow s
      | _ \<Rightarrow> general_load w s)"

definition run_workflow ::
    "wf_world \<Rightarrow> workflow \<Rightarrow> core_state \<Rightarrow> (soc \<times> core_state \<times> soc_op list) result" where
  "run_workflow w flow st =
     bindE (make_soc w flow [] st) (\<lambda>(s, st, make_log).
     bindE (build_soc w flow s [] st) (\<lambda>build_log.
       Inr (s, st, make_log @ build_log @ (if flag_set (wf_args flow) ''load'' then load w flow s else []))))"

section \<open>Loading software\<close>

text \<open>\<open>create_image\<close> on the bytes of the two files.\<close>

type_synonym byte = "8 word"

definition create_image :: "byte list \<Rightarrow> byte list \<Rightarrow> nat \<Rightarrow> byte list result" where
  "create_image bitstream software software_offset =
     (if software_offset < length bitstream
      then Inl (ValueError (''Gateware file overflowed by '' @ dec (length bitstream - software_offset) @
        '' bytes.''))
      else Inr (bitstream @ replicate (software_offset - length bitstream) 0xff @ software))"

text \<open>
  The file system is a partial function from names to contents. \<open>fomu_image_builder\<close> opens both
  inputs and the image before it reads the inputs, so the image is empty while they are read and
  stays empty when the gateware is too large. The directory of the image holds that of the
  gateware, so it exists when the gateware does.
\<close>

type_synonym files = "string \<rightharpoonup> byte list"

fun open_rb :: "files \<Rightarrow> py_val \<Rightarrow> string result" where
  "open_rb files (PStr name) =
     (if files name = None then Inl (OSError (''No such file or directory: '' @ name)) else Inr name)"
| "open_rb files _ = Inl (TypeError ''expected str, bytes or os.PathLike object'')"

definition contents :: "files \<Rightarrow> string \<Rightarrow> byte list" where
  "contents files name = (case files name of None \<Rightarrow> [] | Some bytes \<Rightarrow> bytes)"

definition fomu_image_builder ::
    "string \<Rightarrow> py_val \<Rightarrow> string \<Rightarrow> nat \<Rightarrow> files \<Rightarrow> unit result \<times> files" where
  "fomu_image_builder gateware_filename software_filename image_filename offset files =
     (case bindE (open_rb files (PStr gateware_filename)) (\<lambda>g.
        bindE (open_rb files software_filename) (\<lambda>s. Inr (g, s))) of
        Inl e \<Rightarrow> (Inl e, files)
      | Inr (g, s) \<Rightarrow>
          (let opened = files(image_filename \<mapsto> []) in
           case create_image (contents opened g) (contents opened s) offset of
             Inl e \<Rightarrow> (Inl e, opened)
           | Inr bytes \<Rightarrow> (Inr (), opened(image_filename \<mapsto> bytes))))"

definition ice40_software_load :: "soc_op list result" where
  "ice40_software_load = Inl (NotImplementedError '''')"

definition icebreaker_software_load :: "workflow \<Rightarrow> py_val \<Rightarrow> soc_op list" where
  "icebreaker_software_load flow filename = [flash (bios_flash_offset flow) filename]"

definition fomu_software_load ::
    "workflow \<Rightarrow> py_val \<Rightarrow> files \<Rightarrow> soc_op list result \<times> files" where
  "fomu_software_load flow filename files =
     (let gateware_filename = output_dir flow @ ''/gateware/kosagi_fomu_pvt.bin'';
          image_filename = output_dir flow @ ''/image.bin''
      in case fomu_image_builder gateware_filename filename image_filename
             (bios_flash_offset flow - 0x40000) files of
           (Inl e, files) \<Rightarrow> (Inl e, files)
         | (Inr _, files) \<Rightarrow>
             (Inr [Call ''DFUProg'' [PKw ''pid'' (PStr ''5bf0''), PKw ''vid'' (PStr ''1209'')],
                Call ''DFUProg.load_bitstream'' [PStr image_filename]], files))"

definition general_software_load :: "soc_op list" where
  "general_software_load = []"

definition software_load :: "workflow \<Rightarrow> py_val \<Rightarrow> files \<Rightarrow> soc_op list result \<times> files" where
  "software_load flow filename files =
     (case wf_class flow of
        Ice40UP5KWorkflow \<Rightarrow> (ice40_software_load, files)
      | IcebreakerSoCWorkflow \<Rightarrow> (Inr (icebreaker_software_load flow filename), files)
      | KosagiFomuSoCWorkflow \<Rightarrow> fomu_software_load flow filename files
      | _ \<Rightarrow> (Inr general_software_load, files))"

section \<open>\<^verbatim>\<open>common_soc.py\<close>\<close>

text \<open>The constructor is looked up in the framework's boards first, then in those of the repository.\<close>

definition get_soc_constructor_from :: "string \<Rightarrow> string list \<Rightarrow> string \<Rightarrow> string result" where
  "get_soc_constructor_from package boards target =
     (if target \<notin> set boards
      then Inl (ValueError (''Could not find \"'' @ target @ ''\" in supported boards: '' @
        join '', '' (sort (remdups boards))))
      else Inr (package @ ''.targets.'' @ target @ ''.BaseSoC''))"

definition get_soc_constructor :: "string list \<Rightarrow> string list \<Rightarrow> string \<Rightarrow> string result" where
  "get_soc_constructor litex_boards custom_boards target =
     (case get_soc_constructor_from ''litex_boards'' litex_boards target of
        Inl (ValueError _) \<Rightarrow> get_soc_constructor_from ''custom_boards'' custom_boards target
      | r \<Rightarrow> r)"

definition purpose_parser :: parser_spec where
  "purpose_parser = \<lparr>parser_options = [store_true ''--software-load'', store_opt ''--software-path'' PNone],
     parser_positionals = [], exclusive_groups = []\<rparr>"

text \<open>
  \<open>main\<close>: the world is a function of the constructor that was found, since that constructor makes
  the SoC. The result is what a run builds, or the steps that load the software, and the files.
\<close>

datatype main_done = Built soc core_state "soc_op list" | Loaded "soc_op list"

definition common_main ::
    "parser_spec \<Rightarrow> (string \<Rightarrow> wf_world) \<Rightarrow> string list \<Rightarrow> string list \<Rightarrow> string list \<Rightarrow>
     core_state \<Rightarrow> files \<Rightarrow> main_done result \<times> files" where
  "common_main ps world litex_boards custom_boards argv st files =
     (case bindE (parse_known_args purpose_parser (parser_defaults purpose_parser) argv) (\<lambda>(purpose, _).
        bindE (parse_workflow_args ps argv None) (\<lambda>args.
        bindE (assertE (\<not> (flag_set args ''with_ethernet'' \<and> flag_set args ''with_etherbone'')) '''') (\<lambda>_.
        let target = str_arg (arg_val args ''target'') in
        bindE (get_soc_constructor litex_boards custom_boards target) (\<lambda>ctor.
        bindE (workflow_init argv True (workflow_factory target) args st) (\<lambda>flow.
          Inr (purpose, ctor, flow)))))) of
        Inl e \<Rightarrow> (Inl e, files)
      | Inr (purpose, ctor, flow, st, log) \<Rightarrow>
          if arg_val purpose ''software_load'' = PBool True
          then (case software_load flow (arg_val purpose ''software_path'') files of
              (r, files) \<Rightarrow> (bindE r (\<lambda>steps. Inr (Loaded (log @ steps))), files))
          else (bindE (run_workflow (world ctor) flow st) (\<lambda>(s, st, log'). Inr (Built s st (log @ log'))),
            files))"

end
