(* ===== verification/Hps_Main.thy ===== *)
theory Hps_Main
  imports Hps_Soc Board_Workflows
begin

text \<open>
  The program \<^verbatim>\<open>soc/hps_soc.py\<close>: its command line, the choice of the CPU variant, and \<open>main\<close>, which
  patches the variants, copies the source of the chosen one, makes platform and SoC and builds them.
\<close>

section \<open>The command line\<close>

text \<open>The options of \<open>main\<close>; those that the framework adds to every parser are the parameter \<open>fw\<close>.\<close>

definition hps_options :: "option_spec list" where
  "hps_options =
    [store_true ''--debug'',
     store_true ''--slim_cpu'',
     store_true ''--build'',
     store_opt ''--toolchain'' (PStr ''oxide''),
     store_true ''--parallel-nextpnr'',
     store_true ''--extra-nextpnr-params'',
     store_opt ''--synth_mode'' (PStr ''radiant''),
     store_opt ''--cpu-cfu'' PNone,
     store_opt ''--cpu-variant'' PNone,
     store_true ''--separate-arena'',
     store_true ''--cfu-mport'',
     store_true ''--execute-from-lram'',
     store_opt ''--integrated-rom-init'' PNone,
     store_true ''--build-bios'',
     store_true ''--just-synth'',
     store_true ''--dynamic-clock-control'']"

definition hps_parser :: "option_spec list \<Rightarrow> parser_spec" where
  "hps_parser fw = \<lparr>parser_options = fw @ hps_options, parser_positionals = [], exclusive_groups = []\<rparr>"

record hps_cmdline =
  cl_debug :: bool
  cl_slim_cpu :: bool
  cl_build :: bool
  cl_toolchain :: string
  cl_parallel_nextpnr :: bool
  cl_extra_nextpnr_params :: bool
  cl_cpu_cfu :: "string option"
  cl_cpu_variant :: "string option"
  cl_separate_arena :: bool
  cl_cfu_mport :: bool
  cl_execute_from_lram :: bool
  cl_integrated_rom_init :: "string option"
  cl_build_bios :: bool
  cl_just_synth :: bool
  cl_dynamic_clock_control :: bool

definition opt_truthy :: "string option \<Rightarrow> bool" where
  "opt_truthy s = (case s of None \<Rightarrow> False | Some x \<Rightarrow> x \<noteq> '''')"

definition main_variant :: "hps_cmdline \<Rightarrow> string" where
  "main_variant args =
     (if opt_truthy (cl_cpu_variant args) then the (cl_cpu_variant args)
      else if opt_truthy (cl_cpu_cfu args) then
        (if cl_slim_cpu args then (if cl_debug args then ''slim+cfu+debug'' else ''slim+cfu'')
         else (if cl_debug args then ''full+cfu+debug'' else ''full+cfu''))
      else (if cl_debug args then ''full+debug'' else ''full''))"

text \<open>\<open>get_mem_data\<close> of the framework reads a file into words; it is the parameter \<open>mem_data\<close>.\<close>

definition main_args :: "(string \<Rightarrow> nat list) \<Rightarrow> hps_cmdline \<Rightarrow> hps_args" where
  "main_args mem_data args =
     \<lparr>hps_debug = cl_debug args, hps_variant = Some (main_variant args),
      hps_cpu_cfu = cl_cpu_cfu args, execute_from_lram = cl_execute_from_lram args,
      separate_arena = cl_separate_arena args, with_led_chaser = False,
      integrated_rom_init = (if opt_truthy (cl_integrated_rom_init args)
        then mem_data (the (cl_integrated_rom_init args)) else []),
      build_bios = cl_build_bios args, cfu_mport = cl_cfu_mport args,
      dynamic_clock_control = cl_dynamic_clock_control args\<rparr>"

definition opt_of :: "py_val \<Rightarrow> string option" where
  "opt_of v = (case v of PStr s \<Rightarrow> Some s | _ \<Rightarrow> None)"

definition hps_cmdline_of :: "py_val dict \<Rightarrow> hps_cmdline" where
  "hps_cmdline_of d =
     \<lparr>cl_debug = flag_set d ''debug'', cl_slim_cpu = flag_set d ''slim_cpu'',
      cl_build = flag_set d ''build'', cl_toolchain = str_arg (arg_val d ''toolchain''),
      cl_parallel_nextpnr = flag_set d ''parallel_nextpnr'',
      cl_extra_nextpnr_params = flag_set d ''extra_nextpnr_params'',
      cl_cpu_cfu = opt_of (arg_val d ''cpu_cfu''), cl_cpu_variant = opt_of (arg_val d ''cpu_variant''),
      cl_separate_arena = flag_set d ''separate_arena'', cl_cfu_mport = flag_set d ''cfu_mport'',
      cl_execute_from_lram = flag_set d ''execute_from_lram'',
      cl_integrated_rom_init = opt_of (arg_val d ''integrated_rom_init''),
      cl_build_bios = flag_set d ''build_bios'', cl_just_synth = flag_set d ''just_synth'',
      cl_dynamic_clock_control = flag_set d ''dynamic_clock_control''\<rparr>"

section \<open>\<open>main\<close>\<close>

text \<open>
  What \<open>main\<close> finds outside: files and directories as in \<open>Cpu_Variants\<close>, the words of a file, the CPUs
  that have the attributes of a CFU, the synthesis and build scripts of the framework, and the
  argument dictionaries.
\<close>

record hps_world =
  hw_exists :: "string \<Rightarrow> bool"
  hw_vexriscv_dir :: string
  hw_cfu_root :: "string option"
  hw_mem_data :: "string \<Rightarrow> nat list"
  hw_has_cfu :: "string option \<Rightarrow> bool"
  hw_templates :: "string list \<times> string list"
  hw_builder_argdict :: "py_val dict"
  hw_radiant_argdict :: "py_val dict"
  hw_oxide_argdict :: "py_val dict"

definition create_builder :: "hps_world \<Rightarrow> soc_op list" where
  "create_builder w = [Call ''Builder'' (PRef ''soc'' # kw_args (hw_builder_argdict w))]"

definition hps_builder_kwargs :: "hps_world \<Rightarrow> hps_cmdline \<Rightarrow> py_val dict" where
  "hps_builder_kwargs w args =
     (if cl_toolchain args = ''radiant'' then hw_radiant_argdict w
      else if cl_toolchain args = ''oxide'' then hw_oxide_argdict w else [])"

definition hps_main :: "hps_world \<Rightarrow> hps_cmdline \<Rightarrow> core_state \<Rightarrow> (core_state \<times> soc_op list) result" where
  "hps_main w args st0 =
     (let st = patch_cpu_variant st0 in
      bindE (copy_cpu_variant_if_needed (hw_exists w) (hw_vexriscv_dir w) (hw_cfu_root w) st
          (main_variant args)) (\<lambda>log.
      bindE (HpsSoC (hw_has_cfu w) proto2_sys_clk_freq (main_args (hw_mem_data w) args)) (\<lambda>soc.
      bindE (call_kwargs (hps_builder_kwargs w args) [(''run'', PBool (cl_build args))]) (\<lambda>kw.
        Inr (st, log @
          Platform_proto2 (cl_toolchain args) (cl_parallel_nextpnr args) (cl_extra_nextpnr_params args)
            (cl_just_synth args) (hw_templates w) @
          soc @
          (if \<not> cl_build_bios args then [SetAttr ''integrated_rom_initialized'' (PBool True)] else []) @
          create_builder w @
          [Call ''vns = builder.build'' (kw_args kw), Call ''do_exit'' [PRef ''vns'']] @
          (if \<not> cl_build args
           then [Call ''print'' [PStr ''Use --build to build the bitstream, if needed'']] else []))))))"

definition hps_main_argv ::
    "option_spec list \<Rightarrow> hps_world \<Rightarrow> string list \<Rightarrow> core_state \<Rightarrow> (core_state \<times> soc_op list) result" where
  "hps_main_argv fw w argv st =
     bindE (parse_args (hps_parser fw) (parser_defaults (hps_parser fw)) argv) (\<lambda>d.
       hps_main w (hps_cmdline_of d) st)"

end
