(* ===== verification/Nx_Lram_Properties.thy ===== *)
theory Nx_Lram_Properties
  imports Nx_Lram
begin

text \<open>
  The properties of the on-chip memory: it is a flat word memory on its bus, for every accepted
  geometry and every primitive that meets the documented behaviour; its second ports read the bus
  words of one column; and the initialisation parameters encode the contents.
\<close>

section \<open>A flat memory\<close>

text \<open>The specification: words by lane and bus address, changed by the write cycles only.\<close>

definition bus_writes :: "nx_in \<Rightarrow> bool" where
  "bus_writes i \<longleftrightarrow> bus_stb i \<and> bus_cyc i \<and> bus_we i"

definition written_word :: "nx_in \<Rightarrow> nat \<Rightarrow> u32 \<Rightarrow> u32" where
  "written_word i w old = merge_bytes (NOT (ucast (drop_bit (4 * w) (bus_sel i))))
     (ucast (drop_bit (32 * w) (bus_dat_w i))) old"

definition flat_next :: "(nat \<Rightarrow> 30 word \<Rightarrow> u32) \<Rightarrow> nx_in \<Rightarrow> nat \<Rightarrow> 30 word \<Rightarrow> u32" where
  "flat_next f i w a =
     (if a_clkens i 0 \<and> bus_writes i \<and> a = bus_adr i then written_word i w (f w a) else f w a)"

text \<open>A legal cycle: one clock enable for all blocks, and writes only to words that exist.\<close>

definition nx_legal :: "nxlram \<Rightarrow> nx_in \<Rightarrow> bool" where
  "nx_legal cfg i \<longleftrightarrow>
     (\<forall>k<depth_cascading cfg * width_cascading cfg. a_clkens i k = a_clkens i 0) \<and>
     (bus_writes i \<longrightarrow> unat (bus_adr i) < nx_words cfg)"

definition nx_word :: "('m \<Rightarrow> u14 \<Rightarrow> u32) \<Rightarrow> nxlram \<Rightarrow> 'm nx_state \<Rightarrow> nat \<Rightarrow> 30 word \<Rightarrow> u32" where
  "nx_word cell_word cfg s w a = cell_word (lram_blocks s ! bank_of cfg a ! w) (row_of cfg a)"

lemma nx_cs_iff:
  assumes "nx_valid cfg" "d < depth_cascading cfg"
  shows "nx_cs cfg adr d \<longleftrightarrow> bank_of cfg adr = d"
  using assms by (auto simp: nx_cs_def nx_valid_def bank_of_def)

lemma fold_select:
  "fold (\<lambda>d v. if c = d then f d else v) [0..<n] v = (if c < n then f c else v)"
  by (induction n) auto

lemma nx_lane_selected:
  assumes "nx_valid cfg" "unat (bus_adr i) < nx_words cfg"
  shows "nx_lane doa cfg s i w = doa (lram_blocks s ! bank_of cfg (bus_adr i) ! w)"
proof -
  have "nx_lane doa cfg s i w = fold (\<lambda>d v. if bank_of cfg (bus_adr i) = d
      then doa (lram_blocks s ! d ! w) else v) [0..<depth_cascading cfg] 0"
    unfolding nx_lane_def by (rule fold_cong) (auto simp: nx_cs_iff [OF assms(1)])
  then show ?thesis using nx_adr_cell(2) [OF assms] by (simp add: fold_select)
qed

lemma two_lanes:
  fixes x y :: u32
  shows "ucast ((ucast x :: 64 word) OR push_bit 32 (ucast y)) = x"
    and "ucast (drop_bit 32 ((ucast x :: 64 word) OR push_bit 32 (ucast y))) = y"
    and "ucast (ucast x :: 64 word) = x"
  by (rule bit_word_eqI; auto simp: bit_simps dest: bit_imp_le_length)+

lemma nx_dat_r_lane:
  assumes "nx_valid cfg" "w < width_cascading cfg"
  shows "ucast (drop_bit (32 * w) (nx_dat_r doa cfg s i)) = nx_lane doa cfg s i w"
proof -
  from assms have "width_cascading cfg = 1 \<and> w = 0 \<or> width_cascading cfg = 2 \<and> w = 0 \<or>
      width_cascading cfg = 2 \<and> w = 1" by (auto simp: nx_valid_def)
  then show ?thesis
    by (elim disjE conjE) (simp_all add: nx_dat_r_def upt_rec two_lanes del: drop_bit_or)
qed

lemma nx_same_cell:
  assumes "nx_valid cfg" "unat a < nx_words cfg" "unat b < nx_words cfg"
  shows "nx_cell cfg a = nx_cell cfg b \<longleftrightarrow> a = b"
  using nx_adr_cell(1) [OF assms(1)] assms(2,3) by metis

lemma nx_block_next:
  assumes "d < depth_cascading cfg" "w < width_cascading cfg"
  shows "lram_blocks (nx_next lram_step cfg s i) ! d ! w =
    lram_step (lram_blocks s ! d ! w) (block_pins cfg i d w)"
  using assms by (simp add: nx_next_def)

lemma block_index:
  assumes "d < n" "w < (m :: nat)"
  shows "d * m + w < n * m"
proof -
  have "d * m + w < (d + 1) * m" using assms by simp
  also have "\<dots> \<le> n * m" using assms by (intro mult_right_mono) auto
  finally show ?thesis .
qed

lemma flat_next_cong: "f w a = g w a \<Longrightarrow> flat_next f i w a = flat_next g i w a"
  by (auto simp: flat_next_def)

context lram_primitive
begin

lemma nx_word_next:
  assumes cfg: "nx_valid cfg" and "nx_legal cfg i" "w < width_cascading cfg" "unat a < nx_words cfg"
  shows "nx_word cell_word cfg (nx_next lram_step cfg s i) w a =
    flat_next (nx_word cell_word cfg s) i w a"
proof -
  let ?d = "bank_of cfg a"
  have d: "?d < depth_cascading cfg" by (rule nx_adr_cell(2) [OF cfg assms(4)])
  have "a_clkens i (?d * width_cascading cfg + w) = a_clkens i 0"
    using assms(2,3) block_index [OF d assms(3)] by (simp add: nx_legal_def)
  moreover have "nx_cs cfg (bus_adr i) ?d \<and> row_of cfg a = row_of cfg (bus_adr i) \<longleftrightarrow> a = bus_adr i"
    if "bus_writes i"
    using that assms(2) nx_same_cell [OF cfg assms(4), of "bus_adr i"] d
    by (auto simp: nx_legal_def nx_cs_iff [OF cfg] nx_cell_def)
  ultimately show ?thesis
    using d assms(3)
    by (auto simp: nx_word_def nx_block_next cell_write block_pins_def Let_def flat_next_def
        bus_writes_def written_word_def)
qed

lemma nx_word_run:
  assumes "nx_valid cfg" "list_all (nx_legal cfg) is" "w < width_cascading cfg" "unat a < nx_words cfg"
  shows "nx_word cell_word cfg (run_state (nx_next lram_step cfg) s is) w a =
    run_state flat_next (nx_word cell_word cfg s) is w a"
  using assms(2-)
proof (induction "is" arbitrary: a w rule: rev_induct)
  case (snoc i "is")
  then show ?case by (simp add: nx_word_next [OF assms(1)] cong: flat_next_cong)
qed simp

lemma nx_read_next:
  assumes cfg: "nx_valid cfg" and "nx_legal cfg i" "a_clkens i 0" "\<not> bus_writes i"
    and adr: "unat (bus_adr i) < nx_words cfg" "bus_adr j = bus_adr i" and w: "w < width_cascading cfg"
  shows "ucast (drop_bit (32 * w) (nx_dat_r doa cfg (nx_next lram_step cfg s i) j)) =
    nx_word cell_word cfg s w (bus_adr i)"
proof -
  let ?d = "bank_of cfg (bus_adr i)"
  have d: "?d < depth_cascading cfg" by (rule nx_adr_cell(2) [OF cfg adr(1)])
  have "a_clkens i (?d * width_cascading cfg + w)"
    using assms(2,3) block_index [OF d w] by (simp add: nx_legal_def)
  then show ?thesis
    using assms d
    by (simp add: nx_dat_r_lane nx_lane_selected nx_block_next nx_word_def)
      (subst cell_read; auto simp: block_pins_def Let_def nx_cs_iff bus_writes_def)
qed

text \<open>Without its clock enable the module gives the word it gave before, at the same address.\<close>

lemma nx_read_held:
  assumes cfg: "nx_valid cfg" and "nx_legal cfg i" "\<not> a_clkens i 0"
    and adr: "unat (bus_adr i) < nx_words cfg" "bus_adr j = bus_adr i" and w: "w < width_cascading cfg"
  shows "ucast (drop_bit (32 * w) (nx_dat_r doa cfg (nx_next lram_step cfg s i) j)) =
    (ucast (drop_bit (32 * w) (nx_dat_r doa cfg s i)) :: u32)"
proof -
  let ?d = "bank_of cfg (bus_adr i)"
  have d: "?d < depth_cascading cfg" by (rule nx_adr_cell(2) [OF cfg adr(1)])
  have "\<not> a_clkens i (?d * width_cascading cfg + w)"
    using assms(2,3) block_index [OF d w] by (simp add: nx_legal_def)
  then show ?thesis
    using cfg adr w d
    by (simp add: nx_dat_r_lane nx_lane_selected nx_block_next)
      (subst cell_hold; simp add: block_pins_def Let_def)
qed

lemma nx_port_b_next:
  assumes cfg: "nx_valid cfg" and "nx_legal cfg i" and dual: "dual_port cfg"
    and wc: "width_cascading cfg = 1" and k: "k < depth_cascading cfg"
    and "b_clkens i k" and free: "\<not> (bus_writes i \<and> bus_adr i = nx_adr cfg (k, b_addrs i k))"
  shows "nx_b_dout dob cfg (nx_next lram_step cfg s i) k =
    nx_word cell_word cfg s 0 (nx_adr cfg (k, b_addrs i k))"
proof -
  let ?a = "nx_adr cfg (k, b_addrs i k)"
  have cell: "bank_of cfg ?a = k" "row_of cfg ?a = b_addrs i k"
    using nx_cell_adr [OF cfg, of "(k, b_addrs i k)"] k by (simp_all add: nx_cell_def)
  have "\<not> (bus_writes i \<and> nx_cs cfg (bus_adr i) k \<and> b_addrs i k = row_of cfg (bus_adr i))"
  proof
    assume *: "bus_writes i \<and> nx_cs cfg (bus_adr i) k \<and> b_addrs i k = row_of cfg (bus_adr i)"
    then have "nx_cell cfg (bus_adr i) = (k, b_addrs i k)"
      using k by (simp add: nx_cell_def nx_cs_iff [OF cfg])
    moreover have "unat (bus_adr i) < nx_words cfg"
      using * assms(2) unfolding nx_legal_def by blast
    ultimately have "bus_adr i = ?a"
      using nx_adr_cell(1) [OF cfg] by metis
    with free * show False by blast
  qed
  then have "dob (lram_step (lram_blocks s ! k ! 0) (block_pins cfg i k 0)) =
      cell_word (lram_blocks s ! k ! 0) (b_addrs i k)"
    using dual \<open>b_clkens i k\<close> wc
    by (subst cell_read_b) (auto simp: block_pins_def Let_def bus_writes_def)
  with k wc cell show ?thesis
    by (simp add: nx_b_dout_def nx_block_next nx_word_def)
qed

end

section \<open>A concrete primitive\<close>

record lram_array =
  arr_cells :: "u14 \<Rightarrow> u32"
  arr_a :: u32
  arr_b :: u32

definition lram_array_step :: "lram_array \<Rightarrow> lram_pins \<Rightarrow> lram_array" where
  "lram_array_step m p =
     (let wr = pin_ce p \<and> pin_cs p \<and> pin_we p in
      \<lparr>arr_cells = (if wr then (arr_cells m)(pin_ad p :=
          merge_bytes (pin_be_n p) (pin_di p) (arr_cells m (pin_ad p))) else arr_cells m),
       arr_a = (if pin_ce p \<and> pin_cs p \<and> \<not> pin_we p then arr_cells m (pin_ad p) else arr_a m),
       arr_b = (if pin_ceb p then arr_cells m (pin_adb p) else arr_b m)\<rparr>)"

interpretation lram_array: lram_primitive lram_array_step arr_a arr_b arr_cells
  by unfold_locales (auto simp: lram_array_step_def Let_def)

section \<open>The memory on its bus\<close>

text \<open>
  C8: the banked memory is one flat memory. For every accepted geometry, striped or not, and every
  primitive with the documented behaviour: after any legal cycles, a bus read returns, in every
  lane, the word of that address in a flat memory to which only the byte-enabled writes of those
  cycles were applied, and it is acknowledged in the cycle after it was presented.
\<close>

theorem nxlram_flat_memory:
  assumes "lram_primitive lram_step doa dob cell_word" and "NXLRAM width sz dual = Inr cfg"
    and "list_all (nx_legal cfg) is" and "s = run_state (nx_next lram_step cfg) s0 is"
    and "nx_legal cfg i" and "a_clkens i 0" and "bus_stb i" and "bus_cyc i" and "\<not> bus_we i"
    and "unat (bus_adr i) < nx_words cfg" and "bus_adr j = bus_adr i"
    and "w < width_cascading cfg"
  shows "ucast (drop_bit (32 * w) (nx_dat_r doa cfg (nx_next lram_step cfg s i) j)) =
      run_state flat_next (nx_word cell_word cfg s0) is w (bus_adr i) \<and>
    (bus_ack (nx_next lram_step cfg s i) \<longleftrightarrow> \<not> bus_ack s)"
proof -
  have cfg: "nx_valid cfg" using nx_config [OF assms(2)] by blast
  have "\<not> bus_writes i" using assms(9) by (simp add: bus_writes_def)
  with lram_primitive.nx_read_next [OF assms(1) cfg assms(5,6) _ assms(10,11,12)]
    lram_primitive.nx_word_run [OF assms(1) cfg assms(3,12,10)] assms(4,7,8)
  show ?thesis by (simp add: nx_next_def)
qed

definition nx_cycle :: "30 word \<Rightarrow> 64 word \<Rightarrow> bool \<Rightarrow> nx_in" where
  "nx_cycle a v we = \<lparr>bus_adr = a, bus_dat_w = v, bus_sel = 0xF, bus_cyc = True, bus_stb = True,
     bus_we = we, a_clkens = (\<lambda>_. True), b_clkens = (\<lambda>_. True), b_addrs = (\<lambda>k. of_nat k)\<rparr>"

definition arena_cfg :: nxlram where
  "arena_cfg = \<lparr>nx_width = 32, nx_size = 262144, depth_cascading = 4, width_cascading = 1,
     sel_bits = 2, sel_bits_start = 0, adr_bits_start = 2, dual_port = True\<rparr>"

lemma NXLRAM_arena: "NXLRAM 32 262144 True = Inr arena_cfg"
  by (simp add: NXLRAM_def kB_def bit_length_values arena_cfg_def)

definition zero_array :: lram_array where
  "zero_array = \<lparr>arr_cells = (\<lambda>_. 0), arr_a = 0, arr_b = 0\<rparr>"

lemma byte_mask_all: "byte_mask (- 16) = - 1"
  by (simp add: byte_mask_def upt_rec)

theorem nxlram_flat_memory_witness:
  "ucast (nx_dat_r arr_a arena_cfg (nx_next lram_array_step arena_cfg
     (run_state (nx_next lram_array_step arena_cfg) (nx_init arena_cfg zero_array)
        [nx_cycle 7 42 True, nx_cycle 8 99 True]) (nx_cycle 7 0 False)) (nx_cycle 7 0 False)) = (42 :: u32)"
proof -
  have ok: "nx_legal arena_cfg (nx_cycle 7 42 True)" "nx_legal arena_cfg (nx_cycle 8 99 True)"
    "nx_legal arena_cfg (nx_cycle 7 0 False)"
    by (simp_all add: nx_legal_def nx_cycle_def nx_words_def arena_cfg_def)
  have "run_state flat_next (nx_word arr_cells arena_cfg (nx_init arena_cfg zero_array))
      [nx_cycle 7 42 True, nx_cycle 8 99 True] 0 7 = 42"
    by (simp add: flat_next_def nx_cycle_def bus_writes_def written_word_def merge_bytes_def
        byte_mask_all)
  with nxlram_flat_memory [OF lram_array.lram_primitive_axioms NXLRAM_arena _ refl ok(3), of
      "[nx_cycle 7 42 True, nx_cycle 8 99 True]" "nx_cycle 7 0 False" 0 "nx_init arena_cfg zero_array"] ok
  show ?thesis by (simp add: nx_cycle_def nx_words_def arena_cfg_def)
qed

text \<open>
  Every word of the memory has one cell. For every accepted geometry, the address decoding
  maps the word addresses below the size of the memory one-to-one onto the rows of its banks.
\<close>

theorem nx_cells_bijective:
  assumes "NXLRAM width sz dual = Inr cfg"
  shows "bij_betw (nx_cell cfg) {a. unat a < sz div (width div 8)}
    ({..<depth_cascading cfg} \<times> UNIV)"
proof -
  have cfg: "nx_valid cfg" and sz: "sz div (width div 8) = nx_words cfg"
    using nx_config [OF assms] by (auto simp: nx_valid_def nx_words_def)
  show ?thesis unfolding sz
  proof (rule bij_betw_byWitness [where f' = "nx_adr cfg"])
    show "\<forall>c\<in>{..<depth_cascading cfg} \<times> UNIV. nx_cell cfg (nx_adr cfg c) = c"
      using nx_cell_adr [OF cfg] by auto
    show "nx_cell cfg ` {a. unat a < nx_words cfg} \<subseteq> {..<depth_cascading cfg} \<times> UNIV"
      using nx_adr_cell(2) [OF cfg] by (auto simp: nx_cell_def)
    show "nx_adr cfg ` ({..<depth_cascading cfg} \<times> UNIV) \<subseteq> {a. unat a < nx_words cfg}"
      using unat_nx_adr(2) [OF cfg] by auto
  qed (use nx_adr_cell(1) [OF cfg] in auto)
qed

theorem nx_cells_bijective_witness:
  "bij_betw (nx_cell arena_cfg) {a. unat a < 65536} ({..<4} \<times> UNIV)"
  using nx_cells_bijective [OF NXLRAM_arena] by (simp add: arena_cfg_def)

lemma second_port_word:
  assumes "lram_primitive lram_step doa dob cell_word" and "NXLRAM 32 sz True = Inr cfg"
    and "list_all (nx_legal cfg) is" and "s = run_state (nx_next lram_step cfg) s0 is"
    and "nx_legal cfg i" and "k < depth_cascading cfg" and "b_clkens i k"
    and "adr = of_nat (unat (b_addrs i k) * depth_cascading cfg + k)"
    and "\<not> (bus_writes i \<and> bus_adr i = adr)"
  shows "nx_b_dout dob cfg (nx_next lram_step cfg s i) k =
    run_state flat_next (nx_word cell_word cfg s0) is 0 adr"
proof -
  have cfg: "nx_valid cfg" and dual: "dual_port cfg" and wc: "width_cascading cfg = 1"
    using nx_config [OF assms(2)] by (auto simp: nx_valid_def)
  have adr: "adr = nx_adr cfg (k, b_addrs i k)" using dual assms(8) by (simp add: nx_adr_def)
  have "unat adr < nx_words cfg" unfolding adr using unat_nx_adr(2) [OF cfg] assms(6) by simp
  with lram_primitive.nx_word_run [OF assms(1) cfg assms(3), of 0 adr] wc
    lram_primitive.nx_port_b_next [OF assms(1) cfg assms(5) dual wc assms(6,7)] assms(4,9)
  show ?thesis by (simp add: adr)
qed

text \<open>
  The second ports see the bus words of one column. In a dual-port memory of 32-bit words with
  \<open>n\<close> banks, port \<open>k\<close> at address \<open>a\<close> reads, one cycle later, the word that the bus has at word
  address \<open>n * a + k\<close> after the writes so far, unless the bus writes that word in the same cycle.
\<close>

theorem second_port_reads_column:
  assumes "lram_primitive lram_step doa dob cell_word" and "NXLRAM 32 sz True = Inr cfg"
    and "list_all (nx_legal cfg) is" and "s = run_state (nx_next lram_step cfg) s0 is"
    and "nx_legal cfg i" and "k < depth_cascading cfg" and "b_clkens i k"
    and "adr = of_nat (unat (b_addrs i k) * depth_cascading cfg + k)"
    and "\<not> (bus_writes i \<and> bus_adr i = adr)"
  shows "nx_b_dout dob cfg (nx_next lram_step cfg s i) k =
    run_state flat_next (nx_word cell_word cfg s0) is 0 adr"
  by (rule second_port_word [OF assms])

theorem second_port_reads_column_witness:
  "nx_b_dout arr_b arena_cfg (nx_next lram_array_step arena_cfg
     (run_state (nx_next lram_array_step arena_cfg) (nx_init arena_cfg zero_array)
        [nx_cycle 15 42 True, nx_cycle 8 99 True]) (nx_cycle 7 0 False)) 3 = 42"
proof -
  have ok: "nx_legal arena_cfg (nx_cycle 15 42 True)" "nx_legal arena_cfg (nx_cycle 8 99 True)"
    "nx_legal arena_cfg (nx_cycle 7 0 False)"
    by (simp_all add: nx_legal_def nx_cycle_def nx_words_def arena_cfg_def)
  have "run_state flat_next (nx_word arr_cells arena_cfg (nx_init arena_cfg zero_array))
      [nx_cycle 15 42 True, nx_cycle 8 99 True] 0 15 = 42"
    by (simp add: flat_next_def nx_cycle_def bus_writes_def written_word_def merge_bytes_def
        byte_mask_all)
  moreover have "list_all (nx_legal arena_cfg) [nx_cycle 15 42 True, nx_cycle 8 99 True]"
    using ok by simp
  moreover note second_port_reads_column [OF lram_array.lram_primitive_axioms NXLRAM_arena this refl
      ok(3), of 3 15 "nx_init arena_cfg zero_array"]
  ultimately show ?thesis by (simp add: nx_cycle_def arena_cfg_def bus_writes_def)
qed

section \<open>Initial contents\<close>

text \<open>Reading the text of a parameter back: ten digits per word, the last word first.\<close>

fun chunks :: "nat \<Rightarrow> 'a list \<Rightarrow> 'a list list" where
  "chunks n xs = (if xs = [] \<or> n = 0 then [] else take n xs # chunks n (drop n xs))"

declare chunks.simps [simp del]

lemma chunks_concat:
  "0 < n \<Longrightarrow> list_all (\<lambda>x. length x = n) xs \<Longrightarrow> chunks n (concat xs) = xs"
proof (induction xs)
  case (Cons x xs)
  then show ?case by (subst chunks.simps) auto
qed (simp add: chunks.simps)

definition initval_words :: "string \<Rightarrow> nat option list" where
  "initval_words v = rev (map (read_base 16) (chunks 10 (drop 2 v)))"

lemma read_initval_word: "read_base 16 (initval_word 32 c) = Some c"
proof -
  have "read_base 16 (''00'' @ zero_pad 8 (hex_upper c)) = read_base 16 (zero_pad 8 (hex_upper c))"
    using read_digits_zeros [of 16 2 "zero_pad 8 (hex_upper c)"]
    by (simp add: read_base_def numeral_2_eq_2 zero_pad_def)
  then show ?thesis by (simp add: initval_word_def)
qed

lemma length_initval_word: "c < 2 ^ 32 \<Longrightarrow> length (initval_word 32 c) = 10"
  using length_zero_pad_in_base [of 16 c 8 digit_char] by (simp add: initval_word_def)

lemma concat_blocks:
  "concat (map (\<lambda>i. map (\<lambda>j. f (n * i + j)) [0..<n]) [0..<m]) = map f [0..<n * m]"
proof (induction m)
  case (Suc m)
  have "map f [n * m..<n * m + n] = map (\<lambda>j. f (n * m + j)) [0..<n]"
    by (simp add: list_eq_iff_nth_eq)
  moreover have "[0..<n * Suc m] = [0..<n * m] @ [n * m..<n * m + n]"
    using upt_add_eq_append [of 0 "n * m" n] by (simp add: add.commute)
  ultimately show ?case using Suc by simp
qed simp

text \<open>
  C35: the initialisation parameters encode the contents. For 64 KiB of 32-bit words,
  \<open>initval_parameters\<close> gives 128 parameters with 1280 hexadecimal digits each, and reading their
  digits back, ten to a word from the right end, gives the contents, word for word.
\<close>

theorem initval_roundtrip:
  assumes "initval_parameters contents 32 = Inr ps" and "list_all (\<lambda>c. c < 2 ^ 32) contents"
  shows "length ps = 128 \<and> list_all (\<lambda>p. length (snd p) = 2 + 1280) ps \<and>
    concat (map (initval_words \<circ> snd) ps) = map Some contents"
proof -
  from assms(1) have len: "length contents = 16384" and
    ps: "ps = map (\<lambda>i. (''INITVAL_'' @ zero_pad 2 (hex_upper i), ''0x'' @
      concat (map (\<lambda>j. initval_word 32 (contents ! (128 * i + j))) (rev [0..<128])))) [0..<128]"
    by (auto simp: initval_parameters_def bindE_Inr_iff Let_def)
  have ten: "length (initval_word 32 (contents ! (128 * i + j))) = 10" if "i < 128" "j < 128" for i j
  proof -
    have "contents ! (128 * i + j) < 2 ^ 32"
      using assms(2) len that by (simp add: list_all_length)
    then show ?thesis by (rule length_initval_word)
  qed
  have words: "initval_words (''0x'' @ concat (map (\<lambda>j. initval_word 32 (contents ! (128 * i + j)))
      (rev [0..<128]))) = map (\<lambda>j. Some (contents ! (128 * i + j))) [0..<128]" if "i < 128" for i
    using ten [OF that]
    by (simp add: initval_words_def chunks_concat list_all_iff rev_map read_initval_word del: upt_Suc)
  have "concat (map (initval_words \<circ> snd) ps) =
      concat (map (\<lambda>i. map (\<lambda>j. Some (contents ! (128 * i + j))) [0..<128]) [0..<128])"
    unfolding ps map_map
    by (intro arg_cong [where f = concat] map_cong [OF refl]) (simp only: comp_apply snd_conv words set_upt atLeastLessThan_iff)
  also have "\<dots> = map Some contents"
    using len by (simp only: concat_blocks [of "\<lambda>k. Some (contents ! k)"])
      (simp add: list_eq_iff_nth_eq)
  finally have "concat (map (initval_words \<circ> snd) ps) = map Some contents" .
  moreover have "length (concat (map (\<lambda>j. initval_word 32 (contents ! (128 * i + j))) (rev [0..<128]))) = 1280"
    if "i < 128" for i
  proof -
    have "map (\<lambda>j. length (initval_word 32 (contents ! (128 * i + j)))) (rev [0..<128]) =
        map (\<lambda>_. 10) (rev [0..<128])"
      by (rule map_cong [OF refl]) (simp add: ten [OF that])
    then show ?thesis by (simp only: length_concat map_map comp_def) (simp add: sum_list_triv)
  qed
  ultimately show ?thesis unfolding ps by (simp add: list_all_iff del: upt_Suc)
qed

theorem initval_roundtrip_witness:
  "\<exists>ps. initval_parameters (replicate 16384 255) 32 = Inr ps \<and>
     concat (map (initval_words \<circ> snd) ps) = replicate 16384 (Some 255)"
proof -
  obtain ps where ps: "initval_parameters (replicate 16384 255) 32 = Inr ps"
    by (simp add: initval_parameters_def Let_def)
  from initval_roundtrip [OF this] show ?thesis
    by (intro exI [of _ ps]) (simp add: ps map_replicate)
qed

lemma mapE_Inr_hd: "mapE f (x # xs) = Inr ys \<Longrightarrow> \<exists>y. f x = Inr y"
  by (auto simp: bindE_Inr_iff)

lemma initval_parameters_length:
  "initval_parameters c width = Inr ps \<Longrightarrow> length c = 524288 div width"
  by (auto simp: initval_parameters_def bindE_Inr_iff)

lemma initval_parameters_ok:
  "length c = 16384 \<Longrightarrow> \<exists>ps. initval_parameters c 32 = Inr ps"
  by (simp add: initval_parameters_def Let_def)

lemma add_init_accepts:
  assumes "NXLRAM width sz dual = Inr cfg"
  shows "(\<exists>r. add_init cfg data = Inr r) \<longleftrightarrow> width = 32 \<and> sz = 64 * kB \<and> length data \<le> 16384"
proof -
  let ?data' = "data @ replicate (nx_size cfg div nx_width cfg * 8 - length data) 0"
  have cfg: "nx_valid cfg" "nx_width cfg = width" "nx_size cfg = sz"
    using nx_config [OF assms] by simp_all
  then obtain d w where depth: "depth_cascading cfg = Suc d" and wc: "width_cascading cfg = Suc w"
    by (cases "depth_cascading cfg"; cases "width_cascading cfg") (auto simp: nx_valid_def)
  have geom: "width = 32 * Suc w" "w \<le> 1" "sz = Suc d * Suc w * 65536"
    using cfg depth wc by (auto simp: nx_valid_def)
  show ?thesis
  proof
    assume "\<exists>r. add_init cfg data = Inr r"
    then have "\<exists>ps. initval_parameters (take (64 * kB) ?data') width = Inr ps"
      using cfg by (auto simp: add_init_def Let_def depth wc upt_conv_Cons bindE_Inr_iff
          simp del: upt_Suc dest!: mapE_Inr_hd)
    then have "min 65536 (max (length data) (sz div width * 8)) = 524288 div width"
      using cfg by (auto dest!: initval_parameters_length simp: kB_def)
    then show "width = 32 \<and> sz = 64 * kB \<and> length data \<le> 16384"
      using geom by (cases w; cases d) (auto simp: kB_def min_def max_def split: if_splits)
  next
    assume *: "width = 32 \<and> sz = 64 * kB \<and> length data \<le> 16384"
    with geom have "depth_cascading cfg = 1" "width_cascading cfg = 1"
      using depth wc by (auto simp: kB_def)
    moreover have "length (take (64 * kB) ?data') = 16384"
      using * cfg by (simp add: kB_def)
    then obtain ps where "initval_parameters (take (64 * kB) ?data') width = Inr ps"
      using initval_parameters_ok * by blast
    ultimately show "\<exists>r. add_init cfg data = Inr r"
      using cfg by (simp add: add_init_def Let_def)
  qed
qed

text \<open>
  \<open>add_init\<close> works for one block only. For an accepted geometry and any data, it succeeds
  exactly for a single 64 KiB block of 32-bit words with data that fits; every larger memory, and
  every 64-bit one, fails an assertion, because the blocks are sliced by bytes from a word list.
\<close>

theorem add_init_single_block:
  assumes "NXLRAM width sz dual = Inr cfg"
  shows "(\<exists>r. add_init cfg data = Inr r) \<longleftrightarrow> width = 32 \<and> sz = 64 * kB \<and> length data \<le> 16384"
  by (rule add_init_accepts [OF assms])

theorem add_init_single_block_witness:
  "\<not> (\<exists>r. add_init arena_cfg [1, 2, 3] = Inr r)"
  using add_init_single_block [OF NXLRAM_arena, of "[1, 2, 3]"] by (simp add: kB_def)

end
