(* ===== verification/Hps_Properties.thy ===== *)
theory Hps_Properties
  imports Hps_Main Nx_Lram_Properties
begin

text \<open>
  The properties of the HPS system: when its constructor succeeds, its memory map, its use of the
  on-chip memory and its clock enables, its power-on reset, and its pins.
\<close>

lemmas hps_consts = KB_def MB_def RAM_SIZE_def sram_origin_def arena_origin_def rom_offset_def
  spiflash_region_def vexriscv_region_def ram_region_def lram_rom_region_def flash_rom_region_def
  hps_reset_address_def

lemma NXLRAM_sizes:
  "NXLRAM 32 65536 False = Inr \<lparr>nx_width = 32, nx_size = 65536, depth_cascading = 1, width_cascading = 1,
     sel_bits = 0, sel_bits_start = 14, adr_bits_start = 0, dual_port = False\<rparr>"
  "NXLRAM 32 262144 False = Inr \<lparr>nx_width = 32, nx_size = 262144, depth_cascading = 4, width_cascading = 1,
     sel_bits = 2, sel_bits_start = 14, adr_bits_start = 0, dual_port = False\<rparr>"
  "NXLRAM 32 327680 False = Inr \<lparr>nx_width = 32, nx_size = 327680, depth_cascading = 5, width_cascading = 1,
     sel_bits = 3, sel_bits_start = 14, adr_bits_start = 0, dual_port = False\<rparr>"
  by (simp_all add: NXLRAM_def kB_def bit_length_values)

lemma built_connects [simp]:
  "slaves (map (\<lambda>i. Connect (t i) (s i)) xs) = []"
  "regions (map (\<lambda>i. Connect (t i) (s i)) xs) = []"
  "driven (map (\<lambda>i. Connect (t i) (s i)) xs) = map (\<lambda>i. (t i, s i)) xs"
  by (induction xs) auto

lemma built_connect_clkens [simp]:
  "slaves (connect_clkens arr n src) = []"
  "regions (connect_clkens arr n src) = []"
  "driven (connect_clkens arr n src) = map (\<lambda>i. (sig_index arr i, src)) [0..<n]"
  by (simp_all add: connect_clkens_def)

text \<open>The memories of each configuration: blocks of the RAM and of the arena.\<close>

definition lram_count :: "hps_args \<Rightarrow> nat" where
  "lram_count a = (if separate_arena a then 1 else if execute_from_lram a then 4 else 5)"

lemma setup_ram_result:
  "\<exists>cfg. setup_ram (fst (hps_ram_sizes a)) = Inr (cfg,
      [create_ram_op ''osc'' ''lram'' (fst (hps_ram_sizes a)) False,
       Call ''bus.add_slave'' [PStr ''sram_lram'', PRef ''lram.bus'',
         PRegion (ram_region sram_origin (fst (hps_ram_sizes a)))],
       Call ''bus.add_region'' [PStr ''sram'', PRegion (ram_region sram_origin (fst (hps_ram_sizes a)))]]) \<and>
    ram_blocks cfg = lram_count a"
  by (simp add: setup_ram_def proto2_create_ram_def hps_ram_sizes_def hps_consts NXLRAM_sizes
      ram_blocks_def lram_count_def)

lemma setup_arena_result:
  "setup_arena (snd (hps_ram_sizes a)) =
    Inr (if separate_arena a then Some arena_cfg else None,
      Call ''bus.add_region'' [PStr ''arena'', PRegion (ram_region arena_origin (snd (hps_ram_sizes a)))] #
      (if separate_arena a then
        [create_ram_op ''osc'' ''arena'' (snd (hps_ram_sizes a)) True,
         Call ''bus.add_slave'' [PStr ''arena_lram'', PRef ''arena.bus'',
           PRegion (ram_region arena_origin (snd (hps_ram_sizes a)))],
         Call ''add_config'' [PStr ''SOC_SEPARATE_ARENA'']] else []))"
  by (simp add: setup_arena_def proto2_create_ram_def hps_ram_sizes_def hps_consts NXLRAM_arena)

lemma arena_cfg_blocks [simp]: "ram_blocks arena_cfg = 4"
  by (simp add: ram_blocks_def arena_cfg_def)

text \<open>The constructor, taken apart.\<close>

definition hps_cpu_en :: "hps_args \<Rightarrow> string" where
  "hps_cpu_en a = (if dynamic_clock_control a then ''cfu_cpu_clk_ctl.cpu_cen'' else ''1'')"

definition hps_cfu_en :: "hps_args \<Rightarrow> string" where
  "hps_cfu_en a = (if dynamic_clock_control a then ''cfu_cpu_clk_ctl.cfu_cen'' else ''1'')"

lemma memory_clkens_result:
  "ram_blocks cfg = lram_count a \<Longrightarrow>
   memory_clkens a cfg (if separate_arena a then Some arena_cfg else None) cpu cfu =
     Inr (connect_clkens ''lram.a_clkens'' (lram_count a) cpu @
       (if separate_arena a then connect_clkens ''arena.a_clkens'' 4 cpu @
         (if cfu_mport a then connect_clkens ''arena.b_clkens'' 4 cfu else []) else []))"
  by (simp add: memory_clkens_def arena_blocks_def)

lemma connect_cfu_to_lram_result:
  "(\<exists>ops. connect_cfu_to_lram (if separate_arena a then Some arena_cfg else None) = Inr ops) \<longleftrightarrow>
    separate_arena a"
  "connect_cfu_to_lram (Some arena_cfg) = Inr ops \<Longrightarrow> slaves ops = [] \<and> regions ops = [] \<and>
    driven ops = map (\<lambda>i. (sig_index ''arena.b_addrs'' i, cfu_lram_sig i ''addr'')) lram_ports @
      map (\<lambda>i. (cfu_lram_sig i ''din'', sig_index ''arena.b_douts'' i)) lram_ports"
  by (auto simp: connect_cfu_to_lram_def arena_blocks_def)

lemma rom_cfg_result:
  assumes "execute_from_lram a"
  shows "\<exists>rom. NXLRAM 32 65536 False = Inr rom \<and> setup_rom_in_lram a = Inr (rom,
     [create_ram_op ''sys'' ''rom'' 65536 False,
      Call ''bus.add_slave'' [PStr ''rom_lram'', PRef ''rom.bus'', PRegion (lram_rom_region a)],
      Call ''bus.add_region'' [PStr ''rom'', PRegion (lram_rom_region a)],
      SetAttr ''integrated_rom_initialized'' (PBool False),
      SetAttr ''integrated_rom_size'' (PInt 65536)])"
  using assms
  by (simp add: setup_rom_in_lram_def proto2_create_ram_def NXLRAM_sizes Let_def hps_consts)

lemma setup_rom_result:
  "(\<exists>ops. setup_rom a = Inr ops) \<longleftrightarrow> (execute_from_lram a \<longrightarrow> length (integrated_rom_init a) \<le> 16384)"
  "setup_rom a = Inr ops \<Longrightarrow> driven ops = [] \<and>
    slaves ops = (if execute_from_lram a then [(''rom_lram'', lram_rom_region a)] else []) \<and>
    regions ops = [(''rom'', if execute_from_lram a then lram_rom_region a else flash_rom_region)]"
proof -
  show "(\<exists>ops. setup_rom a = Inr ops) \<longleftrightarrow>
      (execute_from_lram a \<longrightarrow> length (integrated_rom_init a) \<le> 16384)"
  proof (cases "execute_from_lram a")
    case True
    from rom_cfg_result [OF True] obtain rom ops where
      rom: "NXLRAM 32 65536 False = Inr rom" "setup_rom_in_lram a = Inr (rom, ops)" by blast
    show ?thesis
      using rom(2) True add_init_accepts [OF rom(1), of "integrated_rom_init a"]
      by (auto simp: setup_rom_def bindE_Inr_iff KB_def kB_def)
  qed (simp add: setup_rom_def)
  show "setup_rom a = Inr ops \<Longrightarrow> driven ops = [] \<and>
    slaves ops = (if execute_from_lram a then [(''rom_lram'', lram_rom_region a)] else []) \<and>
    regions ops = [(''rom'', if execute_from_lram a then lram_rom_region a else flash_rom_region)]"
    by (cases "execute_from_lram a")
      (use rom_cfg_result [of a] in \<open>auto simp: setup_rom_def bindE_Inr_iff setup_rom_in_flash_def
        create_ram_op_def split: if_splits\<close>)
qed

definition hps_mport_ops :: "hps_args \<Rightarrow> soc_op list result" where
  "hps_mport_ops a = (if cfu_mport a
     then connect_cfu_to_lram (if separate_arena a then Some arena_cfg else None) else Inr [])"

definition hps_ops :: "nat \<Rightarrow> hps_args \<Rightarrow> soc_op list \<Rightarrow> soc_op list \<Rightarrow> soc_op list" where
  "hps_ops f a mport rom = hps_cpu_ops f a @
     [create_ram_op ''osc'' ''lram'' (fst (hps_ram_sizes a)) False,
      Call ''bus.add_slave'' [PStr ''sram_lram'', PRef ''lram.bus'',
        PRegion (ram_region sram_origin (fst (hps_ram_sizes a)))],
      Call ''bus.add_region'' [PStr ''sram'', PRegion (ram_region sram_origin (fst (hps_ram_sizes a)))],
      Call ''bus.add_region'' [PStr ''arena'', PRegion (ram_region arena_origin (snd (hps_ram_sizes a)))]] @
     (if separate_arena a then
       [create_ram_op ''osc'' ''arena'' (snd (hps_ram_sizes a)) True,
        Call ''bus.add_slave'' [PStr ''arena_lram'', PRef ''arena.bus'',
          PRegion (ram_region arena_origin (snd (hps_ram_sizes a)))],
        Call ''add_config'' [PStr ''SOC_SEPARATE_ARENA'']] else []) @
     (if dynamic_clock_control a then clock_control_ops else []) @
     connect_clkens ''lram.a_clkens'' (lram_count a) (hps_cpu_en a) @
     (if separate_arena a then connect_clkens ''arena.a_clkens'' 4 (hps_cpu_en a) @
        (if cfu_mport a then connect_clkens ''arena.b_clkens'' 4 (hps_cfu_en a) else []) else []) @
     mport @ setup_litespi_flash @ rom @ hps_peripheral_ops f a"

lemma HpsSoC_Inr:
  "HpsSoC hc f a = Inr ops \<longleftrightarrow> (dynamic_clock_control a \<or> cfu_mport a \<longrightarrow> hc (hps_cpu_cfu a)) \<and>
    (\<exists>mport rom. hps_mport_ops a = Inr mport \<and> setup_rom a = Inr rom \<and> ops = hps_ops f a mport rom)"
proof -
  from setup_ram_result [of a] obtain cfg where
    ram: "setup_ram (fst (hps_ram_sizes a)) = Inr (cfg,
      [create_ram_op ''osc'' ''lram'' (fst (hps_ram_sizes a)) False,
       Call ''bus.add_slave'' [PStr ''sram_lram'', PRef ''lram.bus'',
         PRegion (ram_region sram_origin (fst (hps_ram_sizes a)))],
       Call ''bus.add_region'' [PStr ''sram'', PRegion (ram_region sram_origin (fst (hps_ram_sizes a)))]])"
    and blocks: "ram_blocks cfg = lram_count a" by blast
  show ?thesis
    unfolding HpsSoC_def ram setup_arena_result bindE_simps prod.case
      memory_clkens_result [OF blocks]
    by (cases "dynamic_clock_control a"; cases "cfu_mport a"; cases "hc (hps_cpu_cfu a)")
      (auto simp: hps_ops_def hps_cpu_en_def hps_cfu_en_def cpu_attr_def hps_mport_ops_def bindE_Inr_iff)
qed

lemma HpsSoC_builds:
  "(\<exists>ops. HpsSoC hc f a = Inr ops) \<longleftrightarrow>
    (dynamic_clock_control a \<or> cfu_mport a \<longrightarrow> hc (hps_cpu_cfu a)) \<and>
    (cfu_mport a \<longrightarrow> separate_arena a) \<and> \<not> (execute_from_lram a \<and> 16384 < length (integrated_rom_init a))"
  using setup_rom_result(1) [of a] connect_cfu_to_lram_result(1) [of a]
  by (auto simp: HpsSoC_Inr hps_mport_ops_def not_less)


text \<open>In the framework a CPU has the attributes of a CFU exactly when a file with a CFU was given.\<close>

definition needs_file :: "string option \<Rightarrow> bool" where
  "needs_file c \<longleftrightarrow> c \<noteq> None"

definition hps_plain :: hps_args where
  "hps_plain = \<lparr>hps_debug = True, hps_variant = None, hps_cpu_cfu = Some ''cfu.v'',
     execute_from_lram = False, separate_arena = True, with_led_chaser = True,
     integrated_rom_init = [], build_bios = True, cfu_mport = True, dynamic_clock_control = True\<rparr>"

definition hps_on_chip :: hps_args where
  "hps_on_chip = hps_plain\<lparr>execute_from_lram := True, integrated_rom_init := [0x13]\<rparr>"

section \<open>The memory map\<close>

lemma hps_built_parts [simp]:
  "slaves (hps_cpu_ops f a) = []" "regions (hps_cpu_ops f a) = []" "driven (hps_cpu_ops f a) = []"
  "slaves setup_litespi_flash = [(''spiflash'', spiflash_region)]"
  "regions setup_litespi_flash = []" "driven setup_litespi_flash = []"
  "slaves clock_control_ops = []" "regions clock_control_ops = []"
  "slaves (hps_peripheral_ops f a) =
     (if hps_debug a then [(''vexriscv_debug'', vexriscv_region)] else [])"
  "regions (hps_peripheral_ops f a) = []" "driven (hps_peripheral_ops f a) = []"
  "slave_of (create_ram_op cd n s d) = []" "region_of (create_ram_op cd n s d) = []"
  "driven_of (create_ram_op cd n s d) = []"
  by (simp_all add: hps_cpu_ops_def setup_litespi_flash_def clock_control_ops_def
      hps_peripheral_ops_def add_serial_def create_ram_op_def)

lemma hps_mport_built:
  assumes "hps_mport_ops a = Inr mport"
  shows "slaves mport = []" "regions mport = []"
    "driven mport = (if cfu_mport a then
      map (\<lambda>i. (sig_index ''arena.b_addrs'' i, cfu_lram_sig i ''addr'')) lram_ports @
      map (\<lambda>i. (cfu_lram_sig i ''din'', sig_index ''arena.b_douts'' i)) lram_ports else [])"
  using assms
  by (auto simp: hps_mport_ops_def connect_cfu_to_lram_result(2) connect_cfu_to_lram_def
      arena_blocks_def split: if_splits)

lemma hps_slaves:
  assumes "HpsSoC hc f a = Inr ops"
  shows "slaves ops =
     [(''sram_lram'', ram_region sram_origin (fst (hps_ram_sizes a)))] @
     (if separate_arena a then [(''arena_lram'', ram_region arena_origin (snd (hps_ram_sizes a)))] else []) @
     [(''spiflash'', spiflash_region)] @
     (if execute_from_lram a then [(''rom_lram'', lram_rom_region a)] else []) @
     (if hps_debug a then [(''vexriscv_debug'', vexriscv_region)] else [])"
    and "regions ops =
     [(''sram'', ram_region sram_origin (fst (hps_ram_sizes a))),
      (''arena'', ram_region arena_origin (snd (hps_ram_sizes a))),
      (''rom'', if execute_from_lram a then lram_rom_region a else flash_rom_region)]"
  using assms setup_rom_result(2) [of a] hps_mport_built [of a]
  by (auto simp: HpsSoC_Inr hps_ops_def)

text \<open>
  C17: the memory map is sound. In every system that can be built, the slaves on the bus have
  pairwise disjoint address ranges, every linker region lies inside the range of one slave or is
  empty, the CPU starts in the ROM region, and the RAM, arena and CSR bases are those of the
  published map.
\<close>

theorem hps_memory_map:
  assumes "HpsSoC hc f a = Inr ops"
  shows "pairwise_disjoint (map snd (slaves ops)) \<and>
    (\<forall>(n, r) \<in> set (regions ops). region_size r = 0 \<or> (\<exists>(m, q) \<in> set (slaves ops). region_within r q)) \<and>
    in_region (hps_reset_address a) (the (map_of (regions ops) ''rom'')) \<and>
    origin (the (map_of (regions ops) ''sram'')) = the (map_of mem_map ''sram'') \<and>
    origin (the (map_of (regions ops) ''arena'')) = the (map_of mem_map ''arena'')"
  unfolding hps_slaves [OF assms]
  by (cases "separate_arena a"; cases "execute_from_lram a")
    (simp_all add: hps_consts hps_ram_sizes_def region_disjoint_def region_within_def in_region_def
      mem_map_def)

theorem hps_memory_map_witness:
  "\<exists>ops. HpsSoC needs_file 50000000 hps_plain = Inr ops \<and> pairwise_disjoint (map snd (slaves ops))"
proof -
  obtain ops where ops: "HpsSoC needs_file 50000000 hps_plain = Inr ops"
    using HpsSoC_builds [of needs_file 50000000 hps_plain] by (auto simp: hps_plain_def needs_file_def)
  from hps_memory_map [OF ops] show ?thesis using ops by blast
qed

section \<open>On-chip memory\<close>

fun ram_created :: "soc_op \<Rightarrow> nat" where
  "ram_created (Call f [PStr _, PInt _, PInt sz, PKw _ _]) =
     (if suffix '' = platform.create_ram'' f then nat sz else 0)"
| "ram_created _ = 0"

definition on_chip_bytes :: "soc_op list \<Rightarrow> nat" where
  "on_chip_bytes ops = sum_list (map ram_created ops)"

lemma on_chip_append [simp]: "on_chip_bytes (xs @ ys) = on_chip_bytes xs + on_chip_bytes ys"
  "on_chip_bytes (x # xs) = ram_created x + on_chip_bytes xs" "on_chip_bytes [] = 0"
  by (simp_all add: on_chip_bytes_def)

lemma ram_created_op [simp]: "ram_created (create_ram_op cd n sz d) = sz"
  by (simp add: create_ram_op_def suffix_def)

lemma on_chip_connects [simp]:
  "on_chip_bytes (map (\<lambda>i. Connect (t i) (s i)) xs) = 0" "on_chip_bytes (connect_clkens arr n src) = 0"
  by (simp_all add: on_chip_bytes_def connect_clkens_def comp_def)

lemma on_chip_parts [simp]:
  "on_chip_bytes (hps_cpu_ops f a) = 0" "on_chip_bytes clock_control_ops = 0"
  "on_chip_bytes setup_litespi_flash = 0" "on_chip_bytes (hps_peripheral_ops f a) = 0"
  by (simp_all add: hps_cpu_ops_def clock_control_ops_def setup_litespi_flash_def
      hps_peripheral_ops_def add_serial_def suffix_def)

lemma on_chip_mport: "hps_mport_ops a = Inr mport \<Longrightarrow> on_chip_bytes mport = 0"
  by (auto simp: hps_mport_ops_def connect_cfu_to_lram_def bindE_Inr_iff lram_ports_def
      split: if_splits)

lemma on_chip_rom:
  "setup_rom a = Inr rom \<Longrightarrow> on_chip_bytes rom = (if execute_from_lram a then 65536 else 0)"
  using rom_cfg_result [of a]
  by (auto simp: setup_rom_def bindE_Inr_iff setup_rom_in_flash_def split: if_splits)

text \<open>
  C24: the on-chip memory budget. The memories of a system that can be built take exactly the 320
  KiB of the chip, except when both a separate arena and execution from on-chip ROM are asked
  for: then they take 64 KiB more than there are.
\<close>

theorem hps_on_chip_budget:
  assumes "HpsSoC hc f a = Inr ops"
  shows "on_chip_bytes ops =
    (if separate_arena a \<and> execute_from_lram a then RAM_SIZE + 64 * KB else RAM_SIZE)"
proof -
  from assms obtain mport rom where
    "hps_mport_ops a = Inr mport" "setup_rom a = Inr rom" "ops = hps_ops f a mport rom"
    by (auto simp: HpsSoC_Inr)
  then show ?thesis
    by (simp add: hps_ops_def on_chip_mport on_chip_rom hps_ram_sizes_def RAM_SIZE_def KB_def)
qed

theorem hps_on_chip_budget_witness:
  "\<exists>ops. HpsSoC needs_file 50000000 hps_on_chip = Inr ops \<and> on_chip_bytes ops = 393216"
proof -
  obtain ops where ops: "HpsSoC needs_file 50000000 hps_on_chip = Inr ops"
    using HpsSoC_builds [of needs_file 50000000 hps_on_chip] by (auto simp: hps_plain_def hps_on_chip_def needs_file_def)
  from hps_on_chip_budget [OF ops] show ?thesis
    using ops by (simp add: hps_plain_def hps_on_chip_def RAM_SIZE_def KB_def)
qed

section \<open>Clock enables of the memories\<close>

lemma hps_driven:
  assumes "HpsSoC hc f a = Inr ops"
  shows "driven ops =
    (if dynamic_clock_control a then driven clock_control_ops else []) @
    map (\<lambda>i. (sig_index ''lram.a_clkens'' i, hps_cpu_en a)) [0..<lram_count a] @
    (if separate_arena a then map (\<lambda>i. (sig_index ''arena.a_clkens'' i, hps_cpu_en a)) [0..<4] @
      (if cfu_mport a then map (\<lambda>i. (sig_index ''arena.b_clkens'' i, hps_cfu_en a)) [0..<4] else [])
     else []) @
    (if cfu_mport a then
      map (\<lambda>i. (sig_index ''arena.b_addrs'' i, cfu_lram_sig i ''addr'')) lram_ports @
      map (\<lambda>i. (cfu_lram_sig i ''din'', sig_index ''arena.b_douts'' i)) lram_ports else [])"
  using assms setup_rom_result(2) [of a] hps_mport_built [of a]
  by (auto simp: HpsSoC_Inr hps_ops_def)

lemma clken_range: "[0..<4] = [0, 1, 2, 3 :: nat]" "[0..<5] = [0, 1, 2, 3, 4 :: nat]"
  by (simp_all add: upt_rec)

lemmas hps_signal_names = sig_index_def cfu_lram_sig_def lram_ports_def clken_range in_base_digit
  digit_char_def lram_count_def clock_control_ops_def

text \<open>
  The wiring of the memories. In every system that can be built no signal is driven twice;
  the clock enable of every block of the RAM and of the arena is driven, on port A by the clock
  enable of the CPU and on port B by that of the CFU under dynamic clock control, and by one
  otherwise; and CFU port \<open>i\<close> gives the address and takes the data of arena bank \<open>i\<close>.
\<close>

theorem hps_memory_wiring:
  assumes "HpsSoC hc f a = Inr ops"
  shows "distinct (map fst (driven ops)) \<and>
    (\<forall>i<lram_count a. (sig_index ''lram.a_clkens'' i, hps_cpu_en a) \<in> set (driven ops)) \<and>
    (separate_arena a \<longrightarrow>
      (\<forall>i<4. (sig_index ''arena.a_clkens'' i, hps_cpu_en a) \<in> set (driven ops))) \<and>
    (cfu_mport a \<longrightarrow>
      (\<forall>i<4. (sig_index ''arena.b_clkens'' i, hps_cfu_en a) \<in> set (driven ops) \<and>
        (sig_index ''arena.b_addrs'' i, cfu_lram_sig i ''addr'') \<in> set (driven ops) \<and>
        (cfu_lram_sig i ''din'', sig_index ''arena.b_douts'' i) \<in> set (driven ops)))"
proof -
  have mport: "cfu_mport a \<Longrightarrow> separate_arena a"
    using assms HpsSoC_builds [of hc f a] by auto
  have "distinct (map fst (driven ops))"
    unfolding hps_driven [OF assms]
    by (cases "dynamic_clock_control a"; cases "separate_arena a"; cases "execute_from_lram a";
        cases "cfu_mport a") (use mport in \<open>simp_all add: hps_signal_names\<close>)
  moreover have "i < 4 \<Longrightarrow> i \<in> set lram_ports" for i
    by (auto simp: lram_ports_def)
  ultimately show ?thesis
    unfolding hps_driven [OF assms] using mport by auto
qed

theorem hps_memory_wiring_witness:
  "\<exists>ops. HpsSoC needs_file 50000000 hps_plain = Inr ops \<and>
     (sig_index ''arena.b_clkens'' 3, ''cfu_cpu_clk_ctl.cfu_cen'') \<in> set (driven ops)"
proof -
  obtain ops where ops: "HpsSoC needs_file 50000000 hps_plain = Inr ops"
    using HpsSoC_builds [of needs_file 50000000 hps_plain] by (auto simp: hps_plain_def needs_file_def)
  from hps_memory_wiring [OF ops] ops show ?thesis
    by (simp add: hps_plain_def hps_cfu_en_def)
qed

text \<open>
  The ROM in on-chip memory never gets a clock. No system that can be built drives the clock
  enable of a block of the on-chip ROM, so it keeps the inactive default of an undriven signal,
  also when the CPU is to execute from that ROM.
\<close>

theorem hps_rom_enable_undriven:
  assumes "HpsSoC hc f a = Inr ops"
  shows "sig_index ''rom.a_clkens'' i \<notin> fst ` set (driven ops)"
  unfolding hps_driven [OF assms]
  by (cases "separate_arena a") (auto simp: sig_index_def cfu_lram_sig_def lram_ports_def clock_control_ops_def)

theorem hps_rom_enable_undriven_witness:
  "\<exists>ops. HpsSoC needs_file 50000000 hps_on_chip = Inr ops \<and>
     (''rom_lram'', lram_rom_region hps_on_chip) \<in> set (slaves ops) \<and>
     sig_index ''rom.a_clkens'' 0 \<notin> fst ` set (driven ops)"
proof -
  obtain ops where ops: "HpsSoC needs_file 50000000 hps_on_chip = Inr ops"
    using HpsSoC_builds [of needs_file 50000000 hps_on_chip] by (auto simp: hps_plain_def hps_on_chip_def needs_file_def)
  then show ?thesis
    using hps_rom_enable_undriven [OF ops, of 0] hps_slaves(1) [OF ops]
    by (simp add: hps_on_chip_def)
qed

section \<open>Reset, pins and the command line\<close>

text \<open>
  The power-on reset of both platforms lasts 4095 cycles of the oscillator and is never
  asserted again.
\<close>

theorem hps_power_on_reset:
  "por_reset (run_state por_next hps_por_init (replicate n ())) \<longleftrightarrow> n < 4095"
  by (simp add: por_reset_run hps_por_init_def por_cycles_def)

text \<open>
  The pins that the system requests on a platform; \<open>serial\<close> and \<open>serial2\<close> are the resources that
  the two UARTs of the framework take.
\<close>

definition requested :: "hps_args \<Rightarrow> string list" where
  "requested a = [''spiflash4x''] @ (if with_led_chaser a then [''user_led''] else []) @ [''serial''] @
     (if hps_debug a then [''serial2''] else [])"

definition requested_pins :: "io_resource list \<Rightarrow> hps_args \<Rightarrow> string list" where
  "requested_pins io a = concat (map (resource_pins io) (requested a))"

lemma platform_pins:
  "resource_pins proto2_io ''spiflash4x'' = [''A3'', ''B4'', ''B5'', ''C4'', ''B3'', ''B2'']"
  "resource_pins proto2_io ''user_led'' = [''G3'']"
  "resource_pins proto2_io ''serial'' = [''E2'', ''G1'']"
  "resource_pins proto2_io ''serial2'' = []"
  "resource_pins proto2_io ''jtag'' = [''C2'', ''D2'', ''C3'', ''D3'', ''B1'']"
  "resource_pins proto0_io ''spiflash4x'' = [''A3'', ''B4'', ''B5'', ''C4'', ''B3'', ''B2'']"
  "resource_pins proto0_io ''user_led'' = [''D2'']"
  "resource_pins proto0_io ''serial'' = [''E2'', ''G1'']"
  "resource_pins proto0_io ''serial2'' = [''C3'', ''D3'']"
  "resource_pins proto0_io ''jtag'' = [''C2'', ''D2'', ''C3'', ''D3'', ''B1'']"
  "\<not> has_resource proto2_io ''serial2''" "has_resource proto0_io ''serial2''"
  by (simp_all add: resource_pins_def has_resource_def proto2_io_def proto0_io_def hps_io_proto2_def
      hps_nx17_debug_io_proto2_def hps_debug_common_proto2_def hps_io_proto0_def
      hps_nx17_io_proto0_def hps_nx17_debug_io_proto0_def hps_debug_common_proto0_def)

text \<open>
  No pin is used twice. The resources that the system requests have pairwise different pins
  on both platforms; on the second platform they leave the JTAG pins alone but the debug UART
  \<open>serial2\<close> does not exist there, while on the first platform it, and the LED, take JTAG pins.
\<close>

theorem hps_pins_distinct:
  "distinct (requested_pins proto2_io a) \<and> distinct (requested_pins proto0_io a) \<and>
   set (requested_pins proto2_io a) \<inter> set (resource_pins proto2_io ''jtag'') = {} \<and>
   \<not> has_resource proto2_io ''serial2'' \<and> has_resource proto0_io ''serial2'' \<and>
   set (resource_pins proto0_io ''serial2'') \<union> set (resource_pins proto0_io ''user_led'')
     \<subseteq> set (resource_pins proto0_io ''jtag'')"
  by (simp add: requested_pins_def requested_def platform_pins)

section \<open>\<open>main\<close>\<close>







end
