(* ===== verification/Hps_Clocks.thy ===== *)
theory Hps_Clocks
  imports Clock_Control Hps_Properties
begin

text \<open>
  The clock controller inside the HPS system: the signals that \<open>HpsSoC\<close> of \<^verbatim>\<open>soc/hps_soc.py\<close> connects
  make the gated composition of \<^verbatim>\<open>Clock_Control\<close>, and what the gated clocks mean for the bus of the
  on-chip memory, whose acknowledge runs on the oscillator clock.
\<close>

section \<open>The signals of a built system\<close>

text \<open>The signals in one cycle, by name: every connection holds, and the constant is 1.\<close>

definition wired :: "soc_op list \<Rightarrow> (string \<Rightarrow> nat) \<Rightarrow> bool" where
  "wired ops v \<longleftrightarrow> list_all (\<lambda>(t, s). v t = v s) (driven ops) \<and> v ''1'' = 1"

lemma wiredD: "wired ops v \<Longrightarrow> (t, s) \<in> set (driven ops) \<Longrightarrow> v t = v s"
  by (auto simp: wired_def list_all_iff)

text \<open>
  What the parts of the system put on their own signals: CPU and CFU the handshake of the cycle, and
  the controller its enables, from the signals of its port.
\<close>

definition ctl_port :: "(string \<Rightarrow> nat) \<Rightarrow> cfu_bus_minimized" where
  "ctl_port v =
     \<lparr>bus_cmd_valid = (v ''cfu_cpu_clk_ctl.cfu_bus.cmd.valid'' = 1),
      bus_cmd_ready = (v ''cfu_cpu_clk_ctl.cfu_bus.cmd.ready'' = 1),
      bus_rsp_valid = (v ''cfu_cpu_clk_ctl.cfu_bus.rsp.valid'' = 1),
      bus_rsp_ready = (v ''cfu_cpu_clk_ctl.cfu_bus.rsp.ready'' = 1)\<rparr>"

definition hps_signals :: "'s instruction list \<Rightarrow> 's gated_state \<Rightarrow> cfu_in \<Rightarrow> (string \<Rightarrow> nat) \<Rightarrow> bool" where
  "hps_signals insts s i v \<longleftrightarrow>
     v ''cpu.cfu_bus.cmd.valid'' = of_bool (cmd_valid i) \<and>
     v ''cpu.cfu_bus.cmd.ready'' = of_bool (cmd_ready (gated_out insts s i)) \<and>
     v ''cpu.cfu_bus.rsp.valid'' = of_bool (rsp_valid (gated_out insts s i)) \<and>
     v ''cpu.cfu_bus.rsp.ready'' = of_bool (rsp_ready i) \<and>
     v ''cfu_cpu_clk_ctl.cpu_cen'' = of_bool (cpu_cen (clk_enables (fst s) (ctl_port v))) \<and>
     v ''cfu_cpu_clk_ctl.cfu_cen'' = of_bool (cfu_cen (clk_enables (fst s) (ctl_port v)))"

text \<open>The clock of the CFU: its gate and the pins that take it.\<close>

definition cfu_clock :: "soc_op list" where
  "cfu_clock =
     [Call ''Instance'' [PStr ''DCC'', PKw ''i_CLKI'' (PRef ''osc.clk''),
        PKw ''o_CLKO'' (PRef ''cfu.clk''), PKw ''i_CE'' (PRef ''cfu_cpu_clk_ctl.cfu_cen'')],
      Call ''cpu.cfu_params.update'' [PKw ''i_clk'' (PRef ''cfu.clk'')],
      Call ''cpu.cfu_params.update'' [PKw ''i_reset'' (PRef ''osc.rst'')]]"

lemma clock_control_built:
  assumes "HpsSoC hc f a = Inr ops" and "dynamic_clock_control a"
  shows "set (driven clock_control_ops) \<subseteq> set (driven ops)" and "set clock_control_ops \<subseteq> set ops"
  using assms by (auto simp: hps_driven, auto simp: HpsSoC_Inr hps_ops_def)

lemma clock_control_wires:
  "driven clock_control_ops =
    [(''cfu_cpu_clk_ctl.cfu_bus.rsp.valid'', ''cpu.cfu_bus.rsp.valid''),
     (''cfu_cpu_clk_ctl.cfu_bus.rsp.ready'', ''cpu.cfu_bus.rsp.ready''),
     (''cfu_cpu_clk_ctl.cfu_bus.cmd.valid'', ''cpu.cfu_bus.cmd.valid''),
     (''cfu_cpu_clk_ctl.cfu_bus.cmd.ready'', ''cpu.cfu_bus.cmd.ready''),
     (''crg.sys_clk_enable'', ''cfu_cpu_clk_ctl.cpu_cen'')]"
  by (simp add: clock_control_ops_def)

lemma clock_signals:
  assumes "HpsSoC hc f a = Inr ops" and "dynamic_clock_control a"
    and "wired ops v" and "hps_signals insts s i v"
  shows "ctl_port v = ctl_bus i (gated_out insts s i)"
    and "v ''crg.sys_clk_enable'' = of_bool (cpu_cen (gated_enables insts s i))"
    and "v (hps_cpu_en a) = of_bool (cpu_cen (gated_enables insts s i))"
    and "v (hps_cfu_en a) = of_bool (cfu_cen (gated_enables insts s i))"
proof -
  have wire: "v t = v u" if "(t, u) \<in> set (driven clock_control_ops)" for t u
    using wiredD [OF assms(3)] clock_control_built(1) [OF assms(1,2)] that by blast
  have "v ''cfu_cpu_clk_ctl.cfu_bus.rsp.valid'' = v ''cpu.cfu_bus.rsp.valid''"
    "v ''cfu_cpu_clk_ctl.cfu_bus.rsp.ready'' = v ''cpu.cfu_bus.rsp.ready''"
    "v ''cfu_cpu_clk_ctl.cfu_bus.cmd.valid'' = v ''cpu.cfu_bus.cmd.valid''"
    "v ''cfu_cpu_clk_ctl.cfu_bus.cmd.ready'' = v ''cpu.cfu_bus.cmd.ready''"
    "v ''crg.sys_clk_enable'' = v ''cfu_cpu_clk_ctl.cpu_cen''"
    by (rule wire, simp add: clock_control_wires)+
  with assms(2,4) show port: "ctl_port v = ctl_bus i (gated_out insts s i)"
    and "v ''crg.sys_clk_enable'' = of_bool (cpu_cen (gated_enables insts s i))"
    and "v (hps_cpu_en a) = of_bool (cpu_cen (gated_enables insts s i))"
    and "v (hps_cfu_en a) = of_bool (cfu_cen (gated_enables insts s i))"
    by (simp_all add: hps_signals_def ctl_port_def ctl_bus_def gated_enables_def hps_cpu_en_def hps_cfu_en_def)
qed

lemma ram_wires:
  assumes "HpsSoC hc f a = Inr ops"
  shows "k < lram_count a \<Longrightarrow> (sig_index ''lram.a_clkens'' k, hps_cpu_en a) \<in> set (driven ops)"
    and "separate_arena a \<Longrightarrow> k < 4 \<Longrightarrow> (sig_index ''arena.a_clkens'' k, hps_cpu_en a) \<in> set (driven ops)"
    and "cfu_mport a \<Longrightarrow> k < 4 \<Longrightarrow> (sig_index ''arena.b_clkens'' k, hps_cfu_en a) \<in> set (driven ops)"
proof -
  have "cfu_mport a \<Longrightarrow> separate_arena a" using assms HpsSoC_builds [of hc f a] by auto
  then show "k < lram_count a \<Longrightarrow> (sig_index ''lram.a_clkens'' k, hps_cpu_en a) \<in> set (driven ops)"
    and "separate_arena a \<Longrightarrow> k < 4 \<Longrightarrow> (sig_index ''arena.a_clkens'' k, hps_cpu_en a) \<in> set (driven ops)"
    and "cfu_mport a \<Longrightarrow> k < 4 \<Longrightarrow> (sig_index ''arena.b_clkens'' k, hps_cfu_en a) \<in> set (driven ops)"
    unfolding hps_driven [OF assms] by auto
qed

lemma reachable_agree: "s = run_state (gated_next insts) (gated_init insts) is \<Longrightarrow> clocks_agree s"
  by (simp add: gated.inv_run list_all_iff)

section \<open>A history\<close>

text \<open>
  The signals in the one cycle in which the CFU of the tests works on the factorial of 2 and the CPU
  waits, and the state in that cycle.
\<close>

definition stopped :: "string \<Rightarrow> nat" where
  "stopped n = of_bool (n \<notin> set
     ([''cpu.cfu_bus.cmd.valid'', ''cpu.cfu_bus.cmd.ready'', ''cpu.cfu_bus.rsp.valid'', ''cpu.cfu_bus.rsp.ready'',
       ''cfu_cpu_clk_ctl.cfu_bus.cmd.valid'', ''cfu_cpu_clk_ctl.cfu_bus.cmd.ready'',
       ''cfu_cpu_clk_ctl.cfu_bus.rsp.valid'', ''cfu_cpu_clk_ctl.cfu_bus.rsp.ready'',
       ''cfu_cpu_clk_ctl.cpu_cen'', ''crg.sys_clk_enable'', sig_index ''lram.a_clkens'' 0] @
      map (sig_index ''arena.a_clkens'') [0..<4]))"

definition working :: "test_regs gated_state" where
  "working = run_state (gated_next test_insts) (gated_init test_insts) [vector_in (cycles_data ! 9)]"

lemma stopped_wired:
  assumes "HpsSoC needs_file 50000000 hps_plain = Inr ops"
  shows "wired ops stopped"
  unfolding wired_def hps_driven [OF assms]
  by (simp add: stopped_def hps_plain_def hps_cpu_en_def hps_cfu_en_def hps_signal_names)

lemma working_waits:
  "cpu_waits test_insts working (vector_in (cycles_data ! 10))"
  "hps_signals test_insts working (vector_in (cycles_data ! 10)) stopped"
  "cpu_cen (gated_enables test_insts (gated_next test_insts working (vector_in (cycles_data ! 10)))
     (vector_in (cycles_data ! 11)))"
proof -
  show "cpu_waits test_insts working (vector_in (cycles_data ! 10))"
    by (simp add: working_def cycles_data_def test_eval gated_defs gated_init_def cpu_waits_def)
  show "hps_signals test_insts working (vector_in (cycles_data ! 10)) stopped"
    by (simp add: working_def cycles_data_def test_eval gated_defs gated_init_def hps_signals_def
        ctl_port_def stopped_def sig_index_def image_iff)
  show "cpu_cen (gated_enables test_insts (gated_next test_insts working (vector_in (cycles_data ! 10)))
     (vector_in (cycles_data ! 11)))"
    by (simp add: working_def cycles_data_def test_eval gated_defs gated_init_def)
qed

lemma hps_plain_built: "\<exists>ops. HpsSoC needs_file 50000000 hps_plain = Inr ops"
  using HpsSoC_builds [of needs_file 50000000 hps_plain] by (auto simp: hps_plain_def needs_file_def)

section \<open>When the clocks of the system run\<close>

text \<open>
  C7: in every HPS system with dynamic clock control the clocks stop where they should. After any
  history of CPU and CFU, the system clock is off exactly while the CPU waits for an instruction at
  work, and so are the bus ports of RAM and arena; the clock gate and the arena ports of the CFU
  have the enable that the gated composition gives the CFU, off only while no command is presented
  or at work; and the CFU is clocked by that gate and reset by the oscillator's reset.
\<close>

theorem hps_gates_clocks:
  assumes "HpsSoC hc f a = Inr ops" and "dynamic_clock_control a"
    and "wired ops v" and "hps_signals insts s i v"
    and "s = run_state (gated_next insts) (gated_init insts) is"
  shows "v ''crg.sys_clk_enable'' = of_bool (\<not> cpu_waits insts s i) \<and>
    (\<forall>k<lram_count a. v (sig_index ''lram.a_clkens'' k) = of_bool (\<not> cpu_waits insts s i)) \<and>
    (separate_arena a \<longrightarrow>
      (\<forall>k<4. v (sig_index ''arena.a_clkens'' k) = of_bool (\<not> cpu_waits insts s i))) \<and>
    v ''cfu_cpu_clk_ctl.cfu_cen'' = of_bool (cfu_cen (gated_enables insts s i)) \<and>
    (cfu_mport a \<longrightarrow>
      (\<forall>k<4. v (sig_index ''arena.b_clkens'' k) = of_bool (cfu_cen (gated_enables insts s i)))) \<and>
    (\<not> cfu_cen (gated_enables insts s i) \<longrightarrow> cfu_fsm (snd s) = WAIT_CMD \<and> \<not> cmd_valid i) \<and>
    set cfu_clock \<subseteq> set ops"
proof -
  note agree = reachable_agree [OF assms(5)]
  note signals = clock_signals [OF assms(1-4)]
  note ports = wiredD [OF assms(3) ram_wires(1) [OF assms(1)]] wiredD [OF assms(3) ram_wires(2) [OF assms(1)]]
    wiredD [OF assms(3) ram_wires(3) [OF assms(1)]]
  have "set cfu_clock \<subseteq> set ops"
    using clock_control_built(2) [OF assms(1,2)] by (simp add: cfu_clock_def clock_control_ops_def)
  moreover have "v ''cfu_cpu_clk_ctl.cfu_cen'' = of_bool (cfu_cen (gated_enables insts s i))"
    using signals(4) assms(2) by (simp add: hps_cfu_en_def)
  moreover have "cfu_fsm (snd s) = WAIT_CMD \<and> \<not> cmd_valid i" if "\<not> cfu_cen (gated_enables insts s i)"
    using that agree by (cases "fst s") (auto simp: gated_enabled_iff clocks_agree_def)
  moreover have "cpu_cen (gated_enables insts s i) \<longleftrightarrow> \<not> cpu_waits insts s i"
    using cpu_off_iff_waits [OF agree] by blast
  ultimately show ?thesis using signals(2-4) ports by auto
qed

theorem hps_gates_clocks_witness:
  "\<exists>ops. HpsSoC needs_file 50000000 hps_plain = Inr ops \<and> wired ops stopped \<and>
     hps_signals test_insts working (vector_in (cycles_data ! 10)) stopped \<and>
     stopped (sig_index ''arena.a_clkens'' 3) = 0 \<and> set cfu_clock \<subseteq> set ops"
proof -
  obtain ops where ops: "HpsSoC needs_file 50000000 hps_plain = Inr ops" using hps_plain_built by blast
  have "dynamic_clock_control hps_plain" "separate_arena hps_plain" by (simp_all add: hps_plain_def)
  from hps_gates_clocks [OF ops this(1) stopped_wired [OF ops] working_waits(2) working_def] this(2)
  show ?thesis using ops stopped_wired [OF ops] working_waits(1,2) by auto
qed

section \<open>A read while the clock stops\<close>

text \<open>The pins of the RAM in a cycle: the bus is given, the clock enables are the signals of the system.\<close>

definition ram_pins :: "(string \<Rightarrow> nat) \<Rightarrow> nx_in \<Rightarrow> nx_in" where
  "ram_pins v b = b\<lparr>a_clkens := (\<lambda>k. v (sig_index ''lram.a_clkens'' k) = 1)\<rparr>"

lemma hps_ram_cfg:
  assumes "NXLRAM 32 (fst (hps_ram_sizes a)) False = Inr cfg"
  shows "depth_cascading cfg = lram_count a" "width_cascading cfg = 1"
  using assms
  by (cases "separate_arena a"; cases "execute_from_lram a";
      auto simp: hps_ram_sizes_def RAM_SIZE_def KB_def NXLRAM_sizes lram_count_def)+

text \<open>
  C10: a read that is pending when the clock of the CPU stops is acknowledged with old data. The
  RAM is in the domain of the oscillator, so its acknowledge runs also while its ports have no clock
  enable. After any history, a read that is presented to an idle RAM is acknowledged in the next cycle;
  with it comes the word at its address, unless the CPU waits for an instruction in the cycle of the
  request: then comes whatever the RAM had on its output before.
\<close>

theorem gated_ram_read:
  assumes "HpsSoC hc f a = Inr ops" and "dynamic_clock_control a"
    and "lram_primitive lram_step doa dob cell_word" and "NXLRAM 32 (fst (hps_ram_sizes a)) False = Inr cfg"
    and "wired ops v" and "hps_signals insts s i v"
    and "s = run_state (gated_next insts) (gated_init insts) is"
    and "bus_stb b" and "bus_cyc b" and "\<not> bus_we b" and "unat (bus_adr b) < nx_words cfg"
    and "\<not> bus_ack m" and "m' = nx_next lram_step cfg m (ram_pins v b)" and "bus_adr b' = bus_adr b"
  shows "create_ram_op ''osc'' ''lram'' (fst (hps_ram_sizes a)) False \<in> set ops \<and> bus_ack m' \<and>
    ucast (nx_dat_r doa cfg m' b') =
    (if cpu_waits insts s i then ucast (nx_dat_r doa cfg m b) else nx_word cell_word cfg m 0 (bus_adr b))"
proof -
  let ?i = "ram_pins v b"
  have cfg: "nx_valid cfg" using nx_config [OF assms(4)] by blast
  note geom = hps_ram_cfg [OF assms(4)]
  have en: "v (sig_index ''lram.a_clkens'' k) = of_bool (\<not> cpu_waits insts s i)" if "k < lram_count a" for k
    using wiredD [OF assms(5) ram_wires(1) [OF assms(1) that]] clock_signals(3) [OF assms(1,2,5,6)]
      cpu_off_iff_waits [OF reachable_agree [OF assms(7)]] by simp
  have "0 < lram_count a" by (simp add: lram_count_def)
  with en have legal: "nx_legal cfg ?i" "a_clkens ?i 0 \<longleftrightarrow> \<not> cpu_waits insts s i" "\<not> bus_writes ?i"
    using assms(10) geom by (simp_all add: nx_legal_def ram_pins_def bus_writes_def)
  have pins: "bus_adr ?i = bus_adr b" "bus_stb ?i" "bus_cyc ?i" "nx_dat_r doa cfg m ?i = nx_dat_r doa cfg m b"
    using assms(8,9) by (simp_all add: ram_pins_def nx_dat_r_def nx_lane_def)
  have "create_ram_op ''osc'' ''lram'' (fst (hps_ram_sizes a)) False \<in> set ops"
    using assms(1) by (auto simp: HpsSoC_Inr hps_ops_def)
  moreover note read = lram_primitive.nx_read_next [OF assms(3) cfg legal(1) _ legal(3), of b' 0 m]
  moreover note held = lram_primitive.nx_read_held [OF assms(3) cfg legal(1), of b' 0 m]
  ultimately show ?thesis
    using legal(2) pins assms(11,12,14) geom(2) by (auto simp: assms(13) nx_next_def [of _ _ _ ?i])
qed

text \<open>A RAM full of 42 with 0 on its output: the CPU, whose clock runs in the next cycle, is given 0.\<close>

definition ram_of_42 :: "lram_array nx_state" where
  "ram_of_42 = \<lparr>lram_blocks = [[\<lparr>arr_cells = (\<lambda>_. 42), arr_a = 0, arr_b = 0\<rparr>]], bus_ack = False\<rparr>"

theorem gated_ram_read_witness:
  "\<exists>cfg. NXLRAM 32 (fst (hps_ram_sizes hps_plain)) False = Inr cfg \<and>
     bus_ack (nx_next lram_array_step cfg ram_of_42 (ram_pins stopped (nx_cycle 7 0 False))) \<and>
     ucast (nx_dat_r arr_a cfg (nx_next lram_array_step cfg ram_of_42 (ram_pins stopped (nx_cycle 7 0 False)))
       (nx_cycle 7 0 False)) = (0 :: u32) \<and>
     nx_word arr_cells cfg ram_of_42 0 7 = 42 \<and>
     cpu_cen (gated_enables test_insts (gated_next test_insts working (vector_in (cycles_data ! 10)))
       (vector_in (cycles_data ! 11)))"
proof -
  obtain ops where ops: "HpsSoC needs_file 50000000 hps_plain = Inr ops" using hps_plain_built by blast
  have dyn: "dynamic_clock_control hps_plain" by (simp add: hps_plain_def)
  obtain cfg where cfg: "NXLRAM 32 (fst (hps_ram_sizes hps_plain)) False = Inr cfg"
    and geom: "depth_cascading cfg = 1" "width_cascading cfg = 1" "sel_bits cfg = 0"
    by (simp add: hps_ram_sizes_def hps_plain_def KB_def NXLRAM_sizes)
  have "bus_stb (nx_cycle 7 0 False)" "bus_cyc (nx_cycle 7 0 False)" "\<not> bus_we (nx_cycle 7 0 False)"
    "unat (bus_adr (nx_cycle 7 0 False)) < nx_words cfg" "\<not> bus_ack ram_of_42"
    by (simp_all add: nx_cycle_def nx_words_def geom ram_of_42_def)
  from gated_ram_read [OF ops dyn lram_array.lram_primitive_axioms cfg stopped_wired [OF ops]
      working_waits(2) working_def this refl refl]
  have "bus_ack (nx_next lram_array_step cfg ram_of_42 (ram_pins stopped (nx_cycle 7 0 False))) \<and>
      ucast (nx_dat_r arr_a cfg (nx_next lram_array_step cfg ram_of_42 (ram_pins stopped (nx_cycle 7 0 False)))
        (nx_cycle 7 0 False)) = (ucast (nx_dat_r arr_a cfg ram_of_42 (nx_cycle 7 0 False)) :: u32)"
    by (simp add: working_waits(1))
  moreover have "nx_dat_r arr_a cfg ram_of_42 (nx_cycle 7 0 False) = 0"
    by (simp add: nx_dat_r_def nx_lane_def geom ram_of_42_def)
  moreover have "nx_word arr_cells cfg ram_of_42 0 7 = 42"
    by (simp add: nx_word_def ram_of_42_def bank_of_def geom)
  ultimately show ?thesis using cfg working_waits(3) by auto
qed

end
