(* ===== verification/Amaranth_Util.thy ===== *)
theory Amaranth_Util
  imports Cfu_Prelude "HOL-Library.Monad_Syntax"
begin

text \<open>
  The gateware helpers of \<^verbatim>\<open>python/amaranth_cfu/util.py\<close>: the tree-shaped sum, the splitting and
  packing of words, the capture buffer \<open>ValueBuffer\<close>, the memory wrapper \<open>DualPortMemory\<close> and the
  \<open>SequentialMemoryReader\<close> that hides the one-cycle latency of a memory. The HDL's memory
  primitive is a parameter whose documented behaviour is the locale \<open>nontransparent_memory\<close>.
\<close>

section \<open>Sums in a tree\<close>

text \<open>
  \<open>tree_sum\<close> splits the list in halves and adds the sums of the halves. On the empty list the
  first half is the empty list again and the call does not return: the result is \<open>None\<close>. The
  addition is a parameter, since the source adds whatever values the list holds.
\<close>

partial_function (option) tree_sum :: "('a \<Rightarrow> 'a \<Rightarrow> 'a) \<Rightarrow> 'a list \<Rightarrow> 'a option" where
  "tree_sum add l =
     (if length l = 1 then Some (l ! 0)
      else let half = length l div 2 in
        do { a \<leftarrow> tree_sum add (take half l);
             b \<leftarrow> tree_sum add (drop half l);
             Some (add a b) })"

lemma tree_sum_single [simp]: "tree_sum add [x] = Some x"
  by (subst tree_sum.simps) simp

lemma tree_sum_empty_diverges:
  "tree_sum add l = Some v \<Longrightarrow> l \<noteq> []"
proof -
  assume ret: "tree_sum add l = Some v"
  show "l \<noteq> []"
  proof (rule tree_sum.raw_induct [where P = "\<lambda>_ l _. l \<noteq> []", OF _ ret])
    fix f add' l' v'
    assume IH: "\<And>add l v. f add l = Some v \<Longrightarrow> l \<noteq> []"
      and eq: "(if length l' = 1 then Some (l' ! 0)
        else let half = length l' div 2 in
          do { a \<leftarrow> f add' (take half l'); b \<leftarrow> f add' (drop half l'); Some (add' a b) }) = Some v'"
    show "l' \<noteq> []"
    proof
      assume "l' = []"
      with eq obtain a where "f add' [] = Some a" by (auto simp: Let_def bind_eq_Some_conv)
      then show False using IH by blast
    qed
  qed
qed

lemma tree_sum_step:
  assumes "length l \<noteq> 1" "tree_sum add (take (length l div 2) l) = Some a"
    "tree_sum add (drop (length l div 2) l) = Some b"
  shows "tree_sum add l = Some (add a b)"
  using assms by (subst tree_sum.simps) (simp add: Let_def)

text \<open>
  Induction over the halving: a fact about lists of one element that passes from the two halves
  to the whole holds for every nonempty list, with the value that \<open>tree_sum\<close> returns.
\<close>

lemma tree_sum_induct:
  assumes "l \<noteq> []"
    and single: "\<And>x. P [x] x"
    and split: "\<And>xs ys a b. xs \<noteq> [] \<Longrightarrow> length xs \<le> length ys \<Longrightarrow> length ys \<le> length xs + 1 \<Longrightarrow>
      P xs a \<Longrightarrow> P ys b \<Longrightarrow> P (xs @ ys) (add a b)"
  shows "\<exists>v. tree_sum add l = Some v \<and> P l v"
  using assms(1)
proof (induction l rule: length_induct)
  case (1 l)
  show ?case
  proof (cases "length l = 1")
    case True
    then obtain x where "l = [x]" by (cases l) auto
    with single show ?thesis by simp
  next
    case False
    let ?h = "length l div 2"
    from False 1 have "length l \<ge> 2" by (cases l) (auto simp: Suc_le_eq)
    then have len: "0 < ?h" "?h < length l" "length l \<le> 2 * ?h + 1" "2 * ?h \<le> length l" by auto
    from len 1 obtain a where a: "tree_sum add (take ?h l) = Some a" "P (take ?h l) a"
      by (metis length_take length_greater_0_conv min.absorb4)
    from len 1 obtain b where b: "tree_sum add (drop ?h l) = Some b" "P (drop ?h l) b"
      by (metis diff_less length_drop length_greater_0_conv zero_less_diff)
    have "P (take ?h l @ drop ?h l) (add a b)"
      using len a b by (intro split) auto
    with tree_sum_step [OF False a(1) b(1)] show ?thesis by simp
  qed
qed

text \<open>The shape of the adder that the expression describes.\<close>

datatype 'a adder = Operand 'a | Adder "'a adder" "'a adder"

fun adder_depth :: "'a adder \<Rightarrow> nat" where
  "adder_depth (Operand x) = 0"
| "adder_depth (Adder a b) = Suc (max (adder_depth a) (adder_depth b))"

fun adder_operands :: "'a adder \<Rightarrow> 'a list" where
  "adder_operands (Operand x) = [x]"
| "adder_operands (Adder a b) = adder_operands a @ adder_operands b"

section \<open>Splitting and packing words\<close>

text \<open>
  \<open>all_words\<close> slices a signal, here its bits from the least significant one, at the positions
  \<open>range(0, len(signal), word_length)\<close>. A step of 0 is refused by \<open>range\<close>; a negative step from
  0 upwards gives no positions.
\<close>

definition all_words :: "'b list \<Rightarrow> int \<Rightarrow> 'b list list result" where
  "all_words signal word_length =
     (if word_length = 0 then Inl (ValueError ''range() arg 3 must not be zero'')
      else if word_length < 0 then Inr []
      else let w = nat word_length in
        Inr (map (\<lambda>k. take w (drop (k * w) signal)) [0..<(length signal + w - 1) div w]))"

text \<open>\<open>pack_vals\<close> on Python integers; a negative shift count is an error.\<close>

definition pack_vals :: "int list \<Rightarrow> int \<Rightarrow> int \<Rightarrow> int result" where
  "pack_vals values offset bits =
     (if bits < 0 then Inl (ValueError ''negative shift count'')
      else let b = nat bits; msk = push_bit b 1 - 1 in
        Inr (fold (\<lambda>(i, v) result. result + push_bit (i * b) ((v + offset) AND msk))
          (enumerate 0 values) 0))"

definition pack128 :: "int \<Rightarrow> int \<Rightarrow> int \<Rightarrow> int \<Rightarrow> int result" where
  "pack128 a b c d = pack_vals [a, b, c, d] 0 32"

lemma and_mask: "(v :: int) AND (push_bit b 1 - 1) = v mod 2 ^ b"
  by (simp add: push_bit_eq_mult take_bit_eq_mod flip: take_bit_eq_mask mask_eq_exp_minus_1)

text \<open>The packed number as digits in base \<open>2 ^ b\<close>.\<close>

fun digits_value :: "nat \<Rightarrow> int list \<Rightarrow> int" where
  "digits_value b [] = 0"
| "digits_value b (d # ds) = d mod 2 ^ b + 2 ^ b * digits_value b ds"

lemma pack_step:
  "(\<lambda>(i, v) result. result + push_bit (i * b) ((v + offset) AND (push_bit b 1 - 1))) =
   (\<lambda>(i, v) result. result + 2 ^ (i * b) * ((v + offset) mod (2 :: int) ^ b))"
  unfolding and_mask by (simp only: push_bit_eq_mult mult.commute)

lemma pack_fold:
  "fold (\<lambda>(i, v) result. result + 2 ^ (i * b) * ((v + offset) mod 2 ^ b)) (enumerate n vs) acc =
   acc + 2 ^ (n * b) * digits_value b (map (\<lambda>v. v + offset) vs)"
  by (induction vs arbitrary: n acc) (simp_all add: algebra_simps power_add)

lemma pack_vals_digits:
  "0 \<le> bits \<Longrightarrow>
   pack_vals values offset bits = Inr (digits_value (nat bits) (map (\<lambda>v. v + offset) values))"
  unfolding pack_vals_def Let_def pack_step by (simp add: pack_fold)

lemma digits_value_range: "0 \<le> digits_value b ds \<and> digits_value b ds < 2 ^ (b * length ds)"
proof (induction ds)
  case Nil
  then show ?case by simp
next
  case (Cons d ds)
  have "digits_value b ds + 1 \<le> 2 ^ (b * length ds)" using Cons by simp
  then have "2 ^ b * (digits_value b ds + 1) \<le> 2 ^ b * (2 :: int) ^ (b * length ds)"
    by (intro mult_left_mono) auto
  then have le: "2 ^ b * digits_value b ds + 2 ^ b \<le> 2 ^ (b * length (d # ds))"
    by (simp add: power_add distrib_left)
  have d: "d mod 2 ^ b < 2 ^ b" "0 \<le> d mod 2 ^ b" by simp_all
  have "0 \<le> 2 ^ b * digits_value b ds" using Cons by simp
  with d(2) have "0 \<le> d mod 2 ^ b + 2 ^ b * digits_value b ds" by (rule add_nonneg_nonneg)
  moreover from d(1) le have "d mod 2 ^ b + 2 ^ b * digits_value b ds < 2 ^ (b * length (d # ds))"
    by linarith
  ultimately have "0 \<le> d mod 2 ^ b + 2 ^ b * digits_value b ds"
    and "d mod 2 ^ b + 2 ^ b * digits_value b ds < 2 ^ (b * length (d # ds))"
    by simp_all
  then show ?case by (simp only: digits_value.simps)
qed

lemma digits_value_nth:
  "k < length ds \<Longrightarrow> digits_value b ds div 2 ^ (k * b) mod 2 ^ b = ds ! k mod 2 ^ b"
proof (induction ds arbitrary: k)
  case Nil
  then show ?case by simp
next
  case (Cons d ds)
  show ?case
  proof (cases k)
    case 0
    then show ?thesis by simp
  next
    case (Suc j)
    have "digits_value b (d # ds) div 2 ^ b = digits_value b ds" by simp
    then have "digits_value b (d # ds) div 2 ^ (k * b) = digits_value b ds div 2 ^ (j * b)"
      by (simp only: Suc mult_Suc power_add zdiv_zmult2_eq zero_le_power zero_le_numeral)
    then show ?thesis using Cons Suc by simp
  qed
qed

end
