(* ===== verification/Amaranth_Circuits.thy ===== *)
theory Amaranth_Circuits
  imports Amaranth_Util
begin

text \<open>
  The clocked helpers of \<^verbatim>\<open>python/amaranth_cfu/util.py\<close>: \<open>ValueBuffer\<close>, \<open>DualPortMemory\<close>,
  \<open>increment_to_limit\<close> and \<open>SequentialMemoryReader\<close>. Signals whose width is a parameter of the
  source are naturals with the truncation to that width written out.
\<close>

section \<open>ValueBuffer\<close>

text \<open>Input of a cycle: \<open>capture\<close> and the buffered signal; register: \<open>captured\<close>, 0 after reset.\<close>

definition vb_output :: "'a::zero \<Rightarrow> bool \<times> 'a \<Rightarrow> 'a" where
  "vb_output captured i = (if fst i then snd i else captured)"

definition vb_next :: "'a::zero \<Rightarrow> bool \<times> 'a \<Rightarrow> 'a" where
  "vb_next captured i = (if fst i then snd i else captured)"

text \<open>The specification keeps the whole history and shows the last captured value.\<close>

definition last_captured :: "(bool \<times> 'a::zero) list \<Rightarrow> 'a" where
  "last_captured h = (case filter fst (rev h) of [] \<Rightarrow> 0 | (_, v) # _ \<Rightarrow> v)"

lemma last_captured_snoc:
  "last_captured (h @ [i]) = (if fst i then snd i else last_captured h)"
  by (cases i) (simp add: last_captured_def)

interpretation value_buffer: circuit_refinement vb_next vb_output "0 :: 'a::zero"
    "\<lambda>h i. h @ [i]" "\<lambda>h i. last_captured (h @ [i])" "[]" "\<lambda>_. True"
    "\<lambda>captured h. captured = last_captured h"
  by unfold_locales (simp_all add: vb_output_def vb_next_def last_captured_snoc, simp add: last_captured_def)

section \<open>DualPortMemory\<close>

text \<open>The signals of the memory primitive's write port and read port.\<close>

record 'w mem_ports =
  wp_en :: bool
  wp_addr :: nat
  wp_data :: 'w
  rp_en :: bool
  rp_addr :: nat

record 'w dpm_in =
  w_en :: bool
  w_addr :: nat
  w_data :: 'w
  r_addr :: nat

text \<open>The wiring of \<open>elab\<close>, the clock cycle of the wrapped memory and its output.\<close>

definition dpm_ports :: "'w dpm_in \<Rightarrow> 'w mem_ports" where
  "dpm_ports i = \<lparr>wp_en = w_en i, wp_addr = w_addr i, wp_data = w_data i,
     rp_en = True, rp_addr = r_addr i\<rparr>"

definition dpm_next :: "('m \<Rightarrow> 'w mem_ports \<Rightarrow> 'm) \<Rightarrow> 'm \<Rightarrow> 'w dpm_in \<Rightarrow> 'm" where
  "dpm_next cyc m i = cyc m (dpm_ports i)"

definition dpm_r_data :: "('m \<Rightarrow> 'w) \<Rightarrow> 'm \<Rightarrow> 'w" where
  "dpm_r_data rdata m = rdata m"

text \<open>
  What the HDL documents of a memory with one write port and one read port that is not
  transparent: an enabled write changes its cell at the clock edge, and an enabled read delivers,
  after the edge, what the cell held before it.
\<close>

locale nontransparent_memory =
  fixes cyc :: "'m \<Rightarrow> 'w mem_ports \<Rightarrow> 'm"
    and rdata :: "'m \<Rightarrow> 'w"
    and cell :: "'m \<Rightarrow> nat \<Rightarrow> 'w"
    and depth :: nat
  assumes cell_write: "wp_en i \<Longrightarrow> wp_addr i < depth \<Longrightarrow> a < depth \<Longrightarrow>
      cell (cyc m i) a = (if a = wp_addr i then wp_data i else cell m a)"
    and cell_keep: "\<not> wp_en i \<Longrightarrow> a < depth \<Longrightarrow> cell (cyc m i) a = cell m a"
    and read_old: "rp_en i \<Longrightarrow> rp_addr i < depth \<Longrightarrow> rdata (cyc m i) = cell m (rp_addr i)"
begin

lemma dpm_cell:
  "w_addr i < depth \<Longrightarrow> a < depth \<Longrightarrow>
   cell (dpm_next cyc m i) a = (if w_en i \<and> a = w_addr i then w_data i else cell m a)"
  by (cases "w_en i") (simp_all add: dpm_next_def dpm_ports_def cell_write cell_keep)

lemma dpm_read: "r_addr i < depth \<Longrightarrow> dpm_r_data rdata (dpm_next cyc m i) = cell m (r_addr i)"
  by (simp add: dpm_next_def dpm_r_data_def dpm_ports_def read_old)

end

text \<open>A memory as the function from addresses to words and the register of its read port.\<close>

record 'w array_memory =
  mem_cells :: "nat \<Rightarrow> 'w"
  mem_rdata :: 'w

definition array_cycle :: "'w array_memory \<Rightarrow> 'w mem_ports \<Rightarrow> 'w array_memory" where
  "array_cycle m i = \<lparr>
     mem_cells = (if wp_en i then (mem_cells m)(wp_addr i := wp_data i) else mem_cells m),
     mem_rdata = (if rp_en i then mem_cells m (rp_addr i) else mem_rdata m)\<rparr>"

interpretation array_memory: nontransparent_memory array_cycle mem_rdata mem_cells depth for depth
  by unfold_locales (simp_all add: array_cycle_def)

section \<open>Reading a memory in sequence\<close>

text \<open>\<open>increment_to_limit\<close>: the value assigned to an \<open>n\<close>-bit signal; \<open>limit - 1\<close> may be negative.\<close>

definition increment_to_limit :: "nat \<Rightarrow> nat \<Rightarrow> nat \<Rightarrow> nat" where
  "increment_to_limit n value limit =
     (if int value = int limit - 1 then 0 else value + 1) mod 2 ^ n"

text \<open>
  \<open>SequentialMemoryReader\<close>: the widths of \<open>mem_addr\<close> and of \<open>limit\<close> (those the HDL gives the ranges
  of the source), the inputs, and the registers.
\<close>

record smr_widths =
  addr_width :: nat
  limit_width :: nat

record smr_in =
  limit :: nat
  mem_data :: u32
  next_in :: bool
  restart :: bool

record smr_state =
  was_restart :: bool
  was_next :: bool
  last_mem_addr :: nat
  last_data :: u32

definition smr_init :: smr_state where
  "smr_init = \<lparr>was_restart = False, was_next = False, last_mem_addr = 0, last_data = 0\<rparr>"

definition incremented_addr :: "smr_widths \<Rightarrow> smr_state \<Rightarrow> smr_in \<Rightarrow> nat" where
  "incremented_addr w s i =
     (if int (last_mem_addr s) = int (limit i) - 1 then 0 else last_mem_addr s + 1)
       mod 2 ^ limit_width w"

definition smr_mem_addr :: "smr_widths \<Rightarrow> smr_state \<Rightarrow> smr_in \<Rightarrow> nat" where
  "smr_mem_addr w s i =
     (if restart i then 0
      else if was_next s \<or> was_restart s then incremented_addr w s i mod 2 ^ addr_width w
      else last_mem_addr s)"

definition smr_data :: "smr_state \<Rightarrow> smr_in \<Rightarrow> u32" where
  "smr_data s i = (if was_restart s \<or> was_next s then mem_data i else last_data s)"

definition smr_next :: "smr_widths \<Rightarrow> smr_state \<Rightarrow> smr_in \<Rightarrow> smr_state" where
  "smr_next w s i = \<lparr>was_restart = restart i, was_next = next_in i,
     last_mem_addr = smr_mem_addr w s i, last_data = smr_data s i\<rparr>"

text \<open>
  The reader connected to a memory whose read takes a cycle: \<open>rd_next\<close> is the memory's clock cycle
  at an address, \<open>rd_data\<close> its output and \<open>content\<close> what it holds. Input of a cycle: \<open>next\<close> and
  \<open>restart\<close>; the limit is fixed.
\<close>

definition reader_in :: "nat \<Rightarrow> ('m \<Rightarrow> u32) \<Rightarrow> 'm \<Rightarrow> bool \<times> bool \<Rightarrow> smr_in" where
  "reader_in l rd_data m i =
     \<lparr>limit = l, mem_data = rd_data m, next_in = fst i, restart = snd i\<rparr>"

definition reader_next ::
    "smr_widths \<Rightarrow> nat \<Rightarrow> ('m \<Rightarrow> nat \<Rightarrow> 'm) \<Rightarrow> ('m \<Rightarrow> u32) \<Rightarrow>
     smr_state \<times> 'm \<Rightarrow> bool \<times> bool \<Rightarrow> smr_state \<times> 'm" where
  "reader_next w l rd_next rd_data sm i =
     (let s = fst sm; m = snd sm; si = reader_in l rd_data m i in
      (smr_next w s si, rd_next m (smr_mem_addr w s si)))"

definition reader_out ::
    "nat \<Rightarrow> ('m \<Rightarrow> u32) \<Rightarrow> smr_state \<times> 'm \<Rightarrow> bool \<times> bool \<Rightarrow> u32" where
  "reader_out l rd_data sm i = smr_data (fst sm) (reader_in l rd_data (snd sm) i)"

text \<open>The interface the reader uses of its memory, and the limits it respects.\<close>

locale one_cycle_read =
  fixes rd_next :: "'m \<Rightarrow> nat \<Rightarrow> 'm"
    and rd_data :: "'m \<Rightarrow> u32"
    and content :: "'m \<Rightarrow> nat \<Rightarrow> u32"
    and depth :: nat
  assumes read_next: "a < depth \<Longrightarrow> rd_data (rd_next m a) = content m a"
    and content_next: "a < depth \<Longrightarrow> b < depth \<Longrightarrow> content (rd_next m a) b = content m b"

text \<open>
  After \<open>k\<close> words have been taken: the word on \<open>data\<close> is word \<open>k mod l\<close>, and the address register
  points at it (when it is just arriving from the memory) or at the one after it.
\<close>

definition reader_at ::
    "nat \<Rightarrow> nat \<Rightarrow> ('m \<Rightarrow> u32) \<Rightarrow> ('m \<Rightarrow> nat \<Rightarrow> u32) \<Rightarrow> (nat \<Rightarrow> u32) \<Rightarrow> nat \<Rightarrow> smr_state \<times> 'm \<Rightarrow> bool" where
  "reader_at l depth rd_data content f k sm \<longleftrightarrow>
     (\<forall>a<depth. content (snd sm) a = f a) \<and>
     (if was_restart (fst sm) \<or> was_next (fst sm)
      then last_mem_addr (fst sm) = k mod l \<and> rd_data (snd sm) = f (k mod l)
      else last_mem_addr (fst sm) = (k + 1) mod l \<and> last_data (fst sm) = f (k mod l))"

lemma mod_step:
  assumes "0 < l"
  shows "(if int (k mod l) = int l - 1 then 0 else k mod l + 1) = (k + 1) mod l"
  using assms by (auto simp: mod_Suc)

context one_cycle_read
begin

lemma reader_at_step:
  assumes at: "reader_at l depth rd_data content f k (s, m)"
    and l: "0 < l" "l \<le> depth" "depth \<le> 2 ^ addr_width w" "l < 2 ^ limit_width w"
  shows "reader_out l rd_data (s, m) (n, False) = f (k mod l)"
    and "smr_mem_addr w s (reader_in l rd_data m (n, False)) = (k + 1) mod l"
    and "reader_at l depth rd_data content f (if n then k + 1 else k)
      (reader_next w l rd_next rd_data (s, m) (n, False))"
proof -
  have lt: "(k + 1) mod l < l" "k mod l < l" using l by simp_all
  then have d: "(k + 1) mod l < depth" using l by linarith
  then have c: "content m ((k + 1) mod l) = f ((k + 1) mod l)"
    using at by (simp add: reader_at_def)
  show out: "reader_out l rd_data (s, m) (n, False) = f (k mod l)"
    using at by (auto simp: reader_out_def reader_at_def smr_data_def reader_in_def split: if_splits)
  have inc: "incremented_addr w s (reader_in l rd_data m (n, False)) mod 2 ^ addr_width w =
      (k + 1) mod l" if "last_mem_addr s = k mod l"
  proof -
    have "incremented_addr w s (reader_in l rd_data m (n, False)) =
        (k + 1) mod l mod 2 ^ limit_width w"
      by (simp only: incremented_addr_def that reader_in_def smr_in.simps mod_step [OF l(1)])
    moreover have "(k + 1) mod l < 2 ^ limit_width w" "(k + 1) mod l < 2 ^ addr_width w"
      using lt l by linarith+
    ultimately show ?thesis by (simp only: mod_less)
  qed
  then show addr: "smr_mem_addr w s (reader_in l rd_data m (n, False)) = (k + 1) mod l"
    using at by (auto simp: smr_mem_addr_def reader_at_def reader_in_def split: if_splits)
  from out have data: "smr_data s (reader_in l rd_data m (n, False)) = f (k mod l)"
    by (simp add: reader_out_def)
  show "reader_at l depth rd_data content f (if n then k + 1 else k)
      (reader_next w l rd_next rd_data (s, m) (n, False))"
    using at addr data read_next [OF d] content_next [OF d] c
    by (simp add: reader_next_def Let_def smr_next_def reader_at_def)
      (simp add: reader_in_def)
qed

text \<open>A cycle with \<open>restart\<close> puts the reader at word 0, from any state.\<close>

lemma reader_at_restart:
  assumes "0 < l" "l \<le> depth"
  shows "reader_at l depth rd_data content (content m) 0
    (reader_next w l rd_next rd_data (s, m) (n, True))"
  using assms
  by (simp add: reader_next_def Let_def smr_next_def reader_at_def smr_mem_addr_def read_next
      content_next reader_in_def)

text \<open>From word \<open>k\<close> on: the words come in order, one further for every \<open>next\<close>, round and round.\<close>

lemma reader_stream:
  assumes l: "0 < l" "l \<le> depth" "depth \<le> 2 ^ addr_width w" "l < 2 ^ limit_width w"
  shows "reader_at l depth rd_data content f k sm \<Longrightarrow>
    run_outs (reader_next w l rd_next rd_data) (reader_out l rd_data) sm (map (\<lambda>n. (n, False)) ns) =
    map (\<lambda>t. f ((k + count_list (take t ns) True) mod l)) [0..<length ns]"
proof (induction ns arbitrary: k sm)
  case Nil
  then show ?case by simp
next
  case (Cons n ns)
  obtain s m where sm: "sm = (s, m)" by (cases sm)
  note step = reader_at_step [OF Cons.prems [unfolded sm] l]
  have "map (\<lambda>t. f ((k + count_list (take t (n # ns)) True) mod l)) [0..<length (n # ns)] =
      f (k mod l) # map (\<lambda>t. f (((if n then k + 1 else k) + count_list (take t ns) True) mod l))
        [0..<length ns]"
    by (cases n) (simp_all add: map_upt_Suc del: upt_Suc)
  with Cons.IH [OF step(3)] step(1) sm show ?case by simp
qed

end

text \<open>The wrapped dual-port memory, not written to, is a memory the reader can use.\<close>

definition dpm_read_next :: "('m \<Rightarrow> u32 mem_ports \<Rightarrow> 'm) \<Rightarrow> 'm \<Rightarrow> nat \<Rightarrow> 'm" where
  "dpm_read_next cyc m a = dpm_next cyc m \<lparr>w_en = False, w_addr = 0, w_data = 0, r_addr = a\<rparr>"

lemma dpm_one_cycle_read:
  assumes "nontransparent_memory cyc rdata cell depth"
  shows "one_cycle_read (dpm_read_next cyc) (dpm_r_data rdata) cell depth"
  by (rule one_cycle_read.intro)
    (simp_all add: dpm_read_next_def nontransparent_memory.dpm_read [OF assms]
      nontransparent_memory.dpm_cell [OF assms])

interpretation array_dpm: one_cycle_read "dpm_read_next array_cycle" "dpm_r_data mem_rdata" mem_cells depth
  for depth
  by (rule dpm_one_cycle_read [OF array_memory.nontransparent_memory_axioms])

section \<open>Properties\<close>

text \<open>
  C36: the tree-shaped sum returns exactly on nonempty lists, where it is the sum of the list, and
  the circuit it describes adds every operand once, in order, with logarithmic depth.
\<close>

theorem tree_sum_correct:
  "tree_sum (+) (xs :: int list) = (if xs = [] then None else Some (sum_list xs))"
proof (cases "xs = []")
  case True
  then show ?thesis using tree_sum_empty_diverges [of "(+)" "[]"]
    by (cases "tree_sum (+) ([] :: int list)") auto
next
  case False
  from tree_sum_induct [OF this, of "\<lambda>l v. v = sum_list l" "(+)"] show ?thesis
    using False by auto
qed

lemma balanced_bounds:
  assumes "0 < m" "m \<le> n" "n \<le> m + (1 :: nat)"
    and "m \<le> 2 ^ a" "2 ^ a < 2 * m" "n \<le> 2 ^ b" "2 ^ b < 2 * n"
  shows "m + n \<le> 2 ^ Suc (max a b)" "2 ^ Suc (max a b) < 2 * (m + n)"
proof -
  have le: "(2 :: nat) ^ a \<le> 2 ^ max a b" "(2 :: nat) ^ b \<le> 2 ^ max a b" by simp_all
  with assms have "m + n \<le> 2 * 2 ^ max a b" by linarith
  then show "m + n \<le> 2 ^ Suc (max a b)" by simp
  have "(2 :: nat) ^ b \<noteq> 2 * m + 1"
    using assms(1) by (cases b) (auto, presburger)
  then have "2 ^ b < m + n" using assms by linarith
  moreover have "2 ^ a < m + n" using assms by linarith
  ultimately have "2 ^ max a b < m + n" by (auto simp: max_def)
  then show "2 ^ Suc (max a b) < 2 * (m + n)" by simp
qed

text \<open>
  The adder that \<open>tree_sum\<close> builds for \<open>n > 0\<close> operands has each of them once, in order, and a
  depth \<open>d\<close> with \<open>n \<le> 2 ^ d < 2 * n\<close>: the least depth a tree of two-input adders can have.
\<close>

theorem tree_sum_depth:
  assumes "xs \<noteq> []"
  shows "\<exists>t. tree_sum Adder (map Operand xs) = Some t \<and> adder_operands t = xs \<and>
    length xs \<le> 2 ^ adder_depth t \<and> 2 ^ adder_depth t < 2 * length xs"
proof -
  let ?P = "\<lambda>l t. concat (map adder_operands l) = adder_operands t \<and>
    (list_all (\<lambda>a. adder_depth a = 0) l \<longrightarrow>
      length l \<le> 2 ^ adder_depth t \<and> 2 ^ adder_depth t < 2 * length l)"
  have "\<exists>t. tree_sum Adder (map Operand xs) = Some t \<and> ?P (map Operand xs) t"
  proof (rule tree_sum_induct)
    fix as bs :: "'a adder list" and a b
    assume len: "as \<noteq> []" "length as \<le> length bs" "length bs \<le> length as + 1"
      and P: "?P as a" "?P bs b"
    show "?P (as @ bs) (Adder a b)"
      using P balanced_bounds [of "length as" "length bs" "adder_depth a" "adder_depth b"] len
      by auto
  qed (use assms in auto)
  then show ?thesis by (auto simp: comp_def list_all_iff)
qed

theorem tree_sum_depth_witness:
  "\<exists>t. tree_sum Adder (map Operand [1, 2, 3, 4, 5 :: int]) = Some t \<and>
    adder_operands t = [1, 2, 3, 4, 5] \<and> (5 :: nat) \<le> 2 ^ adder_depth t \<and>
    2 ^ adder_depth t < (10 :: nat)"
  using tree_sum_depth [of "[1, 2, 3, 4, 5 :: int]"] by (simp add: numeral_eq_Suc)

text \<open>
  \<open>pack_vals\<close> loses nothing but the bits above the width: the packed number fits in
  \<open>n * bits\<close> bits, and field \<open>k\<close> of it is value \<open>k\<close> plus the offset, modulo \<open>2 ^ bits\<close>, also for
  negative values.
\<close>

theorem pack_vals_fields:
  assumes "0 \<le> bits"
  shows "\<exists>r. pack_vals vs offset bits = Inr r \<and> 0 \<le> r \<and> r < 2 ^ (nat bits * length vs) \<and>
    (\<forall>k<length vs. r div 2 ^ (k * nat bits) mod 2 ^ nat bits = (vs ! k + offset) mod 2 ^ nat bits)"
  using pack_vals_digits [OF assms, of vs offset]
    digits_value_range [of "nat bits" "map (\<lambda>v. v + offset) vs"]
    digits_value_nth [of _ "map (\<lambda>v. v + offset) vs" "nat bits"]
  by auto

theorem pack_vals_fields_witness:
  "\<exists>r. pack_vals [-1, 2, 300] 128 8 = Inr r \<and> 0 \<le> r \<and> r < 2 ^ 24 \<and> r mod 256 = 127"
  using pack_vals_fields [of 8 "[-1, 2, 300]" 128] by (fastforce simp: numeral_eq_Suc)

lemma concat_chunks:
  assumes "0 < w" "length xs \<le> n * w"
  shows "concat (map (\<lambda>k. take w (drop (k * w) xs)) [0..<n]) = xs"
proof -
  have "concat (map (\<lambda>k. take w (drop (k * w) xs)) [0..<m]) = take (m * w) xs" for m
  proof (induction m)
    case 0
    then show ?case by simp
  next
    case (Suc m)
    have "take (Suc m * w) xs = take (m * w) xs @ take w (drop (m * w) xs)"
      by (simp only: take_add [symmetric] mult_Suc add.commute)
    with Suc show ?case by simp
  qed
  with assms show ?thesis by simp
qed

text \<open>
  \<open>all_words\<close> partitions the signal: the words, one after another, are the signal, and each
  has the word length, but for the last one, which may be shorter but is never empty.
\<close>

theorem all_words_partition:
  assumes "0 < wl"
  shows "\<exists>ws. all_words signal wl = Inr ws \<and> concat ws = signal \<and>
    (\<forall>k<length ws. ws ! k \<noteq> [] \<and> length (ws ! k) \<le> nat wl \<and>
      (Suc k < length ws \<longrightarrow> length (ws ! k) = nat wl))"
proof -
  let ?w = "nat wl" and ?n = "(length signal + nat wl - 1) div nat wl"
  let ?ws = "map (\<lambda>k. take ?w (drop (k * ?w) signal)) [0..<?n]"
  have w: "0 < ?w" using assms by simp
  have all: "all_words signal wl = Inr ?ws" using assms by (simp add: all_words_def Let_def)
  have "length signal + ?w - 1 < (?n + 1) * ?w"
    using w dividend_less_times_div [of ?w "length signal + ?w - 1"] by (simp add: algebra_simps)
  then have n: "length signal \<le> ?n * ?w" using w by (simp only: add_mult_distrib) linarith
  have below: "k * ?w + ?w \<le> length signal + ?w - 1" if "k < ?n" for k
  proof -
    have "Suc k * ?w \<le> ?n * ?w" using that by (intro mult_le_mono1) simp
    also have "\<dots> \<le> length signal + ?w - 1" by (rule div_times_less_eq_dividend)
    finally show ?thesis by simp
  qed
  have ne: "take ?w (drop (k * ?w) signal) \<noteq> []" if "k < ?n" for k
  proof -
    have "k * ?w < length signal" using below [OF that] w by linarith
    with w show ?thesis by simp
  qed
  have full: "length (take ?w (drop (k * ?w) signal)) = ?w" if "Suc k < ?n" for k
  proof -
    have "k * ?w + ?w \<le> length signal" using below [OF that] w by simp
    then show ?thesis by simp
  qed
  have "?ws ! k \<noteq> [] \<and> length (?ws ! k) \<le> ?w \<and> (Suc k < length ?ws \<longrightarrow> length (?ws ! k) = ?w)"
    if "k < length ?ws" for k
    using that ne [of k] full [of k] by simp
  with all concat_chunks [OF w n] show ?thesis by blast
qed

theorem all_words_partition_witness:
  "\<exists>ws. all_words [True, False, True, True, False] 2 = Inr ws \<and>
     concat ws = [True, False, True, True, False]"
  using all_words_partition [of 2 "[True, False, True, True, False]"] by auto

text \<open>
  The value buffer shows, in every cycle, the value captured in the last cycle (this one
  included) in which \<open>capture\<close> was high, and 0 before the first.
\<close>

theorem value_buffer_correct:
  "run_outs vb_next vb_output (0 :: 'a::zero) is =
     map (\<lambda>t. last_captured (take (Suc t) is)) [0..<length is]"
proof -
  have "run_outs (\<lambda>h i. h @ [i]) (\<lambda>h i. last_captured (h @ [i])) h is =
      map (\<lambda>t. last_captured (h @ take (Suc t) is)) [0..<length is]" for h :: "(bool \<times> 'a) list"
    by (induction "is" arbitrary: h) (simp_all add: map_upt_Suc del: upt_Suc)
  then show ?thesis using value_buffer.outs_eq [of "is"] by (simp add: list_all_iff)
qed

text \<open>
  The memory wrapper over any memory that behaves as documented: what is on \<open>r_data\<close> after a
  cycle is what the addressed word held before it, so a read of the word written in the same
  cycle gives the old value and a read in the next cycle gives the new one.
\<close>

theorem dual_port_memory_read_write:
  assumes "nontransparent_memory cyc rdata cell depth"
    and "w_en i" and "w_addr i < depth" and "r_addr i = w_addr i" and "r_addr j = w_addr i"
  shows "dpm_r_data rdata (dpm_next cyc m i) = cell m (w_addr i) \<and>
    dpm_r_data rdata (dpm_next cyc (dpm_next cyc m i) j) = w_data i"
  using assms nontransparent_memory.dpm_read [OF assms(1)] nontransparent_memory.dpm_cell [OF assms(1)]
  by simp

theorem dual_port_memory_read_write_witness:
  "let m = \<lparr>mem_cells = (\<lambda>_. 0), mem_rdata = 0 :: u32\<rparr>;
       i = \<lparr>w_en = True, w_addr = 3, w_data = 7, r_addr = 3\<rparr>;
       j = \<lparr>w_en = False, w_addr = 0, w_data = 0, r_addr = 3\<rparr> in
   dpm_r_data mem_rdata (dpm_next array_cycle m i) = 0 \<and>
   dpm_r_data mem_rdata (dpm_next array_cycle (dpm_next array_cycle m i) j) = 7"
  using dual_port_memory_read_write [OF array_memory.nontransparent_memory_axioms [of 8],
      of "\<lparr>w_en = True, w_addr = 3, w_data = 7, r_addr = 3\<rparr>"
      "\<lparr>w_en = False, w_addr = 0, w_data = 0, r_addr = 3\<rparr>"
      "\<lparr>mem_cells = (\<lambda>_. 0), mem_rdata = 0 :: u32\<rparr>"]
  by simp

text \<open>
  C22: the sequential reader over the wrapped memory hides the read latency. From any state, after
  a cycle with \<open>restart\<close>, the word on \<open>data\<close> in the following cycles is the memory's word number
  \<open>c mod limit\<close>, where \<open>c\<close> counts the cycles since then in which \<open>next\<close> was high: the first word at
  once, the next one in the cycle after each \<open>next\<close>, wrapping around at the limit.
\<close>

theorem sequential_reader_stream:
  assumes "nontransparent_memory cyc rdata cell depth"
    and "0 < l" and "l \<le> depth" and "depth \<le> 2 ^ addr_width w" and "l < 2 ^ limit_width w"
  shows "run_outs (reader_next w l (dpm_read_next cyc) (dpm_r_data rdata))
      (reader_out l (dpm_r_data rdata)) (s, m) ((n, True) # map (\<lambda>n. (n, False)) ns) =
    reader_out l (dpm_r_data rdata) (s, m) (n, True) #
      map (\<lambda>t. cell m (count_list (take t ns) True mod l)) [0..<length ns]"
proof -
  note mem = dpm_one_cycle_read [OF assms(1)]
  show ?thesis
    using one_cycle_read.reader_stream [OF mem assms(2-5)
        one_cycle_read.reader_at_restart [OF mem assms(2,3)]]
    by simp
qed

theorem sequential_reader_stream_witness:
  "run_outs (reader_next \<lparr>addr_width = 3, limit_width = 4\<rparr> 4
       (dpm_read_next array_cycle) (dpm_r_data mem_rdata)) (reader_out 4 (dpm_r_data mem_rdata))
     (smr_init, \<lparr>mem_cells = (\<lambda>a. of_nat (10 * a)), mem_rdata = 0\<rparr>)
     ((False, True) # map (\<lambda>n. (n, False)) [False, True, True, False, True, True, True]) =
   [0, 0, 0, 10, 20, 20, 30, 0]"
proof -
  have m: "nontransparent_memory array_cycle mem_rdata mem_cells 8"
    by (rule array_memory.nontransparent_memory_axioms)
  show ?thesis
    by (subst sequential_reader_stream [OF m]) (simp_all add: smr_init_def reader_out_def
        smr_data_def upt_rec)
qed

end
