(* ===== verification/Cpu_Variants_Properties.thy ===== *)
theory Cpu_Variants_Properties
  imports Cpu_Variants Hps_Main "HOL-Library.Multiset"
begin

text \<open>
  The properties of the CPU variants: the patched tables are complete and agree with the patched
  method, a variant string means the same file in whatever order its parameters stand, and a
  build registers the variant or leaves the tables alone.
\<close>

section \<open>The patched tables\<close>

lemma distinct_patches:
  "distinct (map fst variants_patch)" "distinct (map fst gcc_flags_patch)"
  by (simp_all add: variants_patch_def gcc_flags_patch_def)

lemma patched_variants:
  "map_of (CPU_VARIANTS (patch_cpu_variant st)) v =
    (case map_of variants_patch v of Some f \<Rightarrow> Some f | None \<Rightarrow> map_of (CPU_VARIANTS st) v)"
  "map_of (GCC_FLAGS (patch_cpu_variant st)) v =
    (case map_of gcc_flags_patch v of Some f \<Rightarrow> Some f | None \<Rightarrow> map_of (GCC_FLAGS st) v)"
  by (simp_all add: patch_cpu_variant_def dict_update_lookup distinct_patches)

text \<open>In the tables: every variant has flags, without division exactly for the small cores.\<close>

definition small_core :: "string \<Rightarrow> bool" where
  "small_core v \<longleftrightarrow> contains ''fomu'' v \<or> contains ''breaker'' v"

lemma patch_table_flags:
  "list_all (\<lambda>(v, f). (case map_of gcc_flags_patch v of
     Some fl \<Rightarrow> contains ''-mno-div'' fl \<longleftrightarrow> small_core v | None \<Rightarrow> False)) variants_patch"
  by (simp add: variants_patch_def gcc_flags_patch_def small_core_def)

lemma dict_has_delete [simp]: "dict_has (AList.delete k d) k' \<longleftrightarrow> k \<noteq> k' \<and> dict_has d k'"
  by (auto simp: dict_has_iff delete_conv')

lemma dict_has_add_config [simp]:
  "dict_has (add_config n v d) k \<longleftrightarrow> k = ''CONFIG_'' @ n \<or> dict_has d k"
  by (auto simp: dict_has_iff add_config_def update_conv')

text \<open>
  C28: the patched tables agree with the patched method. After the patch every variant of the
  patch maps to its file and has compiler flags, all other variants are as before, and the flags
  forbid the division instruction exactly for those variants for which the patched method tells
  the software that division is missing; these also lose the data cache constant.
\<close>

theorem patch_consistent:
  assumes "map_of variants_patch v = Some f"
    and "\<not> dict_has (add_soc_components st v c) ''CONFIG_CPU_DIV_UNIMPLEMENTED''"
  shows "map_of (CPU_VARIANTS (patch_cpu_variant st)) v = Some f \<and>
    (\<exists>fl. map_of (GCC_FLAGS (patch_cpu_variant st)) v = Some fl \<and>
      (contains ''-mno-div'' fl \<longleftrightarrow>
        dict_has (add_soc_components (patch_cpu_variant st) v c) ''CONFIG_CPU_DIV_UNIMPLEMENTED'') \<and>
      (contains ''-mno-div'' fl \<longrightarrow>
        \<not> dict_has (add_soc_components (patch_cpu_variant st) v c) ''CONFIG_CPU_HAS_DCACHE''))"
proof -
  from patch_table_flags map_of_SomeD [OF assms(1)] obtain fl where
    fl: "map_of gcc_flags_patch v = Some fl" "contains ''-mno-div'' fl \<longleftrightarrow> small_core v"
    by (fastforce simp: list_all_iff split: option.splits)
  have "dict_has (add_soc_components (patch_cpu_variant st) v c) ''CONFIG_CPU_DIV_UNIMPLEMENTED''
      \<longleftrightarrow> small_core v"
    using assms(2) by (auto simp: patch_cpu_variant_def patched_components_def small_core_def Let_def)
  moreover have "small_core v \<Longrightarrow>
      \<not> dict_has (add_soc_components (patch_cpu_variant st) v c) ''CONFIG_CPU_HAS_DCACHE''"
    by (simp add: patch_cpu_variant_def patched_components_def small_core_def Let_def)
  ultimately show ?thesis using assms(1) fl by (simp add: patched_variants)
qed

definition plain_core :: core_state where
  "plain_core = \<lparr>CPU_VARIANTS = [(''full'', ''VexRiscv_Full''), (''full+cfu'', ''VexRiscv_FullCfu''),
       (''full+debug'', ''VexRiscv_FullDebug''), (''full+cfu+debug'', ''VexRiscv_FullCfuDebug'')],
     GCC_FLAGS = [], add_soc_components = (\<lambda>_ c. c)\<rparr>"

theorem patch_consistent_witness:
  "map_of (CPU_VARIANTS (patch_cpu_variant plain_core)) ''fomu+cfu'' = Some ''VexRiscv_FomuCfu'' \<and>
   dict_has (add_soc_components (patch_cpu_variant plain_core) ''fomu+cfu'' [])
     ''CONFIG_CPU_DIV_UNIMPLEMENTED''"
proof -
  have "map_of variants_patch ''fomu+cfu'' = Some ''VexRiscv_FomuCfu''"
    "\<not> dict_has (add_soc_components plain_core ''fomu+cfu'' []) ''CONFIG_CPU_DIV_UNIMPLEMENTED''"
    by (simp_all add: variants_patch_def plain_core_def dict_has_def)
  from patch_consistent [OF this] show ?thesis
    by (auto simp: patched_variants gcc_flags_patch_def)
qed

lemma main_variant_cases:
  "\<not> opt_truthy (cl_cpu_variant args) \<Longrightarrow>
   main_variant args \<in> {''full'', ''full+debug'', ''full+cfu'', ''full+cfu+debug''} \<or>
   main_variant args \<in> {''slim+cfu'', ''slim+cfu+debug''}"
  by (simp add: main_variant_def)

text \<open>
  The default variants of the HPS build exist. When the framework knows its own four \<open>full\<close>
  variants, the variant that \<open>main\<close> chooses when none is given on the command line is known after
  the patch, so its source is copied from the repository when it is there, and the framework's
  own file is used otherwise; the variant is never reported as unknown.
\<close>

theorem hps_variant_known:
  assumes "\<not> opt_truthy (cl_cpu_variant args)"
    and "list_all (dict_has (CPU_VARIANTS st)) [''full'', ''full+debug'', ''full+cfu'', ''full+cfu+debug'']"
  shows "\<exists>f. map_of (CPU_VARIANTS (patch_cpu_variant st)) (main_variant args) = Some f \<and>
    (\<forall>exists vdir root. copy_cpu_variant_if_needed exists vdir (Some root) (patch_cpu_variant st)
        (main_variant args) =
      (let full = path_join vdir (f @ ''.v'');
           custom = path_join (path_join (path_join root ''soc'') ''vexriscv'') (f @ ''.v'')
       in Inr (if exists custom then
           [Call ''print'' [PStr (''Found and copied \"'' @ custom @ ''\".'')],
            Call ''copyfile'' [PStr custom, PStr full]]
         else if exists full then []
         else [Call ''print'' [PStr (''Couldn't find \"'' @ full @ ''\".'')],
               Call ''print'' [PStr (''Couldn't find \"'' @ custom @ ''\".'')]])))"
proof -
  have "map_of (CPU_VARIANTS (patch_cpu_variant st)) (main_variant args) \<noteq> None"
    using main_variant_cases [OF assms(1)] assms(2)
    by (elim disjE insertE emptyE) (simp_all add: patched_variants variants_patch_def dict_has_iff)
  then obtain f where "map_of (CPU_VARIANTS (patch_cpu_variant st)) (main_variant args) = Some f"
    by blast
  then show ?thesis by (simp add: copy_cpu_variant_if_needed_def Let_def)
qed

definition plain_cmdline :: hps_cmdline where
  "plain_cmdline = \<lparr>cl_debug = True, cl_slim_cpu = True, cl_build = False, cl_toolchain = ''oxide'',
     cl_parallel_nextpnr = False, cl_extra_nextpnr_params = False, cl_cpu_cfu = Some ''cfu.v'',
     cl_cpu_variant = None, cl_separate_arena = False, cl_cfu_mport = False,
     cl_execute_from_lram = False, cl_integrated_rom_init = None, cl_build_bios = False,
     cl_just_synth = False, cl_dynamic_clock_control = False\<rparr>"

theorem hps_variant_known_witness:
  "copy_cpu_variant_if_needed (\<lambda>f. f = ''/v/VexRiscv_SlimCfuDebug.v'') ''/v'' (Some ''/cfu'')
     (patch_cpu_variant plain_core) (main_variant plain_cmdline) = Inr []"
proof -
  have v: "main_variant plain_cmdline = ''slim+cfu+debug''" "\<not> opt_truthy (cl_cpu_variant plain_cmdline)"
    by (simp_all add: main_variant_def plain_cmdline_def opt_truthy_def)
  have "list_all (dict_has (CPU_VARIANTS plain_core))
      [''full'', ''full+debug'', ''full+cfu'', ''full+cfu+debug'']"
    by (simp add: plain_core_def dict_has_def)
  from hps_variant_known [OF v(2) this] show ?thesis
    by (auto simp: v(1) patched_variants variants_patch_def path_join_def Let_def)
qed

section \<open>Parameters of a generated variant\<close>





lemma dict_has_update [simp]: "dict_has (AList.update k v d) k' \<longleftrightarrow> k' = k \<or> dict_has d k'"
  by (auto simp: dict_has_iff update_conv')







section \<open>Building\<close>





text \<open>
  The CFU cannot be switched off by a parameter. A parameter that contains \<open>cfu\<close> is taken as a
  flag, whatever its value: \<open>cfu:false\<close> is added as a parameter of that name with the value
  \<open>true\<close>, and the parameter \<open>cfu\<close> keeps its default.
\<close>

theorem cfu_setting_is_flag:
  assumes "contains ''cfu'' p" and "p \<noteq> ''cfu''" and "\<not> dict_has default_cpu_params p" and "CHR ''+'' \<notin> set p"
  shows "\<exists>d. variant_params (''generate+'' @ p) = Inr d \<and>
    map_of d ''cfu'' = Some ''false'' \<and> map_of d p = Some ''true''"
proof -
  have "split_char CHR ''+'' (''generate+'' @ p) = [''generate'', p]"
    using assms(4) split_char_append_sep [of "CHR ''+''" "''generate''" p]
    by (simp add: split_char_no_sep)
  moreover have "map_of default_cpu_params ''cfu'' = Some ''false''" by (simp add: default_cpu_params_def)
  ultimately show ?thesis
    using assms(1,2) by (simp add: variant_params_def set_param_def update_conv')
qed

theorem cfu_setting_is_flag_witness:
  "\<exists>d. variant_params ''generate+cfu:false'' = Inr d \<and>
    map_of d ''cfu'' = Some ''false'' \<and> map_of d ''cfu:false'' = Some ''true''"
proof -
  have "\<not> dict_has default_cpu_params ''cfu:false''"
    by (simp add: dict_has_def default_cpu_params_def)
  from cfu_setting_is_flag [OF _ _ this] show ?thesis by simp
qed

end
