(* ===== verification/Board_Properties.thy ===== *)
theory Board_Properties
  imports Board_Workflows Cpu_Variants_Properties
begin

text \<open>
  The properties of the board workflows: the CPU variants of the small boards, the arguments that
  reach the SoC constructor, the flash image, and that software is loaded where the CPU starts.
\<close>

section \<open>CPU variants of the small boards\<close>




section \<open>Images\<close>

text \<open>
  The flash image. \<open>create_image\<close> fails exactly when the gateware reaches beyond the offset of
  the software; otherwise the image has the gateware at its start, the software at the offset and
  erased bytes between the two, and nothing else.
\<close>

theorem create_image_layout:
  "case create_image gateware software offset of
     Inl _ \<Rightarrow> offset < length gateware
   | Inr img \<Rightarrow> length gateware \<le> offset \<and> length img = offset + length software \<and>
       (\<forall>i<length img. img ! i =
         (if i < length gateware then gateware ! i
          else if i < offset then 0xff else software ! (i - offset)))"
  by (auto simp: create_image_def nth_append)

theorem create_image_layout_witness:
  "\<exists>img. create_image [1, 2] [7] 4 = Inr img \<and> length img = 5 \<and> img ! 3 = 0xff \<and> img ! 4 = 7"
proof -
  obtain img where img: "create_image [1, 2] [7] 4 = Inr img" by (simp add: create_image_def)
  with create_image_layout [where gateware = "[1, 2]" and software = "[7]" and offset = 4] have "length img = 5"
    "\<forall>i<length img. img ! i = (if i < 2 then [1, 2] ! i else if i < 4 then 0xff else [7] ! (i - 4))"
    by auto
  then have "img ! 3 = 0xff" "img ! 4 = 7" by simp_all
  with img \<open>length img = 5\<close> show ?thesis by blast
qed

section \<open>Software is loaded where the CPU starts\<close>

text \<open>
  The flash after a list of programmer calls; the image of the DFU loader goes behind the first
  \<open>0x40000\<close> bytes, which are reserved on the Fomu.
\<close>

definition dfu_base :: nat where
  "dfu_base = 0x40000"

definition overlay :: "nat \<Rightarrow> byte list \<Rightarrow> (nat \<rightharpoonup> byte) \<Rightarrow> (nat \<rightharpoonup> byte)" where
  "overlay base bytes m = (\<lambda>a. if base \<le> a \<and> a < base + length bytes then Some (bytes ! (a - base)) else m a)"

fun burn :: "files \<Rightarrow> soc_op \<Rightarrow> (nat \<rightharpoonup> byte) \<Rightarrow> (nat \<rightharpoonup> byte)" where
  "burn files (Call f [PInt offset, PStr name]) m =
     (if f = ''IceStormProgrammer.flash'' then overlay (nat offset) (contents files name) m else m)"
| "burn files (Call f [PStr name]) m =
     (if f = ''DFUProg.load_bitstream'' then overlay dfu_base (contents files name) m else m)"
| "burn _ _ m = m"

definition flash_after :: "files \<Rightarrow> soc_op list \<Rightarrow> (nat \<rightharpoonup> byte) \<Rightarrow> (nat \<rightharpoonup> byte)" where
  "flash_after files steps m = fold (burn files) steps m"

text \<open>The keyword arguments that a board adds to, or sets against, the general ones.\<close>

definition board_kwargs :: "workflow \<Rightarrow> py_val dict" where
  "board_kwargs flow =
     (case wf_class flow of
        GeneralSoCWorkflow \<Rightarrow> []
      | DigilentArtySoCWorkflow \<Rightarrow>
          [(''l2_size'', arg_val (wf_args flow) ''l2_size''),
           (''variant'', arg_val (wf_args flow) ''variant''), (''with_jtagbone'', PBool False)]
      | Ice40UP5KWorkflow \<Rightarrow> [(''bios_flash_offset'', PInt (int (bios_flash_offset flow)))]
      | IcebreakerSoCWorkflow \<Rightarrow> [(''bios_flash_offset'', PInt (int (bios_flash_offset flow)))]
      | KosagiFomuSoCWorkflow \<Rightarrow>
          (''bios_flash_offset'', PInt (int (bios_flash_offset flow))) # fomu_kwargs
      | LatticeCrossLinkNXEVNSoCWorkflow \<Rightarrow>
          [(''integrated_rom_size'', PInt 0), (''integrated_rom_init'', PList [])])"

definition constructor_call :: "py_val dict \<Rightarrow> soc_op" where
  "constructor_call kw = Call ''soc_constructor'' (kw_args kw)"

lemma general_make_soc_log:
  "general_make_soc w flow kwargs st = Inr (s, st', log) \<Longrightarrow>
   constructor_call (dict_update (base_soc_kwargs w (wf_args flow)) kwargs) \<in> set log"
  by (auto simp: general_make_soc_def Let_def bindE_Inr_iff constructor_call_def
      split: prod.splits sum.splits)

lemma make_soc_log:
  assumes "make_soc w flow [] st = Inr (s, st', log)"
  shows "constructor_call (dict_update (base_soc_kwargs w (wf_args flow)) (board_kwargs flow)) \<in> set log"
  using assms general_make_soc_log [of w flow _ st _ st' log]
  by (cases "wf_class flow")
    (auto simp: make_soc_def arty_make_soc_def fomu_make_soc_def nx_make_soc_def ice40_make_soc_def bindE_Inr_iff call_kwargs_def namespace_union_Inr
      board_kwargs_def simp del: dict_update_Nil)

lemma distinct_board_kwargs: "distinct (map fst (board_kwargs flow))"
  by (simp add: board_kwargs_def fomu_kwargs_def split: wf_class.split)

lemma board_kwargs_lookup:
  "map_of (dict_update d (board_kwargs flow)) k =
    (case map_of (board_kwargs flow) k of Some v \<Rightarrow> Some v | None \<Rightarrow> map_of d k)"
  by (rule dict_update_lookup) (rule distinct_board_kwargs)

lemma map_of_map_keys: "map_of (map (\<lambda>k. (k, f k)) ks) x = (if x \<in> set ks then Some (f x) else None)"
  by (induction ks) auto

lemma base_soc_kwargs_lookup:
  assumes "distinct (map fst (soc_core_argdict w args))"
  shows "map_of (base_soc_kwargs w args) k =
    (if k = ''sys_clk_freq'' \<and> flag_set args k then Some (arg_val args k)
     else if k = ''toolchain'' \<and> flag_set args k then Some (arg_val args k)
     else case map_of (soc_core_argdict w args) k of Some v \<Rightarrow> Some v
     | None \<Rightarrow> if k \<in> set feature_switches then Some (arg_val args k) else None)"
  by (auto simp: base_soc_kwargs_def Let_def set_if_def update_conv' dict_update_lookup [OF assms]
      map_of_map_keys cong: option.case_cong)

text \<open>
  C32: which arguments reach the SoC constructor. When \<open>make_soc\<close> succeeds, the constructor was
  called with the keyword arguments of the board, for all other names with the toolchain and the
  clock of the command line when they were given, then with what the framework extracts from the
  namespace, then with the five feature switches.
\<close>

theorem constructor_kwargs_precedence:
  assumes "make_soc w flow [] st = Inr (s, st', log)" and "distinct (map fst (soc_core_argdict w (wf_args flow)))"
  shows "\<exists>kw. constructor_call kw \<in> set log \<and>
    (\<forall>k. map_of kw k =
      (case map_of (board_kwargs flow) k of Some v \<Rightarrow> Some v
       | None \<Rightarrow>
         if k = ''sys_clk_freq'' \<and> flag_set (wf_args flow) k then Some (arg_val (wf_args flow) k)
         else if k = ''toolchain'' \<and> flag_set (wf_args flow) k then Some (arg_val (wf_args flow) k)
         else case map_of (soc_core_argdict w (wf_args flow)) k of Some v \<Rightarrow> Some v
         | None \<Rightarrow>
           if k \<in> set feature_switches then Some (arg_val (wf_args flow) k) else None))"
  using make_soc_log [OF assms(1)]
  by (intro exI conjI allI, assumption)
    (simp only: board_kwargs_lookup base_soc_kwargs_lookup [OF assms(2)])

lemma workflow_init_flow:
  "workflow_init argv warn c args st = Inr (flow, st', log) \<Longrightarrow>
   wf_class flow = c \<and> st' = patch_cpu_variant st \<and>
   bios_flash_offset flow = (if c = KosagiFomuSoCWorkflow then 0x60000 else if is_ice40 c then 0x30000 else 0)"
  by (cases c) (auto simp: workflow_init_def general_init_def ice40_init_def fomu_init_def arty_init_def
      is_ice40_def bindE_Inr_iff)

lemma open_rb_Inr: "open_rb files f = Inr name \<longleftrightarrow> f = PStr name \<and> files name \<noteq> None"
  by (cases f) auto

text \<open>The image of the Fomu: when it is built, and what it then holds.\<close>

lemma fomu_image_builder_Inr:
  "fomu_image_builder g (PStr f) img off files = (Inr u, files') \<longleftrightarrow>
   files g \<noteq> None \<and> files f \<noteq> None \<and>
   (\<exists>bytes. create_image (contents (files(img \<mapsto> [])) g) (contents (files(img \<mapsto> [])) f) off = Inr bytes \<and>
      files' = files(img \<mapsto> bytes))"
  by (auto simp: fomu_image_builder_def Let_def split: sum.splits)

lemma contents_upd: "contents (files(k \<mapsto> b)) f = (if f = k then b else contents files f)"
  by (simp add: contents_def)

lemma flash_after_simps:
  "flash_after files [] m = m"
  "flash_after files (x # xs) m = flash_after files xs (burn files x m)"
  by (simp_all add: flash_after_def)

lemma image_name_gateware: "output_dir flow @ ''/gateware/kosagi_fomu_pvt.bin'' \<noteq> output_dir flow @ ''/image.bin''"
  by simp

text \<open>
  C18: software is loaded where the CPU starts. For every ice40 board: when the constructor of the
  workflow, \<open>make_soc\<close> and \<open>software_load\<close> succeed on a file other than the image that the loader
  itself writes, the flash then holds the bytes of the software from the very address on that
  \<open>make_soc\<close> hands to the SoC constructor as flash offset of the program.
\<close>

theorem software_at_reset_address:
  assumes "is_ice40 c" and "workflow_init argv warn c args st = Inr (flow, st1, log1)"
    and "make_soc w flow [] st1 = Inr (s, st2, log)"
    and "software_load flow (PStr filename) files = (Inr steps, files')"
    and "filename \<noteq> output_dir flow @ ''/image.bin''"
  shows "\<exists>kw base. constructor_call kw \<in> set log \<and>
    map_of kw ''bios_flash_offset'' = Some (PInt (int base)) \<and>
    (\<forall>i<length (contents files filename).
       flash_after files' steps m (base + i) = Some (contents files filename ! i))"
proof -
  note flow = workflow_init_flow [OF assms(2)]
  have "\<forall>i<length (contents files filename).
      flash_after files' steps m (bios_flash_offset flow + i) = Some (contents files filename ! i)"
    using assms(1,4,5) flow
    by (auto simp: is_ice40_def software_load_def ice40_software_load_def icebreaker_software_load_def
        fomu_software_load_def flash_def Let_def flash_after_simps overlay_def fomu_image_builder_Inr
        create_image_def dfu_base_def nth_append contents_upd split: if_splits prod.splits sum.splits)
  moreover have "map_of (dict_update (base_soc_kwargs w (wf_args flow)) (board_kwargs flow))
      ''bios_flash_offset'' = Some (PInt (int (bios_flash_offset flow)))"
    using assms(1) flow
    unfolding board_kwargs_lookup by (auto simp: board_kwargs_def is_ice40_def)
  ultimately show ?thesis using make_soc_log [OF assms(3)] by blast
qed

definition plain_soc :: soc where
  "plain_soc = \<lparr>soc_kwargs = [], soc_regions =
      [(''sram'', \<lparr>origin = 0, region_size = 8192, region_mode = ''rw'', cached = True, linker = True\<rparr>),
       (''main_ram'', \<lparr>origin = 0x20000, region_size = 65536, region_mode = ''rw'', cached = True, linker = True\<rparr>)],
     soc_build_name = ''board'', soc_vivado = False, soc_log = []\<rparr>"

definition plain_world :: wf_world where
  "plain_world = \<lparr>file_exists = (\<lambda>_. True), vexriscv_dir = ''/v'', cfu_root_env = Some ''/cfu'',
     sbt_status = (\<lambda>_. 0), serv_variants = [], soc_core_argdict = (\<lambda>_. [(''uart_name'', PStr ''serial'')]),
     builder_argdict = (\<lambda>_. []), vivado_argdict = (\<lambda>_. []),
     soc_constructor = (\<lambda>kw. Inr (plain_soc\<lparr>soc_kwargs := kw\<rparr>)),
     builder_output_dir = (\<lambda>_. ''build''), builder_gateware_dir = (\<lambda>_. ''build/gateware'')\<rparr>"

definition fomu_args :: "py_val dict" where
  "fomu_args = [(''target'', PStr ''kosagi_fomu''), (''cpu_variant'', PStr ''fomu+cfu''),
     (''output_dir'', PStr ''out'')]"

definition fomu_flow :: workflow where
  "fomu_flow = \<lparr>wf_class = KosagiFomuSoCWorkflow, wf_args = fomu_args, bios_flash_offset = 0x60000\<rparr>"

lemma fomu_flow_init:
  "\<exists>log. workflow_init [] False KosagiFomuSoCWorkflow fomu_args plain_core =
     Inr (fomu_flow, patch_cpu_variant plain_core, log)"
  by (simp add: workflow_init_def fomu_init_def ice40_init_def general_init_def ice40_args_def allowed_variants_def fomu_args_def
      arg_val_def dict_get_def fomu_flow_def AList.update.simps)

lemma fomu_make:
  "\<exists>s log. make_soc plain_world fomu_flow [] (patch_cpu_variant plain_core) =
     Inr (s, patch_cpu_variant plain_core, log)"
proof -
  have "dict_has (CPU_VARIANTS (patch_cpu_variant plain_core)) ''fomu+cfu''"
    by (simp add: dict_has_iff patched_variants variants_patch_def)
  then have "build_cpu_variant_if_needed ex vd root sbt serv ''fomu+cfu'' (patch_cpu_variant plain_core) =
      (Inr (), patch_cpu_variant plain_core,
       [Call ''print'' [PStr (''Variant \"'' @ ''fomu+cfu'' @ ''\" already known.'')]])"
    for ex vd root sbt serv
    by (simp add: build_cpu_variant_if_needed_def)
  moreover have "str_arg (arg_val (wf_args fomu_flow) ''cpu_variant'') = ''fomu+cfu''"
    by (simp add: fomu_flow_def fomu_args_def arg_val_def dict_get_def)
  ultimately show ?thesis
    by (simp add: make_soc_def fomu_make_soc_def fomu_flow_def ice40_make_soc_def general_make_soc_def call_kwargs_def
        namespace_union_def fomu_kwargs_def dict_has_def plain_world_def give_back_sram_def
        plain_soc_def Let_def)
qed

theorem constructor_kwargs_precedence_witness:
  "\<exists>s log kw. make_soc plain_world fomu_flow [] (patch_cpu_variant plain_core) =
      Inr (s, patch_cpu_variant plain_core, log) \<and>
    constructor_call kw \<in> set log \<and> map_of kw ''with_timer'' = Some (PBool False) \<and>
    map_of kw ''uart_name'' = Some (PStr ''serial'')"
proof -
  obtain s log where m: "make_soc plain_world fomu_flow [] (patch_cpu_variant plain_core) =
     Inr (s, patch_cpu_variant plain_core, log)"
    using fomu_make by blast
  have "distinct (map fst (soc_core_argdict plain_world (wf_args fomu_flow)))"
    by (simp add: plain_world_def)
  from constructor_kwargs_precedence [OF m this] obtain kw where
    kw: "constructor_call kw \<in> set log" and l: "\<And>k. map_of kw k =
      (case map_of (board_kwargs fomu_flow) k of Some v \<Rightarrow> Some v
       | None \<Rightarrow>
         if k = ''sys_clk_freq'' \<and> flag_set (wf_args fomu_flow) k then Some (arg_val (wf_args fomu_flow) k)
         else if k = ''toolchain'' \<and> flag_set (wf_args fomu_flow) k then Some (arg_val (wf_args fomu_flow) k)
         else case map_of (soc_core_argdict plain_world (wf_args fomu_flow)) k of Some v \<Rightarrow> Some v
         | None \<Rightarrow>
           if k \<in> set feature_switches then Some (arg_val (wf_args fomu_flow) k) else None)"
    by blast
  have "map_of kw ''with_timer'' = Some (PBool False)" "map_of kw ''uart_name'' = Some (PStr ''serial'')"
    unfolding l by (simp_all add: board_kwargs_def fomu_flow_def fomu_kwargs_def plain_world_def)
  with m kw show ?thesis by blast
qed

definition fomu_files :: files where
  "fomu_files = [''sw'' \<mapsto> [1, 2], ''out/gateware/kosagi_fomu_pvt.bin'' \<mapsto> [3]]"

lemma fomu_loads:
  "\<exists>steps files'. software_load fomu_flow (PStr ''sw'') fomu_files = (Inr steps, files')"
  by (simp add: software_load_def fomu_software_load_def fomu_flow_def fomu_image_builder_def
      output_dir_def fomu_args_def arg_val_def dict_get_def fomu_files_def contents_def
      create_image_def Let_def)

theorem software_at_reset_address_witness:
  "\<exists>steps files' base. software_load fomu_flow (PStr ''sw'') fomu_files = (Inr steps, files') \<and>
    flash_after files' steps (\<lambda>_. None) (base + 1) = Some 2"
proof -
  obtain log where i: "workflow_init [] False KosagiFomuSoCWorkflow fomu_args plain_core =
     Inr (fomu_flow, patch_cpu_variant plain_core, log)" using fomu_flow_init by blast
  obtain s log' where m: "make_soc plain_world fomu_flow [] (patch_cpu_variant plain_core) =
     Inr (s, patch_cpu_variant plain_core, log')" using fomu_make by blast
  obtain steps files' where l: "software_load fomu_flow (PStr ''sw'') fomu_files = (Inr steps, files')"
    using fomu_loads by blast
  have ice: "is_ice40 KosagiFomuSoCWorkflow" by (simp add: is_ice40_def)
  have sw: "contents fomu_files ''sw'' = [1, 2]" by (simp add: contents_def fomu_files_def)
  have ne: "''sw'' \<noteq> output_dir fomu_flow @ ''/image.bin''"
    by (simp add: output_dir_def fomu_flow_def fomu_args_def arg_val_def dict_get_def)
  from software_at_reset_address [OF ice i m l ne, of "\<lambda>_. None"] obtain base where
    "\<forall>i<2. flash_after files' steps (\<lambda>_. None) (base + i) = Some ([1, 2] ! i)"
    by (auto simp: sw numeral_2_eq_2)
  from spec [OF this, of 1] have "flash_after files' steps (\<lambda>_. None) (base + 1) = Some 2" by simp
  with l show ?thesis by blast
qed

text \<open>
  C21: errors of loading software onto the Fomu. \<open>software_load\<close> fails exactly when the gateware
  or the software is no file or the gateware is larger than the offset of the software behind the
  reserved part; nothing is flashed then. Only for gateware that is too large are the files
  changed: the image has been emptied, and an image of an earlier run is lost. Otherwise exactly
  the image is written, and it is what is loaded.
\<close>

theorem fomu_software_load_errors:
  assumes "wf_class flow = KosagiFomuSoCWorkflow" and "bios_flash_offset flow = 0x60000"
    and "software \<noteq> output_dir flow @ ''/image.bin''"
  shows "let gateware = output_dir flow @ ''/gateware/kosagi_fomu_pvt.bin'';
      img = output_dir flow @ ''/image.bin''
    in case software_load flow (PStr software) files of
      (Inl (OSError _), files') \<Rightarrow> files' = files \<and> (files gateware = None \<or> files software = None)
    | (Inl (ValueError _), files') \<Rightarrow> files' = files(img \<mapsto> []) \<and>
        (\<exists>bytes. files gateware = Some bytes \<and> 0x20000 < length bytes)
    | (Inl _, _) \<Rightarrow> False
    | (Inr steps, files') \<Rightarrow>
        (\<exists>bytes sw. files gateware = Some bytes \<and> files software = Some sw \<and>
           length bytes \<le> 0x20000 \<and>
           files' = files(img \<mapsto> bytes @ replicate (0x20000 - length bytes) 0xff @ sw) \<and>
           last steps = Call ''DFUProg.load_bitstream'' [PStr img])"
  using assms image_name_gateware [of flow]
  by (auto simp: software_load_def fomu_software_load_def fomu_image_builder_def create_image_def
      contents_def Let_def split: option.splits)

theorem fomu_software_load_errors_witness:
  "\<exists>files' steps. software_load fomu_flow (PStr ''sw'') fomu_files = (Inr steps, files') \<and>
     (\<exists>bytes sw. fomu_files ''sw'' = Some sw \<and> length bytes \<le> 0x20000 \<and>
       files' = fomu_files(''out/image.bin'' \<mapsto> bytes @ replicate (0x20000 - length bytes) 0xff @ sw))"
proof -
  obtain steps files' where l: "software_load fomu_flow (PStr ''sw'') fomu_files = (Inr steps, files')"
    using fomu_loads by blast
  have c: "wf_class fomu_flow = KosagiFomuSoCWorkflow" "bios_flash_offset fomu_flow = 0x60000"
    by (simp_all add: fomu_flow_def)
  have d: "output_dir fomu_flow = ''out''"
    by (simp add: output_dir_def fomu_flow_def fomu_args_def arg_val_def dict_get_def)
  have "''sw'' \<noteq> output_dir fomu_flow @ ''/image.bin''" by (simp add: d)
  from fomu_software_load_errors [OF c this, of fomu_files] l show ?thesis
    by (auto simp: Let_def d)
qed

text \<open>
  The classes of the small boards refuse every other target: their constructors fail before
  anything is patched. The default target of the command line, \<open>digilent_arty\<close>, is one of those,
  so an ice40 workflow of a parsed empty command line cannot be made.
\<close>

lemma ice40_refuses_target:
  assumes "is_ice40 c" and "str_arg (arg_val args ''target'') \<notin> {''kosagi_fomu'', ''icebreaker''}"
  shows "\<exists>msg. workflow_init argv warn c args st = Inl (AssertionError msg)"
  using assms
  by (auto simp: is_ice40_def workflow_init_def ice40_init_def fomu_init_def ice40_args_def
      allowed_variants_def Let_def)

lemma default_target_refused:
  assumes "parse_workflow_args (workflow_parser b sc v) [] input = Inr args" and "input \<in> {None, Some []}"
    and "is_ice40 c"
  shows "\<exists>msg. workflow_init argv warn c args st = Inl (AssertionError msg)"
proof -
  have "args = set_defaults workflow_set_defaults (parser_defaults (workflow_parser b sc v))"
    using assms(1,2) by (auto simp: parse_workflow_args_def parse_known_args_def bindE_Inr_iff
        workflow_parser_def exclusive_ok_def)
  moreover have "dest_of ''--target'' = ''target''" by (simp add: dest_of_def)
  then have "map_of (parser_defaults (workflow_parser b sc v)) ''target'' = Some (PStr ''digilent_arty'')"
    by (simp add: parser_defaults_def workflow_parser_def update_conv')
  moreover have "distinct (map fst workflow_set_defaults)" by (simp add: workflow_set_defaults_def)
  ultimately have "arg_val args ''target'' = PStr ''digilent_arty''"
    by (simp add: arg_val_def dict_get_def set_defaults_def dict_update_lookup workflow_set_defaults_def)
  with ice40_refuses_target [OF assms(3)] show ?thesis by simp
qed

section \<open>Lookup of a board and the command line\<close>

text \<open>
  Where a board comes from. The lookup finds the framework's board of that name when there is
  one, else the repository's own; it fails exactly for a name in neither list, and the message
  then lists the repository's own boards only.
\<close>

theorem soc_constructor_lookup:
  "get_soc_constructor litex custom target =
    (if target \<in> set litex then Inr (''litex_boards.targets.'' @ target @ ''.BaseSoC'')
     else if target \<in> set custom then Inr (''custom_boards.targets.'' @ target @ ''.BaseSoC'')
     else Inl (ValueError (''Could not find \"'' @ target @ ''\" in supported boards: '' @
       join '', '' (sort (remdups custom)))))"
  by (simp add: get_soc_constructor_def get_soc_constructor_from_def)

text \<open>
  The clock of the Arty under the open toolchain. When the Arty workflow's constructor and
  \<open>make_soc\<close> succeed and the framework's arguments do not set a clock, then the SoC constructor
  gets the clock of the command line when there is one, 75 MHz when there is none and the
  toolchain is \<open>symbiflow\<close>, and otherwise no clock, so that the board's own default applies.
\<close>

theorem arty_clock:
  assumes "workflow_init argv warn DigilentArtySoCWorkflow args st = Inr (flow, st1, log1)"
    and "make_soc w flow [] st1 = Inr (s, st2, log)"
    and "distinct (map fst (soc_core_argdict w (wf_args flow)))"
    and "\<not> dict_has (soc_core_argdict w (wf_args flow)) ''sys_clk_freq''"
    and "\<not> dict_has args ''variant''"
  shows "\<exists>kw. constructor_call kw \<in> set log \<and>
    map_of kw ''sys_clk_freq'' =
      (if flag_set args ''sys_clk_freq'' then Some (arg_val args ''sys_clk_freq'')
       else if arg_val args ''toolchain'' = PStr ''symbiflow'' then Some (PInt 75000000) else None)"
proof -
  from assms(1) obtain a ex where
    cls: "wf_class flow = DigilentArtySoCWorkflow" and
    a: "parse_known_args arty_parser (parser_defaults arty_parser) argv = Inr (a, ex)" and
    args: "wf_args flow = (if arg_val (a @ args) ''toolchain'' = PStr ''symbiflow'' \<and>
        \<not> flag_set (a @ args) ''sys_clk_freq''
      then AList.update ''sys_clk_freq'' (PInt 75000000) (a @ args) else a @ args)"
    by (auto simp: workflow_init_def arty_init_def general_init_def bindE_Inr_iff arty_args_def
        namespace_union_Inr split: if_splits)
  have "fst ` set a \<subseteq> {''variant''}"
    using parse_known_args_names [OF a]
    by (simp add: arty_parser_def parser_defaults_def option_dests_def dest_of_def)
  then have "map_of a k = None" if "k \<noteq> ''variant''" for k
    using that by (auto simp: map_of_eq_None_iff)
  then have a_args: "arg_val (a @ args) ''toolchain'' = arg_val args ''toolchain''"
    "arg_val (a @ args) ''sys_clk_freq'' = arg_val args ''sys_clk_freq''"
    by (simp_all add: arg_val_def dict_get_def map_add_def)
  have core: "map_of (soc_core_argdict w (wf_args flow)) ''sys_clk_freq'' = None"
    using assms(4) by (simp add: dict_has_iff)
  have "map_of (board_kwargs flow) ''sys_clk_freq'' = None" by (simp add: board_kwargs_def cls)
  then have "map_of (dict_update (base_soc_kwargs w (wf_args flow)) (board_kwargs flow)) ''sys_clk_freq'' =
      (if flag_set (wf_args flow) ''sys_clk_freq'' then Some (arg_val (wf_args flow) ''sys_clk_freq'') else None)"
    unfolding board_kwargs_lookup base_soc_kwargs_lookup [OF assms(3)] core
    by (simp add: feature_switches_def)
  then have "map_of (dict_update (base_soc_kwargs w (wf_args flow)) (board_kwargs flow)) ''sys_clk_freq'' =
      (if flag_set args ''sys_clk_freq'' then Some (arg_val args ''sys_clk_freq'')
       else if arg_val args ''toolchain'' = PStr ''symbiflow'' then Some (PInt 75000000) else None)"
    by (auto simp: args flag_set_def a_args)
  with make_soc_log [OF assms(2)] show ?thesis by blast
qed

definition arty_ns :: "py_val dict" where
  "arty_ns = [(''target'', PStr ''digilent_arty''), (''toolchain'', PStr ''symbiflow''),
     (''cpu_variant'', PStr ''full+cfu''), (''l2_size'', PInt 8192)]"

definition arty_flow :: workflow where
  "arty_flow = \<lparr>wf_class = DigilentArtySoCWorkflow, wf_args =
     (''variant'', PStr ''a7-35'') # arty_ns @ [(''sys_clk_freq'', PInt 75000000)],
     bios_flash_offset = 0\<rparr>"

theorem arty_clock_witness:
  "\<exists>s log kw. make_soc plain_world arty_flow [] (patch_cpu_variant plain_core) =
      Inr (s, patch_cpu_variant plain_core, log) \<and>
    constructor_call kw \<in> set log \<and> map_of kw ''sys_clk_freq'' = Some (PInt 75000000)"
proof -
  have "\<exists>log. workflow_init [] True DigilentArtySoCWorkflow arty_ns plain_core =
      Inr (arty_flow, patch_cpu_variant plain_core, log)"
    by (simp add: workflow_init_def arty_init_def general_init_def arty_args_def parse_known_args_def arty_parser_def
        parser_defaults_def dest_of_def exclusive_ok_def namespace_union_def arty_ns_def dict_has_def
        arg_val_def flag_set_def dict_get_def arty_flow_def)
  then obtain log1 where i: "workflow_init [] True DigilentArtySoCWorkflow arty_ns plain_core =
      Inr (arty_flow, patch_cpu_variant plain_core, log1)" by blast
  have known: "dict_has (CPU_VARIANTS (patch_cpu_variant plain_core)) ''full+cfu''"
    by (simp add: dict_has_iff patched_variants variants_patch_def plain_core_def)
  have v: "str_arg (arg_val (wf_args arty_flow) ''cpu_variant'') = ''full+cfu''"
    by (simp add: arty_flow_def arty_ns_def arg_val_def dict_get_def)
  have "\<exists>s log. make_soc plain_world arty_flow [] (patch_cpu_variant plain_core) =
      Inr (s, patch_cpu_variant plain_core, log)"
    using known v
    by (simp add: make_soc_def arty_make_soc_def arty_flow_def general_make_soc_def call_kwargs_def
        namespace_union_def dict_has_def plain_world_def build_cpu_variant_if_needed_def Let_def)
  then obtain s log where m: "make_soc plain_world arty_flow [] (patch_cpu_variant plain_core) =
      Inr (s, patch_cpu_variant plain_core, log)" by blast
  have "distinct (map fst (soc_core_argdict plain_world (wf_args arty_flow)))"
    "\<not> dict_has (soc_core_argdict plain_world (wf_args arty_flow)) ''sys_clk_freq''"
    "\<not> dict_has arty_ns ''variant''" "\<not> flag_set arty_ns ''sys_clk_freq''"
    "arg_val arty_ns ''toolchain'' = PStr ''symbiflow''"
    by (simp_all add: plain_world_def dict_has_def arty_ns_def flag_set_def arg_val_def dict_get_def)
  with arty_clock [OF i m] m show ?thesis by auto
qed

end
