(* ===== verification/Sim_Soc.thy ===== *)
theory Sim_Soc
  imports Board_Workflows Hps_Soc
begin

text \<open>
  The simulated systems: \<open>SimSoC\<close> with its command line (\<^verbatim>\<open>python/custom_boards/targets/litex_sim.py\<close>)
  and the simulation of the HPS memory layout built on it (\<^verbatim>\<open>soc/sim.py\<close>). Constructors are the
  operations they perform on the framework; data read from files, argument dictionaries of the
  framework are parameters.
\<close>

section \<open>The pads of the simulation platform\<close>

definition sim_io :: "(string \<times> nat \<times> (string \<times> nat) list) list" where
  "sim_io =
    [(''sys_clk'', 0, [('''', 1)]),
     (''sys_rst'', 0, [('''', 1)]),
     (''serial'', 0,
       [(''source_valid'', 1), (''source_ready'', 1), (''source_data'', 8),
        (''sink_valid'', 1), (''sink_ready'', 1), (''sink_data'', 8)]),
     (''eth_clocks'', 0, [(''tx'', 1), (''rx'', 1)]),
     (''eth'', 0,
       [(''source_valid'', 1), (''source_ready'', 1), (''source_data'', 8),
        (''sink_valid'', 1), (''sink_ready'', 1), (''sink_data'', 8)]),
     (''xgmii_eth'', 0, [(''rx_data'', 64), (''rx_ctl'', 8), (''tx_data'', 64), (''tx_ctl'', 8)]),
     (''gmii_eth'', 0,
       [(''rx_data'', 8), (''rx_dv'', 1), (''rx_er'', 1), (''tx_data'', 8), (''tx_en'', 1), (''tx_er'', 1)]),
     (''i2c'', 0, [(''scl'', 1), (''sda_out'', 1), (''sda_in'', 1)]),
     (''spiflash'', 0,
       [(''cs_n'', 1), (''clk'', 1), (''mosi'', 1), (''miso'', 1), (''wp'', 1), (''hold'', 1)]),
     (''spiflash4x'', 0, [(''cs_n'', 1), (''clk'', 1), (''dq'', 4)]),
     (''gpio'', 0, [(''oe'', 32), (''o'', 32), (''i'', 32)])]"

definition request_pads :: "string \<Rightarrow> soc_op list result" where
  "request_pads name =
     (if list_ex (\<lambda>(n, k, _). n = name \<and> k = 0) sim_io
      then Inr [Call ''platform.request'' [PStr name]]
      else Inl (ValueError (''Resource not found: '' @ name)))"

section \<open>\<open>SimSoC\<close>\<close>

definition sim_defaults :: "py_val dict" where
  "sim_defaults =
    [(''with_sdram'', PBool False), (''with_ethernet'', PBool False),
     (''ethernet_phy_model'', PStr ''sim''), (''with_etherbone'', PBool False),
     (''etherbone_mac_address'', PInt 0x10E2D5000001),
     (''etherbone_ip_address'', PStr ''192.168.1.51''), (''with_analyzer'', PBool False),
     (''sdram_module'', PStr ''MT48LC16M16''), (''sdram_init'', PList []),
     (''sdram_data_width'', PInt 32), (''sdram_spd_data'', PNone), (''sdram_verbosity'', PInt 0),
     (''with_i2c'', PBool False), (''with_sdcard'', PBool False), (''with_spi_flash'', PBool False),
     (''spi_flash_init'', PList []), (''with_gpio'', PBool False), (''sim_debug'', PBool False),
     (''trace_reset_on'', PBool False)]"

text \<open>Keyword arguments that are parameters of the constructor, and the rest, its \<open>**kwargs\<close>.\<close>

definition sim_params :: "py_val dict \<Rightarrow> py_val dict" where
  "sim_params kw = dict_update sim_defaults (filter (\<lambda>(k, _). dict_has sim_defaults k) kw)"

definition sim_kwargs :: "py_val dict \<Rightarrow> py_val dict" where
  "sim_kwargs kw = filter (\<lambda>(k, _). \<not> dict_has sim_defaults k) kw"

definition sim_clk_freq :: int where
  "sim_clk_freq = 1000000"

text \<open>
  Facts of the framework that the constructor reads: whether interrupts are enabled, the size of the
  slots of its MAC, and for each class of memory modules the number of phases of its memory type.
\<close>

record sim_fw =
  irq_enabled :: bool
  mac_slots_size :: nat
  sdram_phases :: "string \<Rightarrow> nat option"

text \<open>A class that the framework does not have, or that is no memory module, raises.\<close>

definition sim_sdram_module :: "'a sim_fw_scheme \<Rightarrow> py_val dict \<Rightarrow> soc_op result" where
  "sim_sdram_module fw p =
     (if arg_val p ''sdram_spd_data'' = PNone
      then (case sdram_phases fw (str_arg (arg_val p ''sdram_module'')) of
          None \<Rightarrow> Inl (AttributeError (str_arg (arg_val p ''sdram_module'')))
        | Some n \<Rightarrow> Inr (Call ''sdram_module = sdram_module_cls''
            [arg_val p ''sdram_module'', PInt 100000000, PStr (''1:'' @ dec n)]))
      else Inr (Call ''sdram_module = SDRAMModule.from_spd_data''
        [arg_val p ''sdram_spd_data'', PInt 100000000]))"

definition sim_sdram_ops :: "'a sim_fw_scheme \<Rightarrow> py_val dict \<Rightarrow> py_val dict \<Rightarrow> soc_op list result" where
  "sim_sdram_ops fw p kwargs =
     (if \<not> truthy (dict_get kwargs ''integrated_main_ram_size'' (PInt 0)) \<and> flag_set p ''with_sdram'' then
        bindE (sim_sdram_module fw p) (\<lambda>module. Inr (
        [module,
         Call ''sdrphy = SDRAMPHYModel''
           [PKw ''module'' (PRef ''sdram_module''),
            PKw ''data_width'' (arg_val p ''sdram_data_width''), PKw ''clk_freq'' (PInt 100000000),
            PKw ''verbosity'' (arg_val p ''sdram_verbosity''), PKw ''init'' (arg_val p ''sdram_init'')],
         Call ''add_sdram'' [PStr ''sdram'', PKw ''phy'' (PRef ''sdrphy''),
           PKw ''module'' (PRef ''sdram_module''),
           PKw ''l2_cache_size'' (dict_get kwargs ''l2_size'' (PInt 8192)),
           PKw ''l2_cache_min_data_width'' (dict_get kwargs ''min_l2_data_width'' (PInt 128)),
           PKw ''l2_cache_reverse'' (PBool False)]] @
        (if arg_val p ''sdram_init'' \<noteq> PList []
         then [Call ''add_constant'' [PStr ''SDRAM_TEST_DISABLE'']]
         else [Call ''add_constant'' [PStr ''MEMTEST_DATA_SIZE'', PInt (8 * 1024)],
               Call ''add_constant'' [PStr ''MEMTEST_ADDR_SIZE'', PInt (8 * 1024)]])))
      else Inr [])"

definition sim_phy_ops :: "py_val dict \<Rightarrow> soc_op list result" where
  "sim_phy_ops p =
     (if flag_set p ''with_ethernet'' \<or> flag_set p ''with_etherbone'' then
        (if arg_val p ''ethernet_phy_model'' = PStr ''sim'' then
           bindE (request_pads ''eth'') (\<lambda>r. Inr (r @ [Call ''ethphy = LiteEthPHYModel'' [PRef ''pads'']]))
         else if arg_val p ''ethernet_phy_model'' = PStr ''xgmii'' then
           bindE (request_pads ''xgmii_eth'') (\<lambda>r. Inr (r @ [Call ''ethphy = LiteEthPHYXGMII'' [PNone, PRef ''pads'', PKw ''model'' (PBool True)]]))
         else if arg_val p ''ethernet_phy_model'' = PStr ''gmii'' then
           bindE (request_pads ''gmii_eth'') (\<lambda>r. Inr (r @ [Call ''ethphy = LiteEthPHYGMII'' [PNone, PRef ''pads'', PKw ''model'' (PBool True)]]))
         else Inl (ValueError (''Unknown Ethernet PHY model:'' @ str_arg (arg_val p ''ethernet_phy_model''))))
      else Inr [])"

definition irq_ops :: "bool \<Rightarrow> string \<Rightarrow> soc_op list" where
  "irq_ops irq name =
     (if irq then [Call ''irq.add'' [PStr name, PKw ''use_loc_if_exists'' (PBool True)]] else [])"

definition sim_hybrid_mac_ops :: "bool \<Rightarrow> py_val dict \<Rightarrow> soc_op list" where
  "sim_hybrid_mac_ops irq p =
    [Call ''ip_address = convert_ip'' [arg_val p ''etherbone_ip_address''],
     Call ''ethmac = LiteEthMAC'' [PKw ''phy'' (PRef ''ethphy''), PKw ''dw'' (PInt 8),
       PKw ''interface'' (PStr ''hybrid''), PKw ''endianness'' (PRef ''cpu.endianness''),
       PKw ''hw_mac'' (arg_val p ''etherbone_mac_address'')],
     Call ''add_memory_region'' [PStr ''ethmac'', PRef ''mem_map.get(ethmac)'', PInt 0x2000,
       PKw ''type'' (PStr ''io'')],
     Call ''add_wb_slave'' [PRef ''mem_regions[ethmac].origin'', PRef ''ethmac.bus'', PInt 0x2000]] @
    irq_ops irq ''ethmac'' @
    [Call ''arp = LiteEthARP'' [PRef ''ethmac'', arg_val p ''etherbone_mac_address'',
       PRef ''ip_address'', PInt sim_clk_freq, PKw ''dw'' (PInt 8)],
     Call ''ip = LiteEthIP'' [PRef ''ethmac'', arg_val p ''etherbone_mac_address'',
       PRef ''ip_address'', PRef ''arp.table'', PKw ''dw'' (PInt 8)],
     Call ''icmp = LiteEthICMP'' [PRef ''ip'', PRef ''ip_address'', PKw ''dw'' (PInt 8)],
     Call ''udp = LiteEthUDP'' [PRef ''ip'', PRef ''ip_address'', PKw ''dw'' (PInt 8)],
     Call ''etherbone = LiteEthEtherbone'' [PRef ''udp'', PInt 1234, PKw ''mode'' (PStr ''master'')],
     Call ''bus.add_master'' [PKw ''master'' (PRef ''etherbone.wishbone.bus'')]]"

definition sim_eth_ops :: "'a sim_fw_scheme \<Rightarrow> py_val dict \<Rightarrow> soc_op list" where
  "sim_eth_ops fw p =
     (if flag_set p ''with_ethernet'' \<and> flag_set p ''with_etherbone''
      then sim_hybrid_mac_ops (irq_enabled fw) p
      else if flag_set p ''with_ethernet'' then
        [Call ''ethmac = LiteEthMAC'' [PKw ''phy'' (PRef ''ethphy''),
           PKw ''dw'' (PInt (if arg_val p ''ethernet_phy_model'' = PStr ''xgmii'' then 64 else 32)),
           PKw ''interface'' (PStr ''wishbone''), PKw ''endianness'' (PRef ''cpu.endianness'')],
         Call ''add_memory_region'' [PStr ''ethmac'', PRef ''mem_map.get(ethmac)'',
           PInt (int (mac_slots_size fw)), PKw ''type'' (PStr ''io'')],
         Call ''add_wb_slave'' [PRef ''mem_regions[ethmac].origin'', PRef ''ethmac.bus'',
           PInt (int (mac_slots_size fw))]] @
        irq_ops (irq_enabled fw) ''ethmac''
      else if flag_set p ''with_etherbone'' then
        [Call ''add_etherbone'' [PKw ''phy'' (PRef ''ethphy''),
           PKw ''ip_address'' (arg_val p ''etherbone_ip_address''),
           PKw ''mac_address'' (arg_val p ''etherbone_mac_address'')]]
      else [])"

text \<open>A peripheral on pads of its own, when it is wanted.\<close>

definition when_pads :: "bool \<Rightarrow> string \<Rightarrow> soc_op list \<Rightarrow> soc_op list result" where
  "when_pads b name ops = (if b then bindE (request_pads name) (\<lambda>r. Inr (r @ ops)) else Inr [])"

definition sim_i2c_ops :: "py_val dict \<Rightarrow> soc_op list result" where
  "sim_i2c_ops p = when_pads (flag_set p ''with_i2c'') ''i2c'' [Call ''i2c = I2CMasterSim'' [PRef ''pads'']]"

definition sim_sdcard_ops :: "py_val dict \<Rightarrow> soc_op list" where
  "sim_sdcard_ops p =
     (if flag_set p ''with_sdcard''
      then [Call ''add_sdcard'' [PStr ''sdcard'', PKw ''use_emulator'' (PBool True)]] else [])"

definition sim_gpio_ops :: "py_val dict \<Rightarrow> soc_op list result" where
  "sim_gpio_ops p =
     when_pads (flag_set p ''with_gpio'') ''gpio''
       [Call ''gpio = GPIOTristate'' [PRef ''pads'', PKw ''with_irq'' (PBool True)],
        Call ''irq.add'' [PStr ''gpio'', PKw ''use_loc_if_exists'' (PBool True)]]"

definition sim_flash_ops :: "py_val dict \<Rightarrow> soc_op list" where
  "sim_flash_ops p =
     (if flag_set p ''with_spi_flash'' then
        (if arg_val p ''spi_flash_init'' = PNone
         then map (\<lambda>src. Call ''platform.add_sources'' [PRef ''os.path.dirname(__file__)'', PStr src])
           [''../build/sim/verilog/iddr_verilog.v'', ''../build/sim/verilog/oddr_verilog.v''] else []) @
        [Call ''spiflash_phy = LiteSPIPHYModel'' [PStr ''S25FL128L(READ_1_1_4)'',
           PKw ''init'' (arg_val p ''spi_flash_init'')],
         Call ''add_spi_flash'' [PKw ''phy'' (PRef ''spiflash_phy''), PKw ''mode'' (PStr ''4x''),
           PKw ''module'' (PStr ''S25FL128L(READ_1_1_4)''), PKw ''with_master'' (PBool True)]]
      else [])"

definition analyzer_signals :: "string list" where
  "analyzer_signals = concat (map (\<lambda>bus. map (\<lambda>f. ''cpu.'' @ bus @ ''.'' @ f)
     [''stb'', ''cyc'', ''adr'', ''we'', ''ack'', ''sel'', ''dat_w'', ''dat_r'']) [''ibus'', ''dbus''])"

definition sim_debug_ops :: "py_val dict \<Rightarrow> soc_op list" where
  "sim_debug_ops p =
     [if flag_set p ''sim_debug''
      then Call ''platform.add_debug'' [PRef ''self'', PKw ''reset'' (PInt (if flag_set p ''trace_reset_on'' then 1 else 0))]
      else Connect ''platform.trace'' ''1'']"

definition sim_analyzer_ops :: "py_val dict \<Rightarrow> soc_op list" where
  "sim_analyzer_ops p =
     (if flag_set p ''with_analyzer''
      then [Call ''analyzer = LiteScopeAnalyzer'' [PList (map PRef analyzer_signals), PKw ''depth'' (PInt 512),
        PKw ''clock_domain'' (PStr ''sys''), PKw ''csr_csv'' (PStr ''analyzer.csv'')]]
      else [])"

text \<open>
  The CPU with the CFU memory bus takes the place of the plain one, then the constructor of the
  framework's SoC is called; arguments that are given to it twice raise.
\<close>

definition sim_core_ops :: "py_val dict \<Rightarrow> soc_op list result" where
  "sim_core_ops kwargs =
     bindE (request_pads ''sys_clk'') (\<lambda>clk.
     bindE (SoCCore_init (PInt sim_clk_freq) ''LiteX Simulation'' kwargs) (\<lambda>core.
       Inr ([Call ''cpu.CPUS.update'' [PKw ''vexriscv'' (PRef ''VexRiscvCFURAM'')]] @ clk @
         [Call ''crg = CRG'' [PRef ''pads''], core])))"

definition SimSoC :: "'a sim_fw_scheme \<Rightarrow> py_val dict \<Rightarrow> soc_op list result" where
  "SimSoC fw kw =
     (let p = sim_params kw; kwargs = sim_kwargs kw in
      bindE (sim_core_ops kwargs) (\<lambda>core.
      bindE (sim_sdram_ops fw p kwargs) (\<lambda>sdram.
      bindE (sim_phy_ops p) (\<lambda>phy.
      bindE (sim_i2c_ops p) (\<lambda>i2c.
      bindE (sim_gpio_ops p) (\<lambda>gpio.
        Inr (core @ sdram @ phy @ sim_eth_ops fw p @ i2c @ sim_sdcard_ops p @ sim_flash_ops p @ gpio @
          sim_debug_ops p @ sim_analyzer_ops p)))))))"

section \<open>The command line of \<^verbatim>\<open>litex_sim.py\<close>\<close>

definition sim_options :: "option_spec list" where
  "sim_options =
    [store_opt ''--rom-init'' PNone, store_opt ''--ram-init'' PNone,
     store_true ''--with-sdram'', store_opt ''--sdram-module'' (PStr ''MT48LC16M16''),
     store_opt ''--sdram-data-width'' (PInt 32), store_opt ''--sdram-init'' PNone,
     store_opt ''--sdram-from-spd-dump'' PNone, store_opt ''--sdram-verbosity'' (PInt 0),
     store_true ''--with-ethernet'', store_opt ''--ethernet-phy-model'' (PStr ''sim''),
     store_true ''--with-etherbone'', store_opt ''--local-ip'' (PStr ''192.168.1.50''),
     store_opt ''--remote-ip'' (PStr ''192.168.1.100''), store_true ''--with-analyzer'',
     store_true ''--with-i2c'', store_true ''--with-sdcard'', store_true ''--with-spi-flash'',
     store_opt ''--spi_flash-init'' PNone, store_true ''--with-gpio'', store_true ''--sim-debug'',
     store_true ''--gtkwave-savefile'', store_true ''--non-interactive'']"

text \<open>
  What the framework provides to \<open>main\<close> beside that: the argument dictionaries, the endianness of
  a CPU type (none for a type it does not have), the words of a file read with an endianness and an offset, the boot
  address of a file, and the contents of an SPD dump.
\<close>

record sim_world = sim_fw +
  sim_argdict :: "py_val dict \<Rightarrow> py_val dict"
  sim_builder_argdict :: "py_val dict \<Rightarrow> py_val dict"
  verilator_argdict :: "py_val dict \<Rightarrow> py_val dict"
  endianness_of :: "py_val \<Rightarrow> string option"
  mem_data :: "string \<Rightarrow> string \<Rightarrow> nat \<Rightarrow> py_val"
  boot_address :: "string \<Rightarrow> nat"
  spd_data :: "string \<Rightarrow> py_val"

definition ram_boot_offset :: nat where
  "ram_boot_offset = 0x40000000"

text \<open>\<open>get_mem_data\<close> with the endianness of the CPU of the SoC.\<close>

definition cpu_mem_data :: "sim_world \<Rightarrow> py_val dict \<Rightarrow> py_val \<Rightarrow> nat \<Rightarrow> py_val result" where
  "cpu_mem_data w kw file offset =
     (case endianness_of w (dict_get kw ''cpu_type'' (PStr ''vexriscv'')) of
        None \<Rightarrow> Inl (AttributeError ''endianness'')
      | Some e \<Rightarrow> Inr (mem_data w (str_arg file) e offset))"

definition rom_kwargs :: "sim_world \<Rightarrow> py_val dict \<Rightarrow> py_val dict \<Rightarrow> py_val dict result" where
  "rom_kwargs w args kw =
     (if flag_set args ''rom_init''
      then bindE (cpu_mem_data w kw (arg_val args ''rom_init'') 0) (\<lambda>v.
        Inr (AList.update ''integrated_rom_init'' v kw))
      else Inr kw)"

text \<open>An image loaded into memory: its data, and the address to boot from.\<close>

definition load_image ::
    "sim_world \<Rightarrow> string \<Rightarrow> py_val \<Rightarrow> py_val dict \<Rightarrow> (py_val dict \<times> nat option) result" where
  "load_image w key file kw =
     (if file = PNone then Inr (kw, None)
      else bindE (cpu_mem_data w kw file ram_boot_offset) (\<lambda>v.
        Inr (AList.update key v kw, Some (boot_address w (str_arg file)))))"

definition sdram_kwargs ::
    "sim_world \<Rightarrow> py_val dict \<Rightarrow> py_val dict \<Rightarrow> (py_val dict \<times> nat option) result" where
  "sdram_kwargs w args kw =
     bindE (assertE (arg_val args ''ram_init'' = PNone) '''') (\<lambda>_.
     bindE (py_int (arg_val args ''sdram_data_width'')) (\<lambda>width.
     bindE (py_int (arg_val args ''sdram_verbosity'')) (\<lambda>verb.
       let kw = AList.update ''sdram_module'' (arg_val args ''sdram_module'') kw;
           kw = AList.update ''sdram_data_width'' (PInt width) kw;
           kw = AList.update ''sdram_verbosity'' (PInt verb) kw;
           kw = set_if (flag_set args ''sdram_from_spd_dump'') ''sdram_spd_data''
             (spd_data w (str_arg (arg_val args ''sdram_from_spd_dump''))) kw
       in load_image w ''sdram_init'' (arg_val args ''sdram_init'') kw)))"

text \<open>The memory options: the changed arguments of the SoC, and the address to boot from.\<close>

definition sim_memory_kwargs ::
    "sim_world \<Rightarrow> py_val dict \<Rightarrow> py_val dict \<Rightarrow> (py_val dict \<times> nat option) result" where
  "sim_memory_kwargs w args kw =
     bindE (rom_kwargs w args kw) (\<lambda>kw.
       let size = arg_val args ''integrated_main_ram_size'';
           kw = AList.update ''integrated_main_ram_size'' size kw
       in if truthy size then load_image w ''integrated_main_ram_init'' (arg_val args ''ram_init'') kw
          else if flag_set args ''with_sdram'' then sdram_kwargs w args kw
          else Inr (kw, None))"

definition eth_module :: "string \<Rightarrow> (string \<times> string) option" where
  "eth_module model =
     (if model = ''sim'' then Some (''ethernet'', ''eth'')
      else if model = ''xgmii'' then Some (''xgmii_ethernet'', ''xgmii_eth'')
      else if model = ''gmii'' then Some (''gmii_ethernet'', ''gmii_eth'')
      else None)"

text \<open>The modules of the simulator, with the pads that each drives and its arguments.\<close>

record sim_module =
  mod_name :: string
  mod_pads :: string
  mod_args :: "py_val dict"

definition sim_config_modules :: "py_val dict \<Rightarrow> py_val dict \<Rightarrow> sim_module list result" where
  "sim_config_modules args kw =
     (let serial = (if arg_val kw ''uart_name'' = PStr ''serial'' then [\<lparr>mod_name = ''serial2console'', mod_pads = ''serial'', mod_args = []\<rparr>] else []);
          i2c = (if flag_set args ''with_i2c'' then [\<lparr>mod_name = ''spdeeprom'', mod_pads = ''i2c'', mod_args = []\<rparr>] else []);
          model = str_arg (arg_val args ''ethernet_phy_model'') in
      if flag_set args ''with_ethernet'' \<or> flag_set args ''with_etherbone'' then
        (case eth_module model of
           Some (m, pads) \<Rightarrow> Inr (serial @
             [\<lparr>mod_name = m, mod_pads = pads,
               mod_args = [(''interface'', PStr ''tap0''), (''ip'', arg_val args ''remote_ip'')]\<rparr>] @ i2c)
         | None \<Rightarrow> Inl (ValueError (''Unknown Ethernet PHY model: '' @ model)))
      else Inr (serial @ i2c))"

definition ip_constants :: "string \<Rightarrow> string \<Rightarrow> soc_op list result" where
  "ip_constants name ip =
     mapE (\<lambda>i. let parts = split_char CHR ''.'' ip in
       if i < length parts then
         bindE (py_int (PStr (parts ! i))) (\<lambda>n.
           Inr (Call ''add_constant'' [PStr (name @ dec (i + 1)), PInt n]))
       else Inl (IndexError ''list index out of range'')) [0..<4]"

definition sim_trace_reset :: "py_val dict \<Rightarrow> bool result" where
  "sim_trace_reset args =
     bindE (float_int (arg_val args ''trace_start'')) (\<lambda>start.
       if 0 < start then Inr True
       else bindE (float_int (arg_val args ''trace_end'')) (\<lambda>stop. Inr (0 < stop)))"

definition sim_soc_kwargs :: "sim_world \<Rightarrow> py_val dict \<Rightarrow> bool \<Rightarrow> py_val dict" where
  "sim_soc_kwargs w args trace_reset_on =
     map (\<lambda>k. (k, arg_val args k))
       [''with_sdram'', ''with_ethernet'', ''ethernet_phy_model'', ''with_etherbone'', ''with_analyzer'',
        ''with_i2c'', ''with_sdcard'', ''with_spi_flash'', ''with_gpio'', ''sim_debug''] @
     [(''trace_reset_on'', PBool trace_reset_on),
      (''spi_flash_init'', if arg_val args ''spi_flash_init'' = PNone then PNone
        else mem_data w (str_arg (arg_val args ''spi_flash_init'')) ''big'' 0)]"

definition boot_constant :: "nat option \<Rightarrow> soc_op list" where
  "boot_constant boot =
     (case boot of
        None \<Rightarrow> []
      | Some a \<Rightarrow> [Call ''add_constant'' [PStr ''ROM_BOOT_ADDRESS'',
          PInt (int (if a = 0 then ram_boot_offset else a))]])"

definition sim_build_ops :: "sim_world \<Rightarrow> py_val dict \<Rightarrow> soc_op list result" where
  "sim_build_ops w args =
     bindE (call_kwargs [(''sim_config'', PRef ''sim_config''),
         (''interactive'', PBool (\<not> flag_set args ''non_interactive'')),
         (''pre_run_callback'', PRef ''pre_run_callback'')] (verilator_argdict w args)) (\<lambda>kw.
       Inr [Call ''Builder'' (PRef ''soc'' # kw_args (sim_builder_argdict w args)),
         Call ''builder.build'' (kw_args kw)])"

text \<open>\<open>main\<close>: the modules of the simulator and the operations on the SoC.\<close>

definition litex_sim_main ::
    "sim_world \<Rightarrow> py_val dict \<Rightarrow> (sim_module list \<times> soc_op list) result" where
  "litex_sim_main w args =
     (let kw0 = sim_argdict w args in
      bindE (if dict_has kw0 ''uart_name'' then Inr () else Inl (KeyError ''uart_name'')) (\<lambda>_.
      let kw = (if arg_val kw0 ''uart_name'' = PStr ''serial''
        then AList.update ''uart_name'' (PStr ''sim'') kw0 else kw0) in
      bindE (sim_memory_kwargs w args kw) (\<lambda>(kw, boot).
      bindE (sim_config_modules args kw0) (\<lambda>modules.
      bindE (sim_trace_reset args) (\<lambda>trace_reset_on.
      bindE (call_kwargs (sim_soc_kwargs w args trace_reset_on) kw) (\<lambda>all_kw.
      bindE (SimSoC w all_kw) (\<lambda>soc.
      bindE (if flag_set args ''with_ethernet''
             then bindE (ip_constants ''LOCALIP'' (str_arg (arg_val args ''local_ip''))) (\<lambda>l.
               bindE (ip_constants ''REMOTEIP'' (str_arg (arg_val args ''remote_ip''))) (\<lambda>r. Inr (l @ r)))
             else Inr []) (\<lambda>ips.
      bindE (sim_build_ops w args) (\<lambda>build.
        Inr (modules,
          Call ''sim_config.add_clocker'' [PStr ''sys_clk'', PKw ''freq_hz'' (PInt sim_clk_freq)] #
          soc @ boot_constant boot @ ips @ build))))))))))"

end
