(* ===== verification/Sim_Main.thy ===== *)
theory Sim_Main
  imports Sim_Soc Nx_Lram_Properties
begin

text \<open>
  The simulation programs: the command line of \<^verbatim>\<open>python/custom_boards/targets/litex_sim.py\<close> and its
  waveform save file, and \<^verbatim>\<open>soc/sim.py\<close>, which simulates the memory layout of the HPS on \<open>SimSoC\<close>:
  main RAM with the program, the arena, and the four read ports of the CFU into the arena.
\<close>

section \<open>The command line of \<^verbatim>\<open>litex_sim.py\<close>\<close>

definition sim_parser :: "option_spec list \<Rightarrow> parser_spec" where
  "sim_parser fw = \<lparr>parser_options = fw @ sim_options, parser_positionals = [], exclusive_groups = []\<rparr>"

definition litex_sim_main_argv ::
    "sim_world \<Rightarrow> option_spec list \<Rightarrow> string list \<Rightarrow> (sim_module list \<times> soc_op list) result" where
  "litex_sim_main_argv w fw argv =
     bindE (parse_args (sim_parser fw) (parser_defaults (sim_parser fw)) argv) (litex_sim_main w)"

text \<open>
  The save file of the waveform viewer, for a SoC of which only the main RAM slave and the number
  of phases of the SDRAM PHY (none without SDRAM) matter.
\<close>

definition dfi_group_op :: "string \<Rightarrow> string list \<Rightarrow> soc_op" where
  "dfi_group_op name sfxs = Call ''save.add'' [PRef ''soc.sdrphy.dfi'', PKw ''group_name'' (PStr name),
     PKw ''mappers'' (PList [PList (map PStr sfxs), PRef ''dfi_sorter'', PRef ''dfi_per_phase_colorer''])]"

definition generate_gtkw_savefile :: "string \<Rightarrow> bool \<Rightarrow> nat option \<Rightarrow> bool \<Rightarrow> soc_op list" where
  "generate_gtkw_savefile gateware_dir has_main_ram phases trace_fst =
     [Call ''GTKWSave'' [PKw ''savefile'' (PStr (path_join gateware_dir ''sim.gtkw'')),
        PKw ''dumpfile'' (PStr (path_join gateware_dir (''sim.'' @ (if trace_fst then ''fst'' else ''vcd''))))],
      Call ''save.clocks'' [], Call ''save.fsm_states'' []] @
     (if has_main_ram
      then [Call ''save.add'' [PRef ''soc.bus.slaves[main_ram]'',
        PKw ''mappers'' (PList [PRef ''wishbone_sorter'', PRef ''wishbone_colorer''])]] else []) @
     (case phases of
        None \<Rightarrow> []
      | Some n \<Rightarrow>
          [Call ''save.add'' [PRef ''soc.sdrphy.dfi'',
             PKw ''mappers'' (PList [PRef ''dfi_sorter'', PRef ''dfi_in_phase_colorer''])]] @
          map (\<lambda>i. Call ''save.add'' [PRef (''soc.sdrphy.dfi.phases['' @ dec i @ '']''),
             PKw ''group_name'' (PStr (''dfi p'' @ dec i)),
             PKw ''mappers'' (PList [PRef ''dfi_sorter(phases=False)'', PRef ''dfi_in_phase_colorer''])]) [0..<n] @
          map (dfi_group_op ''dfi commands'')
            [[''cas_n'', ''ras_n'', ''we_n''], [''wrdata''], [''wrdata_mask''], [''rddata'']])"

text \<open>The callback of the build, given the directory of the built gateware: only with tracing.\<close>

definition pre_run_callback :: "py_val dict \<Rightarrow> string \<Rightarrow> bool \<Rightarrow> nat option \<Rightarrow> soc_op list" where
  "pre_run_callback args gateware_dir has_main_ram phases =
     (if flag_set args ''trace''
      then generate_gtkw_savefile gateware_dir has_main_ram phases (flag_set args ''trace_fst'') else [])"

section \<open>The options of \<^verbatim>\<open>soc/sim.py\<close>\<close>

definition soc_sim_options :: "option_spec list" where
  "soc_sim_options =
    [store_true ''--sim-trace'', store_opt ''--sim-trace-start'' (PInt 0),
     store_opt ''--sim-trace-end'' (PInt (-1)), store_true ''--run'', store_true ''--separate-arena'',
     store_true ''--cfu-mport'', store_opt ''--bin'' PNone]"

definition soc_sim_parser :: "option_spec list \<Rightarrow> parser_spec" where
  "soc_sim_parser fw =
     \<lparr>parser_options = fw @ soc_sim_options, parser_positionals = [], exclusive_groups = []\<rparr>"

definition soc_sim_defaults :: "py_val dict" where
  "soc_sim_defaults =
    [(''csr_csv'', PStr ''csr.csv''), (''uart_name'', PStr ''serial''), (''uart_baudrate'', PInt 921600),
     (''cpu_variant'', PStr ''full+cfu+debug''), (''with_etherbone'', PBool False)]"

section \<open>The arena and its read ports\<close>

definition sim_arena_origin :: nat where "sim_arena_origin = 0x60000000"
definition sim_arena_size :: nat where "sim_arena_size = 256 * 1024"
definition sim_main_ram_size :: nat where "sim_main_ram_size = 32 * 1024 * 1024"

definition sim_arena_ops :: "bool \<Rightarrow> soc_op list" where
  "sim_arena_ops separate =
     (if separate then
        [Call ''add_config'' [PStr ''SOC_SEPARATE_ARENA''],
         Call ''add_ram'' [PStr ''arena'', PKw ''origin'' (PInt (int sim_arena_origin)),
           PKw ''size'' (PInt (int sim_arena_size))]]
      else
        [Call ''bus.add_region'' [PStr ''arena'',
           PRegion \<lparr>origin = sim_arena_origin, region_size = 0, region_mode = ''rw'', cached = True, linker = True\<rparr>]])"

text \<open>\<open>p_adr\<close>: the two low bits of the word address are the number of the port.\<close>

definition sim_p_adr :: "nat \<Rightarrow> 14 word \<Rightarrow> 16 word" where
  "sim_p_adr i p_adr_from_cfu = word_cat p_adr_from_cfu (of_nat i :: 2 word)"

definition sim_port_ops :: "nat \<Rightarrow> soc_op list" where
  "sim_port_ops i =
     (let port = ''newport['' @ dec i @ '']''; adr = ''p_adr_from_cfu'' @ dec i; dat = ''p_dat_r'' @ dec i in
      [Call (port @ '' = arena.mem.get_port'') [],
       Call ''specials'' [PRef port],
       Connect dat (port @ ''.dat_r''),
       Connect (port @ ''.adr'') (''Cat(Constant('' @ dec i @ '', 2), '' @ adr @ '')''),
       Call ''cpu.cfu_params.update'' [PKw (''o_port'' @ dec i @ ''_addr'') (PRef adr)],
       Call ''cpu.cfu_params.update'' [PKw (''i_port'' @ dec i @ ''_din'') (PRef dat)]])"

text \<open>
  A read port of the arena memory of the framework: the data of a cycle is the word that was at the
  port's address before the clock edge.
\<close>

definition sim_port_next :: "(16 word \<Rightarrow> u32) \<Rightarrow> nat \<Rightarrow> 14 word \<Rightarrow> u32" where
  "sim_port_next mem i p_adr_from_cfu = mem (sim_p_adr i p_adr_from_cfu)"

section \<open>\<open>main\<close>\<close>

definition soc_sim_program :: "sim_world \<Rightarrow> py_val dict \<Rightarrow> soc_op list \<times> py_val" where
  "soc_sim_program w args =
     (if flag_set args ''run'' then
        (if flag_set args ''bin'' then ([], mem_data w (str_arg (arg_val args ''bin'')) ''little'' 0)
         else ([Call ''print'' [PStr ''must provide --bin if using --run'']], PNone))
      else ([], PNone))"

text \<open>What \<open>main\<close> does with a finished SoC: the console, the boot address, and the build.\<close>

definition soc_sim_build_ops :: "sim_world \<Rightarrow> py_val dict \<Rightarrow> soc_op list result" where
  "soc_sim_build_ops w args =
     bindE (float_int (arg_val args ''sim_trace_start'')) (\<lambda>trace_start.
     bindE (float_int (arg_val args ''sim_trace_end'')) (\<lambda>trace_end. Inr
       [Call ''sim_config.add_clocker'' [PStr ''sys_clk'', PKw ''freq_hz'' (PRef ''soc.clk_freq'')],
        Call ''sim_config.add_module'' [PStr ''serial2console'', PStr ''serial''],
        Call ''add_constant'' [PStr ''ROM_BOOT_ADDRESS'', PInt 0x40000000],
        Call ''Builder'' (PRef ''soc'' # kw_args (sim_builder_argdict w args)),
        Call ''builder.build''
          [PKw ''build'' (arg_val args ''run''), PKw ''run'' (arg_val args ''run''),
           PKw ''sim_config'' (PRef ''sim_config''), PKw ''interactive'' (PBool False),
           PKw ''trace'' (arg_val args ''sim_trace''), PKw ''trace_fst'' (PBool True),
           PKw ''trace_start'' (PInt trace_start), PKw ''trace_end'' (PInt trace_end)]]))"

definition soc_sim_main ::
    "sim_world \<Rightarrow> wf_world \<Rightarrow> py_val dict \<Rightarrow> core_state \<Rightarrow> (core_state \<times> soc_op list) result" where
  "soc_sim_main w fw args st0 =
     (let (msg, binary) = soc_sim_program w args;
          separate = (flag_set args ''cfu_mport'' \<or> flag_set args ''separate_arena'');
          variant = str_arg (arg_val args ''cpu_variant'');
          (built, st, build_log) = build_cpu_variant_if_needed (file_exists fw) (vexriscv_dir fw)
            (cfu_root_env fw) (sbt_status fw) (serv_variants fw) variant (patch_cpu_variant st0)
      in bindE built (\<lambda>_.
         bindE (copy_cpu_variant_if_needed (file_exists fw) (vexriscv_dir fw) (cfu_root_env fw) st variant) (\<lambda>copy_log.
         let kw = AList.update ''uart_name'' (PStr ''sim'')
           (AList.update ''l2_size'' (PInt (8 * 1024)) (sim_argdict w args)) in
         bindE (call_kwargs [(''integrated_main_ram_size'', PInt (int sim_main_ram_size)),
           (''integrated_main_ram_init'', binary), (''sim_debug'', PBool True)] kw) (\<lambda>all_kw.
         bindE (SimSoC w all_kw) (\<lambda>soc.
         bindE (soc_sim_build_ops w args) (\<lambda>build.
           Inr (st, msg @ build_log @ copy_log @ soc @ sim_arena_ops separate @
             (if flag_set args ''cfu_mport'' then concat (map sim_port_ops [0..<4]) else []) @
             build)))))))"

definition soc_sim_main_argv ::
    "sim_world \<Rightarrow> wf_world \<Rightarrow> option_spec list \<Rightarrow> string list \<Rightarrow> core_state \<Rightarrow>
     (core_state \<times> soc_op list) result" where
  "soc_sim_main_argv w fw opts argv st =
     bindE (parse_args (soc_sim_parser opts)
       (set_defaults soc_sim_defaults (parser_defaults (soc_sim_parser opts))) argv)
       (\<lambda>args. soc_sim_main w fw args st)"

end
