(* ===== verification/Sim_Properties.thy ===== *)
theory Sim_Properties
  imports Sim_Main Hps_Properties Board_Properties
begin

text \<open>
  Properties of the simulations: the simulated CFU ports read what the hardware's second ports
  read, the simulator's modules drive pads that the SoC uses, and the boot address is that of the
  memory with the program.
\<close>

section \<open>The CFU ports into the arena\<close>

lemma sim_p_adr_eq: "i < 4 \<Longrightarrow> sim_p_adr i a = of_nat (unat a * 4 + i)"
proof -
  assume "i < 4"
  then have "unat (of_nat i :: 2 word) = i" by (simp add: unsigned_of_nat take_bit_nat_eq_self)
  then have "(ucast (of_nat i :: 2 word) :: 16 word) = of_nat i" by (metis of_nat_unat)
  then show ?thesis by (simp add: sim_p_adr_def word_cat_eq push_bit_eq_mult mult.commute)
qed

lemma unat_sim_p_adr: "i < 4 \<Longrightarrow> unat (sim_p_adr i a) = unat a * 4 + i"
proof -
  assume "i < 4"
  moreover have "unat a < 16384" using unsigned_less [of a] by simp
  ultimately have "unat (of_nat (unat a * 4 + i) :: 16 word) = unat a * 4 + i"
    by (simp add: unsigned_of_nat take_bit_nat_eq_self del: of_nat_add of_nat_mult)
  with \<open>i < 4\<close> show ?thesis by (simp only: sim_p_adr_eq)
qed

text \<open>
  C11: the simulation of the CFU ports is that of the hardware. For the arena that both build, a
  read port of the simulation whose memory holds the words of the bus address space returns, for
  each of the four ports and every address, what the second port of the hardware's banks returns
  one cycle later, unless the bus writes that very word in the cycle.
\<close>

theorem sim_ports_match_hardware:
  assumes "lram_primitive lram_step doa dob cell_word" and "NXLRAM 32 sim_arena_size True = Inr cfg"
    and "list_all (nx_legal cfg) is" and "s = run_state (nx_next lram_step cfg) s0 is"
    and "mem = (\<lambda>a. run_state flat_next (nx_word cell_word cfg s0) is 0 (ucast a))"
    and "nx_legal cfg i" and "k < 4" and "b_clkens i k"
    and "\<not> (bus_writes i \<and> bus_adr i = ucast (sim_p_adr k (b_addrs i k)))"
  shows "nx_b_dout dob cfg (nx_next lram_step cfg s i) k = sim_port_next mem k (b_addrs i k)"
proof -
  have cfg: "cfg = arena_cfg" using assms(2) NXLRAM_arena by (simp add: sim_arena_size_def)
  have adr: "(ucast (sim_p_adr k (b_addrs i k)) :: 30 word)
      = of_nat (unat (b_addrs i k) * depth_cascading cfg + k)"
    using of_nat_unat [symmetric, of "sim_p_adr k (b_addrs i k)"] cfg
    unfolding unat_sim_p_adr [OF assms(7)] by (simp only:) (simp add: arena_cfg_def)
  show ?thesis
    using second_port_word [OF assms(1-4) assms(6) _ assms(8) adr] assms(5,7,9) cfg
    by (simp add: sim_port_next_def arena_cfg_def)
qed

theorem sim_ports_match_hardware_witness:
  "nx_b_dout arr_b arena_cfg (nx_next lram_array_step arena_cfg
     (run_state (nx_next lram_array_step arena_cfg) (nx_init arena_cfg zero_array)
        [nx_cycle 15 42 True, nx_cycle 8 99 True]) (nx_cycle 7 0 False)) 3 =
   sim_port_next (\<lambda>a. run_state flat_next (nx_word arr_cells arena_cfg (nx_init arena_cfg zero_array))
     [nx_cycle 15 42 True, nx_cycle 8 99 True] 0 (ucast a)) 3 3"
proof -
  have ok: "nx_legal arena_cfg (nx_cycle 15 42 True)" "nx_legal arena_cfg (nx_cycle 8 99 True)"
    "nx_legal arena_cfg (nx_cycle 7 0 False)"
    by (simp_all add: nx_legal_def nx_cycle_def nx_words_def arena_cfg_def)
  then have legal: "list_all (nx_legal arena_cfg) [nx_cycle 15 42 True, nx_cycle 8 99 True]" by simp
  have "NXLRAM 32 sim_arena_size True = Inr arena_cfg" using NXLRAM_arena by (simp add: sim_arena_size_def)
  from sim_ports_match_hardware [OF lram_array.lram_primitive_axioms this legal refl refl ok(3), of 3]
  show ?thesis by (simp add: nx_cycle_def bus_writes_def)
qed

section \<open>The pads that a SoC requests\<close>

fun request_of :: "soc_op \<Rightarrow> string list" where
  "request_of (Call f [PStr pads]) = (if f = ''platform.request'' then [pads] else [])"
| "request_of _ = []"

definition requests :: "soc_op list \<Rightarrow> string list" where
  "requests ops = concat (map request_of ops)"

lemma requests_simps [simp]:
  "requests [] = []" "requests (x # xs) = request_of x @ requests xs"
  "requests (xs @ ys) = requests xs @ requests ys"
  by (simp_all add: requests_def)

lemma request_other [simp]: "f \<noteq> ''platform.request'' \<Longrightarrow> request_of (Call f xs) = []"
  by (cases "Call f xs" rule: request_of.cases) auto

lemma request_pads_Inr: "request_pads name = Inr r \<longleftrightarrow>
    r = [Call ''platform.request'' [PStr name]] \<and> list_ex (\<lambda>(n, k, _). n = name \<and> k = 0) sim_io"
  by (auto simp: request_pads_def)




lemma requests_none [simp]:
  "requests (irq_ops irq name) = []"
  "requests (sim_eth_ops fw p) = []" "requests (sim_flash_ops p) = []"
  "requests (sim_debug_ops p) = []" "requests (sim_sdcard_ops p) = []" "requests (sim_analyzer_ops p) = []"
  by (simp_all add: sim_sdcard_ops_def sim_analyzer_ops_def sim_eth_ops_def sim_hybrid_mac_ops_def sim_flash_ops_def
      sim_debug_ops_def irq_ops_def)




text \<open>The parameters that \<open>main\<close> passes by name arrive unchanged.\<close>

definition passed_args :: "string list" where
  "passed_args = [''with_sdram'', ''with_ethernet'', ''ethernet_phy_model'', ''with_etherbone'', ''with_analyzer'',
     ''with_i2c'', ''with_sdcard'', ''with_spi_flash'', ''with_gpio'', ''sim_debug'']"

lemma sim_params_passed:
  assumes "call_kwargs (sim_soc_kwargs w args tr) kw = Inr d" and "k \<in> set passed_args"
  shows "arg_val (sim_params d) k = arg_val args k"
proof -
  have d: "d = sim_soc_kwargs w args tr @ kw" and
    new: "list_all (\<lambda>k. \<not> dict_has kw k) (map fst (sim_soc_kwargs w args tr))"
    using assms(1) by (simp_all add: call_kwargs_def namespace_union_Inr)
  have "map fst (sim_soc_kwargs w args tr) = passed_args @ [''trace_reset_on'', ''spi_flash_init'']"
    by (simp add: sim_soc_kwargs_def passed_args_def)
  moreover from this have "distinct (map fst (sim_soc_kwargs w args tr))"
    by (simp add: passed_args_def)
  moreover have in_A: "(k, arg_val args k) \<in> set (sim_soc_kwargs w args tr)"
    using assms(2) by (auto simp: sim_soc_kwargs_def passed_args_def)
  moreover have "k \<notin> fst ` set kw"
    using new in_A by (fastforce simp: list_all_iff dict_has_def list_ex_iff)
  moreover have "dict_has sim_defaults k"
    using assms(2) by (auto simp: passed_args_def sim_defaults_def dict_has_def)
  ultimately show ?thesis
    by (simp add: d sim_params_def arg_val_def [of "dict_update _ _"] dict_get_def dict_update_named
        del: filter_append)
qed

section \<open>The simulator's modules\<close>






lemma litex_sim_main_Inr:
  assumes "litex_sim_main w args = Inr (mods, ops)"
  obtains kw boot tr all_kw soc ips build where "sim_config_modules args (sim_argdict w args) = Inr mods"
    "sim_memory_kwargs w args (set_if (arg_val (sim_argdict w args) ''uart_name'' = PStr ''serial'')
       ''uart_name'' (PStr ''sim'') (sim_argdict w args)) = Inr (kw, boot)"
    "call_kwargs (sim_soc_kwargs w args tr) kw = Inr all_kw"
    "SimSoC w all_kw = Inr soc"
    "ops = Call ''sim_config.add_clocker'' [PStr ''sys_clk'', PKw ''freq_hz'' (PInt sim_clk_freq)] #
       soc @ boot_constant boot @ ips @ build"
    "sim_build_ops w args = Inr build"
    "ips = [] \<or> (\<exists>l r. ips = l @ r \<and> ip_constants ''LOCALIP'' (str_arg (arg_val args ''local_ip'')) = Inr l \<and>
       ip_constants ''REMOTEIP'' (str_arg (arg_val args ''remote_ip'')) = Inr r)"
  using assms
  by (auto simp: litex_sim_main_def Let_def bindE_Inr_iff set_if_def split: if_splits)


text \<open>A world and a command line for the witnesses.\<close>

definition tiny_world :: sim_world where
  "tiny_world = \<lparr>irq_enabled = True, mac_slots_size = 8192, sdram_phases = (\<lambda>_. Some 1),
     sim_argdict = (\<lambda>_. [(''uart_name'', PStr ''serial'')]), sim_builder_argdict = (\<lambda>_. []),
     verilator_argdict = (\<lambda>_. []), endianness_of = (\<lambda>_. Some ''little''),
     mem_data = (\<lambda>f e n. PList [PStr f, PStr e, PInt (int n)]), boot_address = (\<lambda>_. 0),
     spd_data = (\<lambda>_. PNone)\<rparr>"

definition tiny_args :: "py_val dict" where
  "tiny_args = [(''with_ethernet'', PBool True), (''ethernet_phy_model'', PStr ''xgmii''),
     (''with_i2c'', PBool True), (''local_ip'', PStr ''192.168.1.50''), (''remote_ip'', PStr ''192.168.1.100''),
     (''integrated_main_ram_size'', PInt 65536), (''ram_init'', PStr ''prog.bin''),
     (''trace_start'', PInt 0), (''trace_end'', PInt (-1))]"

lemma tiny_ips:
  "\<exists>l. ip_constants ''LOCALIP'' ''192.168.1.50'' = Inr l" "\<exists>r. ip_constants ''REMOTEIP'' ''192.168.1.100'' = Inr r"
proof -
  have "case ip_constants ''LOCALIP'' ''192.168.1.50'' of Inl _ \<Rightarrow> False | Inr _ \<Rightarrow> True"
    "case ip_constants ''REMOTEIP'' ''192.168.1.100'' of Inl _ \<Rightarrow> False | Inr _ \<Rightarrow> True"
    by code_simp+
  then show "\<exists>l. ip_constants ''LOCALIP'' ''192.168.1.50'' = Inr l"
    "\<exists>r. ip_constants ''REMOTEIP'' ''192.168.1.100'' = Inr r"
    by (auto split: sum.splits)
qed

lemma request_pads_known:
  "name \<in> fst ` set sim_io \<Longrightarrow> request_pads name = Inr [Call ''platform.request'' [PStr name]]"
  by (auto simp: request_pads_def list_ex_iff sim_io_def)

text \<open>
  \<open>SimSoC\<close> is built whenever its Ethernet PHY, if any, and its memory module are known and the
  arguments of the framework's constructor are not given twice.
\<close>

lemma SimSoC_builds:
  assumes "arg_val (sim_params kw) ''ethernet_phy_model'' \<in> PStr ` {''sim'', ''xgmii'', ''gmii''} \<or>
    \<not> flag_set (sim_params kw) ''with_ethernet'' \<and> \<not> flag_set (sim_params kw) ''with_etherbone''"
    and "\<And>name. sdram_phases fw name \<noteq> None"
    and "list_all (\<lambda>k. \<not> dict_has (sim_kwargs kw) k) [''platform'', ''clk_freq'', ''ident'']"
  shows "\<exists>ops. SimSoC fw kw = Inr ops"
proof -
  have pads: "request_pads name = Inr [Call ''platform.request'' [PStr name]]"
    if "name \<in> {''sys_clk'', ''eth'', ''xgmii_eth'', ''gmii_eth'', ''i2c'', ''gpio''}" for name
    using that by (intro request_pads_known) (auto simp: sim_io_def)
  have "\<exists>phy. sim_phy_ops (sim_params kw) = Inr phy"
    using assms(1) by (auto simp: sim_phy_ops_def pads)
  moreover have "when_pads b name ops = Inr (if b then Call ''platform.request'' [PStr name] # ops else [])"
    if "name \<in> {''i2c'', ''gpio''}" for b name ops
    using that by (auto simp: when_pads_def pads)
  moreover have "\<exists>core. sim_core_ops (sim_kwargs kw) = Inr core"
    using assms(3) by (simp add: sim_core_ops_def pads SoCCore_init_def call_kwargs_def namespace_union_def)
  moreover have "\<exists>module. sim_sdram_module fw (sim_params kw) = Inr module"
    using assms(2) [of "str_arg (arg_val (sim_params kw) ''sdram_module'')"]
    by (auto simp: sim_sdram_module_def)
  then have "\<exists>sdram. sim_sdram_ops fw (sim_params kw) (sim_kwargs kw) = Inr sdram"
    by (auto simp: sim_sdram_ops_def)
  ultimately show ?thesis by (auto simp: SimSoC_def sim_i2c_ops_def sim_gpio_ops_def Let_def)
qed

lemma tiny_vals:
  "arg_val tiny_args ''rom_init'' = PNone" "arg_val tiny_args ''integrated_main_ram_size'' = PInt 65536"
  "arg_val tiny_args ''ram_init'' = PStr ''prog.bin''" "arg_val tiny_args ''with_ethernet'' = PBool True"
  "arg_val tiny_args ''ethernet_phy_model'' = PStr ''xgmii''" "arg_val tiny_args ''with_i2c'' = PBool True"
  "arg_val tiny_args ''local_ip'' = PStr ''192.168.1.50''"
  "arg_val tiny_args ''remote_ip'' = PStr ''192.168.1.100''"
  "arg_val tiny_args ''trace_start'' = PInt 0" "arg_val tiny_args ''trace_end'' = PInt (-1)"
  by (simp_all add: tiny_args_def arg_val_def dict_get_def)

lemma tiny_sim: "\<exists>mods ops. litex_sim_main tiny_world tiny_args = Inr (mods, ops)"
proof -
  let ?kw = "[(''uart_name'', PStr ''sim''), (''integrated_main_ram_size'', PInt 65536),
    (''integrated_main_ram_init'', PList [PStr ''prog.bin'', PStr ''little'', PInt 1073741824])]"
  let ?d = "sim_soc_kwargs tiny_world tiny_args False @ ?kw"
  have mem: "sim_memory_kwargs tiny_world tiny_args [(''uart_name'', PStr ''sim'')] = Inr (?kw, Some 0)"
    by (simp add: sim_memory_kwargs_def rom_kwargs_def flag_set_def tiny_vals
        load_image_def cpu_mem_data_def tiny_world_def ram_boot_offset_def Let_def)
  have mods: "\<exists>m. sim_config_modules tiny_args [(''uart_name'', PStr ''serial'')] = Inr m"
    by (simp add: sim_config_modules_def flag_set_def tiny_vals eth_module_def Let_def)
  have kw: "call_kwargs (sim_soc_kwargs tiny_world tiny_args False) ?kw = Inr ?d"
    by (simp add: call_kwargs_def namespace_union_Inr sim_soc_kwargs_def dict_has_def)
  have "arg_val (sim_params ?d) ''ethernet_phy_model'' = arg_val tiny_args ''ethernet_phy_model''"
    by (rule sim_params_passed [OF kw]) (simp add: passed_args_def)
  then have "\<exists>ops. SimSoC tiny_world ?d = Inr ops"
    by (intro SimSoC_builds) (simp_all add: tiny_vals tiny_world_def sim_kwargs_def dict_has_def
        sim_soc_kwargs_def sim_defaults_def)
  moreover have "flag_set tiny_args ''with_ethernet''" "arg_val tiny_args ''local_ip'' = PStr ''192.168.1.50''"
    "arg_val tiny_args ''remote_ip'' = PStr ''192.168.1.100''"
    by (simp_all add: flag_set_def tiny_vals)
  moreover have "sim_argdict tiny_world a = [(''uart_name'', PStr ''serial'')]"
    "sim_trace_reset tiny_args = Inr False"
    "\<exists>build. sim_build_ops tiny_world tiny_args = Inr build" for a
    by (simp_all add: sim_trace_reset_def float_int_int tiny_vals tiny_world_def sim_build_ops_def call_kwargs_def namespace_union_def dict_has_def)
  ultimately show ?thesis
    using mods tiny_ips
    by (auto simp: litex_sim_main_def Let_def mem kw dict_has_def arg_val_def [of "[_]"] dict_get_def)
qed



section \<open>The boot address\<close>

fun boot_of :: "soc_op \<Rightarrow> py_val list" where
  "boot_of (Call f [PStr name, v]) = (if f = ''add_constant'' \<and> name = ''ROM_BOOT_ADDRESS'' then [v] else [])"
| "boot_of _ = []"

definition boot_addresses :: "soc_op list \<Rightarrow> py_val list" where
  "boot_addresses ops = concat (map boot_of ops)"

lemma boot_addresses_simps [simp]:
  "boot_addresses [] = []" "boot_addresses (x # xs) = boot_of x @ boot_addresses xs"
  "boot_addresses (xs @ ys) = boot_addresses xs @ boot_addresses ys"
  by (simp_all add: boot_addresses_def)

lemma boot_other [simp]: "f \<noteq> ''add_constant'' \<Longrightarrow> boot_of (Call f xs) = []"
  by (cases "Call f xs" rule: boot_of.cases) auto

lemma boot_addresses_none [simp]:
  "boot_addresses (irq_ops irq name) = []"
  "boot_addresses (sim_eth_ops fw p) = []" "boot_addresses (sim_flash_ops p) = []"
  "boot_addresses (sim_debug_ops p) = []" "boot_addresses (sim_sdcard_ops p) = []"
  "boot_addresses (sim_analyzer_ops p) = []"
  by (simp_all add: sim_sdcard_ops_def sim_analyzer_ops_def sim_eth_ops_def sim_hybrid_mac_ops_def sim_flash_ops_def
      sim_debug_ops_def irq_ops_def)

lemma boot_addresses_phy: "sim_phy_ops p = Inr r \<Longrightarrow> boot_addresses r = []"
  by (auto simp: sim_phy_ops_def bindE_Inr_iff request_pads_Inr split: if_splits)

lemma boot_addresses_when_pads:
  "when_pads b name ops = Inr r \<Longrightarrow> boot_addresses r = (if b then boot_addresses ops else [])"
  by (auto simp: when_pads_def bindE_Inr_iff request_pads_Inr split: if_splits)

lemma boot_addresses_sdram: "sim_sdram_ops fw p kwargs = Inr r \<Longrightarrow> boot_addresses r = []"
  by (auto simp: sim_sdram_ops_def sim_sdram_module_def bindE_Inr_iff split: if_splits option.splits)

lemma boot_addresses_core: "sim_core_ops kwargs = Inr r \<Longrightarrow> boot_addresses r = []"
  by (auto simp: sim_core_ops_def bindE_Inr_iff request_pads_Inr SoCCore_init_Inr)

lemma boot_addresses_SimSoC: "SimSoC fw kw = Inr ops \<Longrightarrow> boot_addresses ops = []"
  by (auto simp: SimSoC_def sim_i2c_ops_def sim_gpio_ops_def Let_def bindE_Inr_iff boot_addresses_core
      boot_addresses_sdram boot_addresses_phy boot_addresses_when_pads)

lemma boot_addresses_sim_build: "sim_build_ops w args = Inr ops \<Longrightarrow> boot_addresses ops = []"
  by (auto simp: sim_build_ops_def bindE_Inr_iff)

lemma boot_addresses_ip_constants:
  assumes "ip_constants name ip = Inr ops" and "name = ''LOCALIP'' \<or> name = ''REMOTEIP''"
  shows "boot_addresses ops = []"
proof -
  have "list_all2 (\<lambda>_ op. boot_of op = []) [0..<4] ops"
    using assms(1) unfolding ip_constants_def mapE_Inr_iff
    by (rule list_all2_mono) (use assms(2) in \<open>auto simp: Let_def bindE_Inr_iff split: if_splits\<close>)
  then have "\<forall>op\<in>set ops. boot_of op = []"
    by (auto simp: list_all2_conv_all_nth in_set_conv_nth)
  then show ?thesis by (simp add: boot_addresses_def)
qed

text \<open>The image that a simulation boots: of the main RAM if there is one, else of the SDRAM.\<close>

definition boot_image :: "py_val dict \<Rightarrow> py_val" where
  "boot_image args =
     (if flag_set args ''integrated_main_ram_size'' then arg_val args ''ram_init''
      else if flag_set args ''with_sdram'' then arg_val args ''sdram_init'' else PNone)"

lemma load_image_Inr:
  "load_image w key file kw = Inr (kw', boot) \<Longrightarrow>
   boot = (if file = PNone then None else Some (boot_address w (str_arg file))) \<and>
   (file = PNone \<longrightarrow> kw' = kw) \<and>
   (file \<noteq> PNone \<longrightarrow> (\<exists>e. kw' = AList.update key (mem_data w (str_arg file) e ram_boot_offset) kw))"
  by (auto simp: load_image_def cpu_mem_data_def bindE_Inr_iff split: if_splits option.splits)

lemma load_image_entry:
  "load_image w key (PStr file) kw = Inr (kw', boot) \<Longrightarrow>
   \<exists>e. map_of kw' key = Some (mem_data w file e ram_boot_offset)"
  by (drule load_image_Inr) (auto simp: update_conv')

lemma sim_memory_boot:
  assumes "sim_memory_kwargs w args kw0 = Inr (kw, boot)"
  shows "boot = (if boot_image args = PNone then None else Some (boot_address w (str_arg (boot_image args))))"
  using assms
  by (auto simp: sim_memory_kwargs_def sdram_kwargs_def boot_image_def flag_set_def Let_def bindE_Inr_iff
      split: if_splits dest: load_image_Inr)

lemma sim_memory_main_ram:
  assumes "sim_memory_kwargs w args kw0 = Inr (kw, boot)" and "flag_set args ''integrated_main_ram_size''"
    and "arg_val args ''ram_init'' = PStr file"
  shows "\<exists>e. map_of kw ''integrated_main_ram_init'' = Some (mem_data w file e ram_boot_offset)"
  using assms
  by (auto simp: sim_memory_kwargs_def flag_set_def Let_def bindE_Inr_iff dest: load_image_entry)

text \<open>What the framework's constructor is called with.\<close>

lemma SimSoC_core:
  assumes "SimSoC fw kw = Inr ops"
  shows "Call ''SoCCore.__init__'' ([PKw ''platform'' (PRef ''platform''), PKw ''clk_freq'' (PInt sim_clk_freq),
    PKw ''ident'' (PStr ''LiteX Simulation'')] @ kw_args (sim_kwargs kw)) \<in> set ops"
proof -
  from assms obtain core where "sim_core_ops (sim_kwargs kw) = Inr core" "set core \<subseteq> set ops"
    by (auto simp: SimSoC_def Let_def bindE_Inr_iff)
  then show ?thesis
    by (auto simp: sim_core_ops_def bindE_Inr_iff SoCCore_init_Inr)
qed

lemma SimSoC_core_call:
  assumes "SimSoC fw kw = Inr ops" and "map_of kw k = Some v" and "\<not> dict_has sim_defaults k"
  shows "\<exists>xs. Call ''SoCCore.__init__'' xs \<in> set ops \<and> PKw k v \<in> set xs"
proof -
  from assms(2,3) have "(k, v) \<in> set (sim_kwargs kw)"
    by (auto simp: sim_kwargs_def dest: map_of_SomeD)
  then have "PKw k v \<in> set (kw_args (sim_kwargs kw))" by (force simp: kw_args_def)
  moreover note SimSoC_core [OF assms(1)]
  ultimately show ?thesis by (auto intro!: exI)
qed

text \<open>
  C34: the boot address of \<^verbatim>\<open>litex_sim.py\<close>. The SoC gets one boot address exactly when an image for its
  main memory was given: that of the image, or \<open>0x40000000\<close> where the image's is 0. An image for the
  main RAM is also what the RAM is initialised with, read at the offset \<open>0x40000000\<close>.
\<close>

theorem sim_boots_loaded_image:
  assumes "litex_sim_main w args = Inr (mods, ops)"
  shows "boot_addresses ops = (if boot_image args = PNone then []
      else [PInt (int (if boot_address w (str_arg (boot_image args)) = 0 then ram_boot_offset
        else boot_address w (str_arg (boot_image args))))]) \<and>
    (\<forall>file. flag_set args ''integrated_main_ram_size'' \<and> arg_val args ''ram_init'' = PStr file \<longrightarrow>
      (\<exists>xs e. Call ''SoCCore.__init__'' xs \<in> set ops \<and>
        PKw ''integrated_main_ram_init'' (mem_data w file e ram_boot_offset) \<in> set xs))"
proof -
  obtain kw0 kw boot tr all_kw soc ips tl where mem: "sim_memory_kwargs w args kw0 = Inr (kw, boot)"
    and kw: "call_kwargs (sim_soc_kwargs w args tr) kw = Inr all_kw"
    and soc: "SimSoC w all_kw = Inr soc"
    and ops: "ops = Call ''sim_config.add_clocker'' [PStr ''sys_clk'', PKw ''freq_hz'' (PInt sim_clk_freq)] #
       soc @ boot_constant boot @ ips @ tl" and tl: "boot_addresses tl = []"
    and ips: "ips = [] \<or> (\<exists>l r. ips = l @ r \<and> ip_constants ''LOCALIP'' (str_arg (arg_val args ''local_ip'')) = Inr l \<and>
       ip_constants ''REMOTEIP'' (str_arg (arg_val args ''remote_ip'')) = Inr r)"
    by (rule litex_sim_main_Inr [OF assms]) (auto simp: boot_addresses_sim_build)
  from ips have "boot_addresses ips = []" by (auto dest: boot_addresses_ip_constants)
  then have "boot_addresses ops = boot_addresses (boot_constant boot)"
    using boot_addresses_SimSoC [OF soc] tl by (simp add: ops)
  moreover have "\<exists>xs e. Call ''SoCCore.__init__'' xs \<in> set ops \<and>
      PKw ''integrated_main_ram_init'' (mem_data w f e ram_boot_offset) \<in> set xs"
    if given: "flag_set args ''integrated_main_ram_size''" "arg_val args ''ram_init'' = PStr f" for f
  proof -
    from sim_memory_main_ram [OF mem given] obtain e where
      "map_of kw ''integrated_main_ram_init'' = Some (mem_data w f e ram_boot_offset)" by blast
    with kw have "map_of all_kw ''integrated_main_ram_init'' = Some (mem_data w f e ram_boot_offset)"
      by (auto simp: call_kwargs_def namespace_union_Inr sim_soc_kwargs_def)
    from SimSoC_core_call [OF soc this] show ?thesis
      by (auto simp: ops dict_has_def sim_defaults_def)
  qed
  ultimately show ?thesis
    unfolding sim_memory_boot [OF mem] by (simp add: boot_constant_def)
qed

theorem sim_boots_loaded_image_witness:
  "\<exists>mods ops. litex_sim_main tiny_world tiny_args = Inr (mods, ops) \<and>
     boot_addresses ops = [PInt 0x40000000] \<and>
     (\<exists>xs e. Call ''SoCCore.__init__'' xs \<in> set ops \<and>
        PKw ''integrated_main_ram_init'' (PList [PStr ''prog.bin'', PStr e, PInt 0x40000000]) \<in> set xs)"
proof -
  obtain mods ops where ops: "litex_sim_main tiny_world tiny_args = Inr (mods, ops)"
    using tiny_sim by blast
  have image: "boot_image tiny_args = PStr ''prog.bin''" "flag_set tiny_args ''integrated_main_ram_size''"
    "arg_val tiny_args ''ram_init'' = PStr ''prog.bin''"
    by (simp_all add: boot_image_def flag_set_def tiny_vals)
  have world: "boot_address tiny_world f = 0"
    "mem_data tiny_world f e n = PList [PStr f, PStr e, PInt (int n)]" for f e n
    by (simp_all add: tiny_world_def)
  from sim_boots_loaded_image [OF ops] show ?thesis
    using ops image by (auto simp: world ram_boot_offset_def)
qed

section \<open>The simulation of the HPS memory\<close>



lemma boot_addresses_sim_ports [simp]: "boot_addresses (concat (map sim_port_ops ks)) = []"
  by (induction ks) (simp_all add: sim_port_ops_def Let_def boot_addresses_def)

fun cfu_params_of :: "soc_op \<Rightarrow> string list" where
  "cfu_params_of (Call f xs) = (if f = ''cpu.cfu_params.update''
     then concat (map (\<lambda>x. case x of PKw k _ \<Rightarrow> [k] | _ \<Rightarrow> []) xs) else [])"
| "cfu_params_of _ = []"

definition cfu_params_set :: "soc_op list \<Rightarrow> string set" where
  "cfu_params_set ops = (\<Union>op\<in>set ops. set (cfu_params_of op))"

lemma cfu_params_set_append [simp]:
  "cfu_params_set (xs @ ys) = cfu_params_set xs \<union> cfu_params_set ys"
  by (simp add: cfu_params_set_def)







end
