(* ===== verification/Board_Targets.thy ===== *)
theory Board_Targets
  imports Board_Workflows Power_On_Reset
begin

text \<open>
  The boards whose CPU has a memory bus for its CFU: the Arty
  (\<^verbatim>\<open>python/custom_boards/targets/digilent_arty_cfu_ram.py\<close>) and the OrangeCrab
  (\<^verbatim>\<open>python/custom_boards/targets/gsd_orangecrab_cfu_ram.py\<close>): clock and reset generators, SoC constructors and
  command lines. Frequencies are in Hz; what a platform has is a parameter.
\<close>

text \<open>
  What the framework provides: whether a loosely requested resource exists, whether pads have a
  signal, the argument dictionaries, and the name of a bitstream for a mode.
\<close>

record target_world =
  has_resource :: "string \<Rightarrow> bool"
  pads_have :: "string \<Rightarrow> string \<Rightarrow> bool"
  target_soc_argdict :: "py_val dict \<Rightarrow> py_val dict"
  target_builder_argdict :: "py_val dict \<Rightarrow> py_val dict"
  toolchain_argdict :: "py_val dict \<Rightarrow> py_val dict"
  bitstream_filename :: "string \<Rightarrow> string"

section \<open>Clock and reset generators of the OrangeCrab\<close>

definition clock_domain :: "string \<Rightarrow> soc_op" where
  "clock_domain cd = Call ''clock_domains'' [PStr cd]"

definition clkout :: "string \<Rightarrow> string \<Rightarrow> int \<Rightarrow> soc_op" where
  "clkout pll cd freq = Call (pll @ ''.create_clkout'') [PStr cd, PInt freq]"

text \<open>\<open>rst_n\<close>: the button, or the constant 1 on a board without one.\<close>

definition button_n :: "target_world \<Rightarrow> string" where
  "button_n w = (if has_resource w ''usr_btn'' then ''usr_btn'' else ''1'')"

definition orangecrab_por_ops :: "soc_op list" where
  "orangecrab_por_ops =
    [Connect ''cd_por.clk'' ''clk48'', Connect ''por_done'' ''por_count == 0'',
     Call ''sync.por'' [PRef ''If(~por_done, por_count.eq(por_count - 1))'']]"

definition orangecrab_usb_ops :: "bool \<Rightarrow> soc_op list" where
  "orangecrab_usb_ops with_usb_pll =
     (if with_usb_pll then
        [clock_domain ''usb_12'', clock_domain ''usb_48'', Call ''usb_pll = ECP5PLL'' [],
         Connect ''usb_pll.reset'' ''~por_done'',
         Call ''usb_pll.register_clkin'' [PRef ''clk48'', PInt 48000000],
         clkout ''usb_pll'' ''usb_48'' 48000000, clkout ''usb_pll'' ''usb_12'' 12000000]
      else [])"

definition orangecrab_timer_ops :: "target_world \<Rightarrow> soc_op list" where
  "orangecrab_timer_ops w =
    [Call ''reset_timer = WaitTimer'' [PInt 48000000, PKw ''domain'' (PStr ''por'')],
     Connect ''reset_timer.wait'' (''~'' @ button_n w),
     Call ''platform.request'' [PStr ''rst_n''],
     Connect ''rst_n'' ''~reset_timer.done'']"

definition orangecrab_clk_rst_ops :: "target_world \<Rightarrow> soc_op list" where
  "orangecrab_clk_rst_ops w =
     Call ''platform.request'' [PStr ''clk48''] #
     (if has_resource w ''usr_btn'' then [Call ''platform.request'' [PStr ''usr_btn'']] else [])"

definition orangecrab_pll_ops :: "target_world \<Rightarrow> soc_op list" where
  "orangecrab_pll_ops w =
    [Call ''pll = ECP5PLL'' [],
     Connect ''pll.reset'' (''~por_done | ~'' @ button_n w @ '' | rst''),
     Call ''pll.register_clkin'' [PRef ''clk48'', PInt 48000000]]"

definition CRG_orangecrab :: "target_world \<Rightarrow> int \<Rightarrow> bool \<Rightarrow> soc_op list" where
  "CRG_orangecrab w sys_clk_freq with_usb_pll =
     [clock_domain ''por'', clock_domain ''sys''] @ orangecrab_clk_rst_ops w @ orangecrab_por_ops @
     orangecrab_pll_ops w @ [clkout ''pll'' ''sys'' sys_clk_freq] @
     orangecrab_usb_ops with_usb_pll @ orangecrab_timer_ops w"

definition CRGSDRAM_orangecrab :: "target_world \<Rightarrow> int \<Rightarrow> bool \<Rightarrow> soc_op list" where
  "CRGSDRAM_orangecrab w sys_clk_freq with_usb_pll =
     map clock_domain [''init'', ''por'', ''sys'', ''sys2x'', ''sys2x_i''] @
     [Call ''Signal'' [PStr ''crg.stop''], Call ''Signal'' [PStr ''crg.reset'']] @
     orangecrab_clk_rst_ops w @ orangecrab_por_ops @ orangecrab_pll_ops w @
     [clkout ''pll'' ''sys2x_i'' (2 * sys_clk_freq), clkout ''pll'' ''init'' 24000000,
      Call ''Instance'' [PStr ''ECLKBRIDGECS'', PKw ''i_CLK0'' (PRef ''sys2x_i''), PKw ''i_SEL'' (PInt 0),
        PKw ''o_ECSOUT'' (PRef ''sys2x_clk_ecsout'')],
      Call ''Instance'' [PStr ''ECLKSYNCB'', PKw ''i_ECLKI'' (PRef ''sys2x_clk_ecsout''),
        PKw ''i_STOP'' (PRef ''crg.stop''), PKw ''o_ECLKO'' (PRef ''sys2x'')],
      Call ''Instance'' [PStr ''CLKDIVF'', PKw ''p_DIV'' (PStr ''2.0''), PKw ''i_ALIGNWD'' (PInt 0),
        PKw ''i_CLKI'' (PRef ''sys2x''), PKw ''i_RST'' (PRef ''crg.reset''), PKw ''o_CDIVX'' (PRef ''sys'')],
      Call ''AsyncResetSynchronizer'' [PStr ''sys'', PRef ''~pll.locked | crg.reset'']] @
     orangecrab_usb_ops with_usb_pll @ orangecrab_timer_ops w"

text \<open>The reset inputs of the two PLLs, cycle by cycle of the 48 MHz clock.\<close>

definition orangecrab_por_init :: "16 word" where
  "orangecrab_por_init = of_nat (2 ^ 16 - 1)"

definition pll_reset :: "16 word \<Rightarrow> bool \<Rightarrow> bool \<Rightarrow> bool" where
  "pll_reset por_count rst_n rst \<longleftrightarrow> por_reset por_count \<or> \<not> rst_n \<or> rst"

definition usb_pll_reset :: "16 word \<Rightarrow> bool" where
  "usb_pll_reset por_count \<longleftrightarrow> por_reset por_count"

section \<open>The SoC of the OrangeCrab\<close>

definition orangecrab_params :: "py_val dict" where
  "orangecrab_params =
    [(''revision'', PStr ''0.2''), (''device'', PStr ''25F''), (''sdram_device'', PStr ''MT41K64M16''),
     (''sys_clk_freq'', PInt 48000000), (''toolchain'', PStr ''trellis''), (''with_led_chaser'', PBool True)]"

definition call_params :: "py_val dict \<Rightarrow> py_val dict \<Rightarrow> py_val dict" where
  "call_params params kw = dict_update params (filter (\<lambda>(k, _). dict_has params k) kw)"

definition rest_kwargs :: "py_val dict \<Rightarrow> py_val dict \<Rightarrow> py_val dict" where
  "rest_kwargs params kw = filter (\<lambda>(k, _). \<not> dict_has params k) kw"

text \<open>A frequency in whole Hz; the main programs pass an integer, the workflows a float.\<close>

fun int_arg :: "py_val \<Rightarrow> int" where
  "int_arg (PInt n) = n"
| "int_arg (PFloat (Finite m e)) = trunc_double m e"
| "int_arg _ = 0"

definition sdram_modules :: "string list" where
  "sdram_modules = [''MT41K64M16'', ''MT41K128M16'', ''MT41K256M16'', ''MT41K512M16'']"

definition orangecrab_sdram_ops :: "target_world \<Rightarrow> py_val dict \<Rightarrow> py_val dict \<Rightarrow> soc_op list result" where
  "orangecrab_sdram_ops w p kwargs =
     (let device = str_arg (arg_val p ''sdram_device''); freq = int_arg (arg_val p ''sys_clk_freq'') in
      if \<not> truthy (dict_get kwargs ''integrated_main_ram_size'' (PInt 0)) then
        if device \<in> set sdram_modules then
          Inr ([Call ''platform.request'' [PStr ''ddram''],
            Call ''ddrphy = ECP5DDRPHY'' [PKw ''pads'' (PRef ''ddram''), PKw ''sys_clk_freq'' (PInt freq),
              PKw ''dm_remapping'' (PList [PInt 1, PInt 0]),
              PKw ''cmd_delay'' (PInt (if freq > 64000000 then 0 else 100))],
            SetAttr ''ddrphy.settings.rtt_nom'' (PStr ''disabled'')] @
           (if pads_have w ''ddram'' ''vccio'' then [Connect ''ddram.vccio'' ''0b111111''] else []) @
           (if pads_have w ''ddram'' ''gnd'' then [Connect ''ddram.gnd'' ''0''] else []) @
           [Connect ''crg.stop'' ''ddrphy.init.stop'', Connect ''crg.reset'' ''ddrphy.init.reset'',
            Call ''add_sdram'' [PStr ''sdram'', PKw ''phy'' (PRef ''ddrphy''),
              PKw ''module'' (PList [PStr device, PInt freq, PStr ''1:2'']),
              PKw ''l2_cache_size'' (dict_get kwargs ''l2_size'' (PInt 8192))]])
        else Inl (TypeError '''NoneType' object is not callable'')
      else Inr [])"

definition led_ops :: "py_val dict \<Rightarrow> soc_op list" where
  "led_ops p =
     (if flag_set p ''with_led_chaser''
      then [Call ''platform.request_all'' [PStr ''user_led''],
        Call ''leds = LedChaser'' [PKw ''pads'' (PRef ''user_led''),
          PKw ''sys_clk_freq'' (arg_val p ''sys_clk_freq'')]] else [])"

definition orangecrab_crg :: "target_world \<Rightarrow> py_val dict \<Rightarrow> py_val dict \<Rightarrow> soc_op list" where
  "orangecrab_crg w p kwargs =
     (if is_zero (dict_get kwargs ''integrated_main_ram_size'' (PInt 0))
      then CRGSDRAM_orangecrab w (int_arg (arg_val p ''sys_clk_freq'')) True
      else CRG_orangecrab w (int_arg (arg_val p ''sys_clk_freq'')) True)"

definition BaseSoC_orangecrab :: "target_world \<Rightarrow> py_val dict \<Rightarrow> soc_op list result" where
  "BaseSoC_orangecrab w kw =
     (let p = call_params orangecrab_params kw; kwargs = rest_kwargs orangecrab_params kw;
          freq = arg_val p ''sys_clk_freq'';
          core_kwargs = AList.update ''uart_name'' (PStr ''usb_acm'') kwargs in
      bindE (SoCCore_init freq ''LiteX SoC on OrangeCrab'' core_kwargs) (\<lambda>core.
      bindE (orangecrab_sdram_ops w p core_kwargs) (\<lambda>sdram.
        Inr ([Call ''gsd_orangecrab.Platform'' [PKw ''revision'' (arg_val p ''revision''),
            PKw ''device'' (arg_val p ''device''), PKw ''toolchain'' (arg_val p ''toolchain'')]] @
          orangecrab_crg w p kwargs @
          [Call ''cpu.CPUS.update'' [PKw ''vexriscv'' (PRef ''VexRiscvCFURAM'')], core] @
          sdram @ led_ops p))))"

section \<open>The command line of the OrangeCrab\<close>

definition orangecrab_options :: "option_spec list" where
  "orangecrab_options =
    [store_true ''--build'', store_true ''--load'', store_opt ''--toolchain'' (PStr ''trellis''),
     store_opt ''--sys-clk-freq'' (PFloat (Finite 48000000 0)), store_opt ''--revision'' (PStr ''0.2''),
     store_opt ''--device'' (PStr ''25F''), store_opt ''--sdram-device'' (PStr ''MT41K64M16''),
     store_true ''--with-spi-sdcard'']"

definition orangecrab_parser :: "option_spec list \<Rightarrow> parser_spec" where
  "orangecrab_parser fw =
     \<lparr>parser_options = orangecrab_options @ fw, parser_positionals = [], exclusive_groups = []\<rparr>"

definition load_ops :: "target_world \<Rightarrow> soc_op list" where
  "load_ops w = [Call ''prog = platform.create_programmer'' [],
     Call ''prog.load_bitstream'' [PStr (bitstream_filename w ''sram'')]]"

definition orangecrab_build_ops :: "target_world \<Rightarrow> py_val dict \<Rightarrow> soc_op list" where
  "orangecrab_build_ops w args =
     (if flag_set args ''with_spi_sdcard'' then [Call ''add_spi_sdcard'' []] else []) @
     [Call ''Builder'' (PRef ''soc'' # kw_args (target_builder_argdict w args))] @
     (if flag_set args ''build''
      then [Call ''builder.build'' (kw_args
        (if arg_val args ''toolchain'' = PStr ''trellis'' then toolchain_argdict w args else []))]
      else []) @
     (if flag_set args ''load'' then load_ops w else [])"

definition orangecrab_main :: "target_world \<Rightarrow> py_val dict \<Rightarrow> soc_op list result" where
  "orangecrab_main w args =
     bindE (float_int (arg_val args ''sys_clk_freq'')) (\<lambda>sys_clk_freq.
     bindE (call_kwargs
       [(''toolchain'', arg_val args ''toolchain''), (''revision'', arg_val args ''revision''),
        (''device'', arg_val args ''device''), (''sdram_device'', arg_val args ''sdram_device''),
        (''sys_clk_freq'', PInt sys_clk_freq)] (target_soc_argdict w args)) (\<lambda>kw.
     bindE (BaseSoC_orangecrab w kw) (\<lambda>soc. Inr (soc @ orangecrab_build_ops w args))))"

definition orangecrab_main_argv :: "target_world \<Rightarrow> option_spec list \<Rightarrow> string list \<Rightarrow> soc_op list result" where
  "orangecrab_main_argv w fw argv =
     bindE (parse_args (orangecrab_parser fw) (parser_defaults (orangecrab_parser fw)) argv)
       (orangecrab_main w)"

section \<open>The Arty\<close>

definition CRG_arty :: "int \<Rightarrow> bool \<Rightarrow> bool \<Rightarrow> soc_op list" where
  "CRG_arty sys_clk_freq with_dram with_rst =
     map clock_domain ([''sys'', ''eth''] @ (if with_dram then [''sys4x'', ''sys4x_dqs'', ''idelay''] else [])) @
     [Call ''platform.request'' [PStr ''clk100'']] @
     (if with_rst then [Call ''platform.request'' [PStr ''cpu_reset'']] else []) @
     [Call ''pll = S7PLL'' [PKw ''speedgrade'' (PInt (- 1))],
      Connect ''pll.reset'' ((if with_rst then ''~cpu_reset'' else ''0'') @ '' | rst''),
      Call ''pll.register_clkin'' [PRef ''clk100'', PInt 100000000],
      clkout ''pll'' ''sys'' sys_clk_freq, clkout ''pll'' ''eth'' 25000000,
      Call ''platform.request'' [PStr ''eth_ref_clk''], Connect ''eth_ref_clk'' ''cd_eth.clk'',
      Call ''platform.add_false_path_constraints'' [PRef ''cd_sys.clk'', PRef ''pll.clkin'']] @
     (if with_dram
      then [clkout ''pll'' ''sys4x'' (4 * sys_clk_freq),
        Call ''pll.create_clkout'' [PStr ''sys4x_dqs'', PInt (4 * sys_clk_freq), PKw ''phase'' (PInt 90)],
        clkout ''pll'' ''idelay'' 200000000,
        Call ''idelayctrl = S7IDELAYCTRL'' [PRef ''cd_idelay'']] else [])"

definition arty_params :: "py_val dict" where
  "arty_params =
    [(''variant'', PStr ''a7-35''), (''toolchain'', PStr ''vivado''), (''sys_clk_freq'', PInt 100000000),
     (''with_ethernet'', PBool False), (''with_etherbone'', PBool False), (''eth_ip'', PStr ''192.168.1.50''),
     (''eth_dynamic_ip'', PBool False), (''with_led_chaser'', PBool True), (''with_jtagbone'', PBool True),
     (''with_spi_flash'', PBool False), (''with_pmod_gpio'', PBool False)]"

definition arty_sdram_ops :: "int \<Rightarrow> py_val dict \<Rightarrow> soc_op list" where
  "arty_sdram_ops freq kwargs =
     (if \<not> truthy (dict_get kwargs ''integrated_main_ram_size'' (PInt 0)) then
        [Call ''platform.request'' [PStr ''ddram''],
         Call ''ddrphy = A7DDRPHY'' [PRef ''ddram'', PKw ''memtype'' (PStr ''DDR3''), PKw ''nphases'' (PInt 4),
           PKw ''sys_clk_freq'' (PInt freq)],
         Call ''add_sdram'' [PStr ''sdram'', PKw ''phy'' (PRef ''ddrphy''),
           PKw ''module'' (PList [PStr ''MT41K128M16'', PInt freq, PStr ''1:4'']),
           PKw ''l2_cache_size'' (dict_get kwargs ''l2_size'' (PInt 8192))]]
      else [])"

definition arty_eth_ops :: "py_val dict \<Rightarrow> soc_op list" where
  "arty_eth_ops p =
     (if flag_set p ''with_ethernet'' \<or> flag_set p ''with_etherbone'' then
        [Call ''platform.request'' [PStr ''eth_clocks''], Call ''platform.request'' [PStr ''eth''],
         Call ''ethphy = LiteEthPHYMII'' [PKw ''clock_pads'' (PRef ''eth_clocks''), PKw ''pads'' (PRef ''eth'')]] @
        (if flag_set p ''with_ethernet''
         then [Call ''add_ethernet'' [PKw ''phy'' (PRef ''ethphy''),
           PKw ''dynamic_ip'' (arg_val p ''eth_dynamic_ip'')]] else []) @
        (if flag_set p ''with_etherbone''
         then [Call ''add_etherbone'' [PKw ''phy'' (PRef ''ethphy''),
           PKw ''ip_address'' (arg_val p ''eth_ip'')]] else [])
      else [])"

definition arty_peripheral_ops :: "py_val dict \<Rightarrow> soc_op list" where
  "arty_peripheral_ops p =
     (if flag_set p ''with_jtagbone'' then [Call ''add_jtagbone'' []] else []) @
     (if flag_set p ''with_spi_flash''
      then [Call ''add_spi_flash'' [PKw ''mode'' (PStr ''4x''), PKw ''module'' (PStr ''S25FL128L(READ_1_1_4)''),
        PKw ''rate'' (PStr ''1:2''), PKw ''with_master'' (PBool True)]] else []) @
     led_ops p @
     (if flag_set p ''with_pmod_gpio''
      then [Call ''platform.add_extension'' [PRef ''raw_pmod_io(pmoda)''],
        Call ''platform.request'' [PStr ''pmoda''], Call ''gpio = GPIOTristate'' [PRef ''pmoda'']] else [])"

definition BaseSoC_arty :: "py_val dict \<Rightarrow> soc_op list result" where
  "BaseSoC_arty kw =
     (let p = call_params arty_params kw; kwargs = rest_kwargs arty_params kw;
          freq = int_arg (arg_val p ''sys_clk_freq'') in
      bindE (SoCCore_init (arg_val p ''sys_clk_freq'') ''LiteX SoC on Arty A7'' kwargs) (\<lambda>core.
        Inr ([Call ''digilent_arty.Platform'' [PKw ''variant'' (arg_val p ''variant''),
           PKw ''toolchain'' (arg_val p ''toolchain'')]] @
        CRG_arty freq (is_zero (dict_get kwargs ''integrated_main_ram_size'' (PInt 0))) True @
        [Call ''cpu.CPUS.update'' [PKw ''vexriscv'' (PRef ''VexRiscvCFURAM'')], core] @
        arty_sdram_ops freq kwargs @ arty_eth_ops p @ arty_peripheral_ops p)))"

definition arty_options :: "option_spec list" where
  "arty_options =
    [store_opt ''--toolchain'' (PStr ''vivado''), store_true ''--build'', store_true ''--load'',
     store_true ''--flash'', store_opt ''--variant'' (PStr ''a7-35''),
     store_opt ''--sys-clk-freq'' (PFloat (Finite 100000000 0)), store_true ''--with-ethernet'',
     store_true ''--with-etherbone'', store_opt ''--eth-ip'' (PStr ''192.168.1.50''),
     store_true ''--eth-dynamic-ip'', store_true ''--with-spi-sdcard'', store_true ''--with-sdcard'',
     store_opt ''--sdcard-adapter'' PNone, store_true ''--with-jtagbone'', store_true ''--with-spi-flash'',
     store_true ''--with-pmod-gpio'']"

definition arty_main_parser :: "option_spec list \<Rightarrow> parser_spec" where
  "arty_main_parser fw =
     \<lparr>parser_options = arty_options @ fw, parser_positionals = [],
      exclusive_groups = [[''with_ethernet'', ''with_etherbone''], [''with_spi_sdcard'', ''with_sdcard'']]\<rparr>"

definition arty_soc_kwargs :: "int \<Rightarrow> py_val dict \<Rightarrow> py_val dict" where
  "arty_soc_kwargs sys_clk_freq args =
     [(''variant'', arg_val args ''variant''), (''toolchain'', arg_val args ''toolchain''),
      (''sys_clk_freq'', PInt sys_clk_freq)] @
     map (\<lambda>k. (k, arg_val args k))
       [''with_ethernet'', ''with_etherbone'', ''eth_ip'', ''eth_dynamic_ip'', ''with_jtagbone'',
        ''with_spi_flash'', ''with_pmod_gpio'']"

text \<open>What \<open>main\<close> does with a finished SoC: the SD card, the build, loading and flashing.\<close>

definition arty_build_ops :: "target_world \<Rightarrow> py_val dict \<Rightarrow> soc_op list" where
  "arty_build_ops w args =
     [Call ''platform.add_extension''
        [PRef (if arg_val args ''sdcard_adapter'' = PStr ''numato''
          then ''_numato_sdcard_pmod_io'' else ''_sdcard_pmod_io'')]] @
     (if flag_set args ''with_spi_sdcard'' then [Call ''add_spi_sdcard'' []] else []) @
     (if flag_set args ''with_sdcard'' then [Call ''add_sdcard'' []] else []) @
     [Call ''Builder'' (PRef ''soc'' # kw_args (target_builder_argdict w args))] @
     (if flag_set args ''build''
      then [Call ''builder.build'' (kw_args
        (if arg_val args ''toolchain'' = PStr ''vivado'' then toolchain_argdict w args else []))]
      else []) @
     (if flag_set args ''load'' then load_ops w else []) @
     (if flag_set args ''flash''
      then [Call ''prog = platform.create_programmer'' [],
        Call ''prog.flash'' [PInt 0, PStr (bitstream_filename w ''flash'')]] else [])"

definition arty_main :: "target_world \<Rightarrow> py_val dict \<Rightarrow> soc_op list result" where
  "arty_main w args =
     bindE (assertE (\<not> (flag_set args ''with_etherbone'' \<and> flag_set args ''eth_dynamic_ip'')) '''') (\<lambda>_.
     bindE (float_int (arg_val args ''sys_clk_freq'')) (\<lambda>sys_clk_freq.
     bindE (call_kwargs (arty_soc_kwargs sys_clk_freq args) (target_soc_argdict w args)) (\<lambda>kw.
     bindE (BaseSoC_arty kw) (\<lambda>soc. Inr (soc @ arty_build_ops w args)))))"

definition arty_main_argv :: "target_world \<Rightarrow> option_spec list \<Rightarrow> string list \<Rightarrow> soc_op list result" where
  "arty_main_argv w fw argv =
     bindE (parse_args (arty_main_parser fw) (parser_defaults (arty_main_parser fw)) argv) (arty_main w)"

end
