(* ===== verification/Cfu_Ram_Core.thy ===== *)
theory Cfu_Ram_Core
  imports Cfu_Unit Soc_Ops
begin

text \<open>
  The CPU with a memory bus for its CFU (\<^verbatim>\<open>python/vexriscv_cfu_ram/core.py\<close>): the parameters of the two
  instances, CPU and CFU, and the bus between them. A parameter \<open>i_x\<close> connects an input \<open>x\<close> of the
  instance to a signal, \<open>o_x\<close> an output. Signals are named by their path; the fields of a Wishbone
  interface are those that the code uses.
\<close>

section \<open>Record layouts\<close>

datatype layout = Bits nat | Fields "(string \<times> layout) list"

text \<open>The signals of a record: path and width.\<close>

fun layout_signals :: "string \<Rightarrow> layout \<Rightarrow> (string \<times> nat) list" where
  "layout_signals path (Bits n) = [(path, n)]"
| "layout_signals path (Fields fs) = concat (map (\<lambda>(f, l). layout_signals (path @ ''.'' @ f) l) fs)"

definition cfu_bus_layout :: layout where
  "cfu_bus_layout = Fields
    [(''cmd'', Fields
       [(''valid'', Bits 1), (''ready'', Bits 1),
        (''payload'', Fields [(''function_id'', Bits 10), (''inputs_0'', Bits 32), (''inputs_1'', Bits 32)])]),
     (''rsp'', Fields
       [(''valid'', Bits 1), (''ready'', Bits 1),
        (''payload'', Fields [(''outputs_0'', Bits 32)])])]"

definition cfu_bus_signals :: "(string \<times> nat) list" where
  "cfu_bus_signals = layout_signals ''cfu_bus'' cfu_bus_layout"

section \<open>The CPU\<close>

record cfu_ram_core =
  core_variant :: string
  human_name :: string
  external_variant :: "string option"
  periph_buses :: "string list"
  memory_buses :: "string list"
  cpu_params :: "string dict"
  cfu_params :: "string dict option"
  core_calls :: "soc_op list"

text \<open>A Wishbone master port of an instance: prefix of the port, suffixes of its data ports, the bus.\<close>

definition cpu_bus_params :: "string \<Rightarrow> string \<Rightarrow> string dict" where
  "cpu_bus_params port bus =
    [(''o_'' @ port @ ''_ADR'', bus @ ''.adr''), (''o_'' @ port @ ''_DAT_MOSI'', bus @ ''.dat_w''),
     (''o_'' @ port @ ''_SEL'', bus @ ''.sel''), (''o_'' @ port @ ''_CYC'', bus @ ''.cyc''),
     (''o_'' @ port @ ''_STB'', bus @ ''.stb''), (''o_'' @ port @ ''_WE'', bus @ ''.we''),
     (''o_'' @ port @ ''_CTI'', bus @ ''.cti''), (''o_'' @ port @ ''_BTE'', bus @ ''.bte''),
     (''i_'' @ port @ ''_DAT_MISO'', bus @ ''.dat_r''), (''i_'' @ port @ ''_ACK'', bus @ ''.ack''),
     (''i_'' @ port @ ''_ERR'', bus @ ''.err'')]"

definition base_cpu_params :: "string dict" where
  "base_cpu_params =
    [(''i_clk'', ''ClockSignal(sys)''), (''i_reset'', ''ResetSignal(sys) | reset''),
     (''i_externalInterruptArray'', ''interrupt''), (''i_timerInterrupt'', ''0''),
     (''i_softwareInterrupt'', ''0'')] @
    cpu_bus_params ''iBusWishbone'' ''ibus'' @ cpu_bus_params ''dBusWishbone'' ''dbus''"

definition VexRiscvCFURAM :: "string dict \<Rightarrow> string \<Rightarrow> bool \<Rightarrow> cfu_ram_core" where
  "VexRiscvCFURAM variants variant with_timer =
     \<lparr>core_variant = variant, human_name = dict_get variants variant ''VexRiscv'', external_variant = None,
      periph_buses = [''cfu_mem'', ''ibus'', ''dbus''], memory_buses = [],
      cpu_params = base_cpu_params, cfu_params = None,
      core_calls = (if with_timer then [Call ''add_timer'' []] else []) @
        (if contains ''debug'' variant then [Call ''add_debug'' []] else [])\<rparr>"

section \<open>Adding the CFU\<close>

definition cfu_instance_params :: "string dict" where
  "cfu_instance_params =
    [(''i_cmd_valid'', ''cfu_bus.cmd.valid''), (''o_cmd_ready'', ''cfu_bus.cmd.ready''),
     (''i_cmd_payload_function_id'', ''cfu_bus.cmd.payload.function_id''),
     (''i_cmd_payload_inputs_0'', ''cfu_bus.cmd.payload.inputs_0''),
     (''i_cmd_payload_inputs_1'', ''cfu_bus.cmd.payload.inputs_1''),
     (''o_rsp_valid'', ''cfu_bus.rsp.valid''), (''i_rsp_ready'', ''cfu_bus.rsp.ready''),
     (''o_rsp_payload_outputs_0'', ''cfu_bus.rsp.payload.outputs_0''),
     (''i_clk'', ''ClockSignal(sys)''), (''i_reset'', ''ResetSignal(sys)''),
     (''o_cfu_ram_adr'', ''cfu_mem.adr''), (''o_cfu_ram_dat_mosi'', ''cfu_mem.dat_w''),
     (''o_cfu_ram_sel'', ''cfu_mem.sel''), (''o_cfu_ram_cyc'', ''cfu_mem.cyc''),
     (''o_cfu_ram_stb'', ''cfu_mem.stb''), (''o_cfu_ram_we'', ''cfu_mem.we''),
     (''o_cfu_ram_cti'', ''cfu_mem.cti''), (''o_cfu_ram_bte'', ''cfu_mem.bte''),
     (''i_cfu_ram_dat_miso'', ''cfu_mem.dat_r''), (''i_cfu_ram_ack'', ''cfu_mem.ack''),
     (''i_cfu_ram_err'', ''cfu_mem.err'')]"

definition cpu_cfu_params :: "string dict" where
  "cpu_cfu_params =
    [(''o_CfuPlugin_bus_cmd_valid'', ''cfu_bus.cmd.valid''),
     (''i_CfuPlugin_bus_cmd_ready'', ''cfu_bus.cmd.ready''),
     (''o_CfuPlugin_bus_cmd_payload_function_id'', ''cfu_bus.cmd.payload.function_id''),
     (''o_CfuPlugin_bus_cmd_payload_inputs_0'', ''cfu_bus.cmd.payload.inputs_0''),
     (''o_CfuPlugin_bus_cmd_payload_inputs_1'', ''cfu_bus.cmd.payload.inputs_1''),
     (''i_CfuPlugin_bus_rsp_valid'', ''cfu_bus.rsp.valid''),
     (''o_CfuPlugin_bus_rsp_ready'', ''cfu_bus.rsp.ready''),
     (''i_CfuPlugin_bus_rsp_payload_outputs_0'', ''cfu_bus.rsp.payload.outputs_0'')]"

definition add_cfu :: "(string \<Rightarrow> bool) \<Rightarrow> string \<Rightarrow> cfu_ram_core \<Rightarrow> cfu_ram_core result" where
  "add_cfu exists cfu_filename c =
     (if \<not> exists cfu_filename
      then Inl (OSError (''Unable to find VexRiscv CFU plugin '' @ cfu_filename @ ''.''))
      else Inr (c\<lparr>cfu_params := Some cfu_instance_params,
        core_calls := core_calls c @ [Call ''platform.add_source'' [PStr cfu_filename]],
        cpu_params := dict_update (cpu_params c) cpu_cfu_params\<rparr>))"

section \<open>Well-typed connections\<close>

definition outputs_to :: "string \<Rightarrow> string dict \<Rightarrow> string list" where
  "outputs_to sig ps = map fst (filter (\<lambda>(p, s). s = sig \<and> prefix ''o_'' p) ps)"

definition inputs_from :: "string \<Rightarrow> string dict \<Rightarrow> string list" where
  "inputs_from sig ps = map fst (filter (\<lambda>(p, s). s = sig \<and> prefix ''i_'' p) ps)"

text \<open>A signal between two instances: one drives it and the other reads it.\<close>

definition point_to_point :: "string \<Rightarrow> string dict \<Rightarrow> string dict \<Rightarrow> bool" where
  "point_to_point sig ps qs \<longleftrightarrow>
     length (outputs_to sig (ps @ qs)) = 1 \<and> length (inputs_from sig (ps @ qs)) = 1 \<and>
     (outputs_to sig ps = [] \<longleftrightarrow> inputs_from sig qs = []) \<and>
     (outputs_to sig qs = [] \<longleftrightarrow> inputs_from sig ps = [])"

text \<open>A port of the module with the signal that the instance connects to it.\<close>

definition port_signal :: "string dict \<Rightarrow> string \<Rightarrow> string option" where
  "port_signal ps port = map_of (map (\<lambda>(p, s). (drop 2 p, s)) ps) port"

lemma base_params_of_core: "cpu_params (VexRiscvCFURAM vs v t) = base_cpu_params"
  by (simp add: VexRiscvCFURAM_def)

lemma updated_params:
  "dict_update base_cpu_params cpu_cfu_params = base_cpu_params @ cpu_cfu_params"
  by (simp add: base_cpu_params_def cpu_cfu_params_def cpu_bus_params_def dict_update_def)

lemma bus_signals_wired:
  "list_all (\<lambda>(sig, _). point_to_point sig (base_cpu_params @ cpu_cfu_params) cfu_instance_params)
     cfu_bus_signals"
  by code_simp

lemma ports_typed:
  "list_all (\<lambda>(port, n). case port_signal cfu_instance_params port of None \<Rightarrow> prefix ''port'' port
     | Some sig \<Rightarrow> map_of cfu_bus_signals sig = Some n \<or> sig = ''ResetSignal(sys)'') cfu_ports"
  by code_simp

lemma ports_missing:
  "filter (\<lambda>(p, _). drop 2 p \<notin> fst ` set cfu_ports) cfu_instance_params =
   (''i_clk'', ''ClockSignal(sys)'') # drop 10 cfu_instance_params"
  by code_simp

lemma bus_params_kept: "list_all (\<lambda>(p, sig). map_of (base_cpu_params @ cpu_cfu_params) p = Some sig) base_cpu_params"
  by code_simp

lemma add_cfu_cases:
  "exists fn \<Longrightarrow> add_cfu exists fn (VexRiscvCFURAM vs v t) =
    Inr ((VexRiscvCFURAM vs v t)\<lparr>cfu_params := Some cfu_instance_params,
      core_calls := core_calls (VexRiscvCFURAM vs v t) @ [Call ''platform.add_source'' [PStr fn]],
      cpu_params := base_cpu_params @ cpu_cfu_params\<rparr>)"
  "\<not> exists fn \<Longrightarrow> add_cfu exists fn c =
    Inl (OSError (''Unable to find VexRiscv CFU plugin '' @ fn @ ''.''))"
  by (simp_all add: add_cfu_def base_params_of_core updated_params)

text \<open>
  C12: the bus between CPU and CFU is well typed. Adding a CFU succeeds exactly when its file exists.
  Then every signal of the bus is driven by exactly one of the two instances and read by the other;
  every port of the generated CFU that the instance connects has the width of its bus signal, and
  only the ports into the arena are left open; and the other parameters of the CPU are kept.
\<close>

theorem cfu_bus_well_typed:
  "case add_cfu exists fn (VexRiscvCFURAM vs v t) of
     Inl e \<Rightarrow> \<not> exists fn \<and> e = OSError (''Unable to find VexRiscv CFU plugin '' @ fn @ ''.'')
   | Inr c \<Rightarrow> exists fn \<and>
       list_all (\<lambda>(sig, _). point_to_point sig (cpu_params c) (the (cfu_params c))) cfu_bus_signals \<and>
       list_all (\<lambda>(port, n). case port_signal (the (cfu_params c)) port of
           None \<Rightarrow> prefix ''port'' port
         | Some sig \<Rightarrow> map_of cfu_bus_signals sig = Some n \<or> sig = ''ResetSignal(sys)'') cfu_ports \<and>
       list_all (\<lambda>(p, sig). map_of (cpu_params c) p = Some sig) base_cpu_params"
  using bus_signals_wired ports_typed bus_params_kept
  by (cases "exists fn") (simp_all add: add_cfu_cases del: map_of_append)

text \<open>
  Which CFUs fit. The parameters of the CFU instance that name no port of the generated
  module are its clock and exactly the eleven of the memory bus: a CFU generated by
  \<open>amaranth_cfu\<close> lacks these ports, so this CPU only works with CFUs that add them.
\<close>

theorem cfu_ram_ports_missing:
  "case add_cfu exists fn (VexRiscvCFURAM vs v t) of
     Inl _ \<Rightarrow> \<not> exists fn
   | Inr c \<Rightarrow> let missing = filter (\<lambda>(p, _). drop 2 p \<notin> fst ` set cfu_ports) (the (cfu_params c)) in
       (''i_clk'', ''ClockSignal(sys)'') \<in> set missing \<and> length missing = 12 \<and>
       list_all (\<lambda>(p, sig). p = ''i_clk'' \<or>
         prefix ''cfu_ram_'' (drop 2 p) \<and> prefix ''cfu_mem.'' sig) missing"
proof (cases "exists fn")
  case True
  then show ?thesis
    by (simp add: add_cfu_cases ports_missing Let_def) (simp add: cfu_instance_params_def)
qed (simp add: add_cfu_cases)

end
