(* ===== verification/Target_Properties.thy ===== *)
theory Target_Properties
  imports Board_Targets Cfu_Ram_Core
begin

text \<open>
  Properties of the boards with a memory bus for the CFU: the frequencies of the clock domains, the
  memory PHYs and the clocks they need, the resets, and the options that exclude each other.
\<close>

section \<open>Clock frequencies\<close>

text \<open>
  The frequencies of the domains that a list of operations clocks: PLL outputs, and the clock
  primitives of the ECP5, of which bridge and synchroniser pass the clock on and the divider
  divides it by two.
\<close>

definition instance_pin :: "py_val list \<Rightarrow> string \<Rightarrow> string" where
  "instance_pin ps k = concat (map (\<lambda>p. case p of PKw n (PRef s) \<Rightarrow> if n = k then s else [] | _ \<Rightarrow> []) ps)"

fun clock_step :: "soc_op \<Rightarrow> (string \<rightharpoonup> int) \<Rightarrow> (string \<rightharpoonup> int)" where
  "clock_step (Call f (PStr s # args)) m =
     (if suffix ''.create_clkout'' f then
        (case args of PInt freq # _ \<Rightarrow> m(s \<mapsto> freq) | _ \<Rightarrow> m)
      else if f = ''Instance'' then
        (if s = ''ECLKBRIDGECS'' then m(instance_pin args ''o_ECSOUT'' := m (instance_pin args ''i_CLK0''))
         else if s = ''ECLKSYNCB'' then m(instance_pin args ''o_ECLKO'' := m (instance_pin args ''i_ECLKI''))
         else if s = ''CLKDIVF'' then
           m(instance_pin args ''o_CDIVX'' := map_option (\<lambda>x. x div 2) (m (instance_pin args ''i_CLKI'')))
         else m)
      else m)"
| "clock_step _ m = m"

definition clock_freqs :: "soc_op list \<Rightarrow> (string \<rightharpoonup> int)" where
  "clock_freqs ops = fold clock_step ops Map.empty"

text \<open>
  The clocks of the boards. With any frequency the system domain of all three generators runs
  at exactly that frequency, also where it is divided from the DDR clock; the DDR domains run at
  twice and four times it, and the USB domains at 48 and 12 MHz.
\<close>

theorem board_clock_frequencies:
  "clock_freqs (CRG_orangecrab w f usb) ''sys'' = Some f \<and>
   clock_freqs (CRGSDRAM_orangecrab w f usb) ''sys'' = Some f \<and>
   clock_freqs (CRGSDRAM_orangecrab w f usb) ''sys2x'' = Some (2 * f) \<and>
   clock_freqs (CRGSDRAM_orangecrab w f True) ''usb_48'' = Some 48000000 \<and>
   clock_freqs (CRG_orangecrab w f True) ''usb_12'' = Some 12000000 \<and>
   clock_freqs (CRG_arty f dram rst) ''sys'' = Some f \<and>
   clock_freqs (CRG_arty f True rst) ''sys4x'' = Some (4 * f) \<and>
   clock_freqs (CRG_arty f True rst) ''sys4x_dqs'' = clock_freqs (CRG_arty f True rst) ''sys4x''"
  by (cases usb; cases dram; cases rst)
    (simp_all add: clock_freqs_def CRG_orangecrab_def CRGSDRAM_orangecrab_def CRG_arty_def
      clock_domain_def orangecrab_clk_rst_ops_def orangecrab_por_ops_def orangecrab_pll_ops_def
      orangecrab_usb_ops_def orangecrab_timer_ops_def clkout_def instance_pin_def suffix_def)

section \<open>Memory and clocks\<close>

definition declared_domains :: "soc_op list \<Rightarrow> string set" where
  "declared_domains ops = {cd. clock_domain cd \<in> set ops}"

definition calls :: "soc_op list \<Rightarrow> string set" where
  "calls ops = {f. \<exists>xs. Call f xs \<in> set ops}"

lemma calls_simps [simp]:
  "calls [] = {}" "calls (xs @ ys) = calls xs \<union> calls ys"
  "calls (Call f as # xs) = insert f (calls xs)" "calls (Connect s r # xs) = calls xs"
  "calls (SetAttr s v # xs) = calls xs"
  by (auto simp: calls_def)

lemma domains_simps [simp]:
  "declared_domains [] = {}" "declared_domains (xs @ ys) = declared_domains xs \<union> declared_domains ys"
  "declared_domains (Connect s r # xs) = declared_domains xs"
  "declared_domains (SetAttr s v # xs) = declared_domains xs"
  "declared_domains (clock_domain cd # xs) = insert cd (declared_domains xs)"
  "f \<noteq> ''clock_domains'' \<Longrightarrow> declared_domains (Call f as # xs) = declared_domains xs"
  by (auto simp: declared_domains_def clock_domain_def)










lemma core_init_parts:
  "SoCCore_init f i k = Inr op \<Longrightarrow> declared_domains [op] = {} \<and> calls [op] = {''SoCCore.__init__''}"
  by (auto simp: SoCCore_init_Inr)


lemma arty_parts_calls:
  assumes "f \<in> {''add_ethernet'', ''add_etherbone'', ''add_spi_sdcard'', ''add_sdcard''}"
  shows "f \<notin> calls (CRG_arty q d r)" "f \<notin> calls (arty_sdram_ops q k)" "f \<notin> calls (arty_peripheral_ops p)"
    "f \<in> calls (arty_eth_ops p) \<longleftrightarrow> (f = ''add_ethernet'' \<and> flag_set p ''with_ethernet'') \<or>
       (f = ''add_etherbone'' \<and> flag_set p ''with_etherbone'')"
  using assms
  by (auto simp: CRG_arty_def clock_domain_def clkout_def arty_sdram_ops_def arty_peripheral_ops_def led_ops_def
      arty_eth_ops_def)

lemma BaseSoC_arty_Inr:
  assumes "BaseSoC_arty kw = Inr ops" and "p = call_params arty_params kw" and "k = rest_kwargs arty_params kw"
  shows "\<exists>core. SoCCore_init (arg_val p ''sys_clk_freq'') ''LiteX SoC on Arty A7'' k = Inr core \<and>
    ops = [Call ''digilent_arty.Platform'' [PKw ''variant'' (arg_val p ''variant''),
        PKw ''toolchain'' (arg_val p ''toolchain'')]] @
      CRG_arty (int_arg (arg_val p ''sys_clk_freq'')) (is_zero (dict_get k ''integrated_main_ram_size'' (PInt 0))) True @
      [Call ''cpu.CPUS.update'' [PKw ''vexriscv'' (PRef ''VexRiscvCFURAM'')], core] @
      arty_sdram_ops (int_arg (arg_val p ''sys_clk_freq'')) k @ arty_eth_ops p @ arty_peripheral_ops p"
  using assms(1) unfolding BaseSoC_arty_def Let_def bindE_Inr_iff sum.inject assms(2,3) by blast












definition bare_target :: target_world where
  "bare_target = \<lparr>has_resource = (\<lambda>_. False), pads_have = (\<lambda>_ _. True), target_soc_argdict = (\<lambda>_. []),
     target_builder_argdict = (\<lambda>_. []), toolchain_argdict = (\<lambda>_. []), bitstream_filename = (\<lambda>_. ''top.bit'')\<rparr>"


section \<open>Options that exclude each other\<close>

lemma parser_defaults_kept:
  "k \<notin> option_dests fw \<Longrightarrow>
   map_of (fold (\<lambda>o' d. AList.update (dest_of (opt_flag o')) (opt_default o') d) fw d) k = map_of d k"
  by (induction fw arbitrary: d) (auto simp: option_dests_def update_conv')

lemma arty_defaults:
  assumes "k \<in> {''with_ethernet'', ''with_etherbone'', ''with_spi_sdcard'', ''with_sdcard''}"
    and "k \<notin> option_dests fw"
  shows "map_of (parser_defaults (arty_main_parser fw)) k = Some (PBool False)"
proof -
  have "map_of (fold (\<lambda>o' d. AList.update (dest_of (opt_flag o')) (opt_default o') d) arty_options []) k
      = Some (PBool False)"
    using assms(1) by (auto simp: arty_options_def dest_of_def)
  then show ?thesis using assms(2) by (simp add: parser_defaults_def arty_main_parser_def parser_defaults_kept)
qed

lemma call_params_named:
  assumes "call_kwargs A kw = Inr d" and "distinct (map fst A)" and "(k, v) \<in> set A" and "dict_has ps k"
  shows "arg_val (call_params ps d) k = v"
proof -
  have d: "d = A @ kw" and new: "list_all (\<lambda>k. \<not> dict_has kw k) (map fst A)"
    using assms(1) by (simp_all add: call_kwargs_def namespace_union_Inr)
  have "k \<notin> fst ` set kw"
    using new assms(3) by (fastforce simp: list_all_iff dict_has_def list_ex_iff)
  with assms(2-4) show ?thesis
    by (simp add: d call_params_def arg_val_def [of "dict_update _ _"] dict_get_def dict_update_named
        del: filter_append)
qed

lemma distinct_arty_kwargs: "distinct (map fst (arty_soc_kwargs freq args))"
  by (simp add: arty_soc_kwargs_def)

lemma arty_named_args:
  assumes "call_kwargs (arty_soc_kwargs freq args) kw = Inr d"
    and "k \<in> {''with_ethernet'', ''with_etherbone'', ''eth_ip'', ''eth_dynamic_ip''}"
  shows "arg_val (call_params arty_params d) k = arg_val args k"
  using assms(2)
  by (intro call_params_named [OF assms(1) distinct_arty_kwargs])
    (auto simp: arty_soc_kwargs_def arty_params_def dict_has_def)

lemma arty_calls:
  assumes "BaseSoC_arty kw = Inr ops"
    and "f \<in> {''add_ethernet'', ''add_etherbone'', ''add_spi_sdcard'', ''add_sdcard''}"
  shows "f \<in> calls ops \<longleftrightarrow> (f = ''add_ethernet'' \<and> flag_set (call_params arty_params kw) ''with_ethernet'') \<or>
    (f = ''add_etherbone'' \<and> flag_set (call_params arty_params kw) ''with_etherbone'')"
proof -
  have f: "f \<noteq> ''digilent_arty.Platform''" "f \<noteq> ''cpu.CPUS.update''" "f \<noteq> ''SoCCore.__init__''"
    using assms(2) by auto
  from BaseSoC_arty_Inr [OF assms(1) refl refl] show ?thesis
    by - (elim exE conjE, simp add: SoCCore_init_Inr arty_parts_calls [OF assms(2)] f)
qed

lemma arty_build_calls:
  assumes "f \<in> {''add_ethernet'', ''add_etherbone'', ''add_spi_sdcard'', ''add_sdcard''}"
  shows "f \<in> calls (arty_build_ops w args) \<longleftrightarrow> (f = ''add_spi_sdcard'' \<and> flag_set args ''with_spi_sdcard'') \<or>
    (f = ''add_sdcard'' \<and> flag_set args ''with_sdcard'')"
  using assms by (auto simp: arty_build_ops_def load_ops_def)

lemma arty_main_Inr:
  assumes "arty_main w args = Inr ops"
  obtains freq kw soc where "call_kwargs (arty_soc_kwargs freq args) (target_soc_argdict w args) = Inr kw"
    "float_int (arg_val args ''sys_clk_freq'') = Inr freq"
    "\<not> (flag_set args ''with_etherbone'' \<and> flag_set args ''eth_dynamic_ip'')"
    "BaseSoC_arty kw = Inr soc" "ops = soc @ arty_build_ops w args"
  using assms by (auto simp: arty_main_def bindE_Inr_iff)

text \<open>
  C27: what the command line of the Arty rules out. Whatever the arguments, a build that is set up
  has Ethernet or Etherbone but not both, an SD card in one mode at most, and Etherbone only
  without a dynamic address; the framework's options must not redefine the four switches.
\<close>

theorem arty_exclusive_features:
  assumes "arty_main_argv w fw argv = Inr ops"
    and "option_dests fw \<inter> {''with_ethernet'', ''with_etherbone'', ''with_spi_sdcard'', ''with_sdcard''} = {}"
  shows "\<not> ({''add_ethernet'', ''add_etherbone''} \<subseteq> calls ops) \<and>
    \<not> ({''add_spi_sdcard'', ''add_sdcard''} \<subseteq> calls ops) \<and>
    (\<exists>args. parse_args (arty_main_parser fw) (parser_defaults (arty_main_parser fw)) argv = Inr args \<and>
      (''add_ethernet'' \<in> calls ops \<longleftrightarrow> flag_set args ''with_ethernet'') \<and>
      (''add_etherbone'' \<in> calls ops \<longleftrightarrow> flag_set args ''with_etherbone'') \<and>
      (''add_etherbone'' \<in> calls ops \<longrightarrow> \<not> flag_set args ''eth_dynamic_ip''))"
proof -
  from assms(1) obtain args where parse:
    "parse_args (arty_main_parser fw) (parser_defaults (arty_main_parser fw)) argv = Inr args"
    and main: "arty_main w args = Inr ops" by (auto simp: arty_main_argv_def bindE_Inr_iff)
  obtain freq kw soc where kw: "call_kwargs (arty_soc_kwargs freq args) (target_soc_argdict w args) = Inr kw"
    and dyn: "\<not> (flag_set args ''with_etherbone'' \<and> flag_set args ''eth_dynamic_ip'')"
    and soc: "BaseSoC_arty kw = Inr soc" and ops: "ops = soc @ arty_build_ops w args"
    by (rule arty_main_Inr [OF main])
  have eth: "''add_ethernet'' \<in> calls ops \<longleftrightarrow> flag_set args ''with_ethernet''"
    "''add_etherbone'' \<in> calls ops \<longleftrightarrow> flag_set args ''with_etherbone''"
    "''add_spi_sdcard'' \<in> calls ops \<longleftrightarrow> flag_set args ''with_spi_sdcard''"
    "''add_sdcard'' \<in> calls ops \<longleftrightarrow> flag_set args ''with_sdcard''"
    using arty_named_args [OF kw] arty_calls [OF soc] by (simp_all add: ops arty_build_calls flag_set_def)
  have off: "\<not> flag_set args k \<or> \<not> flag_set args k'"
    if "g \<in> {[''with_ethernet'', ''with_etherbone''], [''with_spi_sdcard'', ''with_sdcard'']}"
      "g = [k, k']" for g k k'
  proof -
    have "g \<in> set (exclusive_groups (arty_main_parser fw))" "k \<noteq> k'" "distinct g"
      "k \<in> set g" "k' \<in> set g" "parser_positionals (arty_main_parser fw) = []"
      using that by (auto simp: arty_main_parser_def)
    from parse_args_exclusive [OF parse this(1) this(4,5,2,3,6)] that assms(2)
      arty_defaults [of k fw] arty_defaults [of k' fw]
    show ?thesis by (auto simp: flag_set_def arg_val_def dict_get_def)
  qed
  show ?thesis
    using off [OF _ refl, of "''with_ethernet''" "''with_etherbone''"]
      off [OF _ refl, of "''with_spi_sdcard''" "''with_sdcard''"] eth dyn parse by auto
qed

theorem arty_exclusive_features_witness:
  "\<exists>ops. arty_main_argv bare_target [] [''--with-etherbone'', ''--sdcard-adapter'', ''numato''] = Inr ops \<and>
     ''add_ethernet'' \<notin> calls ops"
proof -
  let ?argv = "[''--with-etherbone'', ''--sdcard-adapter'', ''numato'']"
  let ?d = "parser_defaults (arty_main_parser [])"
  let ?args = "dict_update ?d [(''with_etherbone'', PBool True), (''sdcard_adapter'', PStr ''numato'')]"
  have "parse_args (arty_main_parser []) ?d (concat (map setting_argv
      [Flag ''--with-etherbone'', Value ''--sdcard-adapter'' ''numato''])) =
    Inr (dict_update ?d (map (\<lambda>s. (setting_dest s, setting_val s))
      [Flag ''--with-etherbone'', Value ''--sdcard-adapter'' ''numato'']))"
    by (rule parse_args_settings)
      (simp_all add: arty_main_parser_def arty_options_def is_option_def exclusive_ok_def dest_of_def)
  then have parse: "parse_args (arty_main_parser []) ?d ?argv = Inr ?args" by (simp add: dest_of_def)
  have "map_of ?d ''eth_dynamic_ip'' = Some (PBool False)"
    by (simp add: parser_defaults_def arty_main_parser_def arty_options_def dest_of_def)
  then have "\<not> flag_set ?args ''eth_dynamic_ip''"
    by (simp add: flag_set_def arg_val_def dict_get_def map_of_dict_update)
  moreover have "call_kwargs a [] = Inr a" for a
    by (simp add: call_kwargs_def namespace_union_def dict_has_def list_ex_iff)
  moreover have "map_of ?d ''sys_clk_freq'' = Some (PFloat (Finite 100000000 0))"
    by (simp add: parser_defaults_def arty_main_parser_def arty_options_def dest_of_def)
  then have "arg_val ?args ''sys_clk_freq'' = PFloat (Finite 100000000 0)"
    by (simp add: arg_val_def dict_get_def map_of_dict_update)
  then have "float_int (arg_val ?args ''sys_clk_freq'') = Inr 100000000"
    by (simp add: float_int_float trunc_double_def)
  moreover have "\<exists>soc. BaseSoC_arty (arty_soc_kwargs f a) = Inr soc" for f a
    by (simp add: BaseSoC_arty_def SoCCore_init_def call_kwargs_def namespace_union_def rest_kwargs_def
        arty_soc_kwargs_def arty_params_def dict_has_def Let_def)
  ultimately have "\<exists>ops. arty_main_argv bare_target [] ?argv = Inr ops"
    unfolding arty_main_argv_def parse by (simp add: arty_main_def bare_target_def bindE_Inr_iff)
  then obtain ops where ops: "arty_main_argv bare_target [] ?argv = Inr ops" by blast
  have "option_dests [] \<inter> {''with_ethernet'', ''with_etherbone'', ''with_spi_sdcard'', ''with_sdcard''} = {}"
    by (simp add: option_dests_def)
  from arty_exclusive_features [OF ops this] parse have
    "''add_ethernet'' \<in> calls ops \<longrightarrow> ''add_etherbone'' \<notin> calls ops"
    "''add_etherbone'' \<in> calls ops \<longleftrightarrow> flag_set ?args ''with_etherbone''"
    by auto
  moreover have "flag_set ?args ''with_etherbone''"
    by (simp add: flag_set_def arg_val_def dict_get_def map_of_dict_update)
  ultimately show ?thesis using ops by auto
qed

section \<open>The clock of the command line\<close>




















section \<open>Power-on reset of the OrangeCrab\<close>

text \<open>
  The resets of the OrangeCrab. From power on, with the button and the software reset in any
  state, both PLLs are in reset for the first 65535 cycles of the 48 MHz clock; afterwards the USB PLL never
  is again, and the system PLL is exactly while the button is pressed or the software resets it.
\<close>

theorem orangecrab_reset_sequence:
  "usb_pll_reset (run_state por_next orangecrab_por_init cycles) = (length cycles < 65535) \<and>
   pll_reset (run_state por_next orangecrab_por_init cycles) rst_n rst =
     (length cycles < 65535 \<or> \<not> rst_n \<or> rst)"
  by (simp add: usb_pll_reset_def pll_reset_def por_reset_run orangecrab_por_init_def)

end
