(* ===== verification/Cfu_Disassembly.thy ===== *)
theory Cfu_Disassembly
  imports Text_Scan Cfu_Unit
begin

text \<open>
  The disassembly filter \<^verbatim>\<open>scripts/fix_cfu_dis.py\<close>: a line that ends in an unknown instruction word gets
  the CFU instruction that the word encodes, other instruction lines are indented to match.
\<close>

section \<open>The filter\<close>

definition regnames :: "string list" where
  "regnames =
    [''x0'', ''ra'', ''sp'', ''gp'', ''tp'', ''t0'', ''t1'', ''t2'', ''s0'', ''s1'', ''a0'', ''a1'',
     ''a2'', ''a3'', ''a4'', ''a5'', ''a6'', ''a7'', ''s2'', ''s3'', ''s4'', ''s5'', ''s6'', ''s7'',
     ''s8'', ''s9'', ''s10'', ''s11'', ''t3'', ''t4'', ''t5'', ''t6'']"

record r_fields =
  fld_funct7 :: nat
  fld_rs2 :: nat
  fld_rs1 :: nat
  fld_funct3 :: nat
  fld_rd :: nat

definition decode_fields :: "nat \<Rightarrow> r_fields" where
  "decode_fields bits =
     \<lparr>fld_funct7 = drop_bit 25 bits AND 127, fld_rs2 = drop_bit 20 bits AND 31,
      fld_rs1 = drop_bit 15 bits AND 31, fld_funct3 = drop_bit 12 bits AND 7,
      fld_rd = drop_bit 7 bits AND 31\<rparr>"

definition cfu_op :: "nat \<Rightarrow> string" where
  "cfu_op bits =
     (let f = decode_fields bits in
      ''cfu['' @ dec (fld_funct7 f) @ '','' @ dec (fld_funct3 f) @ '']  '' @ regnames ! fld_rd f @ '', '' @
      regnames ! fld_rs1 f @ '', '' @ regnames ! fld_rs2 f)"

text \<open>The start \<open>( ?\w+:\s+\w+\s+)\<close> of both regular expressions, and the rest of the line.\<close>

definition scan_prefix :: "string \<Rightarrow> (string \<times> string) option" where
  "scan_prefix lin =
     (let (sp, s) = (if lin \<noteq> [] \<and> hd lin = CHR '' '' then ('' '', tl lin) else ('''', lin)) in
      Option.bind (many1 is_word s) (\<lambda>(w1, s).
      Option.bind (lit CHR '':'' s) (\<lambda>s.
      Option.bind (many1 is_space s) (\<lambda>(s1, s).
      Option.bind (many1 is_word s) (\<lambda>(w2, s).
      Option.bind (many1 is_space s) (\<lambda>(s2, s).
        Some (sp @ w1 @ '':'' @ s1 @ w2 @ s2, s)))))))"

text \<open>The ends: \<open>(0x[0-9A-Fa-f]+)$\<close> and \<open>(\w+)(\s+)(\S+.*)$\<close>.\<close>

definition hex_literal :: "string \<Rightarrow> nat option" where
  "hex_literal s =
     (if prefix ''0x'' s \<and> list_all is_hex (drop 2 s) then read_base 16 (drop 2 s) else None)"

definition scan_regular :: "string \<Rightarrow> (string \<times> string \<times> string) option" where
  "scan_regular s =
     Option.bind (many1 is_word s) (\<lambda>(w, s).
     Option.bind (many1 is_space s) (\<lambda>(sp, s).
       if s = [] then None else Some (w, sp, s)))"

definition fix_line :: "string \<Rightarrow> string" where
  "fix_line line =
     (let lin = replace_str [CHR 0x0A] '''' (replace_str [CHR 0x0D] '''' line) in
      case scan_prefix lin of
        None \<Rightarrow> lin
      | Some (pre, s) \<Rightarrow>
          (case hex_literal s of
             Some bits \<Rightarrow> pre @ cfu_op bits
           | None \<Rightarrow>
               (case scan_regular s of
                  Some (w, sp, r) \<Rightarrow> pre @ w @ sp @ ''  '' @ r
                | None \<Rightarrow> lin)))"

definition fix_cfu_dis :: "string list \<Rightarrow> string" where
  "fix_cfu_dis lines = concat (map (\<lambda>lin. fix_line lin @ [CHR 0x0A]) lines)"

section \<open>Fields\<close>

text \<open>The encoding of an R-type instruction.\<close>

definition r_type :: "u7 \<Rightarrow> 5 word \<Rightarrow> 5 word \<Rightarrow> u3 \<Rightarrow> 5 word \<Rightarrow> u7 \<Rightarrow> nat" where
  "r_type f7 rs2 rs1 f3 rd opcode =
     unat f7 * 2 ^ 25 + unat rs2 * 2 ^ 20 + unat rs1 * 2 ^ 15 + unat f3 * 2 ^ 12 + unat rd * 2 ^ 7 + unat opcode"

lemma nat_and_masks:
  "(n :: nat) AND 127 = n mod 128" "(n :: nat) AND 31 = n mod 32" "(n :: nat) AND 7 = n mod 8"
  using take_bit_eq_mask [of 7 n] take_bit_eq_mask [of 5 n] take_bit_eq_mask [of 3 n]
  by (simp_all add: take_bit_eq_mod mask_eq_exp_minus_1)

lemma decode_bounds:
  "fld_funct7 (decode_fields b) < 128" "fld_funct3 (decode_fields b) < 8"
  "fld_rd (decode_fields b) < 32" "fld_rs1 (decode_fields b) < 32" "fld_rs2 (decode_fields b) < 32"
  by (simp_all add: decode_fields_def nat_and_masks)

lemma div_field: "(b :: nat) < m \<Longrightarrow> (a * m + b) div m = a" "b < m \<Longrightarrow> (a * m + b) mod m = b"
  by simp_all

lemma decode_r_type:
  "decode_fields (r_type f7 rs2 rs1 f3 rd opcode) =
     \<lparr>fld_funct7 = unat f7, fld_rs2 = unat rs2, fld_rs1 = unat rs1, fld_funct3 = unat f3, fld_rd = unat rd\<rparr>"
proof -
  have b: "unat f7 < 128" "unat rs2 < 32" "unat rs1 < 32" "unat f3 < 8" "unat rd < 32" "unat opcode < 128"
    using unsigned_less [of f7] unsigned_less [of rs2] unsigned_less [of rs1] unsigned_less [of f3]
      unsigned_less [of rd] unsigned_less [of opcode] by simp_all
  define n where "n = r_type f7 rs2 rs1 f3 rd opcode"
  have "n = ((((unat f7 * 32 + unat rs2) * 32 + unat rs1) * 8 + unat f3) * 32 + unat rd) * 128 + unat opcode"
    by (simp add: n_def r_type_def algebra_simps)
  then have 7: "n div 128 = (((unat f7 * 32 + unat rs2) * 32 + unat rs1) * 8 + unat f3) * 32 + unat rd"
    using b by (simp only: div_field)
  have 12: "n div 128 div 32 = ((unat f7 * 32 + unat rs2) * 32 + unat rs1) * 8 + unat f3"
    using b unfolding 7 by (simp only: div_field)
  have 15: "n div 128 div 32 div 8 = (unat f7 * 32 + unat rs2) * 32 + unat rs1"
    using b unfolding 12 by (simp only: div_field)
  have 20: "n div 128 div 32 div 8 div 32 = unat f7 * 32 + unat rs2"
    using b unfolding 15 by (simp only: div_field)
  have 25: "n div 128 div 32 div 8 div 32 div 32 = unat f7"
    using b unfolding 20 by (simp only: div_field)
  have shifts: "n div 2 ^ 7 = n div 128" "n div 2 ^ 12 = n div 128 div 32"
    "n div 2 ^ 15 = n div 128 div 32 div 8" "n div 2 ^ 20 = n div 128 div 32 div 8 div 32"
    "n div 2 ^ 25 = n div 128 div 32 div 8 div 32 div 32"
    by (simp_all add: div_mult2_eq [symmetric])
  show ?thesis
    unfolding decode_fields_def nat_and_masks drop_bit_eq_div n_def [symmetric] shifts
    unfolding 25 unfolding 20 unfolding 15 unfolding 12 unfolding 7
    using b by (simp only: div_field mod_less)
qed

section \<open>Lines\<close>

lemma scan_prefix_append:
  assumes "scan_prefix p = Some (p, [])" and "r = [] \<or> \<not> is_space (hd r)"
  shows "scan_prefix (p @ r) = Some (p, r)"
proof -
  obtain sp s where sp: "(if p \<noteq> [] \<and> hd p = CHR '' '' then ('' '', tl p) else ('''', p)) = (sp, s)"
    by force
  from assms(1) have "Option.bind (many1 is_word s) (\<lambda>(w1, s).
      Option.bind (lit CHR '':'' s) (\<lambda>s.
      Option.bind (many1 is_space s) (\<lambda>(s1, s).
      Option.bind (many1 is_word s) (\<lambda>(w2, s).
      Option.bind (many1 is_space s) (\<lambda>(s2, s).
        Some (sp @ w1 @ '':'' @ s1 @ w2 @ s2, s)))))) = Some (p, [])"
    unfolding scan_prefix_def sp Let_def prod.case .
  then obtain w1 y s1 t1 x1 w2 x2 t2 where
    m1: "many1 is_word s = Some (w1, y)" and y: "lit CHR '':'' y = Some t1" and m2: "many1 is_space t1 = Some (s1, x1)"
    and m3: "many1 is_word x1 = Some (w2, x2)" and m4: "many1 is_space x2 = Some (t2, [])"
    by (auto simp only: bind_eq_Some_conv split_paired_Ex prod.case option.inject prod.inject)
  from y have "y = CHR '':'' # t1" by (auto simp: lit_def split: list.splits if_splits)
  with m1 have m1: "many1 is_word s = Some (w1, CHR '':'' # t1)" by simp
  note d = many1_Some [OF m1] many1_Some [OF m2] many1_Some [OF m3] many1_Some [OF m4]
  have nw: "\<not> is_word CHR '':''" and ns: "\<not> is_space CHR '':''"
    by (simp_all add: is_word_def is_digit_def is_space_def)
  have "p \<noteq> []" using sp d by (auto split: if_splits)
  then have sp': "(if p @ r \<noteq> [] \<and> hd (p @ r) = CHR '' '' then ('' '', tl (p @ r)) else ('''', p @ r)) = (sp, s @ r)"
    using sp by (auto split: if_splits)
  have p: "p = sp @ s" using sp by (cases p) (auto split: if_splits)
  have hd_x1: "x1 \<noteq> [] \<and> is_word (hd x1)" using d by (cases w2) auto
  have hd_x2: "x2 \<noteq> [] \<and> is_space (hd x2)" using d by (cases t2) auto
  have "many1 is_word (s @ r) = Some (w1, CHR '':'' # t1 @ r)"
    using many1_append [of w1 is_word "CHR '':'' # t1 @ r"] d nw by simp
  moreover have "many1 is_space (t1 @ r) = Some (s1, x1 @ r)"
    using many1_append [of s1 is_space "x1 @ r"] d hd_x1 space_not_word by auto
  moreover have "many1 is_word (x1 @ r) = Some (w2, x2 @ r)"
    using many1_append [of w2 is_word "x2 @ r"] d hd_x2 space_not_word by auto
  moreover have "many1 is_space (x2 @ r) = Some (t2, r)"
    using many1_append [of t2 is_space r] d assms(2) by auto
  ultimately show ?thesis
    using d p unfolding scan_prefix_def sp' by simp
qed

lemma hex_literal_hex: "hex_literal (''0x'' @ hex_lower n) = Some n"
  by (simp add: hex_literal_def hex_digits)

lemma replace_absent: "c \<notin> set s \<Longrightarrow> replace_str [c] new s = s"
  unfolding replace_str_char by (induction s) auto

lemma clean_line:
  "CHR 0x0A \<notin> set s \<Longrightarrow> CHR 0x0D \<notin> set s \<Longrightarrow>
   replace_str [CHR 0x0A] '''' (replace_str [CHR 0x0D] '''' s) = s"
  by (simp only: replace_absent not_False_eq_True)

text \<open>What is printed determines the fields.\<close>

lemma digits_prefix:
  assumes "dec a @ c # x = dec b @ c # y" and "\<not> is_digit c"
  shows "a = b \<and> x = y"
proof -
  have m: "many1 is_digit (dec k @ c # z) = Some (dec k, c # z)" for k z
    by (rule many1_append) (simp_all add: dec_digits assms(2))
  have "Some (dec a, c # x) = Some (dec b, c # y)"
    by (rule trans [OF m [of a x, unfolded assms(1), symmetric] m [of b y]])
  then have "dec a = dec b" "x = y" by blast+
  then show ?thesis using read_base_in_base(1) by (metis option.inject)
qed

lemma regnames_facts:
  "length regnames = 32" "distinct regnames" "list_all (list_all is_word) regnames" "list_all (\<lambda>r. r \<noteq> []) regnames"
  by code_simp+

lemma reg_inj: "a < 32 \<Longrightarrow> b < 32 \<Longrightarrow> regnames ! a = regnames ! b \<Longrightarrow> a = b"
  using regnames_facts(1,2) by (simp add: nth_eq_iff_index_eq)

lemma reg_prefix:
  assumes "regnames ! a @ c # x = regnames ! b @ c # y" "\<not> is_word c" "a < 32" "b < 32"
  shows "a = b \<and> x = y"
proof -
  have m: "many1 is_word (regnames ! k @ c # z) = Some (regnames ! k, c # z)" if "k < 32" for k z
    by (rule many1_append) (use regnames_facts assms(2) that in \<open>simp_all add: list_all_length\<close>)
  have "Some (regnames ! a, c # x) = Some (regnames ! b, c # y)"
    by (rule trans [OF m [OF assms(3), of x, unfolded assms(1), symmetric] m [OF assms(4), of y]])
  then have "regnames ! a = regnames ! b" "x = y" by blast+
  with reg_inj assms(3,4) show ?thesis by blast
qed

lemma cfu_op_inj: "cfu_op m = cfu_op n \<Longrightarrow> decode_fields m = decode_fields n"
proof -
  assume eq: "cfu_op m = cfu_op n"
  have nd: "\<not> is_digit CHR '',''" "\<not> is_digit CHR '']''" "\<not> is_word CHR '',''"
    by (simp_all add: is_digit_def is_word_def)
  let ?rest = "\<lambda>k. dec (fld_funct3 (decode_fields k)) @ CHR '']'' # ''  '' @ regnames ! fld_rd (decode_fields k) @ '', '' @
      regnames ! fld_rs1 (decode_fields k) @ '', '' @ regnames ! fld_rs2 (decode_fields k)"
  have op: "cfu_op k = ''cfu['' @ dec (fld_funct7 (decode_fields k)) @ CHR '','' # ?rest k" for k
    by (simp add: cfu_op_def Let_def)
  from eq have "dec (fld_funct7 (decode_fields m)) @ CHR '','' # ?rest m =
      dec (fld_funct7 (decode_fields n)) @ CHR '','' # ?rest n" unfolding op by (simp only: same_append_eq)
  from digits_prefix [OF this nd(1)] have 1: "fld_funct7 (decode_fields m) = fld_funct7 (decode_fields n)"
    and e2: "?rest m = ?rest n" by blast+
  from digits_prefix [OF e2 nd(2)] have 2: "fld_funct3 (decode_fields m) = fld_funct3 (decode_fields n)" and
    e3: "regnames ! fld_rd (decode_fields m) @ CHR '','' # '' '' @
      regnames ! fld_rs1 (decode_fields m) @ '', '' @ regnames ! fld_rs2 (decode_fields m) =
      regnames ! fld_rd (decode_fields n) @ CHR '','' # '' '' @
      regnames ! fld_rs1 (decode_fields n) @ '', '' @ regnames ! fld_rs2 (decode_fields n)" by simp_all
  from reg_prefix [OF e3 nd(3)] decode_bounds have 3: "fld_rd (decode_fields m) = fld_rd (decode_fields n)" and
    e4: "regnames ! fld_rs1 (decode_fields m) @ CHR '','' # '' '' @ regnames ! fld_rs2 (decode_fields m) =
      regnames ! fld_rs1 (decode_fields n) @ CHR '','' # '' '' @ regnames ! fld_rs2 (decode_fields n)" by simp_all
  from reg_prefix [OF e4 nd(3)] decode_bounds have "fld_rs1 (decode_fields m) = fld_rs1 (decode_fields n)"
    "regnames ! fld_rs2 (decode_fields m) = regnames ! fld_rs2 (decode_fields n)" by simp_all
  with reg_inj [OF decode_bounds(5) decode_bounds(5)] 1 2 3 show ?thesis
    by (intro r_fields.equality) simp_all
qed

lemma fix_line_hex:
  assumes "scan_prefix p = Some (p, [])" "CHR 0x0A \<notin> set p" "CHR 0x0D \<notin> set p"
  shows "fix_line (p @ ''0x'' @ hex_lower n) = p @ cfu_op n"
proof -
  have "is_hex CHR 0x0A = False" "is_hex CHR 0x0D = False" by (simp_all add: is_hex_def is_digit_def)
  then have "CHR 0x0A \<notin> set (hex_lower n)" "CHR 0x0D \<notin> set (hex_lower n)"
    using hex_digits(1) [of n] by (metis list_all_iff)+
  then have "replace_str [CHR 0x0A] '''' (replace_str [CHR 0x0D] '''' (p @ ''0x'' @ hex_lower n)) =
      p @ ''0x'' @ hex_lower n"
    using assms(2,3) by (intro clean_line) auto
  moreover have "scan_prefix (p @ ''0x'' @ hex_lower n) = Some (p, ''0x'' @ hex_lower n)"
    by (rule scan_prefix_append [OF assms(1)]) (simp add: is_space_def)
  ultimately show ?thesis
    using hex_literal_hex [of n] by (simp add: fix_line_def)
qed

section \<open>Properties\<close>

lemma function_id_fields:
  assumes "cmd_function_id i = word_cat f7 f3"
  shows "funct7_of i = f7" "funct3_of i = f3"
proof -
  show "funct7_of i = f7"
    unfolding funct7_of_def assms by (rule bit_word_eqI) (auto simp: bit_simps)
  show "funct3_of i = f3"
    unfolding funct3_of_def assms by (rule bit_word_eqI) (auto simp: bit_simps)
qed

text \<open>
  C13: the disassembly shows the instruction. A line with an R-type instruction word in hexadecimal
  becomes the same line with \<open>cfu[funct7,funct3]  rd, rs1, rs2\<close>, where the two numbers are what the CFU
  decodes from the function id of the command and the registers are those of the word; two lines
  with the same start come out equal only if their words agree in all five fields.
\<close>

theorem cfu_disassembly_faithful:
  assumes "scan_prefix p = Some (p, [])" and "CHR 0x0A \<notin> set p" "CHR 0x0D \<notin> set p"
    and "cmd_function_id i = word_cat f7 f3"
  shows "fix_line (p @ ''0x'' @ hex_lower (r_type f7 rs2 rs1 f3 rd opcode)) =
      p @ ''cfu['' @ dec (unat (funct7_of i)) @ '','' @ dec (unat (funct3_of i)) @ '']  '' @
        regnames ! unat rd @ '', '' @ regnames ! unat rs1 @ '', '' @ regnames ! unat rs2 \<and>
    (fix_line (p @ ''0x'' @ hex_lower m) = fix_line (p @ ''0x'' @ hex_lower n)) =
      (decode_fields m = decode_fields n)"
  unfolding fix_line_hex [OF assms(1-3)] function_id_fields [OF assms(4)]
  using cfu_op_inj [of m n] by (auto simp: cfu_op_def decode_r_type Let_def)

theorem cfu_disassembly_faithful_witness:
  "fix_line ''40000148:       0094280b                0x94280b'' =
   ''40000148:       0094280b                cfu[0,2]  a6, s0, s1''"
proof -
  let ?p = "''40000148:       0094280b                ''"
  let ?i = "\<lparr>cmd_valid = True, cmd_function_id = word_cat (0 :: u7) (2 :: u3),
    cmd_in0 = 0, cmd_in1 = 0, rsp_ready = True, reset = False\<rparr>"
  have p: "scan_prefix ?p = Some (?p, [])" by code_simp
  have r: "r_type 0 9 8 2 16 11 = 9709579" by (simp add: r_type_def)
  have hex: "hex_lower 9709579 = ''94280b''" by (simp add: in_base.simps lower_digit_char_def)
  have regs: "regnames ! 16 = ''a6''" "regnames ! 8 = ''s0''" "regnames ! 9 = ''s1''"
    by (simp_all add: regnames_def)
  have decs: "dec 0 = ''0''" "dec 2 = ''2''" by code_simp+
  have fields: "funct7_of ?i = 0" "funct3_of ?i = 2"
    using function_id_fields [of ?i 0 2] by simp_all
  have "CHR 0x0A \<notin> set ?p" "CHR 0x0D \<notin> set ?p" by simp_all
  from cfu_disassembly_faithful [OF p this, of ?i 0 2 9 8 16 11] show ?thesis
    unfolding r hex fields by (simp add: regs decs)
qed

end
