(* ===== verification/Json.thy ===== *)
theory Json
  imports Cfu_Prelude Py_Numbers "HOL-Library.AList"
begin

text \<open>
  Python's \<^verbatim>\<open>json\<close> module: \<open>dumps\<close> with its default separators and \<open>loads\<close>, on values as Python has
  them. The reader splits the text into tokens and runs them through an automaton with a stack of
  open containers, so that it is total without a bound on the depth. What \<open>dumps\<close> writes, \<open>loads\<close>
  reads back. Characters are the first 256 code points; the limit of Python's recursion is left out.
\<close>

section \<open>Values and their text\<close>

datatype json =
    JNull
  | JBool bool
  | JInt int
  | JFloat py_float
  | JStr string
  | JArray "json list"
  | JObject "(string \<times> json) list"

abbreviation "json_quote \<equiv> CHR 0x22"
abbreviation "json_escape \<equiv> CHR 0x5C"

text \<open>The short escapes, by the letter that follows the backslash.\<close>

definition json_escapes :: "(char \<times> char) list" where
  "json_escapes = [(json_quote, json_quote), (json_escape, json_escape), (CHR ''/'', CHR ''/''),
     (CHR ''b'', CHR 0x08), (CHR ''f'', CHR 0x0C), (CHR ''n'', CHR 0x0A), (CHR ''r'', CHR 0x0D),
     (CHR ''t'', CHR 0x09)]"

definition json_char :: "char \<Rightarrow> string" where
  "json_char c =
     (if c = json_quote then [json_escape, json_quote] else if c = json_escape then [json_escape, json_escape]
      else if c = CHR 0x0A then [json_escape, CHR ''n''] else if c = CHR 0x0D then [json_escape, CHR ''r'']
      else if c = CHR 0x09 then [json_escape, CHR ''t''] else if c = CHR 0x08 then [json_escape, CHR ''b'']
      else if c = CHR 0x0C then [json_escape, CHR ''f'']
      else if (of_char c :: nat) < 32 \<or> 126 < (of_char c :: nat)
      then json_escape # CHR ''u'' # zero_pad 4 (hex_lower (of_char c))
      else [c])"

definition json_string :: "string \<Rightarrow> string" where
  "json_string s = json_quote # concat (map json_char s) @ [json_quote]"

definition json_float :: "py_float \<Rightarrow> string" where
  "json_float x = (case x of
     Finite m e \<Rightarrow> float_repr x
   | Infinite neg \<Rightarrow> (if neg then ''-Infinity'' else ''Infinity'')
   | NotANumber \<Rightarrow> ''NaN'')"

fun json_dumps :: "json \<Rightarrow> string" where
  "json_dumps JNull = ''null''"
| "json_dumps (JBool b) = (if b then ''true'' else ''false'')"
| "json_dumps (JInt n) = int_text n"
| "json_dumps (JFloat x) = json_float x"
| "json_dumps (JStr s) = json_string s"
| "json_dumps (JArray vs) = ''['' @ join '', '' (map json_dumps vs) @ '']''"
| "json_dumps (JObject es) =
     ''{'' @ join '', '' (map (\<lambda>(k, v). json_string k @ '': '' @ json_dumps v) es) @ ''}''"

section \<open>Tokens\<close>

datatype json_token = OpenArray | CloseArray | OpenObject | CloseObject | Comma | Colon | Atom json

text \<open>The rest of a string after its opening quote; control characters are not allowed in it.\<close>

definition hex4 :: "string \<Rightarrow> char option" where
  "hex4 s = (if list_all is_hex s then (case read_base 16 s of
       Some n \<Rightarrow> if n < 256 then Some (char_of n) else None | None \<Rightarrow> None) else None)"

fun scan_json_string :: "string \<Rightarrow> string \<Rightarrow> (string \<times> string) option" where
  "scan_json_string acc [] = None"
| "scan_json_string acc (c # cs) =
     (if c = json_quote then Some (rev acc, cs)
      else if c = json_escape then
        (case cs of
           [] \<Rightarrow> None
         | e # r \<Rightarrow>
             if e = CHR ''u'' then
               (case hex4 (take 4 r) of
                  Some x \<Rightarrow> if length r < 4 then None else scan_json_string (x # acc) (drop 4 r)
                | None \<Rightarrow> None)
             else (case map_of json_escapes e of
                Some x \<Rightarrow> scan_json_string (x # acc) r | None \<Rightarrow> None))
      else if (of_char c :: nat) < 32 then None
      else scan_json_string (c # acc) cs)"

declare scan_json_string.simps(2) [simp del]

text \<open>
  A number: a sign, a whole part without leading zeros, and a fraction and an exponent if they are
  complete. It is an integer when it has neither.
\<close>

definition scan_sign :: "string \<Rightarrow> string \<times> string" where
  "scan_sign s = (if s \<noteq> [] \<and> hd s = CHR ''-'' then ([CHR ''-''], tl s) else ([], s))"

definition scan_whole :: "string \<Rightarrow> string \<times> string" where
  "scan_whole s =
     (if s \<noteq> [] \<and> hd s = CHR ''0'' then (''0'', tl s) else (takeWhile is_digit s, dropWhile is_digit s))"

definition scan_fraction :: "string \<Rightarrow> string \<times> string" where
  "scan_fraction s =
     (if s \<noteq> [] \<and> hd s = CHR ''.'' \<and> takeWhile is_digit (tl s) \<noteq> []
      then (CHR ''.'' # takeWhile is_digit (tl s), dropWhile is_digit (tl s)) else ([], s))"

definition scan_exponent :: "string \<Rightarrow> string \<times> string" where
  "scan_exponent s =
     (case s of
        [] \<Rightarrow> ([], s)
      | c # r \<Rightarrow>
          let sign = (if r \<noteq> [] \<and> (hd r = CHR ''+'' \<or> hd r = CHR ''-'') then [hd r] else []);
              ds = takeWhile is_digit (drop (length sign) r)
          in if (c = CHR ''e'' \<or> c = CHR ''E'') \<and> ds \<noteq> []
             then (c # sign @ ds, drop (length sign + length ds) r) else ([], s))"

definition scan_number :: "string \<Rightarrow> (json \<times> string) option" where
  "scan_number s =
     (case scan_sign s of (sign, s1) \<Rightarrow>
      case scan_whole s1 of (whole, s2) \<Rightarrow>
      case scan_fraction s2 of (frac, s3) \<Rightarrow>
      case scan_exponent s3 of (expo, s4) \<Rightarrow>
        if whole = [] then None
        else if frac = [] \<and> expo = [] then map_option (\<lambda>n. (JInt n, s4)) (read_int (sign @ whole))
        else map_option (\<lambda>x. (JFloat x, s4)) (read_float (sign @ whole @ frac @ expo)))"

definition json_words :: "(string \<times> json) list" where
  "json_words = [(''null'', JNull), (''true'', JBool True), (''false'', JBool False),
     (''NaN'', JFloat NotANumber), (''Infinity'', JFloat (Infinite False)), (''-Infinity'', JFloat (Infinite True))]"

definition json_marks :: "(char \<times> json_token) list" where
  "json_marks = [(CHR ''['', OpenArray), (CHR '']'', CloseArray), (CHR ''{'', OpenObject),
     (CHR ''}'', CloseObject), (CHR '','', Comma), (CHR '':'', Colon)]"

definition next_token :: "string \<Rightarrow> (json_token \<times> string) option" where
  "next_token s =
     (case s of
        [] \<Rightarrow> None
      | c # r \<Rightarrow>
          (case map_of json_marks c of
             Some t \<Rightarrow> Some (t, r)
           | None \<Rightarrow>
               if c = json_quote then map_option (\<lambda>(x, r'). (Atom (JStr x), r')) (scan_json_string [] r)
               else (case find (\<lambda>(w, _). prefix w s) json_words of
                   Some (w, v) \<Rightarrow> Some (Atom v, drop (length w) s)
                 | None \<Rightarrow> map_option (\<lambda>(x, r'). (Atom x, r')) (scan_number s))))"

definition json_space :: "char \<Rightarrow> bool" where
  "json_space c \<longleftrightarrow> c \<in> set [CHR '' '', CHR 0x09, CHR 0x0A, CHR 0x0D]"

lemma scan_json_string_shorter: "scan_json_string acc s = Some (x, r) \<Longrightarrow> length r < length s"
proof (induction s arbitrary: acc rule: length_induct)
  case (1 s)
  have IH: "scan_json_string a t = Some (x, r) \<Longrightarrow> length t < length s \<Longrightarrow> length r < length t" for a t
    using "1.IH" by blast
  from "1.prems" show ?case
    by (cases s) (auto simp: scan_json_string.simps(2) split: if_splits list.splits option.splits dest!: IH)
qed

lemma scan_shorter:
  "length (snd (scan_sign s)) \<le> length s" "length (snd (scan_fraction s)) \<le> length s"
  "length (snd (scan_exponent s)) \<le> length s"
  "fst (scan_whole s) \<noteq> [] \<Longrightarrow> length (snd (scan_whole s)) < length s"
proof -
  show "fst (scan_whole s) \<noteq> [] \<Longrightarrow> length (snd (scan_whole s)) < length s"
    by (cases s) (auto simp: scan_whole_def length_dropWhile_le less_Suc_eq_le split: if_splits)
qed (auto simp: scan_sign_def scan_fraction_def scan_exponent_def Let_def split: list.splits
    intro: order.trans [OF length_dropWhile_le])

lemma scan_number_shorter: "scan_number s = Some (x, r) \<Longrightarrow> length r < length s"
proof -
  assume *: "scan_number s = Some (x, r)"
  obtain a b c d s1 s2 s3 s4 where parts: "scan_sign s = (a, s1)" "scan_whole s1 = (b, s2)"
    "scan_fraction s2 = (c, s3)" "scan_exponent s3 = (d, s4)"
    by (metis surj_pair)
  with * have "b \<noteq> []" "r = s4" by (auto simp: scan_number_def split: if_splits)
  with parts scan_shorter(1) [of s] scan_shorter(2) [of s2] scan_shorter(3) [of s3] scan_shorter(4) [of s1]
  show ?thesis by simp
qed

lemma next_token_shorter: "next_token s = Some (t, r) \<Longrightarrow> length r < length s"
proof -
  assume *: "next_token s = Some (t, r)"
  have words: "0 < length w" if "find (\<lambda>(w, _). prefix w u) json_words = Some (w, v)" for u w v
    using that by (auto simp: json_words_def split: if_splits)
  have less: "Suc n - length a \<le> n" if "a \<noteq> []" for n and a :: string
    using that by (cases a) auto
  from * show ?thesis
    by (auto simp: less next_token_def less_Suc_eq_le split: list.splits option.splits if_splits
        dest: scan_json_string_shorter scan_number_shorter dest!: words)
qed

function json_tokens :: "string \<Rightarrow> json_token list option" where
  "json_tokens s =
     (case dropWhile json_space s of
        [] \<Rightarrow> Some []
      | c # r \<Rightarrow> (case next_token (c # r) of
            None \<Rightarrow> None
          | Some (t, r') \<Rightarrow> map_option ((#) t) (json_tokens r')))"
  by pat_completeness auto

termination
proof (relation "measure length", goal_cases)
  case (2 s c r p t r')
  then have "length r' < length (dropWhile json_space s)" using next_token_shorter [of "c # r" t r'] by simp
  with length_dropWhile_le [of json_space s] show ?case by simp
qed simp

declare json_tokens.simps [simp del]

section \<open>Values from tokens\<close>

text \<open>
  What is open, innermost first: the values of an array in reverse, or the members of an object in
  reverse with the key whose value is next. The mode says what may come next.
\<close>

datatype json_frame = ArrayOpen "json list" | ObjectOpen "(string \<times> json) list" string

datatype json_mode =
    WantValue
  | WantValueOrClose
  | WantKey "(string \<times> json) list"
  | WantKeyOrClose
  | WantColon "(string \<times> json) list" string
  | Have json

text \<open>A member that comes again replaces the value of the first.\<close>

definition object_of :: "(string \<times> json) list \<Rightarrow> json" where
  "object_of es = JObject (fold (\<lambda>(k, v) d. AList.update k v d) es [])"

fun value_step :: "json_token \<Rightarrow> json_frame list \<Rightarrow> (json_mode \<times> json_frame list) option" where
  "value_step (Atom v) fs = Some (Have v, fs)"
| "value_step OpenArray fs = Some (WantValueOrClose, ArrayOpen [] # fs)"
| "value_step OpenObject fs = Some (WantKeyOrClose, fs)"
| "value_step _ fs = None"

fun key_step :: "json_token \<Rightarrow> (string \<times> json) list \<Rightarrow> json_frame list \<Rightarrow> (json_mode \<times> json_frame list) option" where
  "key_step (Atom (JStr k)) es fs = Some (WantColon es k, fs)"
| "key_step _ es fs = None"

fun have_step :: "json_token \<Rightarrow> json \<Rightarrow> json_frame list \<Rightarrow> (json_mode \<times> json_frame list) option" where
  "have_step Comma v (ArrayOpen vs # fs) = Some (WantValue, ArrayOpen (v # vs) # fs)"
| "have_step CloseArray v (ArrayOpen vs # fs) = Some (Have (JArray (rev (v # vs))), fs)"
| "have_step Comma v (ObjectOpen es k # fs) = Some (WantKey ((k, v) # es), fs)"
| "have_step CloseObject v (ObjectOpen es k # fs) = Some (Have (object_of (rev ((k, v) # es))), fs)"
| "have_step _ v fs = None"

fun json_step :: "json_token \<Rightarrow> json_mode \<times> json_frame list \<Rightarrow> (json_mode \<times> json_frame list) option" where
  "json_step t (WantValue, fs) = value_step t fs"
| "json_step t (WantValueOrClose, fs) =
     (if t = CloseArray then Some (Have (JArray []), tl fs) else value_step t fs)"
| "json_step t (WantKey es, fs) = key_step t es fs"
| "json_step t (WantKeyOrClose, fs) =
     (if t = CloseObject then Some (Have (JObject []), fs) else key_step t [] fs)"
| "json_step t (WantColon es k, fs) = (if t = Colon then Some (WantValue, ObjectOpen es k # fs) else None)"
| "json_step t (Have v, fs) = have_step t v fs"

fun json_run :: "json_token list \<Rightarrow> json_mode \<times> json_frame list \<Rightarrow> (json_mode \<times> json_frame list) option" where
  "json_run [] st = Some st"
| "json_run (t # ts) st = Option.bind (json_step t st) (json_run ts)"

definition json_loads :: "string \<Rightarrow> json result" where
  "json_loads s =
     (case Option.bind (json_tokens s) (\<lambda>ts. json_run ts (WantValue, [])) of
        Some (Have v, []) \<Rightarrow> Inr v
      | _ \<Rightarrow> Inl (ValueError ''JSONDecodeError''))"

section \<open>What is written is read back\<close>

text \<open>Values without floats, whose objects have no member twice.\<close>

fun json_plain :: "json \<Rightarrow> bool" where
  "json_plain (JFloat x) = False"
| "json_plain (JArray vs) = list_all json_plain vs"
| "json_plain (JObject es) = (distinct (map fst es) \<and> list_all (\<lambda>(k, v). json_plain v) es)"
| "json_plain _ = True"

text \<open>The tokens of a written value.\<close>

fun separated :: "'a \<Rightarrow> 'a list list \<Rightarrow> 'a list" where
  "separated sep [] = []"
| "separated sep [p] = p"
| "separated sep (p # q # ps) = p @ sep # separated sep (q # ps)"

fun tokens_of :: "json \<Rightarrow> json_token list" where
  "tokens_of (JArray vs) = OpenArray # separated Comma (map tokens_of vs) @ [CloseArray]"
| "tokens_of (JObject es) = OpenObject #
     separated Comma (map (\<lambda>(k, v). Atom (JStr k) # Colon # tokens_of v) es) @ [CloseObject]"
| "tokens_of v = [Atom v]"

lemma json_run_append: "json_run (ts @ us) st = Option.bind (json_run ts st) (json_run us)"
  by (induction ts arbitrary: st) (auto split: bind_splits)

lemma object_of_distinct: "distinct (map fst es) \<Longrightarrow> object_of es = JObject es"
proof -
  have "fold (\<lambda>(k, v) d. AList.update k v d) es d = d @ es" if "distinct (map fst (d @ es))" for d
    using that
  proof (induction es arbitrary: d)
    case (Cons e es)
    obtain k v where e: "e = (k, v)" by force
    with Cons.prems have "AList.update k v d = d @ [(k, v)]"
      by (induction d) (auto simp: image_iff)
    with Cons e show ?case by simp
  qed simp
  from this [of "[]"] show "distinct (map fst es) \<Longrightarrow> object_of es = JObject es" by (simp add: object_of_def)
qed

lemma array_run:
  assumes "\<And>v fs us. v \<in> set (w # vs) \<Longrightarrow> json_run (tokens_of v @ us) (WantValue, fs) = json_run us (Have v, fs)"
  shows "json_run (separated Comma (map tokens_of (w # vs)) @ CloseArray # us) (WantValue, ArrayOpen acc # fs) =
    json_run us (Have (JArray (rev acc @ w # vs)), fs)"
  using assms
proof (induction vs arbitrary: w acc)
  case Nil
  then show ?case by simp
next
  case (Cons v vs)
  have "json_run (separated Comma (map tokens_of (v # vs)) @ CloseArray # us) (WantValue, ArrayOpen (w # acc) # fs) =
    json_run us (Have (JArray (rev (w # acc) @ v # vs)), fs)"
    by (rule Cons.IH) (use Cons.prems in auto)
  with Cons.prems [of w] show ?case by simp
qed

lemma object_run:
  assumes "\<And>k v fs us. (k, v) \<in> set (m # es) \<Longrightarrow>
    json_run (tokens_of v @ us) (WantValue, fs) = json_run us (Have v, fs)"
  shows "json_run (separated Comma (map (\<lambda>(k, v). Atom (JStr k) # Colon # tokens_of v) (m # es)) @ CloseObject # us)
      (WantKey acc, fs) = json_run us (Have (object_of (rev acc @ m # es)), fs)"
  using assms
proof (induction es arbitrary: m acc)
  case Nil
  then show ?case by (cases m) simp
next
  case (Cons n es)
  obtain k v where m: "m = (k, v)" by force
  have "json_run (separated Comma (map (\<lambda>(k, v). Atom (JStr k) # Colon # tokens_of v) (n # es)) @ CloseObject # us)
      (WantKey ((k, v) # acc), fs) = json_run us (Have (object_of (rev ((k, v) # acc) @ n # es)), fs)"
    by (rule Cons.IH) (use Cons.prems in auto)
  with Cons.prems [of k v] m show ?case by simp
qed

text \<open>A value that does not close its container may come first in it.\<close>

lemma first_value_run:
  "hd (tokens_of v) \<noteq> CloseArray"
  "json_run (tokens_of v @ us) (WantValueOrClose, fs) = json_run (tokens_of v @ us) (WantValue, fs)"
  by (cases v; simp)+

lemma tokens_run: "json_plain v \<Longrightarrow> json_run (tokens_of v @ us) (WantValue, fs) = json_run us (Have v, fs)"
proof (induction v arbitrary: us fs)
  case (JArray vs)
  show ?case
  proof (cases vs)
    case (Cons w ws)
    have "json_run (separated Comma (map tokens_of (w # ws)) @ CloseArray # us) (WantValue, ArrayOpen [] # fs) =
        json_run us (Have (JArray (rev [] @ w # ws)), fs)"
      by (rule array_run) (use JArray Cons in \<open>auto simp: list_all_iff\<close>)
    moreover have "json_run (separated Comma (map tokens_of (w # ws)) @ CloseArray # us) (WantValueOrClose, ArrayOpen [] # fs) =
        json_run (separated Comma (map tokens_of (w # ws)) @ CloseArray # us) (WantValue, ArrayOpen [] # fs)"
      using first_value_run(2) [of w] by (cases ws) simp_all
    ultimately show ?thesis using Cons by simp
  qed simp
next
  case (JObject es)
  show ?case
  proof (cases es)
    case (Cons m ms)
    have "json_run (separated Comma (map (\<lambda>(k, v). Atom (JStr k) # Colon # tokens_of v) (m # ms)) @ CloseObject # us)
        (WantKey [], fs) = json_run us (Have (object_of (rev [] @ m # ms)), fs)"
      by (rule object_run) (use JObject Cons in \<open>force simp: list_all_iff\<close>)
    moreover have "json_run (separated Comma (map (\<lambda>(k, v). Atom (JStr k) # Colon # tokens_of v) (m # ms)) @ CloseObject # us)
        (WantKeyOrClose, fs) =
      json_run (separated Comma (map (\<lambda>(k, v). Atom (JStr k) # Colon # tokens_of v) (m # ms)) @ CloseObject # us)
        (WantKey [], fs)"
      by (cases m; cases ms) simp_all
    ultimately show ?thesis using Cons JObject.prems object_of_distinct [of es] by simp
  qed simp
qed simp_all

text \<open>Strings, character by character.\<close>

lemma hex4_escape:
  "hex4 (take 4 (zero_pad 4 (hex_lower (of_char c)) @ t)) = Some c"
  "drop 4 (zero_pad 4 (hex_lower (of_char c)) @ t) = t"
  "\<not> length (zero_pad 4 (hex_lower (of_char c)) @ t) < 4"
proof -
  have "(of_char c :: nat) < 16 ^ 4" using order.strict_trans [OF nat_of_char_less_256 [of c], of "16 ^ 4"] by simp
  then have four: "length (zero_pad 4 (hex_lower (of_char c))) = 4" by simp
  have "list_all is_hex (zero_pad 4 (hex_lower (of_char c)))"
    using hex_digits(1) [of "of_char c"] by (auto simp: zero_pad_def list_all_iff is_hex_def is_digit_def)
  then show "hex4 (take 4 (zero_pad 4 (hex_lower (of_char c)) @ t)) = Some c"
    by (simp add: hex4_def four)
  show "drop 4 (zero_pad 4 (hex_lower (of_char c)) @ t) = t"
    "\<not> length (zero_pad 4 (hex_lower (of_char c)) @ t) < 4"
    by (simp_all add: four)
qed

lemma scan_json_char: "scan_json_string acc (json_char c @ t) = scan_json_string (c # acc) t"
proof (cases "32 \<le> (of_char c :: nat) \<and> (of_char c :: nat) \<le> 126 \<or> json_char c = [c]")
  case True
  then show ?thesis
    by (auto simp: json_char_def scan_json_string.simps(2) json_escapes_def split: if_splits)
next
  case False
  then consider (short) "c \<in> {CHR 0x0A, CHR 0x0D, CHR 0x09, CHR 0x08, CHR 0x0C}"
    | (code) "json_char c = json_escape # CHR ''u'' # zero_pad 4 (hex_lower (of_char c))"
    by (auto simp: json_char_def split: if_splits)
  then show ?thesis
  proof cases
    case short
    then show ?thesis by (auto simp: json_char_def scan_json_string.simps(2) json_escapes_def)
  next
    case code
    then show ?thesis using hex4_escape [of c t] by (simp add: scan_json_string.simps(2))
  qed
qed

lemma scan_json_chars: "scan_json_string acc (concat (map json_char s) @ json_quote # t) = Some (rev acc @ s, t)"
proof (induction s arbitrary: acc)
  case Nil
  then show ?case by (simp add: scan_json_string.simps(2))
next
  case (Cons c s)
  then show ?case by (simp add: scan_json_char)
qed

text \<open>Numbers, when what follows cannot belong to them.\<close>

definition json_delim :: "string \<Rightarrow> bool" where
  "json_delim t \<longleftrightarrow> t = [] \<or> hd t \<in> set ('',]}'' @ [CHR 0x0A])"

lemma dec_leading_zero: "hd (dec n) = CHR ''0'' \<Longrightarrow> n = 0"
proof (induction n rule: less_induct)
  case (less n)
  have digits: "list_all (\<lambda>d. digit_char d = CHR ''0'' \<longrightarrow> d = 0) [0..<10]" by code_simp
  show ?case
  proof (cases "n < 10")
    case True
    with less.prems digits show ?thesis by (auto simp: in_base_digit list_all_iff)
  next
    case False
    then have "dec n = dec (n div 10) @ [digit_char (n mod 10)]" by (subst in_base.simps) simp
    with less.prems have "hd (dec (n div 10)) = CHR ''0''" by simp
    with less.IH [of "n div 10"] False show ?thesis by (auto simp: div_eq_0_iff)
  qed
qed

lemma delim_scans:
  assumes "json_delim t"
  shows "takeWhile is_digit t = []" "dropWhile is_digit t = t" "scan_fraction t = ([], t)" "scan_exponent t = ([], t)"
  using assms by (cases t; auto simp: json_delim_def is_digit_def scan_fraction_def scan_exponent_def Let_def)+

lemma scan_whole_dec: "json_delim t \<Longrightarrow> scan_whole (dec n @ t) = (dec n, t)"
proof (cases "n = 0")
  case True
  have zero: "dec 0 = ''0''" by (simp add: in_base_digit digit_char_def)
  show ?thesis unfolding True zero by (simp add: scan_whole_def)
next
  case False
  assume t: "json_delim t"
  from False have "hd (dec n @ t) \<noteq> CHR ''0''" using dec_leading_zero [of n] by auto
  moreover have "takeWhile is_digit (dec n @ t) = dec n" "dropWhile is_digit (dec n @ t) = t"
    using dec_digits [of n] delim_scans(1,2) [OF t] by (auto simp: list_all_iff takeWhile_append2 dropWhile_append2)
  ultimately show ?thesis by (simp add: scan_whole_def)
qed

lemma read_int_text: "read_int (''-'' @ dec n) = Some (- int n)"
proof -
  have "py_strip (''-'' @ dec n) = ''-'' @ dec n"
  proof -
    have "\<not> is_space (hd (rev (dec n)))"
      using dec_digits [of n] digit_plain(1) [of "last (dec n)"] by (simp add: hd_rev list_all_iff)
    then have "dropWhile is_space (rev (dec n) @ ''-'') = rev (dec n) @ ''-''"
      by (cases "rev (dec n)") auto
    then show ?thesis by (simp add: py_strip_def is_space_def)
  qed
  then show ?thesis by (simp add: read_int_def split_sign_def)
qed

lemma scan_number_int:
  assumes "json_delim t"
  shows "scan_number (int_text n @ t) = Some (JInt n, t)"
proof (cases "n < 0")
  case True
  then show ?thesis
    using assms read_int_text [of "nat (- n)"]
    by (simp add: scan_number_def int_text_def signed_text_def scan_sign_def scan_whole_dec delim_scans)
next
  case False
  have "hd (dec k) \<noteq> CHR ''-''" for k
    using dec_digits [of k] digit_plain(2) [of "hd (dec k)"] by (simp add: list_all_iff)
  then have "scan_sign (dec k @ t) = ([], dec k @ t)" for k by (simp add: scan_sign_def)
  with False assms show ?thesis
    by (simp add: scan_number_def int_text_def signed_text_def scan_whole_dec delim_scans)
qed

text \<open>Token by token.\<close>

lemma json_tokens_Nil [simp]: "json_tokens [] = Some []"
  by (simp add: json_tokens.simps)

lemma json_tokens_space: "json_space c \<Longrightarrow> json_tokens (c # s) = json_tokens s"
  by (subst (1 2) json_tokens.simps) simp

lemma json_tokens_next:
  "\<not> json_space (hd s) \<Longrightarrow> next_token s = Some (tk, r) \<Longrightarrow> json_tokens s = map_option ((#) tk) (json_tokens r)"
  by (subst json_tokens.simps) (cases s; simp add: next_token_def)

lemma json_tokens_mark:
  assumes "(c, tk) \<in> set json_marks"
  shows "json_tokens (c # r) = map_option ((#) tk) (json_tokens r)"
proof -
  have "list_all (\<lambda>(c, tk). map_of json_marks c = Some tk \<and> \<not> json_space c) json_marks"
    by (simp add: json_marks_def json_space_def)
  with assms have "map_of json_marks c = Some tk" "\<not> json_space c" by (auto simp: list_all_iff)
  then show ?thesis by (intro json_tokens_next) (simp_all add: next_token_def)
qed

lemmas json_marks_tokens =
  json_tokens_mark [of "CHR ''[''" OpenArray] json_tokens_mark [of "CHR '']''" CloseArray]
  json_tokens_mark [of "CHR ''{''" OpenObject] json_tokens_mark [of "CHR ''}''" CloseObject]
  json_tokens_mark [of "CHR '',''" Comma] json_tokens_mark [of "CHR '':''" Colon]

lemmas json_mark_simps [simp] = json_marks_tokens [simplified json_marks_def, simplified]

lemma json_tokens_blank [simp]: "json_tokens (CHR '' '' # s) = json_tokens s" "json_tokens (CHR 0x0A # s) = json_tokens s"
  by (rule json_tokens_space, simp add: json_space_def)+

lemma json_tokens_string: "json_tokens (json_string x @ t) = map_option ((#) (Atom (JStr x))) (json_tokens t)"
  by (rule json_tokens_next)
    (simp_all add: json_string_def json_space_def next_token_def json_marks_def scan_json_chars)

text \<open>A number starts with a digit or a sign, which starts no mark or word.\<close>

lemma number_start:
  assumes "is_digit (hd s) \<or> hd s = CHR ''-'' \<and> is_digit (hd (tl s)) \<and> tl s \<noteq> []" and "s \<noteq> []"
  shows "\<not> json_space (hd s)" "next_token s = map_option (\<lambda>(x, r). (Atom x, r)) (scan_number s)"
proof -
  obtain c r where s: "s = c # r" using assms(2) by (cases s) auto
  have "list_all (\<lambda>(c, _). \<not> is_digit c \<and> c \<noteq> CHR ''-'') json_marks" by (simp add: json_marks_def is_digit_def)
  then have marks: "map_of json_marks c = None" using assms(1) s
    by (auto simp: map_of_eq_None_iff list_all_iff)
  have "list_all (\<lambda>(w, _). \<not> is_digit (hd w) \<and> w \<noteq> [] \<and> (hd w = CHR ''-'' \<longrightarrow> hd (tl w) = CHR ''I'' \<and> tl w \<noteq> [])) json_words"
    by (simp add: json_words_def is_digit_def)
  then have "\<not> prefix w s" if "(w, v) \<in> set json_words" for w v
    using that assms s by (cases w; cases "tl w"; cases r) (auto simp: list_all_iff is_digit_def)
  then have words: "find (\<lambda>(w, _). prefix w s) json_words = None" by (auto simp: find_None_iff)
  have "c \<noteq> json_quote" using assms(1) s by (auto simp: is_digit_def)
  with marks words s show "next_token s = map_option (\<lambda>(x, r). (Atom x, r)) (scan_number s)"
    by (simp add: next_token_def)
  show "\<not> json_space (hd s)" using assms(1) by (auto simp: json_space_def is_digit_def)
qed

lemma json_tokens_int:
  assumes "json_delim t"
  shows "json_tokens (int_text n @ t) = map_option ((#) (Atom (JInt n))) (json_tokens t)"
proof -
  have d: "is_digit (hd (dec k)) \<and> dec k \<noteq> []" for k using dec_digits [of k] by (simp add: list_all_iff)
  have "(is_digit (hd s) \<or> hd s = CHR ''-'' \<and> is_digit (hd (tl s)) \<and> tl s \<noteq> []) \<and> s \<noteq> []"
    if "s = int_text n @ t" for s
    using that d by (cases "n < 0") (simp_all add: int_text_def signed_text_def)
  from number_start [of "int_text n @ t"] this scan_number_int [OF assms, of n]
  show ?thesis by (intro json_tokens_next) auto
qed

text \<open>Parts that are joined with a comma and a space.\<close>

lemma join_tokens:
  assumes "\<And>p t. p \<in> set ps \<Longrightarrow> json_delim t \<Longrightarrow>
      json_tokens (txt p @ t) = map_option ((@) (tks p)) (json_tokens t)" and "json_delim t"
  shows "json_tokens (join '', '' (map txt ps) @ t) = map_option ((@) (separated Comma (map tks ps))) (json_tokens t)"
  using assms(1)
proof (induction ps rule: induct_list012)
  case 1
  then show ?case by (simp add: option.map_ident)
next
  case (2 p)
  with assms(2) show ?case by simp
next
  case (3 p q ps)
  have "json_delim ('','' @ u)" for u by (simp add: json_delim_def)
  with 3 show ?case by (simp add: option.map_comp comp_def)
qed

lemma json_tokens_dumps:
  "json_plain v \<Longrightarrow> json_delim t \<Longrightarrow> json_tokens (json_dumps v @ t) = map_option ((@) (tokens_of v)) (json_tokens t)"
proof (induction v arbitrary: t)
  case JNull
  show ?case by (simp add: json_tokens_next [where tk = "Atom JNull"] next_token_def json_marks_def json_words_def json_space_def)
next
  case (JBool b)
  show ?case
    by (cases b) (simp_all add: json_tokens_next [where tk = "Atom (JBool True)"] json_tokens_next [where tk = "Atom (JBool False)"]
        next_token_def json_marks_def json_words_def json_space_def)
next
  case (JInt n)
  then show ?case by (simp add: json_tokens_int)
next
  case (JStr x)
  show ?case by (simp add: json_tokens_string)
next
  case (JArray vs)
  have "json_tokens (join '', '' (map json_dumps vs) @ '']'' @ t) =
      map_option ((@) (separated Comma (map tokens_of vs))) (json_tokens ('']'' @ t))"
    by (rule join_tokens) (use JArray in \<open>auto simp: json_delim_def list_all_iff\<close>)
  then show ?case by (simp add: option.map_comp comp_def)
next
  case (JObject es)
  have "json_tokens ((case m of (k, v) \<Rightarrow> json_string k @ '': '' @ json_dumps v) @ u) =
      map_option ((@) (case m of (k, v) \<Rightarrow> Atom (JStr k) # Colon # tokens_of v)) (json_tokens u)"
    if m: "m \<in> set es" and u: "json_delim u" for m u
  proof -
    obtain k v where kv: "m = (k, v)" by force
    with m JObject have "json_tokens (json_dumps v @ u) = map_option ((@) (tokens_of v)) (json_tokens u)"
      using u by (force simp: list_all_iff)
    with kv show ?thesis by (cases "json_tokens u") (simp_all add: json_tokens_string)
  qed
  then have "json_tokens (join '', '' (map (\<lambda>(k, v). json_string k @ '': '' @ json_dumps v) es) @ ''}'' @ t) =
      map_option ((@) (separated Comma (map (\<lambda>(k, v). Atom (JStr k) # Colon # tokens_of v) es))) (json_tokens (''}'' @ t))"
    by (rule join_tokens) (simp_all add: json_delim_def)
  then show ?case by (simp add: option.map_comp comp_def)
qed simp_all

text \<open>The round trip, also with a line feed after the text.\<close>

lemma json_loads_dumps:
  assumes "json_plain v"
  shows "json_loads (json_dumps v) = Inr v" "json_loads (json_dumps v @ [CHR 0x0A]) = Inr v"
proof -
  have run: "json_run (tokens_of v) (WantValue, []) = Some (Have v, [])"
    using tokens_run [OF assms, of "[]" "[]"] by simp
  have "json_delim []" "json_delim [CHR 0x0A]" by (simp_all add: json_delim_def)
  from json_tokens_dumps [OF assms this(1)] json_tokens_dumps [OF assms this(2)] run
  show "json_loads (json_dumps v) = Inr v" "json_loads (json_dumps v @ [CHR 0x0A]) = Inr v"
    by (simp_all add: json_loads_def)
qed

end
