(* ===== verification/Ci_Scripts.thy ===== *)
theory Ci_Scripts
  imports Arg_Parse Json
begin

text \<open>
  The matrix of builds for the continuous integration (\<^verbatim>\<open>.github/scripts/generate_ci_matrix.py\<close>): read
  from lists and files of the projects, and printed as JSON, which is shown to read back as the
  matrix. The file system is a map from paths to the texts that reading them gives, so with line
  ends already translated.
\<close>

type_synonym files = "string \<Rightarrow> string option"

definition read_file :: "files \<Rightarrow> string \<Rightarrow> string result" where
  "read_file fs path =
     (case fs path of None \<Rightarrow> Inl (OSError (''No such file or directory: '' @ path)) | Some s \<Rightarrow> Inr s)"

section \<open>The matrix\<close>

text \<open>What a project excludes: the lines of its file, or the empty text when it has none.\<close>

datatype exclusions = ExclLines "string list" | ExclText string

fun in_exclusions :: "string \<Rightarrow> exclusions \<Rightarrow> bool" where
  "in_exclusions x (ExclLines ts) = (x \<in> set ts)"
| "in_exclusions x (ExclText s) = contains x s"

definition read_projects_to_test :: "files \<Rightarrow> string \<Rightarrow> string list result" where
  "read_projects_to_test fs workflows_path =
     bindE (read_file fs (path_join workflows_path ''projects_to_test.txt'')) (\<lambda>s. Inr (splitlines s))"

definition read_supported_targets :: "files \<Rightarrow> string \<Rightarrow> string list result" where
  "read_supported_targets fs workflows_path =
     bindE (read_file fs (path_join workflows_path ''supported_targets.txt'')) (\<lambda>s. Inr (splitlines s))"

definition ci_file :: "string \<Rightarrow> string \<Rightarrow> string \<Rightarrow> string" where
  "ci_file projects_path proj_name filename =
     path_join (path_join (path_join projects_path proj_name) ''ci'') filename"

definition read_proj_excluded_targets :: "files \<Rightarrow> string \<Rightarrow> string \<Rightarrow> exclusions" where
  "read_proj_excluded_targets fs projects_path proj_name =
     (case read_file fs (ci_file projects_path proj_name ''ci_exclude_targets.txt'') of
        Inr s \<Rightarrow> ExclLines (splitlines s) | Inl _ \<Rightarrow> ExclText '''')"

definition read_proj_build_params :: "files \<Rightarrow> string \<Rightarrow> string \<Rightarrow> nat \<Rightarrow> string" where
  "read_proj_build_params fs projects_path proj_name params_no =
     (case read_file fs (ci_file projects_path proj_name (''ci_build_params.txt.'' @ dec params_no)) of
        Inr s \<Rightarrow> replace_str [CHR 0x0A] '' '' s | Inl _ \<Rightarrow> '''')"

definition get_proj_supported_targets :: "string list \<Rightarrow> exclusions \<Rightarrow> string list" where
  "get_proj_supported_targets all_targets excluded_targets =
     filter (\<lambda>x. \<not> in_exclusions x excluded_targets) all_targets"

record matrix_entry =
  me_proj_name :: string
  me_platform :: string
  me_target :: string
  me_build_params :: string

definition append_to_json_list ::
    "string \<Rightarrow> string list \<Rightarrow> string \<Rightarrow> matrix_entry list \<Rightarrow> matrix_entry list" where
  "append_to_json_list proj_name proj_targets build_params json_list =
     json_list @ map (\<lambda>t. \<lparr>me_proj_name = proj_name,
       me_platform = (if t = ''hps'' then ''hps'' else ''common_soc''),
       me_target = t, me_build_params = build_params\<rparr>) proj_targets"

definition project_entries ::
    "files \<Rightarrow> string \<Rightarrow> string list \<Rightarrow> string \<Rightarrow> matrix_entry list \<Rightarrow> matrix_entry list" where
  "project_entries fs projects_path all_targets project json_list =
     (let proj_targets = get_proj_supported_targets all_targets
            (read_proj_excluded_targets fs projects_path project);
          json_list = append_to_json_list project proj_targets '''' json_list
      in fold (\<lambda>i js. let build_params = read_proj_build_params fs projects_path project i in
           if build_params \<noteq> '''' then append_to_json_list project proj_targets build_params js else js)
         [0..<10] json_list)"

definition ci_matrix :: "files \<Rightarrow> string \<Rightarrow> string \<Rightarrow> matrix_entry list result" where
  "ci_matrix fs workflows_path projects_path =
     bindE (read_projects_to_test fs workflows_path) (\<lambda>projects_to_test.
     bindE (read_supported_targets fs workflows_path) (\<lambda>all_targets.
       Inr (fold (project_entries fs projects_path all_targets) projects_to_test [])))"

text \<open>An entry is a dictionary with these members, in this order.\<close>

definition entry_json :: "matrix_entry \<Rightarrow> json" where
  "entry_json e = JObject
     [(''proj_name'', JStr (me_proj_name e)), (''platform'', JStr (me_platform e)),
      (''target'', JStr (me_target e)), (''build_params'', JStr (me_build_params e))]"

definition list_to_json_str :: "matrix_entry list \<Rightarrow> string" where
  "list_to_json_str final_list = json_dumps (JArray (map entry_json final_list))"

definition ci_main :: "files \<Rightarrow> string \<Rightarrow> string \<Rightarrow> string result" where
  "ci_main fs workflows_path projects_path =
     bindE (ci_matrix fs workflows_path projects_path) (\<lambda>js. Inr (list_to_json_str js @ [CHR 0x0A]))"

section \<open>Properties of the matrix\<close>

text \<open>The build parameters of a project: the default and the files numbered 0 to 9 that have text.\<close>

definition param_variants :: "files \<Rightarrow> string \<Rightarrow> string \<Rightarrow> string list" where
  "param_variants fs projects_path project =
     '''' # filter (\<lambda>p. p \<noteq> '''') (map (read_proj_build_params fs projects_path project) [0..<10])"

definition kept_targets :: "files \<Rightarrow> string \<Rightarrow> string list \<Rightarrow> string \<Rightarrow> string list" where
  "kept_targets fs projects_path all_targets project =
     (case fs (ci_file projects_path project ''ci_exclude_targets.txt'') of
        None \<Rightarrow> filter (\<lambda>t. t \<noteq> '''') all_targets
      | Some s \<Rightarrow> filter (\<lambda>t. t \<notin> set (splitlines s)) all_targets)"

definition matrix_row :: "string \<Rightarrow> string \<Rightarrow> string \<Rightarrow> matrix_entry" where
  "matrix_row project p t = \<lparr>me_proj_name = project,
     me_platform = (if t = ''hps'' then ''hps'' else ''common_soc''), me_target = t, me_build_params = p\<rparr>"

lemma fold_append_variants:
  "fold (\<lambda>i js. if f i \<noteq> '''' then js @ g (f i) else js) ks acc =
   acc @ concat (map g (filter (\<lambda>p. p \<noteq> '''') (map f ks)))"
  by (induction ks arbitrary: acc) auto

lemma supported_targets:
  "get_proj_supported_targets all_targets (read_proj_excluded_targets fs projects_path project) =
   kept_targets fs projects_path all_targets project"
proof -
  have "contains x [] \<longleftrightarrow> x = []" for x by (simp add: contains_iff)
  then show ?thesis
    by (simp add: get_proj_supported_targets_def read_proj_excluded_targets_def kept_targets_def
        read_file_def split: option.split)
qed

lemma project_entries_eq:
  "project_entries fs projects_path all_targets project js =
   js @ concat (map (\<lambda>p. map (matrix_row project p) (kept_targets fs projects_path all_targets project))
     (param_variants fs projects_path project))"
proof -
  have rows: "append_to_json_list project ts p acc = acc @ map (matrix_row project p) ts" for ts p acc
    by (simp add: append_to_json_list_def matrix_row_def)
  show ?thesis
    unfolding project_entries_def Let_def supported_targets rows
      fold_append_variants [where f = "read_proj_build_params fs projects_path project"
        and g = "\<lambda>p. map (matrix_row project p) (kept_targets fs projects_path all_targets project)"]
    by (simp add: param_variants_def)
qed

definition expected_matrix :: "files \<Rightarrow> string \<Rightarrow> string list \<Rightarrow> string list \<Rightarrow> matrix_entry list" where
  "expected_matrix fs projects_path projects targets =
     concat (map (\<lambda>project. concat (map (\<lambda>p. map (matrix_row project p)
         (kept_targets fs projects_path targets project)) (param_variants fs projects_path project))) projects)"

lemma ci_matrix_entries:
  "ci_matrix fs workflows_path projects_path =
     bindE (read_projects_to_test fs workflows_path) (\<lambda>projects.
     bindE (read_supported_targets fs workflows_path) (\<lambda>targets.
       Inr (expected_matrix fs projects_path projects targets)))"
proof -
  have "fold (project_entries fs projects_path ts) ps js = js @ expected_matrix fs projects_path ps ts" for ts ps js
    by (induction ps arbitrary: js) (simp_all add: project_entries_eq expected_matrix_def)
  then show ?thesis by (simp add: ci_matrix_def)
qed

text \<open>
  C39: the printed build matrix. When both lists can be read, the script prints JSON text that reads
  back as the list of all builds: for every project in order, the default build and each build with
  parameters, and for each of them every supported target that the project does not exclude; a
  project without an exclusion file excludes only the empty line. Otherwise it ends with the error
  that names the missing list.
\<close>

theorem ci_matrix_printed:
  "case (fs (path_join workflows_path ''projects_to_test.txt''),
      fs (path_join workflows_path ''supported_targets.txt'')) of
     (Some projects, Some targets) \<Rightarrow>
       \<exists>printed. ci_main fs workflows_path projects_path = Inr printed \<and>
         json_loads printed = Inr (JArray (map entry_json
           (expected_matrix fs projects_path (splitlines projects) (splitlines targets))))
   | (None, _) \<Rightarrow> ci_main fs workflows_path projects_path =
       Inl (OSError (''No such file or directory: '' @ path_join workflows_path ''projects_to_test.txt''))
   | (_, None) \<Rightarrow> ci_main fs workflows_path projects_path =
       Inl (OSError (''No such file or directory: '' @ path_join workflows_path ''supported_targets.txt''))"
proof -
  have "json_plain (JArray (map entry_json es))" for es
    by (simp add: list_all_iff entry_json_def)
  note reads = json_loads_dumps(2) [OF this]
  show ?thesis
    by (simp add: ci_main_def ci_matrix_entries read_projects_to_test_def read_supported_targets_def
        read_file_def list_to_json_str_def reads del: json_dumps.simps split: option.split)
qed

end
