(* ===== verification/Report_Scripts.thy ===== *)
theory Report_Scripts
  imports Complex_Main Ci_Scripts "HOL-Library.Multiset"
begin

text \<open>
  Three scripts on files: \<^verbatim>\<open>scripts/xxd.py\<close>, which writes a file as a C array, \<^verbatim>\<open>scripts/scanprof.py\<close>, which
  adds up the cycles of a profile per operation, and \<^verbatim>\<open>scripts/nextpnr-timing.py\<close>, which lists the longest
  paths of a timing report in JSON.
\<close>

section \<open>\<^verbatim>\<open>xxd.py\<close>\<close>

definition LINE_LEN :: nat where
  "LINE_LEN = 12"

text \<open>The loop over the bytes, from number \<open>n\<close> on.\<close>

fun xxd_items :: "nat \<Rightarrow> 8 word list \<Rightarrow> string" where
  "xxd_items n [] = ''''"
| "xxd_items n (b # bs) =
     (if 0 = n mod LINE_LEN then [CHR 0x09] else '''') @
     ''0x'' @ zero_pad 2 (hex_lower (unat b)) @ '','' @
     (if LINE_LEN - 1 = n mod LINE_LEN then [CHR 0x0A] else '' '') @ xxd_items (Suc n) bs"

definition xxd_array_name :: "string \<Rightarrow> string" where
  "xxd_array_name infile = splitext_root (basename infile)"

definition xxd_header :: "string \<Rightarrow> string" where
  "xxd_header infile = ''/* C array created from file '' @ infile @ ''.*/'' @ [CHR 0x0A, CHR 0x0A] @
     ''const unsigned char '' @ xxd_array_name infile @ ''[] = {'' @ [CHR 0x0A]"

definition xxd_footer :: "string \<Rightarrow> nat \<Rightarrow> string" where
  "xxd_footer infile n = [CHR 0x0A] @ ''};'' @ [CHR 0x0A, CHR 0x0A] @
     ''unsigned int '' @ xxd_array_name infile @ ''_len = '' @ dec n @ '';''"

definition xxd_main :: "string \<Rightarrow> 8 word list \<Rightarrow> string" where
  "xxd_main infile data = xxd_header infile @ xxd_items 0 data @ xxd_footer infile (length data)"

text \<open>
  The script with its command line. Parsing opens the files, the input for reading and the output
  for writing, which empties it; a file that cannot be opened is a usage error. A dash is the
  standard input or output, and the output is closed before the namespace is printed. The result is
  the text of the output file, what is printed, and how the script ends.
\<close>

record xxd_run =
  xxd_written :: "(string \<times> string) option"
  xxd_stdout :: string
  xxd_end :: "unit result"

definition xxd_parser :: parser_spec where
  "xxd_parser = \<lparr>parser_options = [], parser_positionals = [''infile'', ''outfile''], exclusive_groups = []\<rparr>"

definition xxd_namespace :: "string \<Rightarrow> string \<Rightarrow> string" where
  "xxd_namespace infile outfile =
     ''Namespace(infile=<_io.BufferedReader name='' @ [CHR 0x27] @ infile @ [CHR 0x27] @
     ''>, outfile=<_io.TextIOWrapper name='' @ [CHR 0x27] @ outfile @ [CHR 0x27] @
     '' mode='' @ [CHR 0x27] @ ''w'' @ [CHR 0x27] @ '' encoding='' @ [CHR 0x27] @ ''UTF-8'' @ [CHR 0x27] @ ''>)'' @
     [CHR 0x0A]"

definition xxd_script ::
    "string list \<Rightarrow> 8 word list \<Rightarrow> (string \<Rightarrow> 8 word list option) \<Rightarrow> (string \<Rightarrow> bool) \<Rightarrow> xxd_run" where
  "xxd_script argv stdin files writable =
     (case parse_known_args xxd_parser [] argv of
        Inl e \<Rightarrow> \<lparr>xxd_written = None, xxd_stdout = '''', xxd_end = Inl e\<rparr>
      | Inr (ns, extras) \<Rightarrow>
          let infile = str_arg (arg_val ns ''infile''); outfile = str_arg (arg_val ns ''outfile'') in
          if infile \<noteq> ''-'' \<and> files infile = None \<or> outfile \<noteq> ''-'' \<and> \<not> writable outfile
          then \<lparr>xxd_written = None, xxd_stdout = '''', xxd_end = usage_error\<rparr>
          else if extras \<noteq> []
          then \<lparr>xxd_written = (if outfile = ''-'' then None else Some (outfile, '''')), xxd_stdout = '''',
            xxd_end = usage_error\<rparr>
          else let data = (if infile = ''-'' then stdin else if infile = outfile then [] else the (files infile));
                   infile_name = (if infile = ''-'' then ''<stdin>'' else infile);
                   array = xxd_main infile_name data
               in if outfile = ''-''
                  then \<lparr>xxd_written = None, xxd_stdout = array,
                    xxd_end = Inl (ValueError ''I/O operation on closed file.'')\<rparr>
                  else \<lparr>xxd_written = Some (outfile, array), xxd_stdout = xxd_namespace infile_name outfile,
                    xxd_end = Inr ()\<rparr>)"

text \<open>Reading an initialiser back: hexadecimal constants, each with a comma.\<close>

function c_bytes :: "string \<Rightarrow> nat list" where
  "c_bytes s =
     (case dropWhile is_space s of
        z # x # r \<Rightarrow>
          if z = CHR ''0'' \<and> x = CHR ''x'' then
            (case many1 is_hex r of
               Some (h, c # r') \<Rightarrow> if c = CHR '','' then the (read_base 16 h) # c_bytes r' else []
             | _ \<Rightarrow> [])
          else []
      | _ \<Rightarrow> [])"
  by pat_completeness auto

termination
proof (relation "measure length", goal_cases)
  case (2 s z xs x r ht h cr c r')
  then have "r = h @ c # r'" using many1_Some [of is_hex r h "c # r'"] by simp
  moreover have "length (dropWhile is_space s) \<le> length s" by (rule length_dropWhile_le)
  ultimately show ?case using 2 by simp
qed simp

declare c_bytes.simps [simp del]

lemma c_bytes_item:
  assumes "list_all is_space sp" "list_all is_hex h" "h \<noteq> []"
  shows "c_bytes (sp @ ''0x'' @ h @ CHR '','' # r) = the (read_base 16 h) # c_bytes r"
proof -
  have "dropWhile is_space (sp @ ''0x'' @ h @ CHR '','' # r) = ''0x'' @ h @ CHR '','' # r"
    using assms(1) by (simp add: dropWhile_append2 list_all_iff is_space_def)
  moreover have "many1 is_hex (h @ CHR '','' # r) = Some (h, CHR '','' # r)"
    by (rule many1_append) (simp_all add: assms is_hex_def is_digit_def)
  ultimately show ?thesis by (subst c_bytes.simps) simp
qed

lemma c_bytes_space: "is_space c \<Longrightarrow> c_bytes (c # s) = c_bytes s"
  by (subst (1 2) c_bytes.simps) simp

lemma hex_byte: "list_all is_hex (zero_pad 2 (hex_lower (unat (b :: 8 word))))"
  "zero_pad 2 (hex_lower (unat b)) \<noteq> []" "read_base 16 (zero_pad 2 (hex_lower (unat b))) = Some (unat b)"
  using hex_digits(1) [of "unat b"]
  by (auto simp: zero_pad_def list_all_iff is_hex_def is_digit_def read_base_def read_in_base)

lemma c_bytes_items: "c_bytes (xxd_items n bs @ rest) = map unat bs @ c_bytes rest"
proof (induction bs arbitrary: n)
  case (Cons b bs)
  have sp: "is_space CHR 0x0A" "is_space CHR '' ''" "is_space CHR 0x09" by (simp_all add: is_space_def)
  let ?h = "zero_pad 2 (hex_lower (unat b))"
  have "c_bytes ((if 0 = n mod LINE_LEN then [CHR 0x09] else '''') @ ''0x'' @ ?h @ CHR '','' # r) =
      unat b # c_bytes r" for r
    using c_bytes_item [of "if 0 = n mod LINE_LEN then [CHR 0x09] else ''''" ?h r] hex_byte [of b] sp
    by simp
  moreover have "c_bytes ((if LINE_LEN - 1 = n mod LINE_LEN then [CHR 0x0A] else '' '') @ r) = c_bytes r" for r
    using sp by (simp add: c_bytes_space)
  ultimately show ?case using Cons by simp
qed simp

text \<open>
  C38: the array in the written text is the file. Whatever the name and the bytes, reading the
  initialiser of the text back gives exactly the bytes, and the length that follows is theirs.
\<close>

theorem xxd_roundtrip:
  "c_bytes (drop (length (xxd_header infile)) (xxd_main infile data)) = map unat data \<and>
   suffix (''_len = '' @ dec (length data) @ '';'') (xxd_main infile data)"
proof -
  have "c_bytes (xxd_footer infile n) = []" for n
    by (subst c_bytes.simps) (simp add: xxd_footer_def is_space_def)
  then show ?thesis by (simp add: xxd_main_def c_bytes_items xxd_footer_def suffix_def)
qed

section \<open>\<^verbatim>\<open>scanprof.py\<close>\<close>

text \<open>The regular expression \<open>(\d+),(.*),(\d+)\<close>: the middle group is as long as possible.\<close>

fun split_last :: "string \<Rightarrow> (string \<times> string) option" where
  "split_last [] = None"
| "split_last (c # cs) =
     (case split_last cs of
        Some (x, d) \<Rightarrow> Some (c # x, d)
      | None \<Rightarrow>
          if c = CHR '','' then map_option (\<lambda>(d, _). ([], d)) (many1 is_digit cs) else None)"

definition match_profile :: "string \<Rightarrow> (string \<times> string \<times> string) option" where
  "match_profile lin =
     Option.bind (many1 is_digit lin) (\<lambda>(layer, s).
     Option.bind (lit CHR '','' s) (\<lambda>s.
     Option.bind (split_last s) (\<lambda>(tfop, cyc). Some (layer, tfop, cyc))))"

record prof_state =
  prof_totals :: "(string \<times> nat) list"
  prof_n :: nat
  prof_total_cyc :: nat
  prof_out :: "string list"

definition prof_init :: prof_state where
  "prof_init = \<lparr>prof_totals = [], prof_n = 1, prof_total_cyc = 0, prof_out = []\<rparr>"

definition int_of_digits :: "string \<Rightarrow> nat" where
  "int_of_digits s = the (read_base 10 s)"

definition prof_line :: "string \<Rightarrow> prof_state \<Rightarrow> prof_state" where
  "prof_line line st =
     (case match_profile (replace_str [CHR 0x0A] '''' (replace_str [CHR 0x0D] '''' line)) of
        None \<Rightarrow> st
      | Some (layer, tfop, cyc) \<Rightarrow>
          (let d = prof_totals st;
               d = (if map_of d tfop = None then AList.update tfop 0 d else d) in
           st\<lparr>prof_out := prof_out st @ [dec (prof_n st) @ '' , '' @ tfop @ '' , '' @ cyc],
              prof_n := prof_n st + 1,
              prof_totals := AList.update tfop (the (map_of d tfop) + int_of_digits cyc) d,
              prof_total_cyc := prof_total_cyc st + int_of_digits cyc\<rparr>))"

definition prof_keys :: "prof_state \<Rightarrow> string list" where
  "prof_keys st = sort_key (\<lambda>k. the (map_of (prof_totals st) k)) (map fst (prof_totals st))"

definition pad_left :: "nat \<Rightarrow> string \<Rightarrow> string" where
  "pad_left w s = replicate (w - length s) CHR '' '' @ s"

text \<open>\<open>%3.1f\<close> of a number of cycles divided by \<open>1e3\<close>.\<close>

definition format_thousands :: "nat \<Rightarrow> string result" where
  "format_thousands v =
     (case thousandth (double_of False v 1) of
        Finite m e \<Rightarrow> Inr (format_tenths m e)
      | _ \<Rightarrow> Inl (OverflowError ''int too large to convert to float''))"

definition prof_row :: "prof_state \<Rightarrow> string \<Rightarrow> string result" where
  "prof_row st k =
     (let v = the (map_of (prof_totals st) k) in
      bindE (format_thousands v) (\<lambda>f.
        Inr (pad_left 30 k @ ''  '' @ pad_left 12 (dec v) @ ''   ('' @ f @ ''M)'')))"

text \<open>The printed lines, when the script does not end with an error.\<close>

definition scanprof :: "string list \<Rightarrow> string list result" where
  "scanprof lines =
     (let st = fold prof_line lines prof_init in
      bindE (mapE (prof_row st) (prof_keys st)) (\<lambda>rows.
      bindE (format_thousands (prof_total_cyc st)) (\<lambda>f.
        Inr (prof_out st @ [[CHR 0x0A] @ ''Totals'' @ [CHR 0x0A]] @ rows @
          [[CHR 0x0A] @ ''Grand Total: '' @ f @ ''M'' @ [CHR 0x0A, CHR 0x0A]]))))"

text \<open>The entries of a profile: operation and cycles of each line that matches.\<close>

definition profile_entry :: "string \<Rightarrow> (string \<times> nat) list" where
  "profile_entry line =
     (case match_profile (replace_str [CHR 0x0A] '''' (replace_str [CHR 0x0D] '''' line)) of
        None \<Rightarrow> [] | Some (_, tfop, cyc) \<Rightarrow> [(tfop, int_of_digits cyc)])"

definition cycles_of :: "(string \<times> nat) list \<Rightarrow> string \<Rightarrow> nat" where
  "cycles_of es op = sum_list (map snd (filter (\<lambda>e. fst e = op) es))"

definition prof_ok :: "(string \<times> nat) list \<Rightarrow> prof_state \<Rightarrow> bool" where
  "prof_ok es st \<longleftrightarrow> distinct (map fst (prof_totals st)) \<and> prof_total_cyc st = sum_list (map snd es) \<and>
     prof_n st = length es + 1 \<and> length (prof_out st) = length es \<and>
     map_of (prof_totals st) = (\<lambda>op. if op \<in> fst ` set es then Some (cycles_of es op) else None)"

lemma cycles_of_absent [simp]: "op \<notin> fst ` set es \<Longrightarrow> cycles_of es op = 0"
proof -
  assume "op \<notin> fst ` set es"
  then have "filter (\<lambda>e. fst e = op) es = []" by (auto simp: filter_empty_conv)
  then show ?thesis by (simp add: cycles_of_def)
qed

lemma cycles_of_snoc [simp]:
  "cycles_of (es @ [(t, v)]) op = cycles_of es op + (if op = t then v else 0)"
  by (simp add: cycles_of_def)

lemma prof_ok_init: "prof_ok [] prof_init"
  by (simp add: prof_ok_def prof_init_def fun_eq_iff)

lemma prof_ok_line:
  assumes "prof_ok es st"
  shows "prof_ok (es @ profile_entry line) (prof_line line st)"
proof (cases "match_profile (replace_str [CHR 0x0A] '''' (replace_str [CHR 0x0D] '''' line))")
  case (Some m)
  obtain l tfop c where m: "m = (l, tfop, c)" by (cases m)
  let ?v = "int_of_digits c" and ?d = "prof_totals st"
  let ?d' = "if map_of ?d tfop = None then AList.update tfop 0 ?d else ?d"
  have "the (map_of ?d' tfop) = cycles_of es tfop"
    using assms by (simp add: prof_ok_def update_conv')
  then have new: "prof_totals (prof_line line st) = AList.update tfop (cycles_of es tfop + ?v) ?d'"
    using Some m by (simp add: prof_line_def Let_def)
  have "distinct (map fst ?d')" using assms by (simp add: prof_ok_def distinct_update)
  then have "distinct (map fst (prof_totals (prof_line line st)))"
    unfolding new by (rule distinct_update)
  moreover have "map_of (prof_totals (prof_line line st)) =
      (\<lambda>op. if op \<in> fst ` set (es @ [(tfop, ?v)]) then Some (cycles_of (es @ [(tfop, ?v)]) op) else None)"
    using assms unfolding new by (auto simp: prof_ok_def update_conv' fun_eq_iff)
  moreover have "profile_entry line = [(tfop, ?v)]" using Some m by (simp add: profile_entry_def)
  ultimately show ?thesis using assms Some m by (simp add: prof_ok_def prof_line_def Let_def)
qed (use assms in \<open>simp add: prof_line_def profile_entry_def\<close>)

lemma prof_ok_fold: "prof_ok es st \<Longrightarrow> prof_ok (es @ concat (map profile_entry lines)) (fold prof_line lines st)"
proof (induction lines arbitrary: es st)
  case (Cons l ls)
  from Cons.IH [OF prof_ok_line [OF Cons.prems, of l]] show ?case by simp
qed simp

lemma sum_list_single:
  "distinct ops \<Longrightarrow> sum_list (map (\<lambda>op. if op = k then v else 0) ops) = (if k \<in> set ops then v else (0 :: nat))"
  by (induction ops) auto

lemma sum_cycles:
  "sum_list (map (cycles_of es) ops) = sum_list (map snd es)" if "distinct ops" "fst ` set es \<subseteq> set ops"
  using that(2)
proof (induction es)
  case (Cons e es)
  have "cycles_of (e # es) op = (if op = fst e then snd e else 0) + cycles_of es op" for op
    by (simp add: cycles_of_def)
  moreover have "sum_list (map (\<lambda>op. if op = fst e then snd e else 0) ops) = snd e"
    using sum_list_single [OF that(1)] Cons.prems by simp
  ultimately show ?case using Cons by (simp add: sum_list_addf)
qed simp

text \<open>
  The totals of a profile. For every input the totals have exactly the operations that occur,
  each with the sum of its cycles; they are listed once each, by increasing total; and the grand
  total is the sum of all cycles and of the listed totals.
\<close>

theorem scanprof_totals:
  "let es = concat (map profile_entry lines); st = fold prof_line lines prof_init;
     total = (\<lambda>k. the (map_of (prof_totals st) k)) in
   set (prof_keys st) = fst ` set es \<and> distinct (prof_keys st) \<and> sorted (map total (prof_keys st)) \<and>
   map total (prof_keys st) = map (cycles_of es) (prof_keys st) \<and>
   prof_total_cyc st = sum_list (map snd es) \<and> prof_total_cyc st = sum_list (map total (prof_keys st))"
proof -
  let ?es = "concat (map profile_entry lines)" and ?st = "fold prof_line lines prof_init"
  let ?total = "\<lambda>k. the (map_of (prof_totals ?st) k)"
  have ok: "prof_ok ?es ?st" using prof_ok_fold [OF prof_ok_init, of lines] by simp
  have keys: "set (prof_keys ?st) = dom (map_of (prof_totals ?st))" by (simp add: prof_keys_def dom_map_of_conv_image_fst)
  then have set: "set (prof_keys ?st) = fst ` set ?es" using ok by (auto simp: prof_ok_def dom_def)
  have dist: "distinct (prof_keys ?st)" using ok by (simp add: prof_keys_def prof_ok_def)
  have "map ?total (prof_keys ?st) = map (cycles_of ?es) (prof_keys ?st)"
    using ok set by (auto simp: prof_ok_def)
  moreover have "sum_list (map ?total (prof_keys ?st)) = sum_list (map snd ?es)"
    unfolding calculation by (rule sum_cycles [OF dist]) (simp add: set)
  ultimately show ?thesis
    using set dist ok by (simp add: Let_def prof_ok_def) (simp add: prof_keys_def)
qed

section \<open>\<^verbatim>\<open>nextpnr-timing.py\<close>\<close>

text \<open>What Python's operations do with the values of a report, errors included.\<close>

fun json_get :: "json \<Rightarrow> string \<Rightarrow> json result" where
  "json_get (JObject es) k = (case map_of es k of Some v \<Rightarrow> Inr v | None \<Rightarrow> Inl (KeyError k))"
| "json_get (JArray vs) k = Inl (TypeError ''list indices must be integers or slices, not str'')"
| "json_get (JStr s) k = Inl (TypeError ''string indices must be integers'')"
| "json_get v k = Inl (TypeError ''object is not subscriptable'')"

fun json_in :: "string \<Rightarrow> json \<Rightarrow> bool result" where
  "json_in s (JStr x) = Inr (contains s x)"
| "json_in s (JArray vs) = Inr (JStr s \<in> set vs)"
| "json_in s (JObject es) = Inr (s \<in> fst ` set es)"
| "json_in s v = Inl (TypeError ''object is not iterable'')"

fun json_iter :: "json \<Rightarrow> json list result" where
  "json_iter (JArray vs) = Inr vs"
| "json_iter (JObject es) = Inr (map (\<lambda>e. JStr (fst e)) es)"
| "json_iter (JStr x) = Inr (map (\<lambda>c. JStr [c]) x)"
| "json_iter v = Inl (TypeError ''object is not iterable'')"

text \<open>Numbers are compared by their exact values; a truth value is a number too.\<close>

datatype number_key = NegInf | Exact rat | PosInf

instantiation number_key :: linorder
begin

fun less_eq_number_key :: "number_key \<Rightarrow> number_key \<Rightarrow> bool" where
  "less_eq_number_key NegInf y \<longleftrightarrow> True"
| "less_eq_number_key (Exact x) y \<longleftrightarrow> (case y of NegInf \<Rightarrow> False | Exact z \<Rightarrow> x \<le> z | PosInf \<Rightarrow> True)"
| "less_eq_number_key PosInf y \<longleftrightarrow> y = PosInf"

definition less_number_key :: "number_key \<Rightarrow> number_key \<Rightarrow> bool" where
  "less_number_key x y \<longleftrightarrow> x \<le> y \<and> \<not> y \<le> x"

instance
proof
  fix x y z :: number_key
  show "x < y \<longleftrightarrow> x \<le> y \<and> \<not> y \<le> x" by (rule less_number_key_def)
  show "x \<le> x" by (cases x) simp_all
  show "x \<le> z" if "x \<le> y" "y \<le> z" using that by (cases x; cases y; cases z) simp_all
  show "x = y" if "x \<le> y" "y \<le> x" using that by (cases x; cases y) simp_all
  show "x \<le> y \<or> y \<le> x" by (cases x; cases y) auto
qed

end

fun float_key :: "py_float \<Rightarrow> number_key option" where
  "float_key (Finite m e) = Some (Exact (of_int m * 2 ^ nat e / 2 ^ nat (- e)))"
| "float_key (Infinite neg) = Some (if neg then NegInf else PosInf)"
| "float_key NotANumber = None"

fun json_key :: "json \<Rightarrow> number_key option result" where
  "json_key (JInt n) = Inr (Some (Exact (of_int n)))"
| "json_key (JBool b) = Inr (Some (Exact (if b then 1 else 0)))"
| "json_key (JFloat x) = Inr (float_key x)"
| "json_key v = Inl (TypeError ''not supported between instances of float and this type'')"

definition float_less :: "py_float \<Rightarrow> json \<Rightarrow> bool result" where
  "float_less x v = bindE (json_key v) (\<lambda>k.
     Inr (case (float_key x, k) of (Some a, Some b) \<Rightarrow> a < b | _ \<Rightarrow> False))"

text \<open>The paths: driver, cell and delay, as they are in the report.\<close>

type_synonym timing_path = "json \<times> json \<times> json"

definition endpoint_paths :: "string \<Rightarrow> py_float \<Rightarrow> json \<Rightarrow> json \<Rightarrow> timing_path list result" where
  "endpoint_paths dst tgt_len src endpoint =
     bindE (json_get endpoint ''cell'') (\<lambda>cell.
     bindE (json_in dst cell) (\<lambda>found.
       if found then
         bindE (json_get endpoint ''delay'') (\<lambda>dly.
         bindE (float_less tgt_len dly) (\<lambda>longer.
           Inr (if longer then [(src, cell, dly)] else [])))
       else Inr []))"

definition net_paths :: "string \<Rightarrow> string \<Rightarrow> py_float \<Rightarrow> json \<Rightarrow> timing_path list result" where
  "net_paths src dst tgt_len net =
     bindE (json_get net ''driver'') (\<lambda>driver.
     bindE (json_in src driver) (\<lambda>found.
       if found then
         bindE (json_get net ''endpoints'') (\<lambda>es.
         bindE (json_iter es) (\<lambda>es.
         bindE (mapE (endpoint_paths dst tgt_len driver) es) (\<lambda>ps. Inr (concat ps))))
       else Inr []))"

definition timing_paths :: "string \<Rightarrow> string \<Rightarrow> py_float \<Rightarrow> json \<Rightarrow> timing_path list result" where
  "timing_paths src dst tgt_len data =
     bindE (json_get data ''detailed_net_timings'') (\<lambda>nets.
     bindE (json_iter nets) (\<lambda>nets.
     bindE (mapE (net_paths src dst tgt_len) nets) (\<lambda>ps. Inr (concat ps))))"

text \<open>\<open>xs.sort(key=f, reverse=True)\<close> keeps the order of equal elements; \<open>xs[:n]\<close> for any integer.\<close>

definition sort_reverse :: "('a \<Rightarrow> 'd::linorder) \<Rightarrow> 'a list \<Rightarrow> 'a list" where
  "sort_reverse f xs = rev (sort_key f (rev xs))"

definition slice_to :: "int \<Rightarrow> 'a list \<Rightarrow> 'a list" where
  "slice_to n xs = (if 0 \<le> n then take (nat n) xs else take (length xs - nat (- n)) xs)"

text \<open>The key of the sort; a path is only kept when its delay is a number that can be compared.\<close>

definition path_delay :: "timing_path \<Rightarrow> number_key" where
  "path_delay p = (case json_key (snd (snd p)) of Inr (Some k) \<Rightarrow> k | _ \<Rightarrow> NegInf)"

definition longest_paths :: "int \<Rightarrow> timing_path list \<Rightarrow> timing_path list" where
  "longest_paths results paths = slice_to results (sort_reverse path_delay paths)"

text \<open>A value in a format string; the text of an array or an object is the parameter \<open>show_container\<close>.\<close>

fun json_text :: "(json \<Rightarrow> string) \<Rightarrow> json \<Rightarrow> string" where
  "json_text show_container (JStr x) = x"
| "json_text show_container (JInt n) = int_text n"
| "json_text show_container (JFloat x) = float_repr x"
| "json_text show_container (JBool b) = (if b then ''True'' else ''False'')"
| "json_text show_container JNull = ''None''"
| "json_text show_container v = show_container v"

definition path_line :: "(json \<Rightarrow> string) \<Rightarrow> timing_path \<Rightarrow> string" where
  "path_line show_container = (\<lambda>(src, tgt, dly).
     json_text show_container src @ '' -> '' @ json_text show_container tgt @ '' : '' @
     json_text show_container dly)"

definition timing_parser :: parser_spec where
  "timing_parser = \<lparr>parser_options =
      [store_opt ''--src'' (PStr ''''), store_opt ''--dst'' (PStr ''''),
       \<lparr>opt_flag = ''--results'', opt_action = Store, opt_type = TInt, opt_default = PInt 100\<rparr>,
       \<lparr>opt_flag = ''--tgt-len'', opt_action = Store, opt_type = TFloat, opt_default = PFloat (Finite 0 0)\<rparr>],
     parser_positionals = [''file''], exclusive_groups = []\<rparr>"

fun int_of_arg :: "py_val \<Rightarrow> int" where
  "int_of_arg (PInt n) = n"
| "int_of_arg _ = 0"

fun float_of_arg :: "py_val \<Rightarrow> py_float" where
  "float_of_arg (PFloat x) = x"
| "float_of_arg _ = NotANumber"

definition timing_script :: "(json \<Rightarrow> string) \<Rightarrow> files \<Rightarrow> string list \<Rightarrow> string list result" where
  "timing_script show_container fs argv =
     bindE (parse_args timing_parser (parser_defaults timing_parser) argv) (\<lambda>args.
     bindE (read_file fs (str_arg (arg_val args ''file''))) (\<lambda>s.
     bindE (json_loads s) (\<lambda>data.
     bindE (timing_paths (str_arg (arg_val args ''src'')) (str_arg (arg_val args ''dst''))
         (float_of_arg (arg_val args ''tgt_len'')) data) (\<lambda>paths.
       Inr (map (path_line show_container) (longest_paths (int_of_arg (arg_val args ''results'')) paths))))))"

text \<open>A report as the router writes it.\<close>

record endpoint =
  ep_cell :: string
  ep_delay :: py_float

record net_timing =
  driver :: string
  endpoints :: "endpoint list"

definition report_json :: "net_timing list \<Rightarrow> json" where
  "report_json nets = JObject [(''detailed_net_timings'', JArray (map (\<lambda>net.
     JObject [(''driver'', JStr (driver net)), (''endpoints'', JArray (map (\<lambda>e.
       JObject [(''cell'', JStr (ep_cell e)), (''delay'', JFloat (ep_delay e))]) (endpoints net)))]) nets))]"

definition longer :: "py_float \<Rightarrow> py_float \<Rightarrow> bool" where
  "longer x y = (case (float_key x, float_key y) of (Some a, Some b) \<Rightarrow> a < b | _ \<Rightarrow> False)"

definition report_paths :: "string \<Rightarrow> string \<Rightarrow> py_float \<Rightarrow> net_timing list \<Rightarrow> timing_path list" where
  "report_paths src dst tgt_len nets = concat (map (\<lambda>net. concat (map (\<lambda>e.
     if contains src (driver net) \<and> contains dst (ep_cell e) \<and> longer tgt_len (ep_delay e)
     then [(JStr (driver net), JStr (ep_cell e), JFloat (ep_delay e))] else []) (endpoints net))) nets)"

lemma mapE_map: "mapE f (map g xs) = mapE (\<lambda>x. f (g x)) xs"
  by (induction xs) simp_all

lemma mapE_pure: "mapE (\<lambda>x. Inr (f x)) xs = Inr (map f xs)"
  by (induction xs) simp_all

lemma timing_paths_report: "timing_paths src dst tgt_len (report_json nets) = Inr (report_paths src dst tgt_len nets)"
proof -
  have e: "endpoint_paths dst tgt_len d (JObject [(''cell'', JStr (ep_cell e)), (''delay'', JFloat (ep_delay e))]) =
      Inr (if contains dst (ep_cell e) \<and> longer tgt_len (ep_delay e) then [(d, JStr (ep_cell e), JFloat (ep_delay e))] else [])"
    for d e by (simp add: endpoint_paths_def float_less_def longer_def)
  have n: "net_paths src dst tgt_len (JObject [(''driver'', JStr (driver net)), (''endpoints'', JArray (map (\<lambda>e.
       JObject [(''cell'', JStr (ep_cell e)), (''delay'', JFloat (ep_delay e))]) (endpoints net)))]) =
      Inr (report_paths src dst tgt_len [net])" for net
    by (simp add: net_paths_def report_paths_def mapE_map comp_def e mapE_pure)
  show ?thesis
    by (simp add: timing_paths_def report_json_def mapE_map comp_def n mapE_pure)
      (simp add: report_paths_def)
qed

lemma sort_reverse_facts:
  "mset (sort_reverse f xs) = mset xs" "sorted_wrt (\<lambda>x y. f y \<le> f x) (sort_reverse f xs)"
proof -
  have "sorted_wrt (\<lambda>x y. f x \<le> f y) (sort_key f (rev xs))"
    using sorted_sort_key [of f "rev xs"] by (simp add: sorted_map)
  then show "sorted_wrt (\<lambda>x y. f y \<le> f x) (sort_reverse f xs)"
    by (simp add: sort_reverse_def sorted_wrt_rev)
qed (simp add: sort_reverse_def)

lemma slice_to_split: "\<exists>rest. xs = slice_to n xs @ rest"
  by (metis append_take_drop_id slice_to_def)

text \<open>
  The report lists the longest paths. For a report of the router, the paths are those from a
  matching driver to a matching endpoint with a delay above the bound; those listed come by falling
  delay; the paths left out, if any, are not longer than those listed; and as many are listed as
  asked for, or all.
\<close>

theorem timing_report_longest:
  "\<exists>paths rest. timing_paths src dst tgt_len (report_json nets) = Inr paths \<and>
     set paths = {(JStr s, JStr t, JFloat d) |s t d. \<exists>net \<in> set nets. \<exists>e \<in> set (endpoints net).
       driver net = s \<and> ep_cell e = t \<and> ep_delay e = d \<and> contains src s \<and> contains dst t \<and> longer tgt_len d} \<and>
     mset (longest_paths results paths) + mset rest = mset paths \<and>
     sorted_wrt (\<lambda>p q. path_delay q \<le> path_delay p) (longest_paths results paths @ rest) \<and>
     length (longest_paths results paths) =
       (if 0 \<le> results then min (nat results) (length paths) else length paths - nat (- results))"
proof -
  let ?all = "report_paths src dst tgt_len nets"
  let ?long = "longest_paths results ?all" and ?sorted = "sort_reverse path_delay ?all"
  obtain rest where rest: "?sorted = ?long @ rest"
    unfolding longest_paths_def using slice_to_split by blast
  have "mset ?long + mset rest = mset ?all"
    using sort_reverse_facts(1) [of path_delay ?all] by (simp add: rest)
  moreover have "length ?sorted = length ?all" by (simp add: sort_reverse_def)
  then have "length ?long = (if 0 \<le> results then min (nat results) (length ?all)
      else length ?all - nat (- results))"
    by (cases "0 \<le> results") (simp_all add: longest_paths_def slice_to_def min.commute)
  moreover have "set ?all = {(JStr s, JStr t, JFloat d) |s t d. \<exists>net \<in> set nets. \<exists>e \<in> set (endpoints net).
      driver net = s \<and> ep_cell e = t \<and> ep_delay e = d \<and> contains src s \<and> contains dst t \<and> longer tgt_len d}"
    by (auto simp: report_paths_def split: if_splits) blast
  ultimately show ?thesis
    using sort_reverse_facts(2) [of path_delay ?all] timing_paths_report [of src dst tgt_len nets]
    by (intro exI [of _ ?all] exI [of _ rest]) (simp add: rest)
qed

end
