(* ===== verification/Renode_Scripts.thy ===== *)
theory Renode_Scripts
  imports Ci_Scripts
begin

text \<open>
  The files for the Renode simulator (\<^verbatim>\<open>scripts/generate_renode_scripts.py\<close>): the script that sets up
  the machine, its platform description, and a test. The generator of the framework for the platform
  description is a parameter. The file operations are listed in order.
\<close>

section \<open>Texts\<close>

definition newline :: string where "newline = [CHR 0x0A]"
definition quote :: string where "quote = [CHR 0x22]"

definition generate_resc :: "string \<Rightarrow> string option \<Rightarrow> string" where
  "generate_resc target cfu_lib_filepath =
     newline @ ''using sysbus'' @ newline @ ''mach create '' @ quote @ target @ quote @ newline @
     ''machine LoadPlatformDescription $ORIGIN/'' @ target @ ''.repl'' @ newline @
     ''machine StartGdbServer 10001'' @ newline @ ''showAnalyzer sysbus.uart'' @ newline @
     ''showAnalyzer sysbus.uart Antmicro.Renode.Analyzers.LoggingUartAnalyzer'' @ newline @
     (case cfu_lib_filepath of
        Some lib \<Rightarrow> if lib = '''' then '''' else newline @ ''cpu.cfu0 SimulationFilePathLinux @'' @ lib @ newline
      | None \<Rightarrow> '''') @
     newline @ ''sysbus LoadELF $ORIGIN/../software.elf'' @ newline"

definition custom_csrs :: "string list" where
  "custom_csrs = map (\<lambda>n. ''        RegisterCustomCSR '' @ quote @ ''BPM'' @ quote @ '' 0x'' @ hex_upper n @ ''  User'')
     [0xB04..<0xB16]"

definition generate_repl :: "string \<Rightarrow> string \<Rightarrow> string option \<Rightarrow> bool \<Rightarrow> string" where
  "generate_repl target path cfu_lib_filepath predefined =
     ''using '' @ quote @ path @ target @ (if predefined then ''_predefined.repl'' else ''_generated.repl'') @ quote @
     newline @ newline @ ''cpu:'' @ newline @ ''    init:'' @ newline @
     concat (map (\<lambda>l. l @ newline) custom_csrs) @
     (case cfu_lib_filepath of
        Some lib \<Rightarrow> if lib = '''' then '''' else newline @ ''cfu0: Verilated.CFUVerilatedPeripheral @ cpu 0'' @ newline
      | None \<Rightarrow> '''')"

definition generate_robot :: "files \<Rightarrow> string \<Rightarrow> string \<Rightarrow> string result" where
  "generate_robot fs robot_template_path target =
     bindE (read_file fs robot_template_path) (\<lambda>s. Inr (replace_str ''TARGET'' target s))"

section \<open>Paths\<close>

text \<open>\<open>os.path.normpath\<close> and \<open>abspath\<close>.\<close>

fun norm_comps :: "bool \<Rightarrow> string list \<Rightarrow> string list \<Rightarrow> string list" where
  "norm_comps absolute acc [] = rev acc"
| "norm_comps absolute acc (c # cs) =
     (if c = '''' \<or> c = ''.'' then norm_comps absolute acc cs
      else if c \<noteq> ''..'' \<or> (\<not> absolute \<and> acc = []) \<or> (acc \<noteq> [] \<and> hd acc = ''..'')
        then norm_comps absolute (c # acc) cs
      else if acc \<noteq> [] then norm_comps absolute (tl acc) cs
      else norm_comps absolute acc cs)"

definition normpath :: "string \<Rightarrow> string" where
  "normpath path =
     (let slashes = (if prefix ''/'' path then
            (if prefix ''//'' path \<and> \<not> prefix ''///'' path then ''//'' else ''/'') else '''');
          p = slashes @ join ''/'' (norm_comps (slashes \<noteq> '''') [] (split_char CHR ''/'' path))
      in if p = '''' then ''.'' else p)"

definition abspath :: "string \<Rightarrow> string \<Rightarrow> string" where
  "abspath cwd path = normpath (if prefix ''/'' path then path else path_join cwd path)"

text \<open>\<open>re.search("proj/(.*)/build", path).group(1)\<close> for a path of one line.\<close>

fun before_last :: "string \<Rightarrow> string \<Rightarrow> string option" where
  "before_last pat [] = None"
| "before_last pat (c # cs) =
     (case before_last pat cs of
        Some x \<Rightarrow> Some (c # x)
      | None \<Rightarrow> if prefix pat (c # cs) then Some [] else None)"

fun search_project :: "string \<Rightarrow> string option" where
  "search_project [] = None"
| "search_project (c # cs) =
     (if prefix ''proj/'' (c # cs) \<and> before_last ''/build'' (drop 5 (c # cs)) \<noteq> None
      then before_last ''/build'' (drop 5 (c # cs)) else search_project cs)"

section \<open>\<open>main\<close>\<close>

definition renode_parser :: parser_spec where
  "renode_parser =
     \<lparr>parser_options = [store_opt ''--repl'' PNone, append_opt ''--etherbone'', append_opt ''--auto-align'',
        store_true ''--sw-only''],
      parser_positionals = [''conf_file'', ''target'', ''build_path''], exclusive_groups = []\<rparr>"

datatype file_op = CopyFile string string | WriteFile string string | PrintLine string

text \<open>
  What the framework provides: the check of the Etherbone peripherals, and the platform description
  of a configuration that was read from JSON.
\<close>

record renode_tools =
  check_etherbone :: "py_val \<Rightarrow> py_val result"
  litex_repl :: "json \<Rightarrow> py_val \<Rightarrow> py_val \<Rightarrow> string result"

definition generate_litex_renode_repl ::
    "renode_tools \<Rightarrow> files \<Rightarrow> string \<Rightarrow> py_val \<Rightarrow> py_val \<Rightarrow> string result" where
  "generate_litex_renode_repl tools fs conf_file etherbone_peripherals autoalign =
     bindE (read_file fs conf_file) (\<lambda>s.
     bindE (json_loads s) (\<lambda>csr. litex_repl tools csr etherbone_peripherals autoalign))"

definition is_file :: "files \<Rightarrow> string \<Rightarrow> bool" where
  "is_file fs p \<longleftrightarrow> fs p \<noteq> None"

definition copy_into :: "string \<Rightarrow> string \<Rightarrow> file_op" where
  "copy_into src dir = CopyFile src (path_join dir (basename src))"

definition cfu_lib :: "files \<Rightarrow> string \<Rightarrow> bool \<Rightarrow> string option" where
  "cfu_lib fs build_path sw_only =
     (let p = path_join build_path ''libVtop.so'' in if \<not> is_file fs p \<or> sw_only then None else Some p)"

definition resc_ops :: "files \<Rightarrow> string \<Rightarrow> string \<Rightarrow> string \<Rightarrow> string option \<Rightarrow> file_op list" where
  "resc_ops fs proj_path build_path target lib =
     (let predefined = path_join (path_join proj_path ''renode'') (target @ ''.resc'') in
      if is_file fs predefined then [copy_into predefined build_path]
      else [WriteFile (build_path @ target @ ''.resc'') (generate_resc target lib)])"

definition repl_ops ::
    "renode_tools \<Rightarrow> files \<Rightarrow> string \<Rightarrow> string \<Rightarrow> string \<Rightarrow> string option \<Rightarrow> py_val \<Rightarrow> py_val \<Rightarrow> string \<Rightarrow>
     file_op list result" where
  "repl_ops tools fs proj_path build_path target lib peripherals autoalign conf_file =
     (let predefined = path_join (path_join proj_path ''renode'') (target @ ''.repl'');
          repl = build_path @ target @ ''.repl'' in
      if is_file fs predefined then
        Inr [CopyFile predefined (path_join build_path (target @ ''_predefined.repl'')),
             WriteFile repl (generate_repl target build_path lib True)]
      else
        bindE (generate_litex_renode_repl tools fs conf_file peripherals autoalign) (\<lambda>text.
          Inr [WriteFile (build_path @ target @ ''_generated.repl'') text,
               WriteFile repl (generate_repl target build_path lib False)]))"

definition robot_ops :: "files \<Rightarrow> string \<Rightarrow> string \<Rightarrow> string \<Rightarrow> string \<Rightarrow> file_op list result" where
  "robot_ops fs proj_path proj_name build_path target =
     (let predefined = path_join (path_join proj_path ''renode'') (target @ ''.robot'');
          template = path_join proj_path (proj_name @ ''.robot'') in
      if is_file fs predefined then Inr [copy_into predefined build_path]
      else if is_file fs template then
        bindE (generate_robot fs template target) (\<lambda>s.
          Inr [WriteFile (build_path @ target @ ''.robot'') s])
      else Inr [PrintLine (''Warning: '' @ proj_name @ ''.robot was not generated, could not find '' @ template)])"

definition renode_main ::
    "renode_tools \<Rightarrow> string \<Rightarrow> files \<Rightarrow> py_val dict \<Rightarrow> file_op list result" where
  "renode_main tools cwd fs args =
     (let build_path = str_arg (arg_val args ''build_path''); target = str_arg (arg_val args ''target'') in
      case search_project build_path of
        None \<Rightarrow> Inl (AttributeError '''NoneType' object has no attribute group'')
      | Some proj_name \<Rightarrow>
          (let proj_path = abspath cwd (path_join build_path ''../..'');
               lib = cfu_lib fs build_path (flag_set args ''sw_only'') in
           bindE (check_etherbone tools (arg_val args ''etherbone'')) (\<lambda>peripherals.
           bindE (repl_ops tools fs proj_path build_path target lib peripherals (arg_val args ''auto_align'')
             (str_arg (arg_val args ''conf_file''))) (\<lambda>repl.
           bindE (robot_ops fs proj_path proj_name build_path target) (\<lambda>robot.
             Inr (resc_ops fs proj_path build_path target lib @ repl @ robot))))))"

definition renode_main_argv ::
    "renode_tools \<Rightarrow> string \<Rightarrow> files \<Rightarrow> string list \<Rightarrow> file_op list result" where
  "renode_main_argv tools cwd fs argv =
     bindE (parse_args renode_parser (parser_defaults renode_parser) argv) (renode_main tools cwd fs)"

section \<open>Properties\<close>

text \<open>What a list of operations leaves at a path.\<close>

definition written :: "file_op list \<Rightarrow> string set" where
  "written ops = {p. \<exists>s. WriteFile p s \<in> set ops \<or> CopyFile s p \<in> set ops}"



lemma written_simps [simp]:
  "written [] = {}" "written (xs @ ys) = written xs \<union> written ys"
  "written (WriteFile p s # xs) = insert p (written xs)" "written (CopyFile s p # xs) = insert p (written xs)"
  by (auto simp: written_def)




section \<open>The name of the project\<close>

lemma before_last_found:
  "\<not> contains pat (tl pat @ rest) \<Longrightarrow> pat \<noteq> [] \<Longrightarrow> before_last pat (name @ pat @ rest) = Some name"
proof (induction name)
  case Nil
  have none: "before_last pat s = None" if "\<not> contains pat s" for s
    using that by (induction s) (auto split: option.splits)
  then show ?case using Nil by (cases pat) auto
qed auto

text \<open>
  How the name of the project is found in the build path: it is the text between \<open>proj/\<close> and the
  last \<open>/build\<close>, for a root that has no \<open>proj/\<close> of its own; with one, the name begins there.
\<close>

lemma search_project_name:
  assumes "\<not> contains ''proj/'' (root @ ''proj'')" and "\<not> contains ''/build'' (''build'' @ rest)"
  shows "search_project (root @ ''proj/'' @ name @ ''/build'' @ rest) = Some name"
  using assms(1)
proof (induction root)
  case Nil
  have "before_last ''/build'' (name @ ''/build'' @ rest) = Some name"
    by (rule before_last_found) (use assms(2) in simp_all)
  then show ?case by simp
next
  case (Cons c root)
  have "\<not> prefix ''proj/'' (c # root @ ''proj/'' @ s)" for s
  proof
    assume *: "prefix ''proj/'' (c # root @ ''proj/'' @ s)"
    have "prefix (c # root @ ''proj'') (c # root @ ''proj/'' @ s)" by simp
    with * have "prefix ''proj/'' (c # root @ ''proj'')"
      by (rule prefix_length_prefix) simp
    with Cons.prems show False by (simp only: append_Cons contains.simps(2) de_Morgan_disj simp_thms)
  qed
  then have step: "search_project ((c # root) @ ''proj/'' @ name @ ''/build'' @ rest) =
      search_project (root @ ''proj/'' @ name @ ''/build'' @ rest)"
    by (simp only: append_Cons search_project.simps simp_thms if_False)
  have "\<not> contains ''proj/'' (root @ ''proj'')"
    using Cons.prems by (simp only: append_Cons contains.simps de_Morgan_disj simp_thms)
  then show ?case by (rule trans [OF step Cons.IH])
qed

lemma search_project_nested:
  "search_project ''/home/me/proj/cfu/proj/foo/build/renode/'' = Some ''cfu/proj/foo''"
  by code_simp

end
