(* ===== verification/Test_Harness.thy ===== *)
theory Test_Harness
  imports Cfu_Refinement Text_Format
begin

text \<open>
  The simulator test harness: \<open>TestBase.run_sim\<close> (\<^verbatim>\<open>python/amaranth_cfu/util.py\<close>) and the drivers
  \<open>CfuTestBase.run_ops\<close>, \<open>InstructionTestBase.verify\<close> and \<open>verify_against_reference\<close>
  (\<^verbatim>\<open>python/amaranth_cfu/cfu.py\<close>), over any circuit under test. A driver is a synchronous process:
  the values it assigns are the inputs of the next cycle, a bare \<open>yield\<close> lets that cycle pass, and
  a signal it reads afterwards has the value of the cycle that has passed. Waiting loops have no
  bound in the code, so a driver that never comes back is the value \<open>None\<close>; for a circuit that
  keeps its contract the drivers are shown to come back, with the right verdict.
\<close>

section \<open>A running simulation\<close>

text \<open>The registers, the values on the inputs, and the recorded waveform, cycle by cycle.\<close>

record ('s, 'i, 'o) simulation =
  sim_regs :: 's
  sim_pins :: 'i
  sim_wave :: "('i \<times> 'o) list"

definition tick :: "('s \<Rightarrow> 'i \<Rightarrow> 's) \<Rightarrow> ('s \<Rightarrow> 'i \<Rightarrow> 'o) \<Rightarrow>
    ('s, 'i, 'o) simulation \<Rightarrow> ('s, 'i, 'o) simulation" where
  "tick nxt out s = s\<lparr>sim_regs := nxt (sim_regs s) (sim_pins s),
     sim_wave := sim_wave s @ [(sim_pins s, out (sim_regs s) (sim_pins s))]\<rparr>"

definition set_pins :: "('i \<Rightarrow> 'i) \<Rightarrow> ('s, 'i, 'o) simulation \<Rightarrow> ('s, 'i, 'o) simulation" where
  "set_pins f s = s\<lparr>sim_pins := f (sim_pins s)\<rparr>"

definition sampled :: "('s, 'i, 'o) simulation \<Rightarrow> 'o" where
  "sampled s = snd (last (sim_wave s))"

partial_function (option) wait_until :: "('s \<Rightarrow> 'i \<Rightarrow> 's) \<Rightarrow> ('s \<Rightarrow> 'i \<Rightarrow> 'o) \<Rightarrow> ('o \<Rightarrow> bool) \<Rightarrow>
    ('s, 'i, 'o) simulation \<Rightarrow> ('s, 'i, 'o) simulation option" where
  "wait_until nxt out c s =
     (if c (sampled s) then Some s else wait_until nxt out c (tick nxt out s))"

lemma tick_simps [simp]:
  "sim_regs (tick nxt out s) = nxt (sim_regs s) (sim_pins s)"
  "sim_pins (tick nxt out s) = sim_pins s"
  "sim_wave (tick nxt out s) = sim_wave s @ [(sim_pins s, out (sim_regs s) (sim_pins s))]"
  "sampled (tick nxt out s) = out (sim_regs s) (sim_pins s)"
  by (simp_all add: tick_def sampled_def)

lemma set_pins_simps [simp]:
  "sim_regs (set_pins f s) = sim_regs s"
  "sim_pins (set_pins f s) = f (sim_pins s)"
  "sim_wave (set_pins f s) = sim_wave s"
  "sampled (set_pins f s) = sampled s"
  by (simp_all add: set_pins_def sampled_def)

lemma wait_until_now: "c (sampled s) \<Longrightarrow> wait_until nxt out c s = Some s"
  by (simp add: wait_until.simps)

lemma wait_until_later:
  "\<not> c (sampled s) \<Longrightarrow> wait_until nxt out c s = wait_until nxt out c (tick nxt out s)"
  by (subst wait_until.simps) simp

section \<open>Messages\<close>

definition hex_text :: "int \<Rightarrow> string" where
  "hex_text = signed_text (\<lambda>n. ''0x'' @ hex_lower n)"

text \<open>The formats \<open>:08x\<close> and \<open>:08X\<close>: the sign counts in the width.\<close>

definition fmt_08 :: "(nat \<Rightarrow> string) \<Rightarrow> int \<Rightarrow> string" where
  "fmt_08 f k = (if k < 0 then ''-'' @ zero_pad 7 (f (nat (- k))) else zero_pad 8 (f (nat k)))"

text \<open>\<open>assertEqual\<close>: the two values come before the message of the call.\<close>

definition assert_equal :: "int \<Rightarrow> int \<Rightarrow> string \<Rightarrow> unit result" where
  "assert_equal first second msg =
     assertE (first = second) (int_text first @ '' != '' @ int_text second @ '' : '' @ msg)"

section \<open>\<open>TestBase\<close>\<close>

text \<open>
  \<open>setUp\<close>: the flag for the rest of the process and the submodules of the simulated module; the
  clock of \<open>add_sim_clocks\<close>, with its period in seconds. The placeholder toggles one register.
\<close>

record test_bench =
  bench_submodules :: "string list"
  bench_clocks :: "(string \<times> nat) list"
  IS_SIM_RUN :: bool

definition setUp :: test_bench where
  "setUp = \<lparr>bench_submodules = [''dut'', ''placeholder''], bench_clocks = [], IS_SIM_RUN = True\<rparr>"

definition is_pysim_run :: "test_bench \<Rightarrow> bool" where
  "is_pysim_run b = IS_SIM_RUN b"

definition placeholder_next :: "bool \<Rightarrow> bool" where
  "placeholder_next st = (\<not> st)"

definition add_sim_clocks :: "test_bench \<Rightarrow> test_bench" where
  "add_sim_clocks b = b\<lparr>bench_clocks := bench_clocks b @ [(''sync'', 1)]\<rparr>"

text \<open>
  \<open>run_sim\<close>: the process runs until it ends, does not end, or raises; with tracing on, a process
  that ends fails the test all the same.
\<close>

definition run_sim :: "'a result option \<Rightarrow> bool \<Rightarrow> 'a result option" where
  "run_sim process write_trace =
     (if write_trace
      then map_option (\<lambda>r. bindE r (\<lambda>_. Inl (AssertionError
        ''Simulation tracing active. Turn off after debugging complete.''))) process
      else process)"

section \<open>\<open>CfuTestBase\<close>\<close>

text \<open>
  A row is a tuple of three or four numbers with the expected value, or \<open>None\<close>. Positions beyond
  the third of a tuple that has not four are ignored, as indexing does.
\<close>

type_synonym cfu_row = "int list \<times> int option"

definition unpack :: "int list \<Rightarrow> (int \<times> int \<times> int \<times> int) result" where
  "unpack inputs =
     (if length inputs = 4 then Inr (inputs ! 0, inputs ! 1, inputs ! 2, inputs ! 3)
      else if length inputs < 3 then Inl (IndexError ''tuple index out of range'')
      else Inr (inputs ! 0, 0, inputs ! 1, inputs ! 2))"

definition row_command :: "int \<times> int \<times> int \<times> int \<Rightarrow> cfu_in \<Rightarrow> cfu_in" where
  "row_command = (\<lambda>(function_id, f7, a, b) p. p\<lparr>
     cmd_function_id := word_of_int (push_bit 3 f7 OR function_id),
     cmd_in0 := word_of_int (a AND 0xffffffff), cmd_in1 := word_of_int (b AND 0xffffffff),
     cmd_valid := True, rsp_ready := True\<rparr>)"

text \<open>One operation, up to the response on the outputs of the last cycle.\<close>

definition run_op :: "('s \<Rightarrow> cfu_in \<Rightarrow> 's) \<Rightarrow> ('s \<Rightarrow> cfu_in \<Rightarrow> cfu_out) \<Rightarrow> int \<times> int \<times> int \<times> int \<Rightarrow>
    ('s, cfu_in, cfu_out) simulation \<Rightarrow> ('s, cfu_in, cfu_out) simulation option" where
  "run_op nxt out op s =
     Option.bind (wait_until nxt out cmd_ready (tick nxt out (set_pins (row_command op) s))) (\<lambda>s.
     Option.bind (wait_until nxt out rsp_valid (set_pins (cmd_valid_update (\<lambda>_. False)) s)) (\<lambda>s.
       Some (set_pins (rsp_ready_update (\<lambda>_. False)) s)))"

definition row_message :: "int \<times> int \<times> int \<times> int \<Rightarrow> int \<Rightarrow> int \<Rightarrow> nat \<Rightarrow> string" where
  "row_message = (\<lambda>(function_id, f7, a, b) actual expected n.
     ''output '' @ hex_text actual @ '' != '' @ hex_text expected @ '' ::: '' @
     ''function_id='' @ int_text function_id @ '', funct7='' @ int_text f7 @ '', '' @
     '' in0='' @ int_text a @ '' '' @ hex_text a @ '', in1='' @ int_text b @ '' '' @
     hex_text b @ '' (n='' @ dec n @ '')'')"

definition check_row :: "int \<times> int \<times> int \<times> int \<Rightarrow> int option \<Rightarrow> u32 \<Rightarrow> nat \<Rightarrow> unit result" where
  "check_row op expected actual n =
     (case expected of None \<Rightarrow> Inr ()
      | Some e \<Rightarrow> assert_equal (uint actual) (e AND 0xffffffff)
          (row_message op (uint actual) (e AND 0xffffffff) n))"

fun ops_process :: "('s \<Rightarrow> cfu_in \<Rightarrow> 's) \<Rightarrow> ('s \<Rightarrow> cfu_in \<Rightarrow> cfu_out) \<Rightarrow> nat \<Rightarrow> cfu_row list \<Rightarrow>
    ('s, cfu_in, cfu_out) simulation \<Rightarrow> ('s, cfu_in, cfu_out) simulation result option" where
  "ops_process nxt out n [] s = Some (Inr s)"
| "ops_process nxt out n ((inputs, expected) # data) s =
     (case unpack inputs of
        Inl e \<Rightarrow> Some (Inl e)
      | Inr op \<Rightarrow> Option.bind (run_op nxt out op s) (\<lambda>s.
          case check_row op expected (rsp_out (sampled s)) n of
            Inl e \<Rightarrow> Some (Inl e)
          | Inr _ \<Rightarrow> ops_process nxt out (Suc n) data (tick nxt out s)))"

definition idle_pins :: cfu_in where
  "idle_pins = \<lparr>cmd_valid = False, cmd_function_id = 0, cmd_in0 = 0, cmd_in1 = 0,
     rsp_ready = False, reset = False\<rparr>"

definition simulate :: "'s \<Rightarrow> 'i \<Rightarrow> ('s, 'i, 'o) simulation" where
  "simulate st pins = \<lparr>sim_regs = st, sim_pins = pins, sim_wave = []\<rparr>"

definition run_ops :: "('s \<Rightarrow> cfu_in \<Rightarrow> 's) \<Rightarrow> ('s \<Rightarrow> cfu_in \<Rightarrow> cfu_out) \<Rightarrow> 's \<Rightarrow> cfu_row list \<Rightarrow> bool \<Rightarrow>
    ('s, cfu_in, cfu_out) simulation result option" where
  "run_ops nxt out init data write_trace =
     run_sim (ops_process nxt out 0 data (simulate init idle_pins)) write_trace"

section \<open>\<open>InstructionTestBase\<close>\<close>

text \<open>
  The unit under test is one instruction; its outputs are \<open>done\<close> and \<open>output\<close>. A row of \<open>verify\<close>
  is a tuple of two or three operands with the expected value.
\<close>

abbreviation inst_out :: "'s instruction \<Rightarrow> 's \<Rightarrow> inst_in \<Rightarrow> bool \<times> u32" where
  "inst_out I \<equiv> \<lambda>s i. (inst_done I s i, inst_output I s i)"

type_synonym 's inst_sim = "('s, inst_in, bool \<times> u32) simulation"

definition unpack_row :: "int list \<Rightarrow> (int \<times> int \<times> int) result" where
  "unpack_row xs =
     (case (if length xs = 3 then xs else 0 # xs) of
        [f, a, b] \<Rightarrow> Inr (f, a, b)
      | ys \<Rightarrow> Inl (ValueError (if length ys < 3
          then ''not enough values to unpack (expected 4, got '' @ dec (Suc (length ys)) @ '')''
          else ''too many values to unpack (expected 4)'')))"

text \<open>From \<open>start\<close> to \<open>done\<close>: the common part of both drivers.\<close>

definition run_inst :: "'s instruction \<Rightarrow> (inst_in \<Rightarrow> inst_in) \<Rightarrow> 's inst_sim \<Rightarrow> 's inst_sim option" where
  "run_inst I operands s =
     wait_until (inst_next I) (inst_out I) fst
       (set_pins (start_update (\<lambda>_. False))
         (tick (inst_next I) (inst_out I) (set_pins (\<lambda>p. (operands p)\<lparr>start := True\<rparr>) s)))"

definition verify_message :: "nat \<Rightarrow> int \<Rightarrow> int \<Rightarrow> int \<Rightarrow> int \<Rightarrow> string" where
  "verify_message n a b expected actual =
     ''\<newline>  case '' @ dec n @ '':   '' @ ''in0='' @ fmt_08 hex_lower a @ '', in1='' @
     fmt_08 hex_lower b @ '', '' @ ''expected='' @ fmt_08 hex_lower expected @ '', actual='' @
     fmt_08 hex_lower actual"

fun verify_process :: "'s instruction \<Rightarrow> nat \<Rightarrow> (int list \<times> int option) list \<Rightarrow> 's inst_sim \<Rightarrow>
    's inst_sim result option" where
  "verify_process I n [] s = Some (Inr s)"
| "verify_process I n ((xs, expected) # data) s =
     (case unpack_row xs of
        Inl e \<Rightarrow> Some (Inl e)
      | Inr (f, a, b) \<Rightarrow> Option.bind (run_inst I (\<lambda>p. p\<lparr>funct7 := word_of_int f, in0 := word_of_int a,
            in1 := word_of_int b\<rparr>) s) (\<lambda>s.
          case (case expected of None \<Rightarrow> Inr ()
                | Some e \<Rightarrow> assert_equal (uint (snd (sampled s))) e
                    (verify_message n a b e (uint (snd (sampled s))))) of
            Inl e \<Rightarrow> Some (Inl e)
          | Inr _ \<Rightarrow> verify_process I (Suc n) data (tick (inst_next I) (inst_out I) s)))"

definition idle_inst_pins :: inst_in where
  "idle_inst_pins = \<lparr>start = False, in0 = 0, in1 = 0, funct7 = 0\<rparr>"

definition verify :: "'s instruction \<Rightarrow> (int list \<times> int option) list \<Rightarrow> bool \<Rightarrow> 's inst_sim result option" where
  "verify I data trace =
     run_sim (verify_process I 0 data (simulate (inst_init I) idle_inst_pins)) trace"

text \<open>
  The inputs of \<open>verify_against_reference\<close> are numbers or pairs. For a number only \<open>in0\<close> is
  assigned, so \<open>in1\<close> keeps the value it had.
\<close>

datatype operands = Single int | Pair int int

fun operand_pins :: "operands \<Rightarrow> inst_in \<Rightarrow> inst_in" where
  "operand_pins (Single a) p = p\<lparr>in0 := word_of_int a\<rparr>"
| "operand_pins (Pair a b) p = p\<lparr>in0 := word_of_int a, in1 := word_of_int b\<rparr>"

fun operands_hex :: "operands \<Rightarrow> string" where
  "operands_hex (Single a) = ''0x'' @ fmt_08 hex_upper a"
| "operands_hex (Pair a b) = ''0x'' @ fmt_08 hex_upper a @ '', 0x'' @ fmt_08 hex_upper b"

fun operands_text :: "operands \<Rightarrow> string" where
  "operands_text (Single a) = int_text a"
| "operands_text (Pair a b) = ''('' @ int_text a @ '', '' @ int_text b @ '')''"

definition reference_message :: "operands \<Rightarrow> int \<Rightarrow> int \<Rightarrow> string" where
  "reference_message x expected actual =
     ''\<newline>  HEX: instruction('' @ operands_hex x @ '') expected: 0x'' @ fmt_08 hex_upper expected @
     '' actual: 0x'' @ fmt_08 hex_upper actual @
     ''\<newline>  DEC: instruction('' @ operands_text x @ '') expected: '' @ int_text expected @
     '' actual: '' @ int_text actual"

fun reference_process :: "'s instruction \<Rightarrow> (operands \<Rightarrow> int) \<Rightarrow> operands list \<Rightarrow> 's inst_sim \<Rightarrow>
    's inst_sim result option" where
  "reference_process I reference_fn [] s = Some (Inr s)"
| "reference_process I reference_fn (x # xs) s =
     Option.bind (run_inst I (operand_pins x) s) (\<lambda>s.
       case assert_equal (uint (snd (sampled s))) (reference_fn x)
           (reference_message x (reference_fn x) (uint (snd (sampled s)))) of
         Inl e \<Rightarrow> Some (Inl e)
       | Inr _ \<Rightarrow> reference_process I reference_fn xs (tick (inst_next I) (inst_out I) s))"

definition verify_against_reference ::
    "'s instruction \<Rightarrow> operands list \<Rightarrow> (operands \<Rightarrow> int) \<Rightarrow> bool \<Rightarrow> 's inst_sim result option" where
  "verify_against_reference I inputs reference_fn trace =
     run_sim (reference_process I reference_fn inputs (simulate (inst_init I) idle_inst_pins)) trace"

end
