(* ===== verification/Harness_Properties.thy ===== *)
theory Harness_Properties
  imports Test_Harness Clock_Control Cfu_Properties
begin

text \<open>
  What a test of the harness means: for a circuit that keeps the contract of a CFU, or of an
  instruction, the drivers come back, and they pass exactly when the expected values are those of
  the reference.
\<close>

section \<open>One operation of a CFU\<close>

lemmas sim_simps = tick_simps set_pins_simps

context spec_refinement
begin

lemma wait_answer:
  "rel (sim_regs s) (Busy n v) \<Longrightarrow> \<not> rsp_valid (sampled s) \<Longrightarrow> \<not> reset (sim_pins s) \<Longrightarrow>
   rsp_ready (sim_pins s) \<Longrightarrow> \<not> cmd_valid (sim_pins s) \<Longrightarrow>
   \<exists>s' w. wait_until nxt out rsp_valid s = Some s' \<and> rel (sim_regs s') Idle \<and>
     sim_pins s' = sim_pins s \<and> sim_wave s' = sim_wave s @ w \<and> rsp_out (sampled s') = v \<and>
     commands_of ref w = [] \<and> responses_of w = [v] \<and> length w \<le> Suc n"
proof (induction n arbitrary: s rule: less_induct)
  case (less n)
  let ?p = "sim_pins s" and ?t = "tick nxt out s"
  from less.prems obtain b where b: "spec_cycle ref lat (Busy n v) ?p (out (sim_regs s) ?p) b"
    and rel: "rel (nxt (sim_regs s) ?p) b"
    using step_refines by blast
  note later = wait_until_later [of rsp_valid s nxt out, OF less.prems(2)]
  from b show ?case
  proof (cases rule: spec_BusyE [consumes 1, case_names keep fin])
    case (keep m)
    with rel less.prems less.IH [of m ?t] obtain s' w where
      w: "wait_until nxt out rsp_valid ?t = Some s'" "rel (sim_regs s') Idle" "sim_pins s' = ?p"
        "sim_wave s' = sim_wave ?t @ w" "rsp_out (sampled s') = v" "commands_of ref w = []"
        "responses_of w = [v]" "length w \<le> Suc m"
      by auto
    from w keep less.prems show ?thesis
      by (intro exI [of _ s'] exI [of _ "(?p, out (sim_regs s) ?p) # w"])
        (auto simp: later accepted_def delivered_def)
  next
    case fin
    with rel less.prems have "rel (nxt (sim_regs s) ?p) Idle" by (simp add: taken_or_held_def)
    with fin less.prems show ?thesis
      by (intro exI [of _ ?t] exI [of _ "[(?p, out (sim_regs s) ?p)]"])
        (auto simp: later wait_until_now accepted_def delivered_def)
  qed
qed

lemma run_op_answers:
  assumes rel: "rel (sim_regs s) Idle" and "\<not> reset (sim_pins s)"
    and v: "v = command_value ref (row_command op (sim_pins s))"
  shows "\<exists>s' w. run_op nxt out op s = Some s' \<and> rel (sim_regs s') Idle \<and>
     \<not> reset (sim_pins s') \<and> \<not> cmd_valid (sim_pins s') \<and> sim_wave s' = sim_wave s @ w \<and>
     rsp_out (sampled s') = v \<and> commands_of ref w = [v] \<and> responses_of w = [v] \<and>
     length w \<le> Suc lat"
proof -
  let ?p = "row_command op (sim_pins s)"
  let ?o = "out (sim_regs s) ?p"
  let ?t = "tick nxt out (set_pins (row_command op) s)"
  let ?u = "set_pins (cmd_valid_update (\<lambda>_. False)) ?t"
  have p: "cmd_valid ?p" "rsp_ready ?p" "\<not> reset ?p"
    using assms(2) by (simp_all add: row_command_def split: prod.splits)
  obtain b where b: "spec_cycle ref lat Idle ?p ?o b" and rel': "rel (nxt (sim_regs s) ?p) b"
    using step_refines [OF rel p(3)] by blast
  from b show ?thesis
  proof (cases rule: spec_IdleE [consumes 1, case_names none fast slow])
    case none
    with p show ?thesis by simp
  next
    case fast
    with rel' p have idle: "rel (nxt (sim_regs s) ?p) Idle" by (simp add: taken_or_held_def)
    from fast have "run_op nxt out op s = Some (set_pins (rsp_ready_update (\<lambda>_. False)) ?u)"
      by (simp add: run_op_def wait_until_now)
    with fast idle p v show ?thesis
      by (intro exI [of _ "set_pins (rsp_ready_update (\<lambda>_. False)) ?u"] exI [of _ "[(?p, ?o)]"])
        (auto simp: accepted_def delivered_def)
  next
    case (slow n)
    with rel' v have busy: "rel (sim_regs ?u) (Busy n v)" by simp
    from wait_answer [OF busy] slow p obtain s' w where
      w: "wait_until nxt out rsp_valid ?u = Some s'" "rel (sim_regs s') Idle"
        "sim_pins s' = sim_pins ?u" "sim_wave s' = sim_wave ?u @ w" "rsp_out (sampled s') = v"
        "commands_of ref w = []" "responses_of w = [v]" "length w \<le> Suc n"
      by auto
    from slow w(1) have "run_op nxt out op s = Some (set_pins (rsp_ready_update (\<lambda>_. False)) s')"
      by (simp add: run_op_def wait_until_now)
    with slow w p v show ?thesis
      by (intro exI [of _ "set_pins (rsp_ready_update (\<lambda>_. False)) s'"] exI [of _ "(?p, ?o) # w"])
        (auto simp: accepted_def delivered_def)
  qed
qed

text \<open>The cycle that a driver lets pass after an operation changes nothing.\<close>

lemma quiet_tick:
  assumes "rel (sim_regs s) Idle" "\<not> reset (sim_pins s)" "\<not> cmd_valid (sim_pins s)"
  shows "rel (sim_regs (tick nxt out s)) Idle \<and>
    commands_of ref [(sim_pins s, out (sim_regs s) (sim_pins s))] = [] \<and>
    responses_of [(sim_pins s, out (sim_regs s) (sim_pins s))] = []"
proof -
  obtain b where "spec_cycle ref lat Idle (sim_pins s) (out (sim_regs s) (sim_pins s)) b"
    and "rel (nxt (sim_regs s) (sim_pins s)) b"
    using step_refines assms by blast
  with assms(3) show ?thesis
    by (auto elim!: spec_IdleE simp: accepted_def delivered_def)
qed

end

section \<open>A list of operations\<close>

text \<open>
  A row that names one of the eight functions, its value by the reference, and whether its
  expected value is that value, of which the harness compares 32 bits.
\<close>

fun row_fits :: "cfu_row \<Rightarrow> bool" where
  "row_fits (inputs, _) \<longleftrightarrow> 3 \<le> length inputs \<and> 0 \<le> inputs ! 0 \<and> inputs ! 0 < 8"

fun row_value :: "(nat \<Rightarrow> u7 \<Rightarrow> u32 \<Rightarrow> u32 \<Rightarrow> u32) \<Rightarrow> cfu_row \<Rightarrow> u32" where
  "row_value ref (inputs, _) =
     (if length inputs = 4
      then ref (nat (inputs ! 0)) (word_of_int (inputs ! 1)) (word_of_int (inputs ! 2)) (word_of_int (inputs ! 3))
      else ref (nat (inputs ! 0)) 0 (word_of_int (inputs ! 1)) (word_of_int (inputs ! 2)))"

definition row_passes :: "(nat \<Rightarrow> u7 \<Rightarrow> u32 \<Rightarrow> u32 \<Rightarrow> u32) \<Rightarrow> cfu_row \<Rightarrow> bool" where
  "row_passes ref row \<longleftrightarrow> (case snd row of None \<Rightarrow> True | Some e \<Rightarrow> word_of_int e = row_value ref row)"

lemma low_32_bits: "(e :: int) AND 0xffffffff = take_bit 32 e"
  by (simp add: take_bit_eq_mask mask_eq_exp_minus_1)

lemma word_of_low_32_bits: "(word_of_int (e AND 0xffffffff) :: u32) = word_of_int e"
  by (rule bit_word_eqI) (simp add: low_32_bits bit_simps)

lemma uint_eq_low_32_bits: "uint (v :: u32) = e AND 0xffffffff \<longleftrightarrow> word_of_int e = v"
proof
  assume "uint v = e AND 0xffffffff"
  then have "(word_of_int (uint v) :: u32) = word_of_int e" by (simp only: word_of_low_32_bits)
  then show "word_of_int e = v" by simp
qed (auto simp: low_32_bits uint_word_of_int take_bit_eq_mod)

lemma command_id_fields:
  assumes "0 \<le> f" "f < 8"
  shows "unat (ucast (word_of_int (push_bit 3 g OR f) :: 10 word) :: u3) = nat f"
    and "(ucast (drop_bit 3 (word_of_int (push_bit 3 g OR f) :: 10 word)) :: u7) = word_of_int g"
proof -
  have small: "bit f k \<Longrightarrow> k < 3" for k
  proof -
    have "f = take_bit 3 f" using assms by (simp add: take_bit_int_eq_self)
    then show "bit f k \<Longrightarrow> k < 3" by (metis bit_take_bit_iff)
  qed
  have "(ucast (word_of_int (push_bit 3 g OR f) :: 10 word) :: u3) = word_of_int f"
    by (rule bit_word_eqI) (auto simp: bit_simps small)
  then show "unat (ucast (word_of_int (push_bit 3 g OR f) :: 10 word) :: u3) = nat f"
    using assms by (simp add: unat_eq_nat_uint uint_word_of_int)
  show "(ucast (drop_bit 3 (word_of_int (push_bit 3 g OR f) :: 10 word)) :: u7) = word_of_int g"
    by (rule bit_word_eqI) (auto simp: bit_simps dest: small)
qed

lemma row_unpack:
  assumes "row_fits (inputs, e)" and "unpack inputs = Inr op"
  shows "command_value ref (row_command op p) = row_value ref (inputs, e)"
  using assms command_id_fields [of "inputs ! 0" 0]
  by (auto simp: unpack_def row_command_def command_value_def funct3_of_def funct7_of_def
      command_id_fields word_of_low_32_bits split: if_splits)

lemma row_fits_unpack: "row_fits (inputs, e) \<Longrightarrow> \<exists>op. unpack inputs = Inr op"
  by (auto simp: unpack_def)

lemma check_row_cases:
  "check_row op e v n = Inr u \<longleftrightarrow> (case e of None \<Rightarrow> True | Some x \<Rightarrow> word_of_int x = v)"
  by (auto simp: check_row_def assert_equal_def uint_eq_low_32_bits split: option.split)

context spec_refinement
begin

lemma ops_verdict:
  "rel (sim_regs s) Idle \<Longrightarrow> \<not> reset (sim_pins s) \<Longrightarrow> list_all row_fits data \<Longrightarrow>
   \<exists>r. ops_process nxt out n data s = Some r \<and>
     ((\<exists>s'. r = Inr s') \<longleftrightarrow> list_all (row_passes ref) data) \<and>
     (\<forall>s'. r = Inr s' \<longrightarrow> (\<exists>w. sim_wave s' = sim_wave s @ w \<and>
        commands_of ref w = map (row_value ref) data \<and> responses_of w = map (row_value ref) data \<and>
        length w \<le> (lat + 2) * length data))"
proof (induction data arbitrary: s n)
  case Nil
  then show ?case by simp
next
  case (Cons row data)
  obtain inputs e where row: "row = (inputs, e)" by force
  with Cons.prems(3) obtain op where op: "unpack inputs = Inr op" and fits: "row_fits (inputs, e)"
    using row_fits_unpack [of inputs e] by fastforce
  let ?v = "row_value ref (inputs, e)"
  from run_op_answers [OF Cons.prems(1,2) refl, of op] row_unpack [OF fits op]
  obtain t w where t: "run_op nxt out op s = Some t" "rel (sim_regs t) Idle" "\<not> reset (sim_pins t)"
    "\<not> cmd_valid (sim_pins t)" "sim_wave t = sim_wave s @ w" "rsp_out (sampled t) = ?v"
    "commands_of ref w = [?v]" "responses_of w = [?v]" "length w \<le> Suc lat"
    by metis
  show ?case
  proof (cases "check_row op e ?v n")
    case (Inl err)
    then have "\<not> row_passes ref row"
      using check_row_cases [of op e ?v n] by (auto simp: row row_passes_def split: option.splits)
    with Inl t op show ?thesis by (simp add: row)
  next
    case (Inr u)
    then have pass: "row_passes ref row"
      using check_row_cases [of op e ?v n] by (auto simp: row row_passes_def split: option.splits)
    from quiet_tick [OF t(2-4)] Cons.IH [of "tick nxt out t" "Suc n"] t(3) Cons.prems(3)
    obtain r where r: "ops_process nxt out (Suc n) data (tick nxt out t) = Some r"
      "(\<exists>s'. r = Inr s') \<longleftrightarrow> list_all (row_passes ref) data"
      "\<forall>s'. r = Inr s' \<longrightarrow> (\<exists>w'. sim_wave s' = sim_wave (tick nxt out t) @ w' \<and>
        commands_of ref w' = map (row_value ref) data \<and> responses_of w' = map (row_value ref) data \<and>
        length w' \<le> (lat + 2) * length data)"
      by auto
    have whole: "\<exists>w''. sim_wave s' = sim_wave s @ w'' \<and>
        commands_of ref w'' = map (row_value ref) (row # data) \<and>
        responses_of w'' = map (row_value ref) (row # data) \<and>
        length w'' \<le> (lat + 2) * length (row # data)" if eq: "r = Inr s'" for s'
    proof -
      let ?q = "(sim_pins t, out (sim_regs t) (sim_pins t))"
      from r(3) eq obtain w' where w': "sim_wave s' = sim_wave (tick nxt out t) @ w'"
        "commands_of ref w' = map (row_value ref) data" "responses_of w' = map (row_value ref) data"
        "length w' \<le> (lat + 2) * length data" by blast
      show ?thesis
        using w' t(5,7-9) quiet_tick [OF t(2-4)]
        by (intro exI [of _ "w @ ?q # w'"]) (auto simp: row commands_of_def responses_of_def)
    qed
    from Inr t(1,6) op r(1) have run: "ops_process nxt out n (row # data) s = Some r"
      by (simp add: row)
    from run r(2) pass whole show ?thesis by auto
  qed
qed

end

context cfu_instructions
begin

lemmas plain_ops_verdict = spec.ops_verdict [of "simulate (cfu_init insts) idle_pins"]
lemmas gated_ops_verdict = gated_spec.ops_verdict [of "simulate (gated_init insts) idle_pins"]

end

section \<open>What a CFU test means\<close>

text \<open>
  C14: a CFU test always comes back, with the right verdict. For every table of instructions that
  meets its contract, and rows that name one of the eight functions, \<open>run_ops\<close> returns; it passes
  exactly when every expected value is the low 32 bits of the reference value of its row; and in
  a test that passes the recorded waveform holds one command and one response per row, in order,
  with these values, in at most \<open>lat + 2\<close> cycles per row. The clock-gated CFU has the same verdict.
\<close>

theorem cfu_test_verdict:
  assumes "cfu_instructions insts ref lat idle pending" and "list_all row_fits data"
  shows "\<exists>r g. run_ops (cfu_next insts) (cfu_out insts) (cfu_init insts) data False = Some r \<and>
     run_ops (gated_next insts) (gated_out insts) (gated_init insts) data False = Some g \<and>
     ((\<exists>s. r = Inr s) \<longleftrightarrow> list_all (row_passes ref) data) \<and> ((\<exists>s. g = Inr s) \<longleftrightarrow> (\<exists>s. r = Inr s)) \<and>
     (\<forall>s. r = Inr s \<longrightarrow> commands_of ref (sim_wave s) = map (row_value ref) data \<and>
        responses_of (sim_wave s) = map (row_value ref) data \<and>
        length (sim_wave s) \<le> (lat + 2) * length data)"
proof -
  have idle: "\<not> reset idle_pins" by (simp add: idle_pins_def)
  note plain = cfu_instructions.plain_ops_verdict [OF assms(1) _ _ assms(2), of 0]
  note gated = cfu_instructions.gated_ops_verdict [OF assms(1) _ _ assms(2), of 0]
  from plain cfu_instructions.rel_init [OF assms(1)] idle obtain r where
    "run_ops (cfu_next insts) (cfu_out insts) (cfu_init insts) data False = Some r"
    "(\<exists>s. r = Inr s) \<longleftrightarrow> list_all (row_passes ref) data"
    "\<And>s. r = Inr s \<Longrightarrow> commands_of ref (sim_wave s) = map (row_value ref) data \<and>
        responses_of (sim_wave s) = map (row_value ref) data \<and>
        length (sim_wave s) \<le> (lat + 2) * length data"
    by (auto simp: run_ops_def run_sim_def simulate_def)
  moreover from gated cfu_instructions.gated_rel_init [OF assms(1)] idle obtain g where
    "run_ops (gated_next insts) (gated_out insts) (gated_init insts) data False = Some g"
    "(\<exists>s. g = Inr s) \<longleftrightarrow> list_all (row_passes ref) data"
    by (auto simp: run_ops_def run_sim_def simulate_def)
  ultimately show ?thesis by blast
qed

text \<open>The rows of \<open>test_cfu\<close> that name the byte sum and the factorial, and one that is wrong.\<close>

definition test_rows :: "cfu_row list" where
  "test_rows = [([0, 0, 0], Some 0), ([0, 0x01020304, 0x01020304], Some 20), ([3, 3, 0], Some 6),
     ([3, 4, 0], Some 24), ([7, 5, -1, 0], Some (-1))]"

lemma sum_upto_4: "(\<Sum>k<4. f k) = f 0 + f 1 + f 2 + f (3 :: nat)"
  by (simp add: numeral_eq_Suc)

lemma sum_bytes_20:
  "sum_bytes_ref g 0 0 = 0" "sum_bytes_ref g 0x01020304 0x01020304 = 20"
  by (simp_all add: sum_bytes_ref_def nat_byte_def sum_upto_4)

theorem cfu_test_verdict_witness:
  "(\<exists>s. run_ops (cfu_next test_insts) (cfu_out test_insts) (cfu_init test_insts) test_rows False =
      Some (Inr s) \<and> responses_of (sim_wave s) = [0, 20, 6, 24, -1])"
proof -
  have fits: "list_all row_fits test_rows" by (simp add: test_rows_def)
  have vals: "map (row_value test_ref) test_rows = [0, 20, 6, 24, -1]"
    by (simp add: test_rows_def test_ref_def sum_bytes_20 factorial_ref_def fact_numeral)
  then have pass: "list_all (row_passes test_ref) test_rows"
    by (simp add: test_rows_def row_passes_def)
  from cfu_test_verdict [OF test_cfu_ok fits] pass vals show ?thesis by auto
qed

section \<open>Tests of one instruction\<close>

text \<open>
  A row of \<open>verify\<close> whose length is right: its operands, and whether the expected value is the
  value of the reference. The comparison is of unbounded integers, so a negative or an oversized
  expected value never passes here, unlike in \<open>run_ops\<close>.
\<close>

fun verify_fits :: "int list \<times> int option \<Rightarrow> bool" where
  "verify_fits (xs, _) \<longleftrightarrow> length xs = 2 \<or> length xs = 3"

fun verify_passes :: "(u7 \<Rightarrow> u32 \<Rightarrow> u32 \<Rightarrow> u32) \<Rightarrow> int list \<times> int option \<Rightarrow> bool" where
  "verify_passes ref (xs, expected) \<longleftrightarrow>
     (case expected of None \<Rightarrow> True
      | Some e \<Rightarrow> e = uint (if length xs = 3
          then ref (word_of_int (xs ! 0)) (word_of_int (xs ! 1)) (word_of_int (xs ! 2))
          else ref 0 (word_of_int (xs ! 0)) (word_of_int (xs ! 1))))"

text \<open>The operands that the inputs of \<open>verify_against_reference\<close> put on the pins, row by row.\<close>

fun held_operands :: "u32 \<Rightarrow> operands list \<Rightarrow> (u32 \<times> u32) list" where
  "held_operands b [] = []"
| "held_operands b (Single a # xs) = (word_of_int a, b) # held_operands b xs"
| "held_operands b (Pair a c # xs) = (word_of_int a, word_of_int c) # held_operands (word_of_int c) xs"

lemma unpack_row_cases:
  "verify_fits (xs, e) \<Longrightarrow> unpack_row xs =
     Inr (if length xs = 3 then (xs ! 0, xs ! 1, xs ! 2) else (0, xs ! 0, xs ! 1))"
  by (auto simp: unpack_row_def length_Suc_conv numeral_eq_Suc)

lemma assert_equal_iff: "assert_equal a b msg = Inr u \<longleftrightarrow> a = b"
  by (simp add: assert_equal_def)

context instruction_contract
begin

lemma wait_inst:
  "pending n v (sim_regs s) \<Longrightarrow> \<not> fst (sampled s) \<Longrightarrow> \<not> start (sim_pins s) \<Longrightarrow>
   \<exists>s'. wait_until (inst_next I) (inst_out I) fst s = Some s' \<and> idle (sim_regs s') \<and>
     sim_pins s' = sim_pins s \<and> snd (sampled s') = v"
proof (induction n arbitrary: s rule: less_induct)
  case (less n)
  let ?t = "tick (inst_next I) (inst_out I) s"
  note later = wait_until_later [of fst s "inst_next I" "inst_out I", OF less.prems(2)]
  show ?case
  proof (cases "inst_done I (sim_regs s) (sim_pins s)")
    case True
    with pending_done [OF less.prems(1,3)] show ?thesis by (simp add: later wait_until_now)
  next
    case False
    with pending_wait [OF less.prems(1,3)] obtain m where
      "m < n" "pending m v (inst_next I (sim_regs s) (sim_pins s))" by blast
    with less.IH [of m ?t] less.prems False show ?thesis by (simp add: later)
  qed
qed

lemma run_inst_answers:
  assumes "idle (sim_regs s)" and p: "p = operands (sim_pins s)"
  shows "\<exists>s'. run_inst I operands s = Some s' \<and> idle (sim_regs s') \<and>
     sim_pins s' = p\<lparr>start := False\<rparr> \<and> snd (sampled s') = ref (funct7 p) (in0 p) (in1 p)"
proof -
  let ?q = "p\<lparr>start := True\<rparr>"
  let ?t = "set_pins (start_update (\<lambda>_. False))
    (tick (inst_next I) (inst_out I) (set_pins (\<lambda>p. (operands p)\<lparr>start := True\<rparr>) s))"
  have t: "sim_regs ?t = inst_next I (sim_regs s) ?q" "sim_pins ?t = p\<lparr>start := False\<rparr>"
    "sampled ?t = (inst_done I (sim_regs s) ?q, inst_output I (sim_regs s) ?q)"
    by (simp_all add: p)
  show ?thesis
  proof (cases "inst_done I (sim_regs s) ?q")
    case True
    with start_done [OF assms(1), of ?q] t show ?thesis
      by (simp add: run_inst_def wait_until_now)
  next
    case False
    with start_wait [OF assms(1), of ?q] t(1) obtain n where
      "pending n (ref (funct7 p) (in0 p) (in1 p)) (sim_regs ?t)" by auto
    from wait_inst [OF this] False t(2,3) show ?thesis by (simp add: run_inst_def)
  qed
qed

lemma quiet_inst_tick:
  "idle (sim_regs s) \<Longrightarrow> \<not> start (sim_pins s) \<Longrightarrow> idle (sim_regs (tick (inst_next I) (inst_out I) s))"
  by (simp add: idle_hold)

lemma verify_verdict:
  "idle (sim_regs s) \<Longrightarrow> \<not> start (sim_pins s) \<Longrightarrow> list_all verify_fits data \<Longrightarrow>
   \<exists>r. verify_process I n data s = Some r \<and>
     ((\<exists>s'. r = Inr s') \<longleftrightarrow> list_all (verify_passes ref) data)"
proof (induction data arbitrary: s n)
  case (Cons row data)
  obtain xs e where row: "row = (xs, e)" by force
  with Cons.prems(3) have fits: "verify_fits (xs, e)" by simp
  obtain f a b where
    fab2: "(f, a, b) = (if length xs = 3 then (xs ! 0, xs ! 1, xs ! 2) else (0, xs ! 0, xs ! 1))"
    using prod_cases3 by metis
  have fab: "unpack_row xs = Inr (f, a, b)"
    by (simp only: unpack_row_cases [OF fits] fab2)
  let ?ops = "\<lambda>p. p\<lparr>funct7 := word_of_int f, in0 := word_of_int a, in1 := word_of_int b\<rparr>"
  let ?v = "ref (word_of_int f) (word_of_int a) (word_of_int b)"
  from run_inst_answers [OF Cons.prems(1) refl, of ?ops] obtain t where
    t: "run_inst I ?ops s = Some t" "idle (sim_regs t)" "\<not> start (sim_pins t)" "snd (sampled t) = ?v"
    by auto
  have passes: "verify_passes ref row \<longleftrightarrow> (case e of None \<Rightarrow> True | Some k \<Rightarrow> k = uint ?v)"
    using fab2 by (auto simp: row split: if_splits option.splits)
  from Cons.IH [OF quiet_inst_tick [OF t(2,3)], of "Suc n"] t(3) Cons.prems(3)
  obtain r where r: "verify_process I (Suc n) data (tick (inst_next I) (inst_out I) t) = Some r"
    "(\<exists>s'. r = Inr s') \<longleftrightarrow> list_all (verify_passes ref) data" by auto
  show ?case
    using fab t(1,4) r passes
    by (cases e) (auto simp: row assert_equal_def assertE_def)
qed simp

lemma reference_verdict:
  "idle (sim_regs s) \<Longrightarrow> \<not> start (sim_pins s) \<Longrightarrow> in1 (sim_pins s) = b \<Longrightarrow> funct7 (sim_pins s) = f \<Longrightarrow>
   \<exists>r. reference_process I reference_fn xs s = Some r \<and>
     ((\<exists>s'. r = Inr s') \<longleftrightarrow>
       list_all2 (\<lambda>x (a, b). reference_fn x = uint (ref f a b)) xs (held_operands b xs))"
proof (induction xs arbitrary: s b)
  case (Cons x xs)
  let ?p = "operand_pins x (sim_pins s)"
  let ?v = "ref f (in0 ?p) (in1 ?p)"
  have f: "funct7 ?p = f" using Cons.prems(4) by (cases x) simp_all
  have held: "held_operands b (x # xs) = (in0 ?p, in1 ?p) # held_operands (in1 ?p) xs"
    using Cons.prems(3) by (cases x) simp_all
  from run_inst_answers [OF Cons.prems(1) refl, of "operand_pins x"] f obtain t where
    t: "run_inst I (operand_pins x) s = Some t" "idle (sim_regs t)"
      "sim_pins t = ?p\<lparr>start := False\<rparr>" "snd (sampled t) = ?v"
    by auto
  let ?u = "tick (inst_next I) (inst_out I) t"
  have u: "idle (sim_regs ?u)" "\<not> start (sim_pins ?u)" "in1 (sim_pins ?u) = in1 ?p"
    "funct7 (sim_pins ?u) = f"
    using quiet_inst_tick [OF t(2)] t(3) f by simp_all
  from Cons.IH [OF u] obtain r where
    r: "reference_process I reference_fn xs ?u = Some r"
    "(\<exists>s'. r = Inr s') \<longleftrightarrow>
       list_all2 (\<lambda>x (a, b). reference_fn x = uint (ref f a b)) xs (held_operands (in1 ?p) xs)"
    by blast
  show ?case
  proof (cases "uint ?v = reference_fn x")
    case True
    with t(1,4) r show ?thesis by (simp add: held assert_equal_def)
  next
    case False
    with t(1,4) show ?thesis by (simp add: held assert_equal_def)
  qed
qed simp

end

text \<open>
  C37: the tests of a single instruction decide whether it computes its reference. For an
  instruction that meets its contract, \<open>verify\<close> (on rows of two or three operands) and
  \<open>verify_against_reference\<close> come back, and pass exactly when every expected value is the value of
  the reference on the operands of the row; where an input is a single number, the second operand
  is that of the last pair before it.
\<close>

theorem instruction_test_verdict:
  assumes "instruction_contract I ref lat idle pending" and "list_all verify_fits data"
  shows "\<exists>r q. verify I data False = Some r \<and> verify_against_reference I inputs reference_fn False = Some q \<and>
     ((\<exists>s. r = Inr s) \<longleftrightarrow> list_all (verify_passes ref) data) \<and>
     ((\<exists>s. q = Inr s) \<longleftrightarrow>
       list_all2 (\<lambda>x (a, b). reference_fn x = uint (ref 0 a b)) inputs (held_operands 0 inputs))"
proof -
  let ?s = "simulate (inst_init I) idle_inst_pins :: 'a inst_sim"
  have s: "idle (sim_regs ?s)" "\<not> start (sim_pins ?s)" "in1 (sim_pins ?s) = 0" "funct7 (sim_pins ?s) = 0"
    using instruction_contract.init_idle [OF assms(1)] by (simp_all add: simulate_def idle_inst_pins_def)
  from instruction_contract.verify_verdict [OF assms(1) s(1,2) assms(2), of 0]
    instruction_contract.reference_verdict [OF assms(1) s, of reference_fn inputs]
  show ?thesis
    unfolding verify_def verify_against_reference_def run_sim_def if_False by blast
qed

definition factorial_of :: "operands \<Rightarrow> int" where
  "factorial_of x = (case x of Single a \<Rightarrow> fact (nat a) | Pair a _ \<Rightarrow> fact (nat a))"

theorem instruction_test_verdict_witness:
  "(\<exists>s. verify FactorialInstruction [([3, 0], Some 6), ([1, 13, 0], Some 0xffffffff)] False = Some (Inr s)) \<and>
   (\<exists>s. verify_against_reference FactorialInstruction (map Single [0, 1, 2, 3, 4]) factorial_of False =
     Some (Inr s))"
proof -
  let ?data = "[([3, 0], Some 6), ([1, 13, 0], Some 0xffffffff)]"
  let ?inputs = "map Single [0, 1, 2, 3, 4]"
  have fits: "list_all verify_fits ?data" by simp
  have pass: "list_all (verify_passes factorial_ref) ?data"
    by (simp add: factorial_ref_def fact_numeral)
  have ref: "list_all2 (\<lambda>x (a, b). factorial_of x = uint (factorial_ref 0 a b)) ?inputs (held_operands 0 ?inputs)"
    by (simp add: factorial_ref_def factorial_of_def fact_numeral)
  from instruction_test_verdict [OF factorial.instruction_contract_axioms fits,
      of ?inputs factorial_of] pass ref
  show ?thesis by auto
qed

end
