(* ===== verification/Cfu_Tests.thy ===== *)
theory Cfu_Tests
  imports Harness_Properties
begin

text \<open>
  The tests of \<^verbatim>\<open>python/amaranth_cfu/test_cfu.py\<close> as processes on the simulated CFU: the integration
  test with its bounded wait, the test cycle by cycle, and the tests of single instructions. The
  integration test is shown to decide whether a CFU computes its reference, for every table of
  instructions that are fast enough for its limit, and the tests of the repository are shown to pass.
\<close>

section \<open>The processes\<close>

text \<open>
  After a \<open>Delay\<close> the outputs have settled on the inputs just assigned; after a bare \<open>yield\<close> a read
  has the value of the cycle that has passed (\<open>sampled\<close>).
\<close>

definition settled :: "('s \<Rightarrow> 'i \<Rightarrow> 'o) \<Rightarrow> ('s, 'i, 'o) simulation \<Rightarrow> 'o" where
  "settled out s = out (sim_regs s) (sim_pins s)"

text \<open>\<open>wait_response_valid\<close>: whether the response came, and the outputs read last.\<close>

definition cycle_limit :: nat where
  "cycle_limit = 20"

function wait_response_valid :: "('s \<Rightarrow> cfu_in \<Rightarrow> 's) \<Rightarrow> ('s \<Rightarrow> cfu_in \<Rightarrow> cfu_out) \<Rightarrow> nat \<Rightarrow> cfu_out \<Rightarrow>
    ('s, cfu_in, cfu_out) simulation \<Rightarrow> bool \<times> cfu_out \<times> ('s, cfu_in, cfu_out) simulation" where
  "wait_response_valid nxt out cycle seen s =
     (if rsp_valid seen then (True, seen, s)
      else let s' = tick nxt out s; seen' = sampled s' in
        if cycle_limit < cycle + 1 then (False, seen', s')
        else wait_response_valid nxt out (cycle + 1) seen' s')"
  by pat_completeness auto
termination
  by (relation "measure (\<lambda>(nxt, out, cycle, seen, s). Suc cycle_limit - cycle)") (auto simp: cycle_limit_def)

declare wait_response_valid.simps [simp del]

type_synonym test_row = "(int \<times> int \<times> int) \<times> int"

definition drive_command :: "int \<times> int \<times> int \<Rightarrow> cfu_in \<Rightarrow> cfu_in" where
  "drive_command = (\<lambda>(func, i0, i1) p. p\<lparr>
     cmd_function_id := word_of_int func, cmd_in0 := word_of_int i0, cmd_in1 := word_of_int i1,
     cmd_valid := True, rsp_ready := False\<rparr>)"

definition test_op :: "('s \<Rightarrow> cfu_in \<Rightarrow> 's) \<Rightarrow> ('s \<Rightarrow> cfu_in \<Rightarrow> cfu_out) \<Rightarrow> int \<times> int \<times> int \<Rightarrow>
    ('s, cfu_in, cfu_out) simulation \<Rightarrow> bool \<times> cfu_out \<times> ('s, cfu_in, cfu_out) simulation" where
  "test_op nxt out inputs s =
     (let s = set_pins (\<lambda>p. p\<lparr>cmd_valid := False, rsp_ready := True\<rparr>)
        (tick nxt out (set_pins (drive_command inputs) s))
      in wait_response_valid nxt out 0 (settled out s) s)"

text \<open>The first message lacks the prefix of a formatted string and stands as it is written.\<close>

definition incomplete_message :: string where
  "incomplete_message = ''op{func}({i0:08X}, {i1:08X}) failed to complete''"

definition output_message :: "int \<times> int \<times> int \<Rightarrow> int \<Rightarrow> int \<Rightarrow> string" where
  "output_message = (\<lambda>(func, i0, i1) expected actual.
     ''\<newline>HEX: op'' @ int_text func @ ''(0x'' @ fmt_08 hex_upper i0 @ '', 0x'' @ fmt_08 hex_upper i1 @
     '') expected: '' @ fmt_08 hex_upper expected @ '' got: '' @ fmt_08 hex_upper actual @
     ''\<newline>DEC: op'' @ int_text func @ ''(0x'' @ int_text i0 @ '', 0x'' @ int_text i1 @
     '') expected: '' @ int_text expected @ '' got: '' @ int_text actual)"

fun test_process :: "('s \<Rightarrow> cfu_in \<Rightarrow> 's) \<Rightarrow> ('s \<Rightarrow> cfu_in \<Rightarrow> cfu_out) \<Rightarrow> test_row list \<Rightarrow>
    ('s, cfu_in, cfu_out) simulation \<Rightarrow> ('s, cfu_in, cfu_out) simulation result" where
  "test_process nxt out [] s = Inr s"
| "test_process nxt out ((inputs, expected) # data) s =
     (case test_op nxt out inputs s of (completed, seen, s) \<Rightarrow>
        bindE (assertE completed incomplete_message) (\<lambda>_.
        bindE (assertE (uint (rsp_out seen) = expected) (output_message inputs expected (uint (rsp_out seen)))) (\<lambda>_.
          test_process nxt out data (tick nxt out s))))"

definition test_cfu_data :: "test_row list" where
  "test_cfu_data =
    [((0, 0, 0), 0), ((0, 0x01020304, 0x01020304), 20), ((0, 0x01010101, 0xffffffff), 1024),
     ((1, 0x01020304, 0xffffffff), 0x04030201), ((1, 0x0102ff00, 0xffffffff), 0x00ff0201),
     ((2, 0x01020304, 0xffffffff), 0x20c04080), ((2, 0xffffffff, 0xffffffff), 0xffffffff),
     ((2, 0x10203040, 0xffffffff), 0x020c0408),
     ((3, 1, 0), 1), ((3, 2, 0), 2), ((3, 3, 0), 6), ((3, 4, 0), 24)]"

definition test_cfu :: "('s \<Rightarrow> cfu_in \<Rightarrow> 's) \<Rightarrow> ('s \<Rightarrow> cfu_in \<Rightarrow> cfu_out) \<Rightarrow> 's \<Rightarrow> test_row list \<Rightarrow>
    ('s, cfu_in, cfu_out) simulation result option" where
  "test_cfu nxt out init data = run_sim (Some (test_process nxt out data (simulate init idle_pins))) False"

text \<open>
  \<open>test_cfu_cycles\<close>: every cycle has its inputs and the outputs that are compared, by \<open>assertEqual\<close>
  without a message of its own.
\<close>

definition assert_same :: "int \<Rightarrow> int \<Rightarrow> unit result" where
  "assert_same first second = assertE (first = second) (int_text first @ '' != '' @ int_text second)"

fun check_vector :: "vector \<Rightarrow> cfu_out \<Rightarrow> unit result" where
  "check_vector (_, (res, v, r)) seen =
     bindE (case res of None \<Rightarrow> Inr () | Some x \<Rightarrow> assert_same (uint (rsp_out seen)) (uint x)) (\<lambda>_.
     bindE (assert_same (of_bool (rsp_valid seen)) (of_bool v)) (\<lambda>_.
       assert_same (of_bool (cmd_ready seen)) (of_bool r)))"

fun cycles_process :: "('s \<Rightarrow> cfu_in \<Rightarrow> 's) \<Rightarrow> ('s \<Rightarrow> cfu_in \<Rightarrow> cfu_out) \<Rightarrow> vector list \<Rightarrow>
    ('s, cfu_in, cfu_out) simulation \<Rightarrow> ('s, cfu_in, cfu_out) simulation result" where
  "cycles_process nxt out [] s = Inr s"
| "cycles_process nxt out (x # data) s =
     (let s = set_pins (\<lambda>_. vector_in x) s in
      bindE (check_vector x (settled out s)) (\<lambda>_. cycles_process nxt out data (tick nxt out s)))"

definition test_cfu_cycles :: "('s \<Rightarrow> cfu_in \<Rightarrow> 's) \<Rightarrow> ('s \<Rightarrow> cfu_in \<Rightarrow> cfu_out) \<Rightarrow> 's \<Rightarrow>
    ('s, cfu_in, cfu_out) simulation result option" where
  "test_cfu_cycles nxt out init =
     run_sim (Some (cycles_process nxt out cycles_data (simulate init idle_pins))) False"

text \<open>The tests of single instructions; the reference of the byte sum is only called on pairs.\<close>

definition sum_bytes :: "int \<Rightarrow> int \<Rightarrow> int" where
  "sum_bytes a b = fold (\<lambda>x total. total + (drop_bit (8 * x) a AND 0xff) + (drop_bit (8 * x) b AND 0xff)) [0..<4] 0"

fun sum_bytes_of :: "operands \<Rightarrow> int" where
  "sum_bytes_of (Pair a b) = sum_bytes a b"
| "sum_bytes_of (Single a) = sum_bytes a 0"

definition test_factorial :: "fact_state inst_sim result option" where
  "test_factorial = verify_against_reference FactorialInstruction (map Single [0, 1, 2, 3, 4]) factorial_of False"

definition test_sum_bytes :: "unit inst_sim result option" where
  "test_sum_bytes = verify_against_reference SumBytesInstruction [Pair 0x01010101 0x02020202] sum_bytes_of False"

section \<open>The bounded wait\<close>

lemma wait_response_now: "rsp_valid seen \<Longrightarrow> wait_response_valid nxt out c seen s = (True, seen, s)"
  by (simp add: wait_response_valid.simps)

lemma wait_response_later:
  "\<not> rsp_valid seen \<Longrightarrow> c < cycle_limit \<Longrightarrow>
   wait_response_valid nxt out c seen s =
     wait_response_valid nxt out (c + 1) (sampled (tick nxt out s)) (tick nxt out s)"
  by (subst wait_response_valid.simps) (simp add: Let_def)

text \<open>A response that was read, in a state from which one more cycle leaves the CFU idle.\<close>

definition answered :: "('s \<Rightarrow> spec_state \<Rightarrow> bool) \<Rightarrow> ('s \<Rightarrow> cfu_in \<Rightarrow> 's) \<Rightarrow> u32 \<Rightarrow>
    bool \<times> cfu_out \<times> ('s, cfu_in, cfu_out) simulation \<Rightarrow> bool" where
  "answered rel nxt v = (\<lambda>(completed, seen, s). completed \<and> rsp_out seen = v \<and>
     rel (nxt (sim_regs s) (sim_pins s)) Idle \<and> \<not> reset (sim_pins s))"

context spec_refinement
begin

lemma idle_cycle:
  assumes "rel st Idle" "\<not> reset p" "\<not> cmd_valid p"
  shows "rel (nxt st p) Idle"
  using step_refines [OF assms(1,2)] assms(3) by (auto elim: spec_IdleE)

text \<open>The outputs read last are those of the cycle that has passed, with no response in it.\<close>

lemma wait_passed:
  "rel (sim_regs s) (Busy n v) \<Longrightarrow> \<not> rsp_valid seen \<Longrightarrow> \<not> reset (sim_pins s) \<Longrightarrow> rsp_ready (sim_pins s) \<Longrightarrow>
   \<not> cmd_valid (sim_pins s) \<Longrightarrow> c + n < cycle_limit \<Longrightarrow>
   answered rel nxt v (wait_response_valid nxt out c seen s)"
proof (induction n arbitrary: s c seen rule: less_induct)
  case (less n)
  let ?p = "sim_pins s" and ?t = "tick nxt out s"
  from less.prems obtain b where b: "spec_cycle ref lat (Busy n v) ?p (out (sim_regs s) ?p) b"
    and rel: "rel (nxt (sim_regs s) ?p) b"
    using step_refines by blast
  have later: "wait_response_valid nxt out c seen s = wait_response_valid nxt out (c + 1) (sampled ?t) ?t"
    using less.prems(2,6) by (intro wait_response_later) simp_all
  from b show ?case
  proof (cases rule: spec_BusyE [consumes 1, case_names keep fin])
    case (keep m)
    with rel less.prems show ?thesis unfolding later by (intro less.IH [of m]) auto
  next
    case fin
    with rel less.prems have "rel (nxt (sim_regs s) ?p) Idle" by (simp add: taken_or_held_def)
    with idle_cycle [OF this less.prems(3,5)] fin less.prems(3) show ?thesis
      unfolding later by (simp add: wait_response_now answered_def)
  qed
qed

lemma wait_settled:
  assumes "rel (sim_regs s) a" and "a = Reply v \<or> (\<exists>n. a = Busy n v \<and> n < cycle_limit)"
    and pins: "\<not> reset (sim_pins s)" "rsp_ready (sim_pins s)" "\<not> cmd_valid (sim_pins s)"
  shows "answered rel nxt v (wait_response_valid nxt out 0 (settled out s) s)"
proof -
  let ?p = "sim_pins s" and ?t = "tick nxt out s"
  obtain b where b: "spec_cycle ref lat a ?p (out (sim_regs s) ?p) b" and rel: "rel (nxt (sim_regs s) ?p) b"
    using step_refines [OF assms(1) pins(1)] by blast
  show ?thesis
  proof (cases "rsp_valid (settled out s)")
    case True
    with b assms(2) pins have "b = Idle \<and> rsp_out (settled out s) = v"
      by (auto simp: settled_def taken_or_held_def elim!: spec_BusyE spec_ReplyE)
    with True rel pins show ?thesis by (simp add: wait_response_now answered_def)
  next
    case False
    with b assms(2) obtain n m where m: "b = Busy m v" "m < n" "n < cycle_limit"
      by (auto simp: settled_def elim!: spec_BusyE spec_ReplyE)
    have later: "wait_response_valid nxt out 0 (settled out s) s =
        wait_response_valid nxt out (0 + 1) (sampled ?t) ?t"
      using False by (intro wait_response_later) (simp_all add: cycle_limit_def)
    from False rel m pins show ?thesis
      unfolding later by (intro wait_passed) (auto simp: settled_def)
  qed
qed

lemma test_op_answers:
  assumes "rel (sim_regs s) Idle" and "\<not> reset (sim_pins s)" and "lat \<le> cycle_limit"
    and v: "v = command_value ref (drive_command inputs (sim_pins s))"
  shows "answered rel nxt v (test_op nxt out inputs s)"
proof -
  let ?p = "drive_command inputs (sim_pins s)"
  have p: "cmd_valid ?p" "\<not> rsp_ready ?p" "\<not> reset ?p"
    using assms(2) by (simp_all add: drive_command_def split: prod.splits)
  obtain b where b: "spec_cycle ref lat Idle ?p (out (sim_regs s) ?p) b" and rel: "rel (nxt (sim_regs s) ?p) b"
    using step_refines [OF assms(1) p(3)] by blast
  from b p v assms(3) have "b = Reply v \<or> (\<exists>n. b = Busy n v \<and> n < cycle_limit)"
    by (auto simp: taken_or_held_def elim!: spec_IdleE)
  with rel p show ?thesis
    unfolding test_op_def Let_def by (intro wait_settled [of _ b]) simp_all
qed

end

section \<open>What the integration test means\<close>

fun test_row_fits :: "test_row \<Rightarrow> bool" where
  "test_row_fits ((f, _, _), _) \<longleftrightarrow> 0 \<le> f \<and> f < 8"

fun test_row_value :: "(nat \<Rightarrow> u7 \<Rightarrow> u32 \<Rightarrow> u32 \<Rightarrow> u32) \<Rightarrow> int \<times> int \<times> int \<Rightarrow> u32" where
  "test_row_value ref (f, a, b) = ref (nat f) 0 (word_of_int a) (word_of_int b)"

text \<open>The message of the first row whose expected value is not that of the reference.\<close>

fun first_failure :: "(nat \<Rightarrow> u7 \<Rightarrow> u32 \<Rightarrow> u32 \<Rightarrow> u32) \<Rightarrow> test_row list \<Rightarrow> string option" where
  "first_failure ref [] = None"
| "first_failure ref ((inputs, expected) # data) =
     (let v = uint (test_row_value ref inputs) in
      if v = expected then first_failure ref data else Some (output_message inputs expected v))"

lemma drive_command_value:
  assumes "test_row_fits (inputs, e)"
  shows "command_value ref (drive_command inputs p) = test_row_value ref inputs"
proof -
  obtain f a b where inputs: "inputs = (f, a, b)" using prod_cases3 by blast
  with assms command_id_fields [of f 0] show ?thesis
    by (simp add: drive_command_def command_value_def funct3_of_def funct7_of_def)
qed

context spec_refinement
begin

lemma test_process_result:
  "rel (sim_regs s) Idle \<Longrightarrow> \<not> reset (sim_pins s) \<Longrightarrow> lat \<le> cycle_limit \<Longrightarrow> list_all test_row_fits data \<Longrightarrow>
   \<exists>s'. test_process nxt out data s =
     (case first_failure ref data of None \<Rightarrow> Inr s' | Some msg \<Rightarrow> Inl (AssertionError msg))"
proof (induction data arbitrary: s)
  case (Cons row data)
  obtain inputs e where row: "row = (inputs, e)" by (cases row)
  with Cons.prems(4) have fits: "test_row_fits (inputs, e)" and rest: "list_all test_row_fits data" by simp_all
  obtain ok seen t where op: "test_op nxt out inputs s = (ok, seen, t)" using prod_cases3 by blast
  from test_op_answers [OF Cons.prems(1-3) drive_command_value [OF fits, symmetric]]
  have t: "ok" "rsp_out seen = test_row_value ref inputs" "rel (sim_regs (tick nxt out t)) Idle"
    "\<not> reset (sim_pins (tick nxt out t))"
    by (simp_all add: op answered_def)
  from Cons.IH [OF t(3,4) Cons.prems(3) rest] t(1,2) show ?case
    by (simp add: row op Let_def)
qed simp

end

context cfu_instructions
begin

lemmas plain_test_result = spec.test_process_result [of "simulate (cfu_init insts) idle_pins"]
lemmas gated_test_result = gated_spec.test_process_result [of "simulate (gated_init insts) idle_pins"]

end

lemma test_cfu_result:
  assumes "cfu_instructions insts ref lat idle pending" and "lat \<le> cycle_limit" and "list_all test_row_fits data"
  shows "\<exists>s g. test_cfu (cfu_next insts) (cfu_out insts) (cfu_init insts) data =
      Some (case first_failure ref data of None \<Rightarrow> Inr s | Some msg \<Rightarrow> Inl (AssertionError msg)) \<and>
    test_cfu (gated_next insts) (gated_out insts) (gated_init insts) data =
      Some (case first_failure ref data of None \<Rightarrow> Inr g | Some msg \<Rightarrow> Inl (AssertionError msg))"
proof -
  have idle: "\<not> reset idle_pins" by (simp add: idle_pins_def)
  from cfu_instructions.plain_test_result [OF assms(1) _ _ assms(2,3)] cfu_instructions.rel_init [OF assms(1)]
    cfu_instructions.gated_test_result [OF assms(1) _ _ assms(2,3)] cfu_instructions.gated_rel_init [OF assms(1)] idle
  show ?thesis by (simp add: test_cfu_def run_sim_def simulate_def)
qed

text \<open>
  C15: the integration test decides whether the CFU is right. For every table of instructions that
  answer within 20 cycles, and rows that name one of the eight functions, no wait runs into its
  limit: the test passes when every expected value is that of the reference, and otherwise fails
  with the message of the first row that differs. The clock-gated CFU has the same outcome.
\<close>

theorem test_cfu_verdict:
  assumes "cfu_instructions insts ref lat idle pending" and "lat \<le> cycle_limit" and "list_all test_row_fits data"
  shows "\<exists>s g. test_cfu (cfu_next insts) (cfu_out insts) (cfu_init insts) data =
      Some (case first_failure ref data of None \<Rightarrow> Inr s | Some msg \<Rightarrow> Inl (AssertionError msg)) \<and>
    test_cfu (gated_next insts) (gated_out insts) (gated_init insts) data =
      Some (case first_failure ref data of None \<Rightarrow> Inr g | Some msg \<Rightarrow> Inl (AssertionError msg))"
  using assms by (rule test_cfu_result)

theorem test_cfu_verdict_witness:
  "test_cfu (cfu_next test_insts) (cfu_out test_insts) (cfu_init test_insts)
      [((3, 4, 0), 24), ((0, 0x01020304, 0x01020304), 21), ((3, 1, 0), 7)] =
    Some (Inl (AssertionError (output_message (0, 0x01020304, 0x01020304) 21 20)))"
proof -
  let ?data = "[((3, 4, 0), 24), ((0, 0x01020304, 0x01020304), 21), ((3, 1, 0), 7)] :: test_row list"
  have "(12 :: nat) \<le> cycle_limit" "list_all test_row_fits ?data" by (simp_all add: cycle_limit_def)
  moreover have "first_failure test_ref ?data = Some (output_message (0, 0x01020304, 0x01020304) 21 20)"
    by (simp add: test_ref_def sum_bytes_20 factorial_ref_def fact_numeral)
  ultimately show ?thesis using test_cfu_verdict [OF test_cfu_ok, of ?data] by simp
qed

section \<open>The tests of the repository\<close>

lemma reversed_words:
  "word_reverse (0x01020304 :: u32) = 0x20c04080" "word_reverse (0xffffffff :: u32) = 0xffffffff"
  "word_reverse (0x10203040 :: u32) = 0x020c0408"
  by (simp_all add: word_reverse_def upt_rec)

lemma reference_values: "first_failure test_ref test_cfu_data = None"
  by (simp add: test_cfu_data_def test_ref_def sum_bytes_ref_def nat_byte_def sum_upto_4 factorial_ref_def
      fact_numeral reverse_bytes_ref_def reverse_bits_ref_def reversed_words)

text \<open>The cycle-by-cycle test passes exactly when every vector has the expected outputs.\<close>

lemma check_vector_iff: "check_vector x seen = Inr u \<longleftrightarrow> vector_ok x seen"
  by (cases "(x, seen)" rule: vector_ok.cases)
    (auto simp: assert_same_def bindE_Inr_iff word_uint_eq_iff [symmetric] split: option.splits)

lemma cycles_process_iff:
  "(\<exists>s'. cycles_process nxt out data s = Inr s') \<longleftrightarrow>
    list_all2 vector_ok data (run_outs nxt out (sim_regs s) (map vector_in data))"
proof (induction data arbitrary: s)
  case (Cons x data)
  let ?s = "set_pins (\<lambda>_. vector_in x) s"
  from Cons [of "tick nxt out ?s"] check_vector_iff [of x "settled out ?s" "()"] show ?case
    by (cases "check_vector x (settled out ?s)") (auto simp: Let_def settled_def)
qed simp

lemma reference_test_passes:
  assumes "instruction_contract I ref lat idle pending"
    and "list_all2 (\<lambda>x (a, b). reference_fn x = uint (ref 0 a b)) inputs (held_operands 0 inputs)"
  shows "\<exists>s. verify_against_reference I inputs reference_fn False = Some (Inr s)"
proof -
  let ?s = "simulate (inst_init I) idle_inst_pins :: 'a inst_sim"
  have s: "idle (sim_regs ?s)" "\<not> start (sim_pins ?s)" "in1 (sim_pins ?s) = 0" "funct7 (sim_pins ?s) = 0"
    using instruction_contract.init_idle [OF assms(1)] by (simp_all add: simulate_def idle_inst_pins_def)
  from instruction_contract.reference_verdict [OF assms(1) s, of reference_fn inputs] assms(2)
  show ?thesis unfolding verify_against_reference_def run_sim_def if_False by blast
qed

lemma single_instruction_tests: "\<exists>s. test_factorial = Some (Inr s)" "\<exists>s. test_sum_bytes = Some (Inr s)"
proof -
  show "\<exists>s. test_factorial = Some (Inr s)"
    unfolding test_factorial_def
    by (rule reference_test_passes [OF factorial.instruction_contract_axioms])
      (simp add: factorial_ref_def factorial_of_def fact_numeral)
  show "\<exists>s. test_sum_bytes = Some (Inr s)"
    unfolding test_sum_bytes_def
    by (rule reference_test_passes [OF sum_bytes.instruction_contract_axioms])
      (simp add: sum_bytes_ref_def nat_byte_def sum_upto_4 sum_bytes_def upt_rec)
qed

text \<open>
  C16: the tests of the repository pass. The integration test passes on the CFU of the test file,
  plain and behind the gated clocks; so do the test that compares its outputs cycle by cycle, and
  the tests of the factorial and of the byte sum against their reference functions in Python.
\<close>

theorem repository_tests_pass:
  "(\<exists>s. test_cfu (cfu_next test_insts) (cfu_out test_insts) (cfu_init test_insts) test_cfu_data = Some (Inr s)) \<and>
   (\<exists>s. test_cfu (gated_next test_insts) (gated_out test_insts) (gated_init test_insts) test_cfu_data = Some (Inr s)) \<and>
   (\<exists>s. test_cfu_cycles (cfu_next test_insts) (cfu_out test_insts) (cfu_init test_insts) = Some (Inr s)) \<and>
   (\<exists>s. test_factorial = Some (Inr s)) \<and> (\<exists>s. test_sum_bytes = Some (Inr s))"
proof -
  have fits: "list_all test_row_fits test_cfu_data" by (simp add: test_cfu_data_def)
  have lat: "12 \<le> cycle_limit" by (simp add: cycle_limit_def)
  have cycles: "\<exists>s. cycles_process (cfu_next test_insts) (cfu_out test_insts) cycles_data
      (simulate (cfu_init test_insts) idle_pins) = Inr s"
    unfolding cycles_process_iff using cfu_cycles_test by (simp add: simulate_def)
  from test_cfu_result [OF test_cfu_ok lat fits] cycles single_instruction_tests show ?thesis
    by (auto simp: reference_values test_cfu_cycles_def run_sim_def)
qed

end
