(* ===== verification/Simple_Cfu.thy ===== *)
theory Simple_Cfu
  imports Cfu_Properties Test_Harness
begin

text \<open>
  \<open>simple_cfu\<close> (\<^verbatim>\<open>python/amaranth_cfu/cfu.py\<close>): a CFU made of a dictionary of instructions. The
  dictionary is copied once; every elaboration registers the entries of the copy as submodules and
  hands the copy itself to \<open>__build_instructions\<close>, which adds the fallback instructions to it.
\<close>

definition fn_names :: "(int \<times> 's instruction) list \<Rightarrow> string list" where
  "fn_names saved = map (\<lambda>(i, _). ''fn'' @ int_text i) saved"

definition fallback_names :: "(int \<times> 's instruction) list \<Rightarrow> string list" where
  "fallback_names d = map (\<lambda>i. ''fallback'' @ int_text i) (filter (\<lambda>i. map_of d i = None) [0..7])"

text \<open>One elaboration: the names of the submodules, the table, and the saved dictionary after it.\<close>

definition simple_cfu :: "'s \<Rightarrow> (int \<times> 's instruction) list \<Rightarrow>
    (string list \<times> 's instruction list \<times> (int \<times> 's instruction) list) result" where
  "simple_cfu s0 saved =
     bindE (build_instructions s0 saved) (\<lambda>(insts, saved').
       Inr (fn_names saved @ fallback_names saved, insts, saved'))"

text \<open>
  No two submodules have the same name, whatever the keys in \<open>range(8)\<close>: a name given twice would
  be refused by the framework.
\<close>

lemma int_text_digit:
  assumes "0 \<le> i" "i \<le> 7"
  shows "int_text i = [digit_char (nat i)]"
  using assms by (simp add: int_text_def signed_text_def in_base_digit)

lemma digit_char_eq: "d < 16 \<Longrightarrow> e < 16 \<Longrightarrow> digit_char d = digit_char e \<longleftrightarrow> d = e"
  by (metis char_digit_digit_char option.inject)

lemma int_text_inj: "0 \<le> i \<Longrightarrow> i \<le> 7 \<Longrightarrow> 0 \<le> j \<Longrightarrow> j \<le> 7 \<Longrightarrow> int_text i = int_text j \<longleftrightarrow> i = j"
  by (simp add: int_text_digit digit_char_eq nat_eq_iff)

lemma submodule_names_distinct:
  assumes "distinct (map fst d)" and keys: "\<forall>k\<in>fst ` set d. 0 \<le> k \<and> k < 8"
  shows "distinct (fn_names d @ fallback_names d)"
proof -
  have inj: "inj_on int_text {0..7}"
    by (rule inj_onI) (simp add: int_text_inj)
  have "fst ` set d \<subseteq> {0..7}"
  proof
    fix k assume "k \<in> fst ` set d"
    with keys have "0 \<le> k \<and> k < 8" by blast
    then show "k \<in> {0..7}" by simp
  qed
  with inj have "inj_on int_text (fst ` set d)" by (rule inj_on_subset)
  with inj have "distinct (fn_names d)" "distinct (fallback_names d)"
    using assms(1)
    by (auto simp: fn_names_def fallback_names_def distinct_map case_prod_beta' inj_on_def)
  moreover have "set (fn_names d) \<inter> set (fallback_names d) = {}"
    by (auto simp: fn_names_def fallback_names_def)
  ultimately show ?thesis by simp
qed

lemma simple_cfu_first:
  assumes "distinct (map fst d)" and "\<forall>k\<in>fst ` set d. 0 \<le> k \<and> k < 8"
  obtains names insts d' where "simple_cfu s0 d = Inr (names, insts, d')" "distinct names"
    "length insts = 8" "d' = add_fallbacks s0 d"
  using submodule_names_distinct [OF assms] assms(2)
  by (auto simp: simple_cfu_def build_instructions_def keys_in_range Let_def)

end
