(* ===== verification/Docs_Conf.thy ===== *)
theory Docs_Conf
  imports Soc_Ops
begin

text \<open>
  The configuration of the documentation, \<^verbatim>\<open>docs/source/conf.py\<close>: the module search path that it
  changes and the names that it binds, in their order, which the documentation generator reads. A
  dictionary among the values is the list of its items.
\<close>

definition docs_path :: "string \<Rightarrow> string list \<Rightarrow> string list" where
  "docs_path cwd sys_path = cwd # sys_path"

definition project :: string where
  "project = ''CFU-Playground''"

definition authors :: string where
  "authors = ''The CFU-Playground Authors''"

definition strings :: "string list \<Rightarrow> py_val" where
  "strings xs = PList (map PStr xs)"

definition general_configuration :: "py_val dict" where
  "general_configuration =
    [(''extensions'', strings [''sphinx_tabs.tabs'', ''sphinxcontrib.jinja'', ''recommonmark'',
       ''sphinxcontrib.wavedrom'']),
     (''source_parsers'', PList [PKw ''.md'' (PRef ''CommonMarkParser'')]),
     (''source_suffix'', strings [''.rst'', ''.md'']),
     (''templates_path'', strings [''_templates'']),
     (''exclude_patterns'', strings [''_build'', ''Thumbs.db'', ''.DS_Store''])]"

definition html_configuration :: "py_val dict" where
  "html_configuration =
    [(''html_show_sourcelink'', PBool True),
     (''html_sidebars'', PList [PKw ''**''
       (strings [''logo-text.html'', ''globaltoc.html'', ''localtoc.html'', ''searchbox.html''])]),
     (''html_theme'', PStr ''sphinx_material''),
     (''html_theme_options'', PList
       [PKw ''nav_title'' (PStr project),
        PKw ''color_primary'' (PStr ''deep-orange''),
        PKw ''color_accent'' (PStr ''gray''),
        PKw ''repo_name'' (PStr ''google/CFU-Playground''),
        PKw ''repo_url'' (PStr ''https://github.com/google/CFU-Playground''),
        PKw ''globaltoc_depth'' (PInt 5),
        PKw ''globaltoc_collapse'' (PBool True)]),
     (''html_static_path'', strings [''_static'']),
     (''html_css_files'', strings [''stylesheets/cfu-playground.css''])]"

definition docs_conf :: "py_val dict" where
  "docs_conf =
     [(''project'', PStr project), (''authors'', PStr authors), (''copyright'', PStr (authors @ '', 2020''))] @
     general_configuration @ html_configuration"

text \<open>No setting is bound twice, so the generator sees the value that stands in the file.\<close>

lemma docs_conf_lookup:
  "(k, v) \<in> set docs_conf \<Longrightarrow> map_of docs_conf k = Some v"
  by (rule map_of_is_SomeI)
    (simp add: docs_conf_def general_configuration_def html_configuration_def)

end
