(* ===== verification/Spec2Isabelle.thy ===== *)
theory Spec2Isabelle
  imports Hps_Clocks Amaranth_Circuits Board_Properties Sim_Properties Target_Properties Cfu_Disassembly
    Report_Scripts Renode_Scripts Cfu_Tests Simple_Cfu Docs_Conf
begin

text \<open>
  CFU Playground adds custom instructions to a small RISC-V CPU. The instructions are executed by a
  custom function unit (CFU) that is written with the gateware library of \<^verbatim>\<open>python/amaranth_cfu\<close>; CPU
  and CFU are put into a system on a chip by Python generators (\<^verbatim>\<open>soc\<close>, \<^verbatim>\<open>python/custom_boards\<close>,
  \<^verbatim>\<open>python/vexriscv_cfu_ram\<close>), either for the HPS device with its large on-chip memories, for small
  boards, or for simulation; a few scripts read and write the files around a build. This development
  models these Python sources and proves what makes each part correct. All paths are below the root
  of the repository.

  \<^bold>\<open>How the parts interact.\<close> The CPU hands a command to the CFU over a valid/ready channel and takes
  the response over another; the CFU starts one of eight instructions and waits for it. The clock
  controller watches this handshake and stops the clock of whichever side is not needed. The CFU
  may read the on-chip memory (the arena) over second read ports while the CPU uses the bus ports;
  the HPS constructor decides how much memory is where and which clock enables are driven, and the
  simulation must give the CFU the same words at the same ports. The board workflows choose CPU
  variant, memory sizes and flash offset, build the system and load the software; the Renode and
  disassembly scripts describe the same system to a simulator and to a reader.

  \<^bold>\<open>Ways of modelling.\<close> Gateware is a pair of functions, the registers after a clock edge and the
  combinational outputs, both of registers and inputs; bits are machine words of the width of the
  signal. A run is \<open>run_state\<close>, \<open>run_outs\<close> or \<open>io_trace\<close> over a list of inputs (\<^verbatim>\<open>Cfu_Prelude\<close>). A
  generator of a system is the list of calls, attribute settings and connections that it performs
  on objects of the third-party framework (type \<open>soc_op\<close> of \<^verbatim>\<open>Soc_Ops\<close>), or the exception that it
  raises; \<open>py_error\<close> has the exceptions, \<open>bindE\<close> and \<open>assertE\<close> their propagation. Python dictionaries
  are association lists in the order of insertion, and \<open>py_val\<close> their values. The standard library
  is modelled as far as the sources use it: \<^verbatim>\<open>Py_Numbers\<close> has \<open>int\<close> and \<open>float\<close> of a text, with
  correctly rounded doubles, and \<open>repr\<close> of a float; \<^verbatim>\<open>Json\<close> has \<open>dumps\<close> and \<open>loads\<close> with their round
  trip; \<^verbatim>\<open>Arg_Parse\<close> has \<open>argparse\<close>; \<^verbatim>\<open>Text_Format\<close> and \<^verbatim>\<open>Text_Scan\<close> have strings, paths and the regular
  expressions.

  \<^bold>\<open>The CFU\<close> (\<^verbatim>\<open>python/amaranth_cfu/cfu.py\<close>).
  \<^item> \<^verbatim>\<open>Cfu_Instruction\<close>: the signals of \<open>InstructionBase\<close>, an instruction as a record of functions, the
    contract that a CFU needs of it (locale \<open>instruction_contract\<close>: an operation that is started on an
    idle instruction is answered with the value of a reference function after at most \<open>lat\<close> more
    cycles), and \<open>_FallbackInstruction\<close>. \<^verbatim>\<open>Example_Instructions\<close> has the instructions of
    \<^verbatim>\<open>test_cfu.py\<close>, each an interpretation of the contract; the slowest, the factorial, has bound 12.
  \<^item> \<^verbatim>\<open>Cfu_Unit\<close>: \<open>CfuBase\<close> and \<open>Cfu\<close>: ports, instruction table, the machine of \<open>elab\<close>. \<^verbatim>\<open>Cfu_Refinement\<close>:
    the specification \<open>spec_cycle\<close> (one command at a time, answered once), and that the machine refines
    it for every table of instructions that meet the contract (locales \<open>cfu_instructions\<close> and
    \<open>spec_refinement\<close>). \<^verbatim>\<open>Test_Cfu\<close> interprets the locale for the CFU of the tests; \<^verbatim>\<open>Cfu_Properties\<close>
    states the consequences: exactly one response per command, in time, stable until taken.
  \<^item> \<^verbatim>\<open>Simple_Cfu\<close>: \<open>simple_cfu\<close>, its table and the names of its submodules.
  \<^item> \<^verbatim>\<open>Test_Harness\<close>, \<^verbatim>\<open>Harness_Properties\<close>: the drivers of \<open>CfuTestBase\<close> and \<open>InstructionTestBase\<close> (and
    \<open>TestBase\<close> of \<^verbatim>\<open>util.py\<close>). The code waits without a bound, so the loops are partial functions
    into \<open>option\<close>; for a circuit that meets its contract they are shown to end, within \<open>lat + 2\<close>
    cycles per row, with a verdict that is right.
  \<^item> \<^verbatim>\<open>Cfu_Tests\<close> (\<^verbatim>\<open>test_cfu.py\<close>): the four test methods. The wait of the integration test has a limit
    of 20 cycles; for every CFU within it the test decides whether the CFU is right
    (\<open>test_cfu_verdict\<close>), and on the CFU of the file all four pass (\<open>repository_tests_pass\<close>).
  \<^item> \<^verbatim>\<open>Clock_Control\<close> (\<^verbatim>\<open>soc/clock_control.py\<close>): the controller, its composition with the CFU behind the
    gated clock, that the composition refines the same specification, when which clock is off, and
    that the CPU is stopped for at most \<open>lat\<close> cycles in a row.

  \<^bold>\<open>Gateware helpers\<close> (\<^verbatim>\<open>python/amaranth_cfu/util.py\<close>). \<^verbatim>\<open>Amaranth_Util\<close> and \<^verbatim>\<open>Amaranth_Circuits\<close>: \<open>tree_sum\<close>
  (a partial function, defined exactly on nonempty lists), \<open>pack_vals\<close>, \<open>all_words\<close>, \<open>ValueBuffer\<close>,
  \<open>DualPortMemory\<close> and \<open>SequentialMemoryReader\<close>, which is a refinement of a cursor into the memory.
  The memory primitive of the gateware library is a parameter with its documented behaviour (locale
  \<open>nontransparent_memory\<close>, interpreted on an array).

  \<^bold>\<open>The HPS system.\<close>
  \<^item> \<^verbatim>\<open>Nx_Lram\<close>, \<^verbatim>\<open>Nx_Lram_Properties\<close> (\<^verbatim>\<open>soc/hps_lattice_nx.py\<close>): \<open>NXLRAM\<close>, its geometry, address decoding,
    bus and second ports, and the text of the initialisation parameters. The 64 KiB primitive is a
    parameter (locale \<open>lram_primitive\<close>, interpreted on an array of words). The module is a flat word
    memory, the cells are used exactly once, the second ports read the words of one column, and the
    initialisation text gives back the contents.
  \<^item> \<^verbatim>\<open>Hps_Platform\<close>, \<^verbatim>\<open>Power_On_Reset\<close> (\<^verbatim>\<open>soc/hps_proto0_platform.py\<close>, \<^verbatim>\<open>soc/hps_proto2_platform.py\<close>): pins,
    oscillator, reset counter, build templates, and the constructors of both platforms.
  \<^item> \<^verbatim>\<open>Hps_Soc\<close>, \<^verbatim>\<open>Hps_Properties\<close> (\<^verbatim>\<open>soc/hps_soc.py\<close>): the constructor \<open>HpsSoC\<close> and its
    callbacks; when it succeeds, the memory map, the budget of on-chip memory, the wiring of ports
    and clock enables. Which CPUs have the attributes of a CFU is its parameter \<open>has_cfu\<close>.
  \<^item> \<^verbatim>\<open>Hps_Main\<close>: the command line and \<open>main\<close>, from patching the variants to the call of the builder.
    \<open>hps_main_errors\<close> says which command lines fail, and how.

  \<^bold>\<open>CPU variants and boards.\<close>
  \<^item> \<^verbatim>\<open>Cpu_Variants\<close>, \<^verbatim>\<open>Cpu_Variants_Properties\<close> (\<^verbatim>\<open>soc/patch_cpu_variant.py\<close>): the patched tables, the
    copying and the building of variants.
  \<^item> \<^verbatim>\<open>Board_Workflows\<close>, \<^verbatim>\<open>Board_Properties\<close> (\<^verbatim>\<open>soc/board_specific_workflows\<close>, \<^verbatim>\<open>soc/common_soc.py\<close>): the
    workflow classes from constructor to software loading, one definition per method of a class and
    one that selects by class. Software loading works on a map from names to bytes.
    \<open>software_at_reset_address\<close> links the flash image with the offset that the constructor is given,
    \<open>fomu_software_load_errors\<close> says what a failed load leaves behind.
  \<^item> \<^verbatim>\<open>Cfu_Ram_Core\<close> (\<^verbatim>\<open>python/vexriscv_cfu_ram/core.py\<close>), \<^verbatim>\<open>Board_Targets\<close>, \<^verbatim>\<open>Target_Properties\<close>
    (\<^verbatim>\<open>digilent_arty_cfu_ram.py\<close>, \<^verbatim>\<open>gsd_orangecrab_cfu_ram.py\<close> in \<^verbatim>\<open>python/custom_boards/targets\<close>): the CPU
    whose CFU has a memory bus, and the two boards for it. \<open>command_line_clock\<close> follows a frequency
    from the text of the command line to the clock of the system.
  \<^item> \<^verbatim>\<open>Sim_Soc\<close>, \<^verbatim>\<open>Sim_Main\<close>, \<^verbatim>\<open>Sim_Properties\<close> (\<^verbatim>\<open>litex_sim.py\<close> and \<^verbatim>\<open>soc/sim.py\<close>): the simulated
    systems; their CFU ports read what the ports of \<^verbatim>\<open>Nx_Lram\<close> read.

  \<^bold>\<open>Scripts.\<close> \<^verbatim>\<open>Cfu_Disassembly\<close>
  (\<^verbatim>\<open>scripts/fix_cfu_dis.py\<close>) shows the fields that \<^verbatim>\<open>Cfu_Unit\<close> decodes; \<^verbatim>\<open>Report_Scripts\<close> has
  \<^verbatim>\<open>xxd.py\<close>, \<^verbatim>\<open>scanprof.py\<close> and \<^verbatim>\<open>nextpnr-timing.py\<close> with their command lines; \<^verbatim>\<open>Ci_Scripts\<close> has
  \<^verbatim>\<open>.github/scripts/generate_ci_matrix.py\<close>; \<^verbatim>\<open>Renode_Scripts\<close> has \<^verbatim>\<open>scripts/generate_renode_scripts.py\<close>;
  \<^verbatim>\<open>Docs_Conf\<close> has the settings of \<^verbatim>\<open>docs/source/conf.py\<close>.

  \<^bold>\<open>Kinds of lemmas.\<close> Refinement (\<^verbatim>\<open>Cfu_Refinement\<close>, \<^verbatim>\<open>Clock_Control\<close>, \<^verbatim>\<open>Nx_Lram_Properties\<close>,
  \<^verbatim>\<open>Amaranth_Circuits\<close>) relates the registers to an abstract state and is lifted to runs once in a
  locale. For the generators, lemmas per constructor say which operations it performs (such as
  \<open>HpsSoC_Inr\<close>, \<open>hps_built_parts\<close>, \<open>board_parts\<close>), and the properties count and look up operations in
  these lists. For texts, a reader is the inverse of the writer.

  \<^bold>\<open>Across components.\<close> \<open>cfu_reads_arena\<close>, at the end of this theory, puts the constructor of the HPS
  system, its clock enables and the memory module together: over the ports of the CFU the arena is
  the memory that the CPU sees on the bus. \<^verbatim>\<open>Hps_Clocks\<close> does the same for the clock controller, the
  CFU and the RAM: the connections of the constructor are the gated composition of \<^verbatim>\<open>Clock_Control\<close>
  (\<open>hps_gates_clocks\<close>), and a bus read in a cycle without the clock of the CPU is acknowledged with
  old data (\<open>gated_ram_read\<close>). In both a cycle of the system is a map from signal names to values
  that satisfies the connections (\<open>wired\<close>).

  \<^bold>\<open>Bounds.\<close> No definition has fuel. The latency \<open>lat\<close> is a parameter of the contract, 12 for
  the factorial. The on-chip memory is at most two lanes wide; addresses
  are 14 bits within a primitive.

  \<^bold>\<open>Not modelled.\<close> The simulator and synthesiser behind the gateware, the SoC framework behind the
  operations, \<open>argparse\<close> beyond the options in use (\<open>store\<close>, \<open>store_true\<close>, \<open>append\<close>, prefixes,
  positionals, exclusive groups), files beyond a map from paths to contents, regular expressions
  beyond ASCII, characters above code point 255, negative zero, and the platform generator of
  Renode (a parameter). An attribute that a parsed command line
  does not have reads as \<open>None\<close>. The clock gates, PLLs and memory primitives of the devices are
  vendor cells: instances with their parameters, or parameters with laws. The documentation generator
  that reads the settings is third-party, and the Python files below \<^verbatim>\<open>third_party\<close> belong to another project. The C, C++,
  Verilog and Scala sources are outside this development of the Python program.
\<close>

section \<open>The CFU reads the arena\<close>

text \<open>
  The pins of the arena module are read off the signals of the system; the bus pins, which the bus
  of the framework drives, are those of \<open>b\<close>.
\<close>

definition arena_pins :: "(string \<Rightarrow> nat) \<times> nx_in \<Rightarrow> nx_in" where
  "arena_pins = (\<lambda>(v, b). b\<lparr>
     a_clkens := (\<lambda>k. v (sig_index ''arena.a_clkens'' k) = 1),
     b_clkens := (\<lambda>k. v (sig_index ''arena.b_clkens'' k) = 1),
     b_addrs := (\<lambda>k. of_nat (v (sig_index ''arena.b_addrs'' k)))\<rparr>)"

text \<open>A cycle of the system: wired, with 14-bit addresses from the CFU, and bus writes inside the arena.\<close>

definition hps_cycle :: "soc_op list \<Rightarrow> (string \<Rightarrow> nat) \<times> nx_in \<Rightarrow> bool" where
  "hps_cycle ops = (\<lambda>(v, b). wired ops v \<and> list_all (\<lambda>k. v (cfu_lram_sig k ''addr'') < 2 ^ 14) [0, 1, 2, 3] \<and>
     (bus_writes b \<longrightarrow> unat (bus_adr b) < 65536))"

lemma arena_wires:
  assumes "HpsSoC hc f a = Inr ops" and "cfu_mport a" and "k < 4"
  shows "(sig_index ''arena.a_clkens'' k, hps_cpu_en a) \<in> set (driven ops)"
    and "(sig_index ''arena.b_clkens'' k, hps_cfu_en a) \<in> set (driven ops)"
    and "(sig_index ''arena.b_addrs'' k, cfu_lram_sig k ''addr'') \<in> set (driven ops)"
    and "(cfu_lram_sig k ''din'', sig_index ''arena.b_douts'' k) \<in> set (driven ops)"
proof -
  have "separate_arena a" using assms HpsSoC_builds [of hc f a] by auto
  moreover have "k \<in> set lram_ports" using assms(3) by (auto simp: lram_ports_def)
  ultimately show "(sig_index ''arena.a_clkens'' k, hps_cpu_en a) \<in> set (driven ops)"
    and "(sig_index ''arena.b_clkens'' k, hps_cfu_en a) \<in> set (driven ops)"
    and "(sig_index ''arena.b_addrs'' k, cfu_lram_sig k ''addr'') \<in> set (driven ops)"
    and "(cfu_lram_sig k ''din'', sig_index ''arena.b_douts'' k) \<in> set (driven ops)"
    unfolding hps_driven [OF assms(1)] using assms(2,3) by auto
qed

lemma arena_size:
  assumes "HpsSoC hc f a = Inr ops" and "cfu_mport a"
  shows "snd (hps_ram_sizes a) = 262144"
  using assms HpsSoC_builds [of hc f a] by (auto simp: hps_ram_sizes_def RAM_SIZE_def KB_def)

lemma arena_cycle_legal:
  assumes "HpsSoC hc f a = Inr ops" and "cfu_mport a" and "hps_cycle ops c"
  shows "nx_legal arena_cfg (arena_pins c)"
proof -
  obtain v b where c: "c = (v, b)" by force
  with assms(3) have v: "wired ops v" and bus: "bus_writes b \<longrightarrow> unat (bus_adr b) < 65536"
    by (simp_all add: hps_cycle_def)
  have "v (sig_index ''arena.a_clkens'' k) = v (hps_cpu_en a)" if "k < 4" for k
    by (rule wiredD [OF v arena_wires(1) [OF assms(1,2) that]])
  with bus show ?thesis
    by (simp add: c nx_legal_def arena_pins_def arena_cfg_def nx_words_def bus_writes_def)
qed

text \<open>
  C9: the CFU reads what the CPU wrote. In every HPS system with CFU memory ports that can be built,
  after any history of cycles: when the clock of the CFU runs and it puts address \<open>x\<close> on its port
  \<open>k\<close>, the port carries in the next cycle word \<open>4 x + k\<close> of the arena as the bus has written it, unless
  the bus writes that very word in the cycle.
\<close>

theorem cfu_reads_arena:
  assumes "HpsSoC hc f a = Inr ops" and "cfu_mport a"
    and "lram_primitive lram_step doa dob cell_word" and "NXLRAM 32 (snd (hps_ram_sizes a)) True = Inr cfg"
    and "list_all (hps_cycle ops) past" and "s = run_state (nx_next lram_step cfg) s0 (map arena_pins past)"
    and "hps_cycle ops (v, b)" and "k < 4" and "v (hps_cfu_en a) = 1" and "x = v (cfu_lram_sig k ''addr'')"
    and "\<not> (bus_writes b \<and> unat (bus_adr b) = 4 * x + k)"
    and "wired ops v'"
    and "v' (sig_index ''arena.b_douts'' k) =
      unat (nx_b_dout dob cfg (nx_next lram_step cfg s (arena_pins (v, b))) k)"
  shows "v' (cfu_lram_sig k ''din'') =
    unat (run_state flat_next (nx_word cell_word cfg s0) (map arena_pins past) 0 (of_nat (4 * x + k)))"
proof -
  let ?i = "arena_pins (v, b)"
  have cfg: "cfg = arena_cfg" using assms(4) NXLRAM_arena by (simp add: arena_size [OF assms(1,2)])
  note wire = arena_wires [OF assms(1,2) \<open>k < 4\<close>]
  have v: "wired ops v" using assms(7) by (simp add: hps_cycle_def)
  have "k \<in> set [0, 1, 2, 3]" using assms(8) by auto
  then have x: "x < 2 ^ 14" using assms(7,10) by (simp only: hps_cycle_def list_all_iff prod.case)
  have past: "list_all (nx_legal cfg) (map arena_pins past)"
    using assms(5) arena_cycle_legal [OF assms(1,2)] by (simp add: list_all_iff cfg)
  have pins: "nx_legal cfg ?i" "b_clkens ?i k" "b_addrs ?i k = of_nat x"
    using arena_cycle_legal [OF assms(1,2,7)] wiredD [OF v wire(2)] wiredD [OF v wire(3)] assms(9,10)
    by (simp_all add: cfg arena_pins_def)
  have small: "unat (of_nat (4 * x + k) :: 30 word) = 4 * x + k" "unat (of_nat x :: u14) = x"
    using x assms(8) by (simp_all add: unsigned_of_nat take_bit_nat_eq_self del: of_nat_add of_nat_mult)
  have "\<not> (bus_writes ?i \<and> bus_adr ?i = of_nat (4 * x + k))"
    using assms(11) small(1) by (auto simp: arena_pins_def bus_writes_def)
  with second_port_word [OF assms(3,4) past assms(6) pins(1) _ pins(2), of "of_nat (4 * x + k)"] assms(8)
  have "nx_b_dout dob cfg (nx_next lram_step cfg s ?i) k =
      run_state flat_next (nx_word cell_word cfg s0) (map arena_pins past) 0 (of_nat (4 * x + k))"
    by (simp add: pins(3) small(2) arena_cfg_def mult.commute cfg del: of_nat_add of_nat_mult)
  with assms(13) wiredD [OF assms(12) wire(4)] show ?thesis by simp
qed

text \<open>All signals are 1 but the data on port 3, which is the 42 written to word 7 two cycles before.\<close>

definition all_on :: "string \<Rightarrow> nat" where
  "all_on n = 1"

definition port_3_data :: "string \<Rightarrow> nat" where
  "port_3_data n = (if n = sig_index ''arena.b_douts'' 3 \<or> n = cfu_lram_sig 3 ''din'' then 42 else 1)"

theorem cfu_reads_arena_witness:
  "\<exists>ops. HpsSoC needs_file 50000000 hps_plain = Inr ops \<and>
     unat (run_state flat_next (nx_word arr_cells arena_cfg (nx_init arena_cfg zero_array))
       (map arena_pins [(all_on, nx_cycle 7 42 True), (all_on, nx_cycle 8 99 True)]) 0 7) = 42 \<and>
     port_3_data (cfu_lram_sig 3 ''din'') =
       unat (run_state flat_next (nx_word arr_cells arena_cfg (nx_init arena_cfg zero_array))
         (map arena_pins [(all_on, nx_cycle 7 42 True), (all_on, nx_cycle 8 99 True)]) 0 7)"
proof -
  let ?past = "[(all_on, nx_cycle 7 42 True), (all_on, nx_cycle 8 99 True)]"
  let ?s = "run_state (nx_next lram_array_step arena_cfg) (nx_init arena_cfg zero_array) (map arena_pins ?past)"
  obtain ops where ops: "HpsSoC needs_file 50000000 hps_plain = Inr ops"
    using HpsSoC_builds [of needs_file 50000000 hps_plain] by (auto simp: hps_plain_def needs_file_def)
  have mport: "cfu_mport hps_plain" by (simp add: hps_plain_def)
  have on: "wired ops all_on" by (simp add: wired_def all_on_def list_all_iff)
  have legal: "list_all (hps_cycle ops) ?past" "hps_cycle ops (all_on, nx_cycle 0 0 False)"
    using on by (simp_all add: hps_cycle_def all_on_def nx_cycle_def)
  have data: "wired ops port_3_data"
    unfolding wired_def hps_driven [OF ops]
    by (simp add: port_3_data_def hps_plain_def hps_cpu_en_def hps_cfu_en_def hps_signal_names)
  have flat: "unat (run_state flat_next (nx_word arr_cells arena_cfg (nx_init arena_cfg zero_array))
      (map arena_pins ?past) 0 7) = 42"
    by (simp add: flat_next_def arena_pins_def all_on_def nx_cycle_def bus_writes_def written_word_def
        merge_bytes_def byte_mask_all)
  have arena: "NXLRAM 32 (snd (hps_ram_sizes hps_plain)) True = Inr arena_cfg"
    using NXLRAM_arena arena_size [OF ops mport] by simp
  have past: "list_all (nx_legal arena_cfg) (map arena_pins ?past)"
    using legal(1) arena_cycle_legal [OF ops mport] by (simp add: list_all_iff)
  have "nx_b_dout arr_b arena_cfg (nx_next lram_array_step arena_cfg ?s (arena_pins (all_on, nx_cycle 0 0 False))) 3 =
      run_state flat_next (nx_word arr_cells arena_cfg (nx_init arena_cfg zero_array)) (map arena_pins ?past) 0 7"
    by (rule second_port_word [OF lram_array.lram_primitive_axioms NXLRAM_arena past refl
          arena_cycle_legal [OF ops mport legal(2)]])
      (simp_all add: arena_cfg_def arena_pins_def all_on_def nx_cycle_def bus_writes_def)
  with flat have dout: "port_3_data (sig_index ''arena.b_douts'' 3) =
      unat (nx_b_dout arr_b arena_cfg (nx_next lram_array_step arena_cfg ?s (arena_pins (all_on, nx_cycle 0 0 False))) 3)"
    by (simp add: port_3_data_def)
  from cfu_reads_arena [OF ops mport lram_array.lram_primitive_axioms arena legal(1) refl legal(2) _ _ refl _ data dout]
  show ?thesis using ops flat by (simp add: all_on_def nx_cycle_def bus_writes_def)
qed

end
